(* ===== verification/Pmd_Prelude.thy ===== *)
theory Pmd_Prelude
  imports Main "HOL-Library.Word"
begin

text \<open>
  Shared vocabulary of the development: bytes, the bits of a byte, slices of a byte page, and the
  interface that the memory layout of a C struct offers to the code that casts pointers to it.
\<close>

section \<open>Collections of rewrite rules\<close>

named_theorems layout \<open>round trips, lengths and well-formedness of struct layouts\<close>
named_theorems lens_laws \<open>the get/update laws of the record fields written by the column macros\<close>
named_theorems column_simps \<open>the effect of the column macros on the columns of a port\<close>
named_theorems frame_simps \<open>the fields of a port that an operation leaves alone\<close>

section \<open>Bytes and their bits\<close>

type_synonym byte = "8 word"

definition byte_of_bits :: "bool list \<Rightarrow> byte" where
  "byte_of_bits bs = horner_sum of_bool 2 bs"

definition bits2 :: "bool \<Rightarrow> bool \<Rightarrow> 2 word" where
  "bits2 b0 b1 = horner_sum of_bool 2 [b0, b1]"

definition bits4 :: "bool \<Rightarrow> bool \<Rightarrow> bool \<Rightarrow> bool \<Rightarrow> 4 word" where
  "bits4 b0 b1 b2 b3 = horner_sum of_bool 2 [b0, b1, b2, b3]"

lemma bit_byte_of_bits: "length bs = 8 \<Longrightarrow> i < 8 \<Longrightarrow> bit (byte_of_bits bs) i = bs ! i"
  by (simp add: byte_of_bits_def bit_horner_sum_bit_word_iff)

lemma less_8_cases:
  "(\<forall>i<8::nat. P i) \<longleftrightarrow> P 0 \<and> P (Suc 0) \<and> P 2 \<and> P 3 \<and> P 4 \<and> P 5 \<and> P 6 \<and> P 7"
  by (simp add: eval_nat_numeral All_less_Suc) blast

lemma byte_eq_iff: "(a :: byte) = b \<longleftrightarrow> (\<forall>i<8. bit a i = bit b i)"
proof
  assume "\<forall>i<8. bit a i = bit b i"
  then show "a = b" by (intro bit_word_eqI) simp
qed simp

lemma byte_of_its_bits [layout]:
  "byte_of_bits [bit b 0, bit b (Suc 0), bit b 2, bit b 3, bit b 4, bit b 5, bit b 6, bit b 7] = b"
  by (simp add: byte_eq_iff bit_byte_of_bits less_8_cases)

lemma bit_byte_of_eight [layout]:
  "bit (byte_of_bits [b0, b1, b2, b3, b4, b5, b6, b7]) 0 = b0"
  "bit (byte_of_bits [b0, b1, b2, b3, b4, b5, b6, b7]) (Suc 0) = b1"
  "bit (byte_of_bits [b0, b1, b2, b3, b4, b5, b6, b7]) 2 = b2"
  "bit (byte_of_bits [b0, b1, b2, b3, b4, b5, b6, b7]) 3 = b3"
  "bit (byte_of_bits [b0, b1, b2, b3, b4, b5, b6, b7]) 4 = b4"
  "bit (byte_of_bits [b0, b1, b2, b3, b4, b5, b6, b7]) 5 = b5"
  "bit (byte_of_bits [b0, b1, b2, b3, b4, b5, b6, b7]) 6 = b6"
  "bit (byte_of_bits [b0, b1, b2, b3, b4, b5, b6, b7]) 7 = b7"
  by (simp_all add: bit_byte_of_bits)

lemma bit_bits2 [layout]:
  "bit (bits2 b0 b1) 0 = b0" "bit (bits2 b0 b1) (Suc 0) = b1"
  by (simp_all add: bits2_def bit_horner_sum_bit_word_iff)

lemma bits2_of_its_bits [layout]: "bits2 (bit w 0) (bit w (Suc 0)) = w"
proof (rule bit_word_eqI)
  fix n assume "n < LENGTH(2)"
  then have "n = 0 \<or> n = Suc 0" by auto
  then show "bit (bits2 (bit w 0) (bit w (Suc 0))) n = bit w n"
    by (auto simp: layout)
qed

lemma bit_bits4 [layout]:
  "bit (bits4 b0 b1 b2 b3) 0 = b0" "bit (bits4 b0 b1 b2 b3) (Suc 0) = b1"
  "bit (bits4 b0 b1 b2 b3) 2 = b2" "bit (bits4 b0 b1 b2 b3) 3 = b3"
  by (simp_all add: bits4_def bit_horner_sum_bit_word_iff)

lemma bits4_of_its_bits [layout]: "bits4 (bit w 0) (bit w (Suc 0)) (bit w 2) (bit w 3) = w"
proof (rule bit_word_eqI)
  fix n assume "n < LENGTH(4)"
  then have "n = 0 \<or> n = Suc 0 \<or> n = 2 \<or> n = 3" by auto
  then show "bit (bits4 (bit w 0) (bit w (Suc 0)) (bit w 2) (bit w 3)) n = bit w n"
    by (auto simp: layout)
qed

section \<open>Little-endian 16-bit integers\<close>

definition le16 :: "byte \<Rightarrow> byte \<Rightarrow> 16 word" where
  "le16 lo hi = ucast lo + 256 * ucast hi"

definition le16_lo :: "16 word \<Rightarrow> byte" where
  "le16_lo w = ucast w"

definition le16_hi :: "16 word \<Rightarrow> byte" where
  "le16_hi w = ucast (drop_bit 8 w)"

lemma bit_le16: "bit (le16 lo hi) i = (if i < 8 then bit lo i else i < 16 \<and> bit hi (i - 8))"
proof -
  have "(256 :: 16 word) * ucast hi = push_bit 8 (ucast hi)"
    by (simp add: push_bit_eq_mult)
  moreover have "ucast lo + push_bit 8 (ucast hi) = or (ucast lo) (push_bit 8 (ucast hi) :: 16 word)"
    by (rule disjunctive_add) (auto simp: bit_simps dest: bit_imp_le_length)
  ultimately show ?thesis
    by (auto simp: le16_def bit_simps dest: bit_imp_le_length)
qed

lemma le16_split [layout]:
  "le16 (le16_lo w) (le16_hi w) = w" "le16_lo (le16 a b) = a" "le16_hi (le16 a b) = b"
  by (auto intro!: bit_word_eqI simp: bit_le16 le16_lo_def le16_hi_def bit_simps split: if_splits)

section \<open>Slices of a page\<close>

definition bytes_at :: "nat \<Rightarrow> nat \<Rightarrow> 'a list \<Rightarrow> 'a list" where
  "bytes_at off n bs = take n (drop off bs)"

lemma length_bytes_at [layout, simp]: "off + n \<le> length bs \<Longrightarrow> length (bytes_at off n bs) = n"
  by (simp add: bytes_at_def)

lemma bytes_at_all [layout]: "length bs = n \<Longrightarrow> bytes_at 0 n bs = bs"
  by (simp add: bytes_at_def)

lemma nth_bytes_at [layout]: "off + n \<le> length bs \<Longrightarrow> i < n \<Longrightarrow> bytes_at off n bs ! i = bs ! (off + i)"
  by (simp add: bytes_at_def)

lemma bytes_at_Nil: "bytes_at i 0 bs = []"
  by (simp add: bytes_at_def)

text \<open>The three rules that glue adjacent slices, from the right end of a page to its left end.\<close>

lemma glue_last: "i < length bs \<Longrightarrow> [bs ! i] = bytes_at i 1 bs"
  by (simp add: bytes_at_def take_Suc_conv_app_nth hd_drop_conv_nth take_Suc)

lemma glue_byte: "i < length bs \<Longrightarrow> j = i + 1 \<Longrightarrow> bs ! i # bytes_at j n bs = bytes_at i (n + 1) bs"
  by (simp add: bytes_at_def Cons_nth_drop_Suc [symmetric])

lemma glue_slice: "j = i + n \<Longrightarrow> bytes_at i n bs @ bytes_at j m bs = bytes_at i (n + m) bs"
  by (simp add: bytes_at_def take_add) (simp add: add.commute)

lemma glue_slice_rest:
  "j = i + n \<Longrightarrow> bytes_at i n bs @ bytes_at j m bs @ r = bytes_at i (n + m) bs @ r"
  by (simp add: glue_slice flip: append_assoc)

lemmas glue = glue_last glue_byte glue_slice glue_slice_rest

text \<open>Reading a slice of a concatenation whose parts have known lengths.\<close>

lemma bytes_at_append_skip:
  "length xs \<le> i \<Longrightarrow> bytes_at i n (xs @ ys) = bytes_at (i - length xs) n ys"
  by (simp add: bytes_at_def)

lemma bytes_at_append_here: "length xs = n \<Longrightarrow> bytes_at 0 n (xs @ ys) = xs"
  by (simp add: bytes_at_def)

lemma bytes_at_Cons_skip: "0 < i \<Longrightarrow> bytes_at i n (x # xs) = bytes_at (i - 1) n xs"
  by (cases i) (simp_all add: bytes_at_def)

lemma nth_append_skip: "length xs \<le> i \<Longrightarrow> (xs @ ys) ! i = ys ! (i - length xs)"
  by (simp add: nth_append)

lemma nth_Cons_skip: "0 < i \<Longrightarrow> (x # xs) ! i = xs ! (i - 1)"
  by simp

lemmas unglue = bytes_at_append_skip bytes_at_append_here bytes_at_Cons_skip nth_append_skip
  nth_Cons_skip bytes_at_all

text \<open>
  A memory map is a table of addresses and of the bytes stored there. It describes a page from address \<open>i\<close> on when
  every entry starts where the one before it ends, holds the bytes of the page at its address, and the last one ends with
  the page.
\<close>

fun memory_map :: "nat \<Rightarrow> byte list \<Rightarrow> (nat \<times> byte list) list \<Rightarrow> bool" where
  "memory_map i page [] \<longleftrightarrow> i = length page"
| "memory_map i page ((a, bs) # fields) \<longleftrightarrow>
     a = i \<and> bs = bytes_at i (length bs) page \<and> memory_map (i + length bs) page fields"

lemma bytes_at_Suc: "i < length bs \<Longrightarrow> bytes_at i (Suc n) bs = bs ! i # bytes_at (Suc i) n bs"
  by (simp add: bytes_at_def Cons_nth_drop_Suc [symmetric])

lemma bytes_at_numeral:
  "i < length bs \<Longrightarrow> bytes_at i (numeral n) bs = bs ! i # bytes_at (Suc i) (pred_numeral n) bs"
  by (simp add: numeral_eq_Suc bytes_at_Suc)

lemmas memory_map = bytes_at_Suc bytes_at_numeral bytes_at_Nil numeral_2_eq_2 [symmetric]

section \<open>The layout of a C struct\<close>

text \<open>
  A struct type gives two views of the same storage: the fields the code names, and the bytes that
  \<open>memcpy\<close>, \<open>i2c_data_read\<close>, \<open>hex_to_ascii\<close> and the cast between the SFP and QSFP page types see.
  \<open>dec\<close> reads the fields from the bytes, \<open>enc\<close> stores them, \<open>sz\<close> is the struct's \<open>sizeof\<close> and
  \<open>wf\<close> says that the arrays of the struct have their declared lengths.
\<close>

locale struct_layout =
  fixes dec :: "byte list \<Rightarrow> 'r" and enc :: "'r \<Rightarrow> byte list" and sz :: nat and wf :: "'r \<Rightarrow> bool"
  assumes length_enc: "wf r \<Longrightarrow> length (enc r) = sz"
    and dec_enc: "wf r \<Longrightarrow> dec (enc r) = r"
    and enc_dec: "length bs = sz \<Longrightarrow> enc (dec bs) = bs"
    and wf_dec: "length bs = sz \<Longrightarrow> wf (dec bs)"
begin

lemma bij_betw_dec: "bij_betw dec {bs. length bs = sz} {r. wf r}"
  by (rule bij_betw_byWitness [where f' = enc]) (auto simp: length_enc dec_enc enc_dec wf_dec)

lemma dec_inject: "length as = sz \<Longrightarrow> length bs = sz \<Longrightarrow> dec as = dec bs \<longleftrightarrow> as = bs"
  by (metis enc_dec)

lemma enc_inject: "wf r \<Longrightarrow> wf s \<Longrightarrow> enc r = enc s \<longleftrightarrow> r = s"
  by (metis dec_enc)

text \<open>An assignment to fields through the struct type, seen again through the struct type.\<close>

lemma dec_store: "length bs = sz \<Longrightarrow> wf (f (dec bs)) \<Longrightarrow> dec (enc (f (dec bs))) = f (dec bs)"
  by (rule dec_enc)

end

end
