(* ===== verification/C_Text.thy ===== *)
theory C_Text
  imports Pmd_Prelude
begin

text \<open>
  The parts of the C library that turn numbers into text and back, as the daemon uses them: a
  NUL-terminated buffer read as a string, \<open>printf\<close>'s \<open>%d\<close> and \<open>%02x\<close> conversions, and \<open>strtol\<close> with
  base 0 (leading white space, sign, base prefix, digits, saturation at the limits of \<open>long\<close>). The
  round trip \<open>strtol0_fmt_d\<close> is what the change test of the macro \<open>SET_INT_STRING\<close> relies on.
\<close>

section \<open>Strings in byte buffers\<close>

definition char_of_byte :: "byte \<Rightarrow> char" where
  "char_of_byte b = char_of (unat b)"

definition byte_of_char :: "char \<Rightarrow> byte" where
  "byte_of_char c = word_of_nat (of_char c)"

definition c_string :: "byte list \<Rightarrow> string" where
  "c_string buf = map char_of_byte (takeWhile (\<lambda>b. b \<noteq> 0) buf)"

lemma unat_byte_less: "unat (b :: byte) < 256"
  using unsigned_less [of b, where 'a = nat] by simp

lemma byte_of_char_of_byte [simp]: "byte_of_char (char_of_byte b) = b"
  by (simp add: byte_of_char_def char_of_byte_def of_char_of unat_byte_less)

lemma char_of_byte_of_char [simp]: "char_of_byte (byte_of_char c) = c"
  by (simp add: byte_of_char_def char_of_byte_def unat_of_nat)

lemma char_of_byte_inject [simp]: "char_of_byte a = char_of_byte b \<longleftrightarrow> a = b"
  by (metis byte_of_char_of_byte)

lemma c_string_app_NUL [simp]: "c_string (xs @ 0 # ys) = c_string xs"
  by (auto simp: c_string_def takeWhile_append takeWhile_eq_all_conv [THEN iffD2])

section \<open>Digits\<close>

definition digit_char :: "nat \<Rightarrow> char" where
  "digit_char d = (if d < 10 then char_of (48 + d) else char_of (87 + d))"

definition digit_val :: "char \<Rightarrow> nat option" where
  "digit_val c = (let n = of_char c :: nat in
     if 48 \<le> n \<and> n \<le> 57 then Some (n - 48)
     else if 97 \<le> n \<and> n \<le> 122 then Some (n - 87)
     else if 65 \<le> n \<and> n \<le> 90 then Some (n - 55)
     else None)"

definition is_digit_in :: "nat \<Rightarrow> char \<Rightarrow> bool" where
  "is_digit_in base c = (case digit_val c of None \<Rightarrow> False | Some d \<Rightarrow> d < base)"

lemma digit_char_table:
  "digit_char 0 = CHR ''0''" "digit_char 1 = CHR ''1''" "digit_char (Suc 0) = CHR ''1''"
  "digit_char 2 = CHR ''2''" "digit_char 3 = CHR ''3''" "digit_char 4 = CHR ''4''"
  "digit_char 5 = CHR ''5''" "digit_char 6 = CHR ''6''" "digit_char 7 = CHR ''7''"
  "digit_char 8 = CHR ''8''" "digit_char 9 = CHR ''9''" "digit_char 10 = CHR ''a''"
  "digit_char 11 = CHR ''b''" "digit_char 12 = CHR ''c''" "digit_char 13 = CHR ''d''"
  "digit_char 14 = CHR ''e''" "digit_char 15 = CHR ''f''"
  by code_simp+

lemma digit_val_digit_char: "d < 36 \<Longrightarrow> digit_val (digit_char d) = Some d"
  by (auto simp: digit_val_def digit_char_def of_char_of)

lemma is_digit_in_digit_char: "d < 36 \<Longrightarrow> is_digit_in base (digit_char d) \<longleftrightarrow> d < base"
  by (simp add: is_digit_in_def digit_val_digit_char)

section \<open>The \<open>%d\<close> and \<open>%02x\<close> conversions\<close>

fun show_nat :: "nat \<Rightarrow> string" where
  "show_nat n = (if n < 10 then [digit_char n] else show_nat (n div 10) @ [digit_char (n mod 10)])"

declare show_nat.simps [simp del]

definition fmt_d :: "int \<Rightarrow> string" where
  "fmt_d z = (if z < 0 then CHR ''-'' # show_nat (nat (- z)) else show_nat (nat z))"

definition fmt_02x :: "byte \<Rightarrow> string" where
  "fmt_02x b = [digit_char (unat b div 16), digit_char (unat b mod 16)]"

lemma show_nat_not_Nil [simp]: "show_nat n \<noteq> []"
  by (subst show_nat.simps) simp

lemma show_nat_digits: "c \<in> set (show_nat n) \<Longrightarrow> \<exists>d<10. c = digit_char d"
proof (induction n rule: show_nat.induct)
  case (1 n)
  show ?case
  proof (cases "n < 10")
    case True
    with "1.prems" show ?thesis by (auto simp: show_nat.simps [of n])
  next
    case False
    with "1.prems" consider "c \<in> set (show_nat (n div 10))" | "c = digit_char (n mod 10)"
      by (auto simp: show_nat.simps [of n])
    then show ?thesis
    proof cases
      case 1
      with False "1.IH" show ?thesis by blast
    next
      case 2
      then show ?thesis by (intro exI [of _ "n mod 10"]) simp
    qed
  qed
qed

lemma hd_show_nat: "0 < n \<Longrightarrow> \<exists>d. 0 < d \<and> d < 10 \<and> hd (show_nat n) = digit_char d"
proof (induction n rule: show_nat.induct)
  case (1 n)
  show ?case
  proof (cases "n < 10")
    case True
    with "1.prems" show ?thesis by (auto simp: show_nat.simps [of n])
  next
    case False
    then have "0 < n div 10" by (simp add: div_greater_zero_iff)
    with "1.IH" False show ?thesis by (auto simp: show_nat.simps [of n] hd_append)
  qed
qed

lemma show_nat_0 [simp]: "show_nat 0 = [digit_char 0]"
  by (simp add: show_nat.simps)

lemma length_fmt_02x [simp]: "length (fmt_02x b) = 2"
  by (simp add: fmt_02x_def)

lemma fmt_02x_inject: "fmt_02x a = fmt_02x b \<longleftrightarrow> a = b"
proof
  assume "fmt_02x a = fmt_02x b"
  then have "digit_val (digit_char (unat a div 16)) = digit_val (digit_char (unat b div 16))"
    and "digit_val (digit_char (unat a mod 16)) = digit_val (digit_char (unat b mod 16))"
    by (simp_all add: fmt_02x_def)
  moreover have "unat a div 16 < 36" "unat b div 16 < 36"
    using unat_byte_less [of a] unat_byte_less [of b] by simp_all
  ultimately have "unat a div 16 = unat b div 16" "unat a mod 16 = unat b mod 16"
    by (simp_all add: digit_val_digit_char)
  then have "unat a = unat b" by (metis div_mult_mod_eq)
  then show "a = b" by (simp add: word_unat_eq_iff)
qed simp

section \<open>\<open>strtol\<close> with base 0\<close>

definition LONG_MAX :: int where "LONG_MAX = 2 ^ 63 - 1"
definition LONG_MIN :: int where "LONG_MIN = - (2 ^ 63)"

definition is_space :: "char \<Rightarrow> bool" where
  "is_space c = (let n = of_char c :: nat in n = 32 \<or> 9 \<le> n \<and> n \<le> 13)"

fun read_digits :: "nat \<Rightarrow> nat \<Rightarrow> string \<Rightarrow> nat" where
  "read_digits base acc [] = acc"
| "read_digits base acc (c # cs) =
     (case digit_val c of
        None \<Rightarrow> acc
      | Some d \<Rightarrow> if d < base then read_digits base (acc * base + d) cs else acc)"

definition strtol_base :: "string \<Rightarrow> nat \<times> string" where
  "strtol_base s = (case s of
       c # x # h # rest \<Rightarrow>
         if c = CHR ''0'' \<and> (x = CHR ''x'' \<or> x = CHR ''X'') \<and> is_digit_in 16 h then (16, h # rest)
         else if c = CHR ''0'' then (8, s) else (10, s)
     | c # _ \<Rightarrow> if c = CHR ''0'' then (8, s) else (10, s)
     | [] \<Rightarrow> (10, s))"

definition strtol_sign :: "string \<Rightarrow> bool \<times> string" where
  "strtol_sign s = (case s of
       c # rest \<Rightarrow> if c = CHR ''-'' then (True, rest) else if c = CHR ''+'' then (False, rest)
                   else (False, s)
     | [] \<Rightarrow> (False, s))"

definition strtol0 :: "string \<Rightarrow> int" where
  "strtol0 s =
     (let (neg, s1) = strtol_sign (dropWhile is_space s);
          (base, s2) = strtol_base s1;
          n = int (read_digits base 0 s2)
      in if neg then max LONG_MIN (- n) else min LONG_MAX n)"

definition no_digit_next :: "string \<Rightarrow> bool" where
  "no_digit_next s = (case s of [] \<Rightarrow> True | c # _ \<Rightarrow> digit_val c = None)"

lemma read_digits_stop: "no_digit_next s \<Longrightarrow> read_digits base acc s = acc"
  by (cases s) (auto simp: no_digit_next_def)

lemma read_digits_show_nat:
  "read_digits 10 acc (show_nat n @ s) = read_digits 10 (acc * 10 ^ length (show_nat n) + n) s"
proof (induction n arbitrary: s rule: show_nat.induct)
  case (1 n)
  show ?case
  proof (cases "n < 10")
    case True
    then show ?thesis by (simp add: show_nat.simps [of n] digit_val_digit_char)
  next
    case False
    have "(acc * 10 ^ length (show_nat (n div 10)) + n div 10) * 10 + n mod 10
        = acc * 10 ^ Suc (length (show_nat (n div 10))) + n"
      by (simp add: algebra_simps)
    with "1.IH" False show ?thesis
      by (simp add: show_nat.simps [of n] digit_val_digit_char ac_simps)
  qed
qed

lemma strtol_base_10: "s \<noteq> [] \<Longrightarrow> hd s \<noteq> CHR ''0'' \<Longrightarrow> strtol_base s = (10, s)"
  by (auto simp: strtol_base_def split: list.splits)

lemma digit_char_eq_lit:
  "d < 10 \<Longrightarrow> digit_char d = CHR ''0'' \<longleftrightarrow> d = 0"
  "d < 10 \<Longrightarrow> digit_char d \<noteq> CHR ''-''"
  "d < 10 \<Longrightarrow> digit_char d \<noteq> CHR ''+''"
  "d < 10 \<Longrightarrow> \<not> is_space (digit_char d)"
  by (auto simp: digit_char_def is_space_def of_char_of Let_def
      simp flip: of_char_eq_iff [where 'a = nat])

lemma strtol_sign_show_nat: "strtol_sign (show_nat n @ s) = (False, show_nat n @ s)"
  and dropWhile_show_nat: "dropWhile is_space (show_nat n @ s) = show_nat n @ s"
proof -
  obtain d ds where n: "show_nat n = d # ds" by (cases "show_nat n") auto
  with show_nat_digits [of d n] obtain k where "k < 10" "d = digit_char k" by auto
  with n show "strtol_sign (show_nat n @ s) = (False, show_nat n @ s)"
    and "dropWhile is_space (show_nat n @ s) = show_nat n @ s"
    by (simp_all add: strtol_sign_def digit_char_eq_lit)
qed

text \<open>
  A number written by \<open>%d\<close> is never taken for an octal or hexadecimal one: only \<open>0\<close> itself starts
  with the digit zero.
\<close>

lemma strtol_digits_show_nat:
  assumes "no_digit_next s"
  shows "(case strtol_base (show_nat n @ s) of (base, t) \<Rightarrow> read_digits base 0 t) = n"
proof (cases "n = 0")
  case True
  from assms have "strtol_base (CHR ''0'' # s) = (8, CHR ''0'' # s)"
    by (auto simp: strtol_base_def no_digit_next_def digit_val_def split: list.splits)
  with True assms show ?thesis
    by (simp add: digit_char_table read_digits_stop digit_val_def)
next
  case False
  then obtain d where "0 < d" "d < 10" "hd (show_nat n) = digit_char d"
    using hd_show_nat by blast
  then have "strtol_base (show_nat n @ s) = (10, show_nat n @ s)"
    by (intro strtol_base_10) (simp_all add: digit_char_eq_lit)
  with assms show ?thesis by (simp add: read_digits_show_nat read_digits_stop)
qed

lemma strtol0_fmt_d_app:
  assumes "LONG_MIN \<le> z" "z \<le> LONG_MAX" "no_digit_next s"
  shows "strtol0 (fmt_d z @ s) = z"
proof (cases "z < 0")
  case True
  have "strtol_sign (CHR ''-'' # show_nat (nat (- z)) @ s) = (True, show_nat (nat (- z)) @ s)"
    by (simp add: strtol_sign_def)
  with True assms strtol_digits_show_nat [OF assms(3), of "nat (- z)"] show ?thesis
    by (simp add: strtol0_def fmt_d_def is_space_def split: prod.splits)
next
  case False
  with assms strtol_digits_show_nat [OF assms(3), of "nat z"] show ?thesis
    by (simp add: strtol0_def fmt_d_def dropWhile_show_nat strtol_sign_show_nat split: prod.splits)
qed

lemma strtol0_fmt_d: "LONG_MIN \<le> z \<Longrightarrow> z \<le> LONG_MAX \<Longrightarrow> strtol0 (fmt_d z) = z"
  using strtol0_fmt_d_app [of z "[]"] by (simp add: no_digit_next_def)

end
