(* ===== verification/Hex_Ascii.thy ===== *)
theory Hex_Ascii
  imports C_Text "HOL-Library.Monad_Syntax"
begin

text \<open>
  \<^verbatim>\<open>hex_to_ascii\<close> of \<^verbatim>\<open>src/pm_detect.c\<close>, which renders a raw page as upper-case hexadecimal
  digits with a space between 4-byte words. The loop writes into the block that \<open>malloc\<close> returned; a write
  outside the block is the value \<open>None\<close>, and so is a block size that overflows the type \<open>int\<close> it is computed in. The
  theorems show for which sizes the block is large enough, and that the loop computes the rendering \<open>hex_words\<close>.
\<close>

section \<open>The loop over the buffer\<close>

definition ascii_map :: string where
  "ascii_map = ''0123456789ABCDEF''"

definition SPACE :: byte where "SPACE = 0x20"

definition hi_nibble :: "byte \<Rightarrow> nat" where
  "hi_nibble b = unat (drop_bit 4 (and (scast b :: 32 word) 0xf0))"

definition lo_nibble :: "byte \<Rightarrow> nat" where
  "lo_nibble b = unat (and (scast b :: 32 word) 0xf)"

definition store :: "'a list \<Rightarrow> nat \<Rightarrow> 'a \<Rightarrow> 'a list option" where
  "store buf j c = (if j < length buf then Some (buf[j := c]) else None)"

fun hex_to_ascii_loop :: "byte list \<Rightarrow> nat \<Rightarrow> nat \<Rightarrow> string \<Rightarrow> (nat \<times> string) option" where
  "hex_to_ascii_loop [] i j ascii = Some (j, ascii)"
| "hex_to_ascii_loop (b # bs) i j ascii = do {
     (j, ascii) \<leftarrow>
       (if 0 < i \<and> i mod 4 = 0 then do {
          ascii \<leftarrow> store ascii j (char_of_byte SPACE);
          Some (j + 1, ascii) }
        else Some (j, ascii));
     ascii \<leftarrow> store ascii j (ascii_map ! hi_nibble b);
     ascii \<leftarrow> store ascii (j + 1) (ascii_map ! lo_nibble b);
     hex_to_ascii_loop bs (i + 1) (j + 2) ascii }"

definition INT_MAX :: nat where "INT_MAX = 0x7fffffff"

definition hex_to_ascii_size :: "nat \<Rightarrow> nat option" where
  "hex_to_ascii_size buf_size =
     (let ascii_size = 2 * buf_size + buf_size div 4 + 1
      in if ascii_size \<le> INT_MAX then Some ascii_size else None)"

definition hex_to_ascii_in :: "string \<Rightarrow> byte list \<Rightarrow> string option" where
  "hex_to_ascii_in block buf = do {
     (j, ascii) \<leftarrow> hex_to_ascii_loop buf 0 0 block;
     ascii \<leftarrow> store ascii j (CHR 0x00);
     Some (takeWhile (\<lambda>c. c \<noteq> CHR 0x00) ascii) }"

definition hex_to_ascii :: "byte list \<Rightarrow> string option" where
  "hex_to_ascii buf = do {
     ascii_size \<leftarrow> hex_to_ascii_size (length buf);
     hex_to_ascii_in (replicate ascii_size (CHR 0x00)) buf }"

section \<open>The rendering\<close>

definition hex_byte :: "byte \<Rightarrow> string" where
  "hex_byte b = [ascii_map ! (unat b div 16), ascii_map ! (unat b mod 16)]"

fun hex_tail :: "nat \<Rightarrow> byte list \<Rightarrow> string" where
  "hex_tail i [] = []"
| "hex_tail i (b # bs) = (if 0 < i \<and> i mod 4 = 0 then '' '' else []) @ hex_byte b @ hex_tail (i + 1) bs"

definition hex_words :: "byte list \<Rightarrow> string" where
  "hex_words bs = hex_tail 0 bs"

lemma nibbles: "hi_nibble b = unat b div 16" "lo_nibble b = unat b mod 16"
proof -
  have masks: "(0xf0 :: 32 word) = push_bit 4 (mask 4)" "(0xf :: 32 word) = mask 4"
    "(0xf :: byte) = mask 4"
    by (simp_all add: mask_eq_exp_minus_1 push_bit_eq_mult)
  have "\<not> bit b (4 + n)" if "\<not> n < 4" for n
    using that bit_imp_le_length [of b "4 + n"] by auto
  moreover have "min 7 (4 + n) = 4 + n" if "n < 4" for n :: nat
    using that by simp
  ultimately have "bit (drop_bit 4 (and (scast b :: 32 word) 0xf0)) n = bit (ucast (drop_bit 4 b) :: 32 word) n"
    and "bit (and (scast b :: 32 word) 0xf) n = bit (ucast (and b 0xf) :: 32 word) n" if "n < 32" for n
    unfolding masks using that by (cases "n < 4"; auto simp: bit_simps)+
  then have "drop_bit 4 (and (scast b :: 32 word) 0xf0) = ucast (drop_bit 4 b)"
    and "and (scast b :: 32 word) 0xf = ucast (and b 0xf)"
    by (auto intro!: bit_word_eqI)
  then have "hi_nibble b = unat (ucast (drop_bit 4 b) :: 32 word)"
    and "lo_nibble b = unat (ucast (take_bit 4 b) :: 32 word)"
    by (simp_all add: hi_nibble_def lo_nibble_def masks(3) take_bit_eq_mask)
  then show "hi_nibble b = unat b div 16" "lo_nibble b = unat b mod 16"
    using unat_byte_less [of b]
    by (simp_all add: drop_bit_eq_div take_bit_eq_mod unsigned_ucast_eq unat_div unat_mod)
qed

section \<open>The loop computes the rendering inside its block\<close>

lemma nibble_less: "unat (b :: byte) div 16 < 16"
  using unat_byte_less [of b] by simp

lemma ascii_map_nth: "n < 16 \<Longrightarrow> ascii_map ! n \<noteq> CHR 0x00 \<and> ascii_map ! n \<noteq> CHR '' ''"
proof -
  assume "n < 16"
  then have "n \<in> set [0..<16]" by simp
  moreover have "\<forall>n \<in> set [0..<16]. ascii_map ! n \<noteq> CHR 0x00 \<and> ascii_map ! n \<noteq> CHR '' ''"
    by code_simp
  ultimately show ?thesis by blast
qed

lemma length_hex_tail:
  "length (hex_tail (Suc i) bs) + i div 4 = 2 * length bs + (i + length bs) div 4"
proof (induction bs arbitrary: i)
  case (Cons b bs)
  have "length (hex_tail (Suc (Suc i)) bs) + Suc i div 4 = 2 * length bs + (Suc i + length bs) div 4"
    by (rule Cons.IH)
  then show ?case by (auto simp: hex_byte_def div_Suc mod_Suc)
qed simp

lemma hex_tail_no_NUL: "CHR 0x00 \<notin> set (hex_tail i bs)"
proof (induction bs arbitrary: i)
  case (Cons b bs)
  have "CHR 0x00 \<notin> set (hex_byte b)"
    using ascii_map_nth [of "unat b div 16"] ascii_map_nth [of "unat b mod 16"] nibble_less [of b]
    by (auto simp: hex_byte_def)
  with Cons show ?case by simp
qed simp

text \<open>
  \<open>pre\<close> is what has been written so far, \<open>junk\<close> what the block still holds from before: a write
  replaces the head of \<open>junk\<close>.
\<close>

lemma hex_to_ascii_loop_fills:
  "length (hex_tail i bs) \<le> length junk \<Longrightarrow>
   hex_to_ascii_loop bs i (length pre) (pre @ junk) =
     Some (length pre + length (hex_tail i bs), pre @ hex_tail i bs @ drop (length (hex_tail i bs)) junk)"
proof (induction bs arbitrary: i pre junk)
  case (Cons b bs)
  show ?case
  proof (cases "0 < i \<and> i mod 4 = 0")
    case True
    with Cons.prems obtain x y z junk' where junk: "junk = x # y # z # junk'"
      and len: "length (hex_tail (i + 1) bs) \<le> length junk'"
      by (auto simp: hex_byte_def Suc_le_length_iff)
    have "char_of_byte SPACE = CHR '' ''" by code_simp
    with True junk Cons.IH [OF len, of "pre @ CHR '' '' # hex_byte b"] show ?thesis
      by (simp add: store_def list_update_append hex_byte_def nibbles)
  next
    case False
    with Cons.prems obtain x y junk' where junk: "junk = x # y # junk'"
      and len: "length (hex_tail (i + 1) bs) \<le> length junk'"
      by (auto simp: hex_byte_def Suc_le_length_iff)
    with junk Cons.IH [OF len, of "pre @ hex_byte b"] show ?thesis
      unfolding hex_to_ascii_loop.simps hex_tail.simps if_not_P [OF False]
      by (simp add: store_def list_update_append hex_byte_def nibbles)
  qed
qed simp

lemma hex_to_ascii_size_cases:
  "hex_to_ascii_size n = (if n \<le> 954437176 then Some (2 * n + n div 4 + 1) else None)"
  by (auto simp: hex_to_ascii_size_def INT_MAX_def)

lemma length_hex_words: "length (hex_words buf) < 2 * length buf + length buf div 4 + 1"
proof (cases buf)
  case (Cons b bs)
  then show ?thesis
    using length_hex_tail [of 0 bs] by (simp add: hex_words_def hex_byte_def)
qed (simp add: hex_words_def)

lemma hex_to_ascii_in_eq:
  assumes "hex_to_ascii_size (length buf) = Some (length block)"
  shows "hex_to_ascii_in block buf = Some (hex_words buf)"
proof -
  have len: "length (hex_tail 0 buf) < length block"
    using assms length_hex_words [of buf] by (simp add: hex_words_def hex_to_ascii_size_cases split: if_splits)
  then obtain x junk where junk: "drop (length (hex_tail 0 buf)) block = x # junk"
    by (metis Cons_nth_drop_Suc)
  with hex_to_ascii_loop_fills [of 0 buf block "[]"] len
  have "hex_to_ascii_loop buf 0 0 block = Some (length (hex_tail 0 buf), hex_tail 0 buf @ x # junk)"
    by simp
  moreover have "takeWhile (\<lambda>c. c \<noteq> CHR 0x00) (hex_tail 0 buf @ CHR 0x00 # junk) = hex_tail 0 buf"
    using hex_tail_no_NUL [of 0 buf] by (subst takeWhile_append2) auto
  ultimately show ?thesis
    by (simp add: hex_to_ascii_in_def store_def hex_words_def)
qed

lemma hex_to_ascii_eq [simp]: "length buf \<le> 954437176 \<Longrightarrow> hex_to_ascii buf = Some (hex_words buf)"
  by (simp add: hex_to_ascii_def hex_to_ascii_size_cases hex_to_ascii_in_eq)

text \<open>
  C29. Whatever the allocated block holds, the conversion writes inside it, terminates the text there
  and renders each byte as two upper-case digits with a space before every fourth byte but the first. This is so for every
  size for which the size of the block can be computed in an \<open>int\<close>, which are those up to 954437176 bytes; the daemon's
  pages have 128.
\<close>

theorem hex_to_ascii_safe:
  assumes "hex_to_ascii_size (length buf) = Some (length block)"
  shows "hex_to_ascii_in block buf = Some (hex_words buf) \<and> length (hex_words buf) < length block \<and>
    CHR 0x00 \<notin> set (hex_words buf) \<and> (hex_to_ascii_size n \<noteq> None \<longleftrightarrow> n \<le> 954437176)"
proof -
  have "length (hex_words buf) < length block"
    using assms length_hex_words [of buf] by (simp add: hex_to_ascii_size_cases split: if_splits)
  then show ?thesis
    using hex_tail_no_NUL [of 0 buf] hex_to_ascii_in_eq [OF assms] by (simp add: hex_words_def hex_to_ascii_size_cases)
qed

theorem hex_to_ascii_safe_witness:
  "hex_to_ascii_in (replicate 12 CHR ''x'') [0x01, 0xAB, 0xFF, 0x20, 0x7E] = Some ''01ABFF20 7E''"
proof -
  have "hex_words [0x01, 0xAB, 0xFF, 0x20, 0x7E] = ''01ABFF20 7E''" by code_simp
  then show ?thesis
    using hex_to_ascii_safe [of "[0x01, 0xAB, 0xFF, 0x20, 0x7E]" "replicate 12 CHR ''x''"]
    by (simp add: hex_to_ascii_size_def INT_MAX_def)
qed

end
