(* ===== verification/Atoc_Tool.thy ===== *)
theory Atoc_Tool
  imports Hex_Ascii
begin

text \<open>
  \<^verbatim>\<open>tests/files/atoc.c\<close>, the tool that turns hexadecimal texts into the page files of the tests. The theorem shows that it
  decodes what the daemon's \<^verbatim>\<open>hex_to_ascii\<close> prints, and what happens to a file without a final newline.
\<close>

section \<open>The tool\<close>

text \<open>
  \<open>convert\<close> ends the program with a message on a character that is not a hexadecimal digit.
\<close>

definition toupper :: "char \<Rightarrow> char" where
  "toupper c = (let n = of_char c :: nat in if 97 \<le> n \<and> n \<le> 122 then char_of (n - 32) else c)"

definition convert :: "char \<Rightarrow> string + byte" where
  "convert value =
     (let value = toupper value; v = of_char value :: nat in
      if 48 \<le> v \<and> v \<le> 57 then Inr (word_of_nat (v - 48))
      else if 65 \<le> v \<and> v \<le> 70 then Inr (word_of_nat (v - 65) + 0xA)
      else Inl (''Invalid character: '' @ [value] @ ''\<newline>''))"

text \<open>
  \<open>fread\<close> of one block of two bytes into a buffer, with the end-of-file mark. At the end of the file the bytes that
  are left are stored and the rest of the buffer stays: this is what the GNU library does with a part of a block, whose
  value the language standard leaves open. A file is a list of characters that can be read, so that \<open>ferror\<close> is never set.
\<close>

fun fread_pair :: "char \<times> char \<Rightarrow> string \<Rightarrow> (char \<times> char) \<times> string \<times> bool" where
  "fread_pair buf [] = (buf, [], True)"
| "fread_pair buf [a] = ((a, snd buf), [], True)"
| "fread_pair buf (a # b # rest) = ((a, b), rest, False)"

lemma fread_pair_less: "(buf', rest', False) = fread_pair buf rest \<Longrightarrow> length rest' < length rest"
  by (cases "(buf, rest)" rule: fread_pair.cases) auto

text \<open>
  The loop, with the end-of-file mark, the buffer, the rest of the file, the bytes written and their number, an \<open>int\<close> of the
  source that the files of the tests do not overflow. The result is the exit code, the standard output and the standard error. Of two bad digits the first is reported.
\<close>

definition atoc_end :: "byte list \<Rightarrow> int \<Rightarrow> int \<times> byte list \<times> string" where
  "atoc_end out cnt = (0, out, ''Count is '' @ fmt_d cnt @ ''\<newline>'')"

function atoc_loop ::
  "bool \<Rightarrow> char \<times> char \<Rightarrow> string \<Rightarrow> byte list \<Rightarrow> int \<Rightarrow> int \<times> byte list \<times> string" where
  "atoc_loop eof buf rest out cnt =
     (if eof then atoc_end out cnt
      else
        (case fread_pair buf rest of (buf, rest, eof) \<Rightarrow>
           if fst buf = CHR 0x0A then atoc_end out cnt
           else
             (case convert (fst buf) of
                Inl msg \<Rightarrow> (1, out, msg)
              | Inr hi \<Rightarrow>
                  (case convert (snd buf) of
                     Inl msg \<Rightarrow> (1, out, msg)
                   | Inr lo \<Rightarrow> atoc_loop eof buf rest (out @ [push_bit 4 hi + lo]) (cnt + 1)))))"
  by pat_completeness auto
termination
  by (relation "measure (\<lambda>(eof, buf, rest, out, cnt). if eof then 0 else Suc (length rest))")
    (auto dest: fread_pair_less)

declare atoc_loop.simps [simp del]

definition atoc_main ::
  "(string \<Rightarrow> string option) \<Rightarrow> char \<times> char \<Rightarrow> string \<Rightarrow> int \<times> byte list \<times> string" where
  "atoc_main files junk file =
     (case files file of
        None \<Rightarrow> (1, [], ''Unable to open file: '' @ file @ ''\<newline>'')
      | Some content \<Rightarrow> atoc_loop False junk content [] 0)"

section \<open>Digits\<close>

lemma convert_ascii_map: "n < 16 \<Longrightarrow> convert (ascii_map ! n) = Inr (word_of_nat n)"
proof -
  assume "n < 16"
  then have "n \<in> set [0..<16]" by simp
  moreover have "\<forall>n \<in> set [0..<16]. convert (ascii_map ! n) = Inr (word_of_nat n)"
    by (simp add: upt_rec ascii_map_def convert_def toupper_def)
  ultimately show ?thesis by blast
qed

lemma ascii_map_no_newline: "n < 16 \<Longrightarrow> ascii_map ! n \<noteq> CHR 0x0A"
  using convert_ascii_map [of n] by (auto simp: convert_def toupper_def Let_def)

lemma byte_of_nibbles: "push_bit 4 (word_of_nat (unat b div 16)) + word_of_nat (unat b mod 16) = (b :: byte)"
proof -
  have "push_bit 4 (word_of_nat (unat b div 16)) + word_of_nat (unat b mod 16)
      = (word_of_nat (unat b div 16 * 16 + unat b mod 16) :: byte)"
    by (simp only: push_bit_eq_mult of_nat_add of_nat_mult) simp
  also have "\<dots> = word_of_nat (unat b)" by (simp only: div_mult_mod_eq)
  also have "\<dots> = b" by simp
  finally show ?thesis .
qed

lemma filter_hex_tail:
  "filter (\<lambda>c. c \<noteq> CHR '' '') (hex_tail i bs) = concat (map hex_byte bs)"
proof (induction bs arbitrary: i)
  case (Cons b bs)
  have "filter (\<lambda>c. c \<noteq> CHR '' '') (hex_byte b) = hex_byte b"
    using ascii_map_nth [of "unat b div 16"] ascii_map_nth [of "unat b mod 16"] nibble_less [of b]
    by (simp add: hex_byte_def)
  with Cons show ?case by simp
qed simp

section \<open>The loop on digits\<close>

text \<open>The digits of one byte in the buffer, and one turn of the loop on them.\<close>

definition digits :: "byte \<Rightarrow> char \<times> char" where
  "digits b = (ascii_map ! (unat b div 16), ascii_map ! (unat b mod 16))"

lemma hex_byte_digits: "hex_byte b = [fst (digits b), snd (digits b)]"
  by (simp add: hex_byte_def digits_def)

lemma digits_ok:
  "fst (digits b) \<noteq> CHR 0x0A" "convert (fst (digits b)) = Inr (word_of_nat (unat b div 16))"
  "convert (snd (digits b)) = Inr (word_of_nat (unat b mod 16))"
  using nibble_less [of b] by (simp_all add: digits_def convert_ascii_map ascii_map_no_newline)

lemma atoc_turn:
  "fread_pair buf rest = (digits b, rest', eof) \<Longrightarrow>
   atoc_loop False buf rest out cnt = atoc_loop eof (digits b) rest' (out @ [b]) (cnt + 1)"
  by (subst atoc_loop.simps) (simp add: digits_ok byte_of_nibbles)

lemma atoc_bytes:
  "atoc_loop False buf (concat (map hex_byte bs) @ rest) out cnt =
     atoc_loop False (last (buf # map digits bs)) rest (out @ bs) (cnt + int (length bs))"
proof (induction bs arbitrary: buf out cnt)
  case (Cons b bs)
  have "fread_pair buf (hex_byte b @ concat (map hex_byte bs) @ rest) = (digits b, concat (map hex_byte bs) @ rest, False)"
    by (simp add: hex_byte_digits)
  from atoc_turn [OF this, of out cnt] Cons.IH [of "digits b" "out @ [b]" "cnt + 1"]
  show ?case by (simp add: algebra_simps)
qed simp

text \<open>
  C30. The text the daemon publishes for a page determines the page: without its spaces and ended by a
  newline it is turned back into the page by the repository's own tool, which reports the number of bytes. Without the
  newline the tool writes the last byte twice, because the end of the file is noticed only by the read after it. The bound
  is that of the rendering; it also keeps the tool's count in an \<open>int\<close>.
\<close>

theorem hex_to_ascii_read_back:
  assumes "length page < 954437176"
  shows "map_option (\<lambda>s. atoc_main (\<lambda>f. Some (filter (\<lambda>c. c \<noteq> CHR '' '') s @ ''\<newline>'')) junk file) (hex_to_ascii page) =
     Some (0, page, ''Count is '' @ fmt_d (int (length page)) @ ''\<newline>'') \<and>
   map_option (\<lambda>s. atoc_main (\<lambda>f. Some (filter (\<lambda>c. c \<noteq> CHR '' '') s)) junk file) (hex_to_ascii (page @ [b])) =
     Some (0, page @ [b, b], ''Count is '' @ fmt_d (int (length page) + 2) @ ''\<newline>'')"
proof
  have "atoc_loop False buf ''\<newline>'' out cnt = atoc_end out cnt" for buf out cnt
    by (simp add: atoc_loop.simps)
  then show "map_option (\<lambda>s. atoc_main (\<lambda>f. Some (filter (\<lambda>c. c \<noteq> CHR '' '') s @ ''\<newline>'')) junk file) (hex_to_ascii page) =
     Some (0, page, ''Count is '' @ fmt_d (int (length page)) @ ''\<newline>'')"
    using assms by (simp add: hex_words_def filter_hex_tail atoc_main_def atoc_bytes atoc_end_def)
  have "atoc_loop False (digits b) [] out cnt = atoc_end (out @ [b]) (cnt + 1)" for out cnt
    using atoc_turn [of "digits b" "[]" b "[]" True out cnt] by (simp add: atoc_loop.simps)
  then show "map_option (\<lambda>s. atoc_main (\<lambda>f. Some (filter (\<lambda>c. c \<noteq> CHR '' '') s)) junk file) (hex_to_ascii (page @ [b])) =
     Some (0, page @ [b, b], ''Count is '' @ fmt_d (int (length page) + 2) @ ''\<newline>'')"
    using assms atoc_bytes [of junk "page @ [b]" "[]" "[]" 0]
    by (simp add: hex_words_def filter_hex_tail atoc_main_def atoc_end_def add.commute)
qed

theorem hex_to_ascii_read_back_witness:
  "map_option (\<lambda>s. atoc_main (\<lambda>f. Some (filter (\<lambda>c. c \<noteq> CHR '' '') s @ ''\<newline>'')) (CHR ''x'', CHR ''y'') ''page'') (hex_to_ascii [0x12, 0xAB]) =
     Some (0, [0x12, 0xAB], ''Count is 2\<newline>'')"
proof -
  have "fmt_d 2 = ''2''" by code_simp
  with hex_to_ascii_read_back [of "[0x12, 0xAB]" "(CHR ''x'', CHR ''y'')" "''page''"] show ?thesis by simp
qed

end
