(* ===== verification/C_Float.thy ===== *)
theory C_Float
  imports C_Text Complex_Main
begin

text \<open>
  The single and double precision arithmetic of the diagnostics code, as integer arithmetic that
  the kernel evaluates. A finite binary floating-point number is a pair \<open>(m, e)\<close> that stands for
  \<open>m / 2 ^ e\<close>; an operation computes its exact result and rounds it to 24 or 53 significant bits, to
  nearest with ties to even, as IEEE 754 prescribes and SSE arithmetic does. The numbers of the
  diagnostics pages lie between \<open>10 ^ -4\<close> and 132 in magnitude, or are zero, so that neither overflow nor
  subnormal numbers arise. \<open>fmt_4_2f\<close> is \<open>printf\<close>'s \<open>%4.2f\<close>, which rounds the exact value.
\<close>

section \<open>Rounding\<close>

type_synonym cfloat = "int \<times> nat"

definition rne :: "int \<Rightarrow> nat \<Rightarrow> int" where
  "rne n k =
     (let q = n div 2 ^ k; r = n mod 2 ^ k
      in if 2 * r < 2 ^ k \<or> 2 * r = 2 ^ k \<and> even q then q else q + 1)"

fun bitlen :: "nat \<Rightarrow> nat" where
  "bitlen n = (if n = 0 then 0 else Suc (bitlen (n div 2)))"

declare bitlen.simps [simp del]

definition round_sig :: "nat \<Rightarrow> cfloat \<Rightarrow> cfloat" where
  "round_sig p x =
     (case x of (m, e) \<Rightarrow>
        let k = bitlen (nat \<bar>m\<bar>) - p in (rne m k * 2 ^ k, e))"

abbreviation to_float :: "cfloat \<Rightarrow> cfloat" where
  "to_float \<equiv> round_sig 24"

abbreviation to_double :: "cfloat \<Rightarrow> cfloat" where
  "to_double \<equiv> round_sig 53"

section \<open>Arithmetic, comparison and the literals of the source\<close>

definition cf_of_int :: "int \<Rightarrow> cfloat" where
  "cf_of_int z = to_float (z, 0)"

definition cf_add :: "cfloat \<Rightarrow> cfloat \<Rightarrow> cfloat" where
  "cf_add x y = (case (x, y) of ((m, e), (n, f)) \<Rightarrow> (m * 2 ^ f + n * 2 ^ e, e + f))"

definition cf_mult :: "cfloat \<Rightarrow> cfloat \<Rightarrow> cfloat" where
  "cf_mult x y = (case (x, y) of ((m, e), (n, f)) \<Rightarrow> (m * n, e + f))"

definition cf_eq :: "cfloat \<Rightarrow> cfloat \<Rightarrow> bool" where
  "cf_eq x y = (case (x, y) of ((m, e), (n, f)) \<Rightarrow> m * 2 ^ f = n * 2 ^ e)"

definition lit_0_0001 :: cfloat where "lit_0_0001 = (7378697629483821, 66)"
definition lit_0_002 :: cfloat where "lit_0_002 = (1152921504606847, 59)"

text \<open>
  \<open>float x = (float) n * lit;\<close> with a \<open>double\<close> literal: the product is a double, the assignment
  rounds it once more.
\<close>

definition float_scaled :: "cfloat \<Rightarrow> int \<Rightarrow> cfloat" where
  "float_scaled lit n = to_float (to_double (cf_mult (cf_of_int n) lit))"

definition centi :: "cfloat \<Rightarrow> int" where
  "centi x = (case x of (m, e) \<Rightarrow> rne (100 * m) e)"

definition fmt_4_2f :: "cfloat \<Rightarrow> string" where
  "fmt_4_2f x =
     (let c = nat \<bar>centi x\<bar>;
          s = (if fst x < 0 then ''-'' else []) @ show_nat (c div 100) @
              [CHR ''.'', digit_char (c div 10 mod 10), digit_char (c mod 10)]
      in replicate (4 - length s) (CHR '' '') @ s)"

lemma bitlen_numeral [simp]:
  "bitlen 0 = 0" "bitlen 1 = 1" "bitlen (Suc 0) = 1"
  "bitlen (numeral (Num.Bit0 k)) = Suc (bitlen (numeral k))"
  "bitlen (numeral (Num.Bit1 k)) = Suc (bitlen (numeral k))"
  by (simp_all add: bitlen.simps [of "numeral _"] bitlen.simps [of 0] bitlen.simps [of "Suc 0"])

lemmas float_eval = float_scaled_def cf_of_int_def cf_mult_def cf_add_def cf_eq_def round_sig_def
  rne_def lit_0_0001_def lit_0_002_def Let_def

lemmas text_eval = fmt_4_2f_def centi_def show_nat.simps digit_char_table

section \<open>Error bounds\<close>

definition val :: "cfloat \<Rightarrow> real" where
  "val x = (case x of (m, e) \<Rightarrow> real_of_int m / 2 ^ e)"

lemma rne_error: "2 * \<bar>rne n k * 2 ^ k - n\<bar> \<le> 2 ^ k"
proof -
  define q r where "q = n div 2 ^ k" and "r = n mod 2 ^ k"
  have n: "n = q * 2 ^ k + r"
    unfolding q_def r_def by (rule div_mult_mod_eq [symmetric])
  have r: "0 \<le> r" "r < 2 ^ k"
    by (simp_all add: r_def)
  have "2 * r \<le> 2 ^ k \<Longrightarrow> 2 * \<bar>q * 2 ^ k - n\<bar> \<le> 2 ^ k" using n r by simp
  moreover have "2 ^ k \<le> 2 * r \<Longrightarrow> 2 * \<bar>(q + 1) * 2 ^ k - n\<bar> \<le> 2 ^ k"
    using n r by (simp add: algebra_simps)
  ultimately show ?thesis
    by (simp add: rne_def Let_def flip: q_def r_def)
qed

lemma rne_0 [simp]: "rne n 0 = n"
  by (simp add: rne_def)

lemma bitlen_le: "0 < n \<Longrightarrow> 2 ^ (bitlen n - 1) \<le> n"
proof (induction n rule: bitlen.induct)
  case (1 n)
  show ?case
  proof (cases "n div 2 = 0")
    case True
    with "1.prems" show ?thesis by (simp add: bitlen.simps [of n])
  next
    case False
    with "1" have "2 ^ (bitlen (n div 2) - 1) \<le> n div 2" by simp
    moreover have "0 < bitlen (n div 2)" using False by (simp add: bitlen.simps [of "n div 2"])
    ultimately have "2 ^ bitlen (n div 2) \<le> 2 * (n div 2)"
      by (cases "bitlen (n div 2)") simp_all
    with "1.prems" show ?thesis by (simp add: bitlen.simps [of n])
  qed
qed

lemma val_round_sig: "0 < p \<Longrightarrow> \<bar>val (round_sig p x) - val x\<bar> \<le> \<bar>val x\<bar> / 2 ^ p"
proof -
  assume p: "0 < p"
  obtain m e where x: "x = (m, e)" by (cases x)
  define k where "k = bitlen (nat \<bar>m\<bar>) - p"
  have "\<bar>rne m k * 2 ^ k - m\<bar> * 2 ^ p \<le> \<bar>m\<bar>"
  proof (cases "k = 0")
    case False
    then have "m \<noteq> 0" by (auto simp: k_def)
    then have "2 ^ (bitlen (nat \<bar>m\<bar>) - 1) \<le> nat \<bar>m\<bar>" by (intro bitlen_le) simp
    then have "int (2 ^ (bitlen (nat \<bar>m\<bar>) - 1)) \<le> \<bar>m\<bar>" by (simp add: nat_le_iff le_nat_iff)
    moreover have "bitlen (nat \<bar>m\<bar>) - 1 = k - 1 + p" using False p by (simp add: k_def)
    ultimately have "2 ^ (k - 1) * 2 ^ p \<le> \<bar>m\<bar>" by (simp add: power_add)
    moreover have "\<bar>rne m k * 2 ^ k - m\<bar> \<le> 2 ^ (k - 1)"
      using rne_error [of m k] False by (cases k) auto
    ultimately show ?thesis
      by (meson mult_right_mono order_trans zero_le_numeral zero_le_power)
  qed simp
  then have "real_of_int (\<bar>rne m k * 2 ^ k - m\<bar> * 2 ^ p) \<le> real_of_int \<bar>m\<bar>"
    by (simp only: of_int_le_iff)
  then have "\<bar>real_of_int (rne m k * 2 ^ k) - real_of_int m\<bar> \<le> \<bar>real_of_int m\<bar> / 2 ^ p"
    by (simp add: field_simps)
  then show ?thesis
    by (simp add: x val_def round_sig_def Let_def field_simps flip: k_def diff_divide_distrib)
qed

lemma centi_error: "\<bar>real_of_int (centi x) - 100 * val x\<bar> \<le> 1 / 2"
proof -
  obtain m e where x: "x = (m, e)" by (cases x)
  have "2 * \<bar>rne (100 * m) e * 2 ^ e - 100 * m\<bar> \<le> 2 ^ e" by (rule rne_error)
  then have "real_of_int (2 * \<bar>rne (100 * m) e * 2 ^ e - 100 * m\<bar>) \<le> real_of_int (2 ^ e)"
    by (simp only: of_int_le_iff)
  then have "\<bar>real_of_int (centi x) * 2 ^ e - 100 * real_of_int m\<bar> \<le> 2 ^ e / 2"
    by (simp add: centi_def x)
  moreover have "\<bar>real_of_int (centi x) * 2 ^ e - 100 * real_of_int m\<bar>
      = \<bar>real_of_int (centi x) - 100 * val x\<bar> * 2 ^ e"
    by (simp add: x val_def field_simps abs_mult flip: abs_mult_pos)
  ultimately show ?thesis by simp
qed

text \<open>The literals are the doubles nearest to the decimal fractions the source writes.\<close>

lemma lit_0_0001_nearest: "\<bar>val lit_0_0001 - 1 / 10000\<bar> \<le> (1 / 2) * (1 / 2 ^ 66)"
  by (simp add: lit_0_0001_def val_def)

lemma lit_0_002_nearest: "\<bar>val lit_0_002 - 2 / 1000\<bar> \<le> (1 / 2) * (1 / 2 ^ 61)"
  by (simp add: lit_0_002_def val_def)

lemma val_cf_mult: "val (cf_mult x y) = val x * val y"
  by (cases x; cases y) (simp add: val_def cf_mult_def power_add)

lemma val_cf_of_int: "\<bar>val (cf_of_int n) - real_of_int n\<bar> \<le> \<bar>real_of_int n\<bar> / 2 ^ 24"
  using val_round_sig [of 24 "(n, 0)"] by (simp add: cf_of_int_def val_def)

lemma rounding_chain:
  fixes P q y v :: real
  assumes "0 \<le> P" "\<bar>q - P\<bar> \<le> P / 2 ^ 24" "\<bar>y - q\<bar> \<le> \<bar>q\<bar> / 2 ^ 53" "\<bar>v - y\<bar> \<le> \<bar>y\<bar> / 2 ^ 24"
  shows "\<bar>v - P\<bar> \<le> P / 2 ^ 22"
proof -
  note bounds = assms(2-4) [unfolded abs_le_iff, simplified]
  have q: "0 \<le> q" using assms(1) bounds by linarith
  then have y: "0 \<le> y" using bounds by simp
  have "v - P \<le> P / 4194304" "P - v \<le> P / 4194304"
    using assms(1) bounds q y by (simp_all add: abs_of_nonneg)
  then have "\<bar>v - P\<bar> \<le> P / 4194304" unfolding abs_le_iff by linarith
  then show ?thesis by simp
qed

lemma float_scaled_error:
  assumes "0 \<le> n" "0 \<le> val lit" "val lit \<le> 1"
  shows "\<bar>val (float_scaled lit n) - real_of_int n * val lit\<bar> \<le> real_of_int n * val lit / 2 ^ 22"
proof -
  define N L where "N = real_of_int n" and "L = val lit"
  define y1 y2 where "y1 = val (cf_of_int n)" and "y2 = val (to_double (cf_mult (cf_of_int n) lit))"
  have N: "0 \<le> N" and L: "0 \<le> L" using assms by (simp_all add: N_def L_def)
  have "\<bar>y1 - N\<bar> \<le> N / 2 ^ 24" using val_cf_of_int [of n] N by (simp add: N_def y1_def)
  then have "\<bar>y1 - N\<bar> * L \<le> N / 2 ^ 24 * L" using L by (rule mult_right_mono)
  then have 1: "\<bar>y1 * L - N * L\<bar> \<le> N * L / 2 ^ 24"
    using L by (simp add: abs_mult flip: left_diff_distrib)
  have 2: "\<bar>y2 - y1 * L\<bar> \<le> \<bar>y1 * L\<bar> / 2 ^ 53"
    using val_round_sig [of 53 "cf_mult (cf_of_int n) lit"]
    by (simp add: y1_def y2_def L_def val_cf_mult)
  have 3: "\<bar>val (float_scaled lit n) - y2\<bar> \<le> \<bar>y2\<bar> / 2 ^ 24"
    using val_round_sig [of 24 "to_double (cf_mult (cf_of_int n) lit)"]
    by (simp add: y2_def float_scaled_def)
  have "0 \<le> N * L" using N L by simp
  then have "\<bar>val (float_scaled lit n) - N * L\<bar> \<le> N * L / 2 ^ 22"
    using 1 2 3 by (rule rounding_chain)
  then show ?thesis by (simp add: N_def L_def)
qed

text \<open>
  The text the diagnostics columns get for a 16-bit reading is the nearest hundredth of the unit:
  the binary rounding never moves it to another hundredth, except between the two neighbours of a
  tie.
\<close>

lemma centi_scaled:
  assumes "0 \<le> n" "n < 65536" "0 < d" "d \<le> 20" "\<bar>val lit - real d / 10000\<bar> \<le> 1 / 2 ^ 62"
  shows "\<bar>100 * centi (float_scaled lit n) - d * n\<bar> \<le> 50"
proof -
  define N D L v c where "N = real_of_int n" and "D = real d" and "L = val lit"
    and "v = val (float_scaled lit n)" and "c = real_of_int (centi (float_scaled lit n))"
  have D: "1 \<le> D" "D \<le> 20" using assms(3,4) by (simp_all add: D_def)
  have L: "\<bar>L - D / 10000\<bar> \<le> 1 / 2 ^ 62"
    using assms(5) by (simp add: L_def D_def)
  then have L': "0 \<le> L" "L \<le> 1" using D unfolding abs_le_iff by simp_all
  have N: "0 \<le> N" "N \<le> 65535" using assms(1,2) by (simp_all add: N_def)
  have "\<bar>N * L - N * (D / 10000)\<bar> = N * \<bar>L - D / 10000\<bar>"
    using N(1) by (metis abs_mult abs_of_nonneg right_diff_distrib)
  also have "\<dots> \<le> 65535 * (1 / 2 ^ 62)"
    using N L by (intro mult_mono) simp_all
  finally have 1: "\<bar>N * L - N * (D / 10000)\<bar> \<le> 65535 / 2 ^ 62" by simp
  have "N * (D / 10000) \<le> 65535 * (20 / 10000)"
    using N D by (intro mult_mono) simp_all
  then have "N * L \<le> 132" using 1 unfolding abs_le_iff by simp
  moreover have "\<bar>v - N * L\<bar> \<le> N * L / 2 ^ 22"
    using float_scaled_error [of n lit] assms(1) L' by (simp add: v_def N_def L_def)
  ultimately have 2: "\<bar>v - N * L\<bar> \<le> 132 / 2 ^ 22" by (simp add: order_trans)
  have 3: "\<bar>c - 100 * v\<bar> \<le> 1 / 2" unfolding c_def v_def by (rule centi_error)
  have 4: "N * (D / 10000) = D * N / 10000" "65535 / 2 ^ 62 \<le> (1 / 100000 :: real)"
    "132 / 2 ^ 22 \<le> (1 / 20000 :: real)" by simp_all
  from 1 2 3 have "\<bar>100 * c - D * N\<bar> < 51"
    unfolding 4(1) abs_le_iff abs_less_iff using 4(2,3) by linarith
  then have "\<bar>real_of_int (100 * centi (float_scaled lit n) - int d * n)\<bar> < 51"
    by (simp add: c_def D_def N_def)
  then show ?thesis by linarith
qed

lemma centi_0_0001:
  assumes "0 \<le> n" "n < 65536"
  shows "\<bar>100 * centi (float_scaled lit_0_0001 n) - n\<bar> \<le> 50"
  using centi_scaled [of n 1 lit_0_0001] assms lit_0_0001_nearest by simp

lemma centi_0_002:
  assumes "0 \<le> n" "n < 65536"
  shows "\<bar>5 * centi (float_scaled lit_0_002 n) - n\<bar> \<le> 2"
  using centi_scaled [of n 20 lit_0_002] assms lit_0_002_nearest by simp

section \<open>Exact results\<close>

lemma cf_of_small_int: "\<bar>z\<bar> < 2 ^ 24 \<Longrightarrow> round_sig 24 (z, 0) = (z, 0)"
proof -
  assume z: "\<bar>z\<bar> < 2 ^ 24"
  have "bitlen (nat \<bar>z\<bar>) \<le> 24"
  proof (cases "z = 0")
    case False
    then have "2 ^ (bitlen (nat \<bar>z\<bar>) - 1) \<le> nat \<bar>z\<bar>" by (intro bitlen_le) simp
    also have "nat \<bar>z\<bar> < 2 ^ 24" using z by simp
    finally have "bitlen (nat \<bar>z\<bar>) - 1 < 24" by (rule power_less_imp_less_exp [rotated]) simp
    then show ?thesis by simp
  qed simp
  then show ?thesis by (simp add: round_sig_def)
qed

lemma bitlen_less: "n < 2 ^ bitlen n"
proof (induction n rule: bitlen.induct)
  case (1 n)
  show ?case
  proof (cases "n = 0")
    case False
    with 1 have "n div 2 < 2 ^ bitlen (n div 2)" by simp
    then show ?thesis using False by (simp add: bitlen.simps [of n])
  qed (simp add: bitlen.simps)
qed

lemma bitlen_eqI: "0 < b \<Longrightarrow> 2 ^ (b - 1) \<le> n \<Longrightarrow> n < 2 ^ b \<Longrightarrow> bitlen n = b"
proof -
  assume b: "0 < b" "2 ^ (b - 1) \<le> n" "n < 2 ^ b"
  then have n: "0 < n" by (meson less_le_trans zero_less_numeral zero_less_power)
  have "(2 :: nat) ^ (b - 1) < 2 ^ bitlen n" using b(2) bitlen_less [of n] by (rule le_less_trans)
  moreover have "(2 :: nat) ^ (bitlen n - 1) < 2 ^ b" using bitlen_le [OF n] b(3) by (rule le_less_trans)
  ultimately have "b - 1 < bitlen n" "bitlen n - 1 < b" by simp_all
  then show ?thesis using b(1) by linarith
qed

lemma rne_near:
  assumes "0 \<le> r" "2 * r < 2 ^ k"
  shows "rne (q * 2 ^ k + r) k = q"
proof -
  have "(q * 2 ^ k + r) div 2 ^ k = q" "(q * 2 ^ k + r) mod 2 ^ k = r"
    using assms by (simp_all add: div_add1_eq mod_add_eq)
  with assms show ?thesis by (simp add: rne_def)
qed

text \<open>Rounding to \<open>p\<close> bits takes a number with \<open>b\<close> bits that is just above a multiple of the last place to that multiple.\<close>

lemma round_sig_near:
  assumes "0 < b" "2 ^ (b - 1) \<le> q * 2 ^ (b - p) + r" "q * 2 ^ (b - p) + r < 2 ^ b" "0 \<le> r" "2 * r < 2 ^ (b - p)"
  shows "round_sig p (q * 2 ^ (b - p) + r, e) = (q * 2 ^ (b - p), e)"
proof -
  have "nat (2 ^ (b - 1)) \<le> nat \<bar>q * 2 ^ (b - p) + r\<bar>" "nat \<bar>q * 2 ^ (b - p) + r\<bar> < nat (2 ^ b)"
    using assms(2,3) order_trans [OF zero_le_power assms(2)] by (auto simp: nat_mono)
  then have "bitlen (nat \<bar>q * 2 ^ (b - p) + r\<bar>) = b"
    using assms(1) by (intro bitlen_eqI) (simp_all add: nat_power_eq)
  then show ?thesis using rne_near [OF assms(4,5), of q] by (simp add: round_sig_def)
qed

lemma lit_0_002_exact:
  assumes "0 \<le> z" "z < 256"
  shows "float_scaled lit_0_002 (500 * z) = (z * 2 ^ 59, 59)"
proof (cases "z = 0")
  case True
  then show ?thesis by (simp add: float_eval)
next
  case False
  define b where "b = bitlen (nat z)"
  have b: "2 ^ (b - 1) \<le> nat z" "nat z < 2 ^ b"
    using bitlen_le [of "nat z"] bitlen_less [of "nat z"] False assms(1) by (simp_all add: b_def)
  have "0 < b" using b(2) False assms(1) by (cases b) simp_all
  have "nat z < 2 ^ 8" using assms by simp
  with b(1) have "(2 :: nat) ^ (b - 1) < 2 ^ 8" by (rule le_less_trans)
  then have "b - 1 < 8" by (rule power_less_imp_less_exp [rotated]) simp
  then have "b \<le> 8" by simp
  have z: "2 ^ (b - 1) \<le> z" "z < 2 ^ b" using b assms(1) by (simp_all add: nat_less_iff le_nat_iff)
  have "cf_of_int (500 * z) = (500 * z, 0)" using assms by (simp add: cf_of_int_def cf_of_small_int)
  then have "cf_mult (cf_of_int (500 * z)) lit_0_002 = (z * 2 ^ 59 + 12 * z, 59)"
    by (simp add: cf_mult_def lit_0_002_def)
  moreover have "round_sig 53 (z * 2 ^ 59 + 12 * z, 59) = (z * 2 ^ 59, 59)"
  proof -
    have q: "z * 2 ^ (53 - b) * 2 ^ (b + 59 - 53) = z * 2 ^ 59"
      using \<open>b \<le> 8\<close> by (simp flip: power_add)
    have "(2 :: int) ^ (b + 59 - 53) = 64 * 2 ^ b" by (simp add: power_add)
    moreover have "(2 :: int) ^ (b + 59 - 1) = 2 ^ (b - 1) * 2 ^ 59" using \<open>0 < b\<close> by (cases b) (simp_all add: power_add)
    moreover have "(2 :: int) ^ (b + 59) = 2 ^ b * 2 ^ 59" by (simp add: power_add)
    ultimately show ?thesis
      using round_sig_near [of "b + 59" "z * 2 ^ (53 - b)" 53 "12 * z" 59] z assms unfolding q by simp
  qed
  moreover have "round_sig 24 (z * 2 ^ 59, 59) = (z * 2 ^ 59, 59)"
  proof -
    have q: "z * 2 ^ (24 - b) * 2 ^ (b + 59 - 24) = z * 2 ^ 59"
      using \<open>b \<le> 8\<close> by (simp flip: power_add)
    have "(2 :: int) ^ (b + 59 - 1) = 2 ^ (b - 1) * 2 ^ 59" using \<open>0 < b\<close> by (cases b) (simp_all add: power_add)
    moreover have "(2 :: int) ^ (b + 59) = 2 ^ b * 2 ^ 59" by (simp add: power_add)
    ultimately show ?thesis
      using round_sig_near [of "b + 59" "z * 2 ^ (24 - b)" 24 0 59] z unfolding q by simp
  qed
  ultimately show ?thesis by (simp add: float_scaled_def)
qed

lemma cf_eq_val: "cf_eq x y \<longleftrightarrow> val x = val y"
proof -
  have "real_of_int (m * 2 ^ f) = real_of_int (n * 2 ^ e) \<longleftrightarrow> m * 2 ^ f = n * 2 ^ e" for m n :: int and e f :: nat
    by (simp only: of_int_eq_iff)
  then show ?thesis by (cases x; cases y) (simp add: cf_eq_def val_def field_simps)
qed

text \<open>A reading compares equal to a whole number of milliampere exactly when it is that number of milliampere.\<close>

lemma cf_eq_0_002:
  assumes "0 \<le> z" "z < 256" "0 \<le> n" "n < 65536"
  shows "cf_eq (cf_of_int z) (float_scaled lit_0_002 n) \<longleftrightarrow> n = 500 * z"
proof
  have z: "cf_of_int z = (z, 0)" using assms by (simp add: cf_of_int_def cf_of_small_int)
  show "cf_eq (cf_of_int z) (float_scaled lit_0_002 n)" if "n = 500 * z"
    using assms that by (simp add: z lit_0_002_exact cf_eq_def)
  assume "cf_eq (cf_of_int z) (float_scaled lit_0_002 n)"
  then have v: "val (float_scaled lit_0_002 n) = real_of_int z" unfolding cf_eq_val by (simp add: z val_def)
  define N L where "N = real_of_int n" and "L = val lit_0_002"
  have L: "0 \<le> L" "L \<le> 1 / 499" "\<bar>L - 1 / 500\<bar> \<le> 1 / 2 ^ 60" by (simp_all add: L_def lit_0_002_def val_def)
  have N: "0 \<le> N" "N \<le> 65535" using assms(3,4) by (simp_all add: N_def)
  have NL: "N * L \<le> 132" using mult_mono [OF N(2) L(2)] N L by simp
  have "\<bar>real_of_int z - N * L\<bar> \<le> N * L / 2 ^ 22"
    using float_scaled_error [of n lit_0_002] assms(3) L v by (simp add: N_def L_def)
  then have 1: "\<bar>real_of_int z - N * L\<bar> \<le> 132 / 2 ^ 22" using NL by (simp add: order_trans)
  have "\<bar>N * L - N * (1 / 500)\<bar> = N * \<bar>L - 1 / 500\<bar>"
    using N(1) by (metis abs_mult abs_of_nonneg right_diff_distrib)
  also have "\<dots> \<le> 65535 * (1 / 2 ^ 60)" using N L by (intro mult_mono) simp_all
  finally have "\<bar>N * L - N / 500\<bar> \<le> 65535 / 2 ^ 60" by simp
  with 1 have "\<bar>real_of_int z - N / 500\<bar> < 1 / 500" unfolding abs_le_iff abs_less_iff by simp
  then have "\<bar>real_of_int (500 * z - n)\<bar> < 1" unfolding abs_less_iff by (simp add: N_def)
  then show "n = 500 * z" by linarith
qed

lemma centi_0_002_eq:
  assumes "0 \<le> n" "n < 65536"
  shows "centi (float_scaled lit_0_002 n) = (n + 2) div 5"
  using centi_0_002 [OF assms] by linarith

lemma float_scaled_nonneg:
  assumes "0 \<le> n" "0 \<le> fst lit"
  shows "0 \<le> fst (float_scaled lit n)"
proof -
  have rne: "0 \<le> rne m k" if "0 \<le> m" for m k
    using that by (auto simp: rne_def Let_def pos_imp_zdiv_nonneg_iff)
  have "0 \<le> fst (round_sig p x)" if "0 \<le> fst x" for p x
    using that by (cases x) (simp add: round_sig_def Let_def rne)
  then show ?thesis using assms by (simp add: float_scaled_def cf_of_int_def cf_mult_def case_prod_beta)
qed

section \<open>Reading the text back\<close>

lemma fmt_4_2f_unpadded:
  "fmt_4_2f x = (let c = nat \<bar>centi x\<bar> in
     (if fst x < 0 then ''-'' else []) @ show_nat (c div 100) @
     [CHR ''.'', digit_char (c div 10 mod 10), digit_char (c mod 10)])"
proof -
  have "1 \<le> length (show_nat n)" for n by (cases "show_nat n") simp_all
  then show ?thesis by (simp add: fmt_4_2f_def Let_def)
qed

lemma no_digit_next_point: "no_digit_next (CHR ''.'' # s)"
  by (simp add: no_digit_next_def digit_val_def)

lemma centi_nonneg: "0 \<le> fst x \<Longrightarrow> 0 \<le> centi x"
proof -
  assume "0 \<le> fst x"
  then have "0 \<le> 100 * fst x div 2 ^ snd x" by (simp add: pos_imp_zdiv_nonneg_iff)
  then show ?thesis by (auto simp: centi_def rne_def Let_def split: prod.splits)
qed

lemma strtol0_fmt_4_2f:
  assumes "0 \<le> fst x" "centi x div 100 \<le> LONG_MAX"
  shows "strtol0 (fmt_4_2f x) = centi x div 100"
proof -
  define c where "c = centi x"
  have c: "0 \<le> c" using centi_nonneg [OF assms(1)] by (simp add: c_def)
  have shape: "fmt_4_2f x = fmt_d (c div 100) @
      [CHR ''.'', digit_char (nat c div 10 mod 10), digit_char (nat c mod 10)]"
    using assms(1) c by (simp add: fmt_4_2f_unpadded fmt_d_def nat_div_distrib Let_def flip: c_def)
  show ?thesis unfolding shape c_def [symmetric]
    by (rule strtol0_fmt_d_app)
      (use assms(2) c in \<open>auto simp: LONG_MIN_def no_digit_next_point c_def
         intro: order_trans [of _ 0]\<close>)
qed

lemma fmt_4_2f_of_int: "fmt_4_2f (z, 0) = fmt_d z @ ''.00''"
  by (simp add: fmt_4_2f_unpadded fmt_d_def centi_def Let_def nat_mult_distrib nat_abs_mult_distrib
      digit_char_table)

lemma strtol0_fmt_4_2f_of_int:
  "LONG_MIN \<le> z \<Longrightarrow> z \<le> LONG_MAX \<Longrightarrow> strtol0 (fmt_4_2f (z, 0)) = z"
  unfolding fmt_4_2f_of_int by (rule strtol0_fmt_d_app) (simp_all add: no_digit_next_point)

end
