(* ===== verification/Port.thy ===== *)
theory Port
  imports C_Float Hex_Ascii
begin

text \<open>
  The data of \<^verbatim>\<open>include/pmd.h.in\<close> and the column struct of \<^verbatim>\<open>include/pm_dom.h\<close>: the columns a
  port publishes, the port itself and the macros that write the columns and note the change. A
  column is \<open>None\<close> for the NULL pointer. The columns \<open>connector\<close>, \<open>connector_status\<close> and
  \<open>cable_technology\<close> only ever point to constants of the generated header \<^verbatim>\<open>openswitch-idl.h\<close>,
  which is not part of the repository: they hold the constant's name. The macros take the field they
  write as its selector and its update function; the locales \<open>lens\<close>, \<open>column\<close>, \<open>text_column\<close> and
  \<open>dom_column\<close> state what every field of the structs promises to them.
\<close>

section \<open>Data of the configuration library that the ports refer to\<close>

record i2c_bit_op =
  op_id :: nat
  bit_mask :: "32 word"

record YamlPort =
  name :: string
  pluggable :: bool
  connector :: "string option"
  module_eeprom :: string
  sfpp_mod_present :: "i2c_bit_op option"
  sfpp_tx_disable :: "i2c_bit_op option"
  qsfpp_mod_present :: "i2c_bit_op option"
  qsfpp_reset :: "i2c_bit_op option"
  qsfp28p_mod_present :: "i2c_bit_op option"
  qsfp28p_reset :: "i2c_bit_op option"

section \<open>Constants of \<^verbatim>\<open>pmd.h\<close>\<close>

definition CONNECTOR_SFP_PLUS :: string where "CONNECTOR_SFP_PLUS = ''SFP_PLUS''"
definition CONNECTOR_QSFP_PLUS :: string where "CONNECTOR_QSFP_PLUS = ''QSFP_PLUS''"
definition CONNECTOR_QSFP28 :: string where "CONNECTOR_QSFP28 = ''QSFP28''"

definition MAX_SPLIT_COUNT :: nat where "MAX_SPLIT_COUNT = 4"

datatype module_type = MODULE_TYPE_SFP_PLUS | MODULE_TYPE_QSFP_PLUS | MODULE_TYPE_QSFP28

lemma connector_names_distinct [simp]:
  "CONNECTOR_SFP_PLUS \<noteq> CONNECTOR_QSFP_PLUS" "CONNECTOR_QSFP_PLUS \<noteq> CONNECTOR_SFP_PLUS"
  "CONNECTOR_SFP_PLUS \<noteq> CONNECTOR_QSFP28" "CONNECTOR_QSFP28 \<noteq> CONNECTOR_SFP_PLUS"
  "CONNECTOR_QSFP_PLUS \<noteq> CONNECTOR_QSFP28" "CONNECTOR_QSFP28 \<noteq> CONNECTOR_QSFP_PLUS"
  by (simp_all add: CONNECTOR_SFP_PLUS_def CONNECTOR_QSFP_PLUS_def CONNECTOR_QSFP28_def)

section \<open>The columns\<close>

datatype ovs_connector =
    CONNECTOR_ABSENT | CONNECTOR_UNKNOWN
  | CONNECTOR_SFP_DAC | CONNECTOR_SFP_SX | CONNECTOR_SFP_LX | CONNECTOR_SFP_CX
  | CONNECTOR_SFP_RJ45 | CONNECTOR_SFP_SR | CONNECTOR_SFP_LR | CONNECTOR_SFP_LRM
  | CONNECTOR_QSFP_LR4 | CONNECTOR_QSFP_SR4 | CONNECTOR_QSFP_CR4
  | CONNECTOR_QSFP28_SR4 | CONNECTOR_QSFP28_LR4 | CONNECTOR_QSFP28_CWDM4
  | CONNECTOR_QSFP28_PSM4 | CONNECTOR_QSFP28_CR4 | CONNECTOR_QSFP28_CLR4

datatype ovs_connector_status = CONNECTOR_STATUS_SUPPORTED | CONNECTOR_STATUS_UNRECOGNIZED

datatype ovs_cable_technology = CABLE_TECHNOLOGY_ACTIVE | CABLE_TECHNOLOGY_PASSIVE

record ovs_module_info =
  cable_length :: "string option"
  cable_technology :: "ovs_cable_technology option"
  connector :: "ovs_connector option"
  connector_status :: "ovs_connector_status option"
  supported_speeds :: "string option"
  max_speed :: "string option"
  power_mode :: "string option"
  vendor_name :: "string option"
  vendor_oui :: "string option"
  vendor_part_number :: "string option"
  vendor_revision :: "string option"
  vendor_serial_number :: "string option"
  a0 :: "string option"
  a0_uppers :: "string option"
  a2 :: "string option"

record ovs_module_dom_info =
  temperature :: "string option"
  vcc :: "string option"
  temperature_high_alarm :: "string option"
  temperature_low_alarm :: "string option"
  temperature_high_warning :: "string option"
  temperature_low_warning :: "string option"
  vcc_high_alarm :: "string option"
  vcc_low_alarm :: "string option"
  vcc_high_warning :: "string option"
  vcc_low_warning :: "string option"
  temperature_high_alarm_threshold :: "string option"
  temperature_low_alarm_threshold :: "string option"
  temperature_high_warning_threshold :: "string option"
  temperature_low_warning_threshold :: "string option"
  vcc_high_alarm_threshold :: "string option"
  vcc_low_alarm_threshold :: "string option"
  vcc_high_warning_threshold :: "string option"
  vcc_low_warning_threshold :: "string option"
  tx_bias :: "string option"
  rx_power :: "string option"
  tx_power :: "string option"
  tx_bias_high_alarm :: "string option"
  tx_bias_low_alarm :: "string option"
  tx_bias_high_warning :: "string option"
  tx_bias_low_warning :: "string option"
  tx_power_high_alarm :: "string option"
  tx_power_low_alarm :: "string option"
  tx_power_high_warning :: "string option"
  tx_power_low_warning :: "string option"
  rx_power_high_alarm :: "string option"
  rx_power_low_alarm :: "string option"
  rx_power_high_warning :: "string option"
  rx_power_low_warning :: "string option"
  tx_bias_high_alarm_threshold :: "string option"
  tx_bias_low_alarm_threshold :: "string option"
  tx_bias_high_warning_threshold :: "string option"
  tx_bias_low_warning_threshold :: "string option"
  tx_power_high_alarm_threshold :: "string option"
  tx_power_low_alarm_threshold :: "string option"
  tx_power_high_warning_threshold :: "string option"
  tx_power_low_warning_threshold :: "string option"
  rx_power_high_alarm_threshold :: "string option"
  rx_power_low_alarm_threshold :: "string option"
  rx_power_high_warning_threshold :: "string option"
  rx_power_low_warning_threshold :: "string option"
  tx1_bias :: "string option"
  tx2_bias :: "string option"
  tx3_bias :: "string option"
  tx4_bias :: "string option"
  rx1_power :: "string option"
  rx2_power :: "string option"
  rx3_power :: "string option"
  rx4_power :: "string option"
  tx1_bias_high_alarm :: "string option"
  tx1_bias_low_alarm :: "string option"
  tx1_bias_high_warning :: "string option"
  tx1_bias_low_warning :: "string option"
  tx2_bias_high_alarm :: "string option"
  tx2_bias_low_alarm :: "string option"
  tx2_bias_high_warning :: "string option"
  tx2_bias_low_warning :: "string option"
  tx3_bias_high_alarm :: "string option"
  tx3_bias_low_alarm :: "string option"
  tx3_bias_high_warning :: "string option"
  tx3_bias_low_warning :: "string option"
  tx4_bias_high_alarm :: "string option"
  tx4_bias_low_alarm :: "string option"
  tx4_bias_high_warning :: "string option"
  tx4_bias_low_warning :: "string option"
  rx1_power_high_alarm :: "string option"
  rx1_power_low_alarm :: "string option"
  rx1_power_high_warning :: "string option"
  rx1_power_low_warning :: "string option"
  rx2_power_high_alarm :: "string option"
  rx2_power_low_alarm :: "string option"
  rx2_power_high_warning :: "string option"
  rx2_power_low_warning :: "string option"
  rx3_power_high_alarm :: "string option"
  rx3_power_low_alarm :: "string option"
  rx3_power_high_warning :: "string option"
  rx3_power_low_warning :: "string option"
  rx4_power_high_alarm :: "string option"
  rx4_power_low_alarm :: "string option"
  rx4_power_high_warning :: "string option"
  rx4_power_low_warning :: "string option"
  tx1_bias_high_alarm_threshold :: "string option"
  tx1_bias_low_alarm_threshold :: "string option"
  tx1_bias_high_warning_threshold :: "string option"
  tx1_bias_low_warning_threshold :: "string option"
  tx2_bias_high_alarm_threshold :: "string option"
  tx2_bias_low_alarm_threshold :: "string option"
  tx2_bias_high_warning_threshold :: "string option"
  tx2_bias_low_warning_threshold :: "string option"
  tx3_bias_high_alarm_threshold :: "string option"
  tx3_bias_low_alarm_threshold :: "string option"
  tx3_bias_high_warning_threshold :: "string option"
  tx3_bias_low_warning_threshold :: "string option"
  tx4_bias_high_alarm_threshold :: "string option"
  tx4_bias_low_alarm_threshold :: "string option"
  tx4_bias_high_warning_threshold :: "string option"
  tx4_bias_low_warning_threshold :: "string option"
  rx1_power_high_alarm_threshold :: "string option"
  rx1_power_low_alarm_threshold :: "string option"
  rx1_power_high_warning_threshold :: "string option"
  rx1_power_low_warning_threshold :: "string option"
  rx2_power_high_alarm_threshold :: "string option"
  rx2_power_low_alarm_threshold :: "string option"
  rx2_power_high_warning_threshold :: "string option"
  rx2_power_low_warning_threshold :: "string option"
  rx3_power_high_alarm_threshold :: "string option"
  rx3_power_low_alarm_threshold :: "string option"
  rx3_power_high_warning_threshold :: "string option"
  rx3_power_low_warning_threshold :: "string option"
  rx4_power_high_alarm_threshold :: "string option"
  rx4_power_low_alarm_threshold :: "string option"
  rx4_power_high_warning_threshold :: "string option"
  rx4_power_low_warning_threshold :: "string option"

text \<open>The columns of a port that \<open>calloc\<close> has just made: every pointer is NULL.\<close>

definition zero_module_columns :: ovs_module_info where
  "zero_module_columns = \<lparr>
     ovs_module_info.cable_length = None, ovs_module_info.cable_technology = None,
     ovs_module_info.connector = None, ovs_module_info.connector_status = None,
     ovs_module_info.supported_speeds = None, ovs_module_info.max_speed = None,
     ovs_module_info.power_mode = None, ovs_module_info.vendor_name = None,
     ovs_module_info.vendor_oui = None, ovs_module_info.vendor_part_number = None,
     ovs_module_info.vendor_revision = None, ovs_module_info.vendor_serial_number = None,
     ovs_module_info.a0 = None, ovs_module_info.a0_uppers = None, ovs_module_info.a2 = None\<rparr>"

definition zero_module_dom_columns :: ovs_module_dom_info where
  "zero_module_dom_columns = \<lparr>
     temperature = None, vcc = None, temperature_high_alarm = None, temperature_low_alarm = None,
     temperature_high_warning = None, temperature_low_warning = None, vcc_high_alarm = None,
     vcc_low_alarm = None, vcc_high_warning = None, vcc_low_warning = None,
     temperature_high_alarm_threshold = None, temperature_low_alarm_threshold = None,
     temperature_high_warning_threshold = None, temperature_low_warning_threshold = None,
     vcc_high_alarm_threshold = None, vcc_low_alarm_threshold = None,
     vcc_high_warning_threshold = None, vcc_low_warning_threshold = None, tx_bias = None,
     rx_power = None, tx_power = None, tx_bias_high_alarm = None, tx_bias_low_alarm = None,
     tx_bias_high_warning = None, tx_bias_low_warning = None, tx_power_high_alarm = None,
     tx_power_low_alarm = None, tx_power_high_warning = None, tx_power_low_warning = None,
     rx_power_high_alarm = None, rx_power_low_alarm = None, rx_power_high_warning = None,
     rx_power_low_warning = None, tx_bias_high_alarm_threshold = None,
     tx_bias_low_alarm_threshold = None, tx_bias_high_warning_threshold = None,
     tx_bias_low_warning_threshold = None, tx_power_high_alarm_threshold = None,
     tx_power_low_alarm_threshold = None, tx_power_high_warning_threshold = None,
     tx_power_low_warning_threshold = None, rx_power_high_alarm_threshold = None,
     rx_power_low_alarm_threshold = None, rx_power_high_warning_threshold = None,
     rx_power_low_warning_threshold = None, tx1_bias = None, tx2_bias = None, tx3_bias = None,
     tx4_bias = None, rx1_power = None, rx2_power = None, rx3_power = None, rx4_power = None,
     tx1_bias_high_alarm = None, tx1_bias_low_alarm = None, tx1_bias_high_warning = None,
     tx1_bias_low_warning = None, tx2_bias_high_alarm = None, tx2_bias_low_alarm = None,
     tx2_bias_high_warning = None, tx2_bias_low_warning = None, tx3_bias_high_alarm = None,
     tx3_bias_low_alarm = None, tx3_bias_high_warning = None, tx3_bias_low_warning = None,
     tx4_bias_high_alarm = None, tx4_bias_low_alarm = None, tx4_bias_high_warning = None,
     tx4_bias_low_warning = None, rx1_power_high_alarm = None, rx1_power_low_alarm = None,
     rx1_power_high_warning = None, rx1_power_low_warning = None, rx2_power_high_alarm = None,
     rx2_power_low_alarm = None, rx2_power_high_warning = None, rx2_power_low_warning = None,
     rx3_power_high_alarm = None, rx3_power_low_alarm = None, rx3_power_high_warning = None,
     rx3_power_low_warning = None, rx4_power_high_alarm = None, rx4_power_low_alarm = None,
     rx4_power_high_warning = None, rx4_power_low_warning = None,
     tx1_bias_high_alarm_threshold = None, tx1_bias_low_alarm_threshold = None,
     tx1_bias_high_warning_threshold = None, tx1_bias_low_warning_threshold = None,
     tx2_bias_high_alarm_threshold = None, tx2_bias_low_alarm_threshold = None,
     tx2_bias_high_warning_threshold = None, tx2_bias_low_warning_threshold = None,
     tx3_bias_high_alarm_threshold = None, tx3_bias_low_alarm_threshold = None,
     tx3_bias_high_warning_threshold = None, tx3_bias_low_warning_threshold = None,
     tx4_bias_high_alarm_threshold = None, tx4_bias_low_alarm_threshold = None,
     tx4_bias_high_warning_threshold = None, tx4_bias_low_warning_threshold = None,
     rx1_power_high_alarm_threshold = None, rx1_power_low_alarm_threshold = None,
     rx1_power_high_warning_threshold = None, rx1_power_low_warning_threshold = None,
     rx2_power_high_alarm_threshold = None, rx2_power_low_alarm_threshold = None,
     rx2_power_high_warning_threshold = None, rx2_power_low_warning_threshold = None,
     rx3_power_high_alarm_threshold = None, rx3_power_low_alarm_threshold = None,
     rx3_power_high_warning_threshold = None, rx3_power_low_warning_threshold = None,
     rx4_power_high_alarm_threshold = None, rx4_power_low_alarm_threshold = None,
     rx4_power_high_warning_threshold = None, rx4_power_low_warning_threshold = None\<rparr>"

section \<open>The port\<close>

text \<open>
  \<open>instance\<close> is a reserved word of Isabelle: the field is \<open>port_instance\<close>. The fields that exist
  only in a simulation build are those of the extension \<open>pm_port_sim_t\<close>.
\<close>

record pm_port_t =
  port_instance :: string
  uuid :: "128 word"
  module_device :: YamlPort
  subsystem :: string
  ovs_module_columns :: ovs_module_info
  ovs_module_dom_columns :: ovs_module_dom_info
  module_info_changed :: bool
  hw_enable :: bool
  hw_enable_subport :: "bool list"
  present :: bool
  retry :: bool
  a2_read_requested :: bool
  split :: bool
  optical :: bool

record pm_port_sim_t = pm_port_t +
  module_data :: "byte list option"
  port_enable :: byte

section \<open>The macros\<close>

definition set_column ::
  "(('a \<Rightarrow> 'a) \<Rightarrow> ovs_module_info \<Rightarrow> ovs_module_info) \<Rightarrow> 'a \<Rightarrow>
   'z pm_port_t_scheme \<Rightarrow> 'z pm_port_t_scheme" where
  "set_column upd v port =
     port\<lparr>ovs_module_columns := upd (\<lambda>_. v) (ovs_module_columns port), module_info_changed := True\<rparr>"

definition set_dom_column ::
  "(('a \<Rightarrow> 'a) \<Rightarrow> ovs_module_dom_info \<Rightarrow> ovs_module_dom_info) \<Rightarrow> 'a \<Rightarrow>
   'z pm_port_t_scheme \<Rightarrow> 'z pm_port_t_scheme" where
  "set_dom_column upd v port =
     port\<lparr>ovs_module_dom_columns := upd (\<lambda>_. v) (ovs_module_dom_columns port),
          module_info_changed := True\<rparr>"

definition SET_STATIC_STRING where
  "SET_STATIC_STRING upd v port = set_column upd (Some v) port"

definition SET_STRING where
  "SET_STRING get upd v port =
     (if (case get (ovs_module_columns port) of
            None \<Rightarrow> True
          | Some s \<Rightarrow> length s \<noteq> length v \<or> s \<noteq> v)
      then set_column upd (Some v) port
      else port)"

definition SET_INT_STRING where
  "SET_INT_STRING get upd v port =
     (if (case get (ovs_module_columns port) of
            None \<Rightarrow> True
          | Some s \<Rightarrow> strtol0 s \<noteq> v)
      then set_column upd (Some (fmt_d v)) port
      else port)"

definition SET_FLOAT_STRING where
  "SET_FLOAT_STRING get upd v port =
     (if (case get (ovs_module_dom_columns port) of
            None \<Rightarrow> True
          | Some s \<Rightarrow> \<not> cf_eq (cf_of_int (strtol0 s)) v)
      then set_dom_column upd (Some (fmt_4_2f v)) port
      else port)"

definition SET_FLAG_STRING where
  "SET_FLAG_STRING get upd v port =
     (if (case get (ovs_module_dom_columns port) of
            None \<Rightarrow> True
          | Some s \<Rightarrow> length s \<noteq> length v \<or> s \<noteq> v)
      then set_dom_column upd (Some v) port
      else port)"

definition SET_BOOL_STRING where
  "SET_BOOL_STRING get upd b port =
     (if b then SET_FLAG_STRING get upd ''On'' port else SET_FLAG_STRING get upd ''Off'' port)"

definition SET_BINARY where
  "SET_BINARY upd bytes port = set_column upd (hex_to_ascii bytes) port"

definition DELETE where
  "DELETE get upd port =
     (if get (ovs_module_columns port) \<noteq> None then set_column upd None port else port)"

definition DELETE_FREE where
  "DELETE_FREE get upd port =
     (if get (ovs_module_columns port) \<noteq> None then set_column upd None port else port)"

lemmas macro_defs = SET_STATIC_STRING_def SET_STRING_def SET_INT_STRING_def SET_FLOAT_STRING_def
  SET_FLAG_STRING_def SET_BOOL_STRING_def SET_BINARY_def DELETE_def DELETE_FREE_def
  set_column_def set_dom_column_def

section \<open>What the macros leave alone\<close>

text \<open>
  The part of a port that only the configuration code writes: its identity, its device and its
  enable switches, and the simulation fields of a simulation build.
\<close>

definition port_config where
  "port_config port =
     (port_instance port, uuid port, module_device port, subsystem port, hw_enable port,
      hw_enable_subport port, split port, pm_port_t.more port)"

lemma port_config_updates [frame_simps]:
  "port_config (port\<lparr>ovs_module_columns := c\<rparr>) = port_config port"
  "port_config (port\<lparr>ovs_module_dom_columns := d\<rparr>) = port_config port"
  "port_config (port\<lparr>module_info_changed := b\<rparr>) = port_config port"
  "port_config (port\<lparr>present := b\<rparr>) = port_config port"
  "port_config (port\<lparr>retry := b\<rparr>) = port_config port"
  "port_config (port\<lparr>a2_read_requested := b\<rparr>) = port_config port"
  "port_config (port\<lparr>optical := b\<rparr>) = port_config port"
  by (simp_all add: port_config_def)

lemma port_config_eqD:
  assumes "port_config p = port_config q"
  shows "port_instance p = port_instance q" "uuid p = uuid q" "module_device p = module_device q"
    "subsystem p = subsystem q" "hw_enable p = hw_enable q" "hw_enable_subport p = hw_enable_subport q"
    "split p = split q" "pm_port_t.more p = pm_port_t.more q"
  using assms by (simp_all add: port_config_def)

lemma frame_SET_STATIC_STRING [frame_simps]:
  "port_config (SET_STATIC_STRING upd v port) = port_config port"
  "module_device (SET_STATIC_STRING upd v port) = module_device port"
  "present (SET_STATIC_STRING upd v port) = present port"
  "retry (SET_STATIC_STRING upd v port) = retry port"
  "a2_read_requested (SET_STATIC_STRING upd v port) = a2_read_requested port"
  "optical (SET_STATIC_STRING upd v port) = optical port"
  "ovs_module_dom_columns (SET_STATIC_STRING upd v port) = ovs_module_dom_columns port"
  by (simp_all add: macro_defs port_config_def)

lemma frame_SET_STRING [frame_simps]:
  "port_config (SET_STRING get upd v port) = port_config port"
  "module_device (SET_STRING get upd v port) = module_device port"
  "present (SET_STRING get upd v port) = present port"
  "retry (SET_STRING get upd v port) = retry port"
  "a2_read_requested (SET_STRING get upd v port) = a2_read_requested port"
  "optical (SET_STRING get upd v port) = optical port"
  "ovs_module_dom_columns (SET_STRING get upd v port) = ovs_module_dom_columns port"
  by (simp_all add: macro_defs port_config_def)

lemma frame_SET_INT_STRING [frame_simps]:
  "port_config (SET_INT_STRING get upd v port) = port_config port"
  "module_device (SET_INT_STRING get upd v port) = module_device port"
  "present (SET_INT_STRING get upd v port) = present port"
  "retry (SET_INT_STRING get upd v port) = retry port"
  "a2_read_requested (SET_INT_STRING get upd v port) = a2_read_requested port"
  "optical (SET_INT_STRING get upd v port) = optical port"
  "ovs_module_dom_columns (SET_INT_STRING get upd v port) = ovs_module_dom_columns port"
  by (simp_all add: macro_defs port_config_def)

lemma frame_SET_FLOAT_STRING [frame_simps]:
  "port_config (SET_FLOAT_STRING get upd v port) = port_config port"
  "module_device (SET_FLOAT_STRING get upd v port) = module_device port"
  "present (SET_FLOAT_STRING get upd v port) = present port"
  "retry (SET_FLOAT_STRING get upd v port) = retry port"
  "a2_read_requested (SET_FLOAT_STRING get upd v port) = a2_read_requested port"
  "optical (SET_FLOAT_STRING get upd v port) = optical port"
  "ovs_module_columns (SET_FLOAT_STRING get upd v port) = ovs_module_columns port"
  by (simp_all add: macro_defs port_config_def)

lemma frame_SET_FLAG_STRING [frame_simps]:
  "port_config (SET_FLAG_STRING get upd v port) = port_config port"
  "module_device (SET_FLAG_STRING get upd v port) = module_device port"
  "present (SET_FLAG_STRING get upd v port) = present port"
  "retry (SET_FLAG_STRING get upd v port) = retry port"
  "a2_read_requested (SET_FLAG_STRING get upd v port) = a2_read_requested port"
  "optical (SET_FLAG_STRING get upd v port) = optical port"
  "ovs_module_columns (SET_FLAG_STRING get upd v port) = ovs_module_columns port"
  by (simp_all add: macro_defs port_config_def)

lemma frame_SET_BOOL_STRING [frame_simps]:
  "port_config (SET_BOOL_STRING get upd v port) = port_config port"
  "module_device (SET_BOOL_STRING get upd v port) = module_device port"
  "present (SET_BOOL_STRING get upd v port) = present port"
  "retry (SET_BOOL_STRING get upd v port) = retry port"
  "a2_read_requested (SET_BOOL_STRING get upd v port) = a2_read_requested port"
  "optical (SET_BOOL_STRING get upd v port) = optical port"
  "ovs_module_columns (SET_BOOL_STRING get upd v port) = ovs_module_columns port"
  by (simp_all add: macro_defs port_config_def)

lemma frame_SET_BINARY [frame_simps]:
  "port_config (SET_BINARY upd v port) = port_config port"
  "module_device (SET_BINARY upd v port) = module_device port"
  "present (SET_BINARY upd v port) = present port"
  "retry (SET_BINARY upd v port) = retry port"
  "a2_read_requested (SET_BINARY upd v port) = a2_read_requested port"
  "optical (SET_BINARY upd v port) = optical port"
  "ovs_module_dom_columns (SET_BINARY upd v port) = ovs_module_dom_columns port"
  by (simp_all add: macro_defs port_config_def)

lemma frame_DELETE [frame_simps]:
  "port_config (DELETE get upd port) = port_config port"
  "module_device (DELETE get upd port) = module_device port"
  "present (DELETE get upd port) = present port"
  "retry (DELETE get upd port) = retry port"
  "a2_read_requested (DELETE get upd port) = a2_read_requested port"
  "optical (DELETE get upd port) = optical port"
  "ovs_module_dom_columns (DELETE get upd port) = ovs_module_dom_columns port"
  by (simp_all add: macro_defs port_config_def)

lemma frame_DELETE_FREE [frame_simps]:
  "port_config (DELETE_FREE get upd port) = port_config port"
  "module_device (DELETE_FREE get upd port) = module_device port"
  "present (DELETE_FREE get upd port) = present port"
  "retry (DELETE_FREE get upd port) = retry port"
  "a2_read_requested (DELETE_FREE get upd port) = a2_read_requested port"
  "optical (DELETE_FREE get upd port) = optical port"
  "ovs_module_dom_columns (DELETE_FREE get upd port) = ovs_module_dom_columns port"
  by (simp_all add: macro_defs port_config_def)

section \<open>What a field promises to the macros\<close>

locale lens =
  fixes get :: "'r \<Rightarrow> 'a" and upd :: "('a \<Rightarrow> 'a) \<Rightarrow> 'r \<Rightarrow> 'r"
  assumes get_upd: "get (upd f r) = f (get r)"
    and upd_get: "upd (\<lambda>_. get r) r = r"
    and upd_eq: "upd f r = upd (\<lambda>_. f (get r)) r"
begin

lemma upd_id: "f (get r) = get r \<Longrightarrow> upd f r = r"
  by (subst upd_eq) (simp add: upd_get)

lemma upd_cong: "f (get r) = g (get r) \<Longrightarrow> upd f r = upd g r"
  using upd_eq [of f r] upd_eq [of g r] by simp

end

text \<open>
  The columns of a port after each macro: an update of the one field, whether the macro found the
  field changed or not.
\<close>

locale column = lens get upd
  for get :: "ovs_module_info \<Rightarrow> 'a option" and upd
begin

lemma columns_SET_STATIC_STRING [column_simps]:
  "ovs_module_columns (SET_STATIC_STRING upd v port) = upd (\<lambda>_. Some v) (ovs_module_columns port)"
  by (simp add: macro_defs)

lemma columns_DELETE [column_simps]:
  "ovs_module_columns (DELETE get upd port) = upd (\<lambda>_. None) (ovs_module_columns port)"
  by (simp add: macro_defs upd_id)

lemma columns_DELETE_FREE [column_simps]:
  "ovs_module_columns (DELETE_FREE get upd port) = upd (\<lambda>_. None) (ovs_module_columns port)"
  by (simp add: macro_defs upd_id)

lemma changed_DELETE:
  "module_info_changed (DELETE get upd port) \<longleftrightarrow>
     module_info_changed port \<or> get (ovs_module_columns port) \<noteq> None"
  by (simp add: macro_defs)

lemma DELETE_idem: "DELETE get upd (DELETE get upd port) = DELETE get upd port"
  by (simp add: macro_defs get_upd)

end

definition int_text :: "string option \<Rightarrow> int \<Rightarrow> string" where
  "int_text old v = (case old of None \<Rightarrow> fmt_d v | Some s \<Rightarrow> if strtol0 s = v then s else fmt_d v)"

locale text_column = column get upd
  for get :: "ovs_module_info \<Rightarrow> string option" and upd
begin

lemma columns_SET_STRING [column_simps]:
  "ovs_module_columns (SET_STRING get upd v port) = upd (\<lambda>_. Some v) (ovs_module_columns port)"
  by (auto simp: macro_defs upd_id split: option.splits)

lemma columns_SET_INT_STRING [column_simps]:
  "ovs_module_columns (SET_INT_STRING get upd v port) =
     upd (\<lambda>old. Some (int_text old v)) (ovs_module_columns port)"
  by (auto simp: macro_defs upd_id int_text_def split: option.splits intro: upd_cong)

lemma columns_SET_BINARY [column_simps]:
  "ovs_module_columns (SET_BINARY upd v port) = upd (\<lambda>_. hex_to_ascii v) (ovs_module_columns port)"
  by (simp add: macro_defs)

lemma changed_SET_STRING:
  "module_info_changed (SET_STRING get upd v port) \<longleftrightarrow>
     module_info_changed port \<or> get (ovs_module_columns port) \<noteq> Some v"
  by (auto simp: macro_defs split: option.splits)

lemma SET_STRING_idem: "SET_STRING get upd v (SET_STRING get upd v port) = SET_STRING get upd v port"
  by (simp add: macro_defs get_upd split: option.splits)

text \<open>
  The change test of \<open>SET_INT_STRING\<close> reads the text back with \<open>strtol\<close>: setting the same number a
  second time is not a change.
\<close>

lemma SET_INT_STRING_idem:
  "LONG_MIN \<le> v \<Longrightarrow> v \<le> LONG_MAX \<Longrightarrow>
   SET_INT_STRING get upd v (SET_INT_STRING get upd v port) = SET_INT_STRING get upd v port"
  by (simp add: macro_defs get_upd strtol0_fmt_d split: option.splits)

end

definition float_text :: "string option \<Rightarrow> cfloat \<Rightarrow> string" where
  "float_text old v =
     (case old of
        None \<Rightarrow> fmt_4_2f v
      | Some s \<Rightarrow> if cf_eq (cf_of_int (strtol0 s)) v then s else fmt_4_2f v)"

definition flag_text :: "bool \<Rightarrow> string" where
  "flag_text b = (if b then ''On'' else ''Off'')"

locale dom_column = lens get upd
  for get :: "ovs_module_dom_info \<Rightarrow> string option" and upd
begin

lemma columns_SET_FLOAT_STRING [column_simps]:
  "ovs_module_dom_columns (SET_FLOAT_STRING get upd v port) =
     upd (\<lambda>old. Some (float_text old v)) (ovs_module_dom_columns port)"
  by (auto simp: macro_defs upd_id float_text_def split: option.splits intro: upd_cong)

lemma columns_SET_BOOL_STRING [column_simps]:
  "ovs_module_dom_columns (SET_BOOL_STRING get upd b port) =
     upd (\<lambda>_. Some (flag_text b)) (ovs_module_dom_columns port)"
  by (auto simp: macro_defs upd_id flag_text_def split: option.splits)

end

section \<open>Every column is a field\<close>

interpretation col_cable_length: text_column ovs_module_info.cable_length ovs_module_info.cable_length_update
  by unfold_locales simp_all

interpretation col_cable_technology: column ovs_module_info.cable_technology ovs_module_info.cable_technology_update
  by unfold_locales simp_all

interpretation col_connector: column ovs_module_info.connector ovs_module_info.connector_update
  by unfold_locales simp_all

interpretation col_connector_status: column ovs_module_info.connector_status ovs_module_info.connector_status_update
  by unfold_locales simp_all

interpretation col_supported_speeds: text_column ovs_module_info.supported_speeds ovs_module_info.supported_speeds_update
  by unfold_locales simp_all

interpretation col_max_speed: text_column ovs_module_info.max_speed ovs_module_info.max_speed_update
  by unfold_locales simp_all

interpretation col_power_mode: text_column ovs_module_info.power_mode ovs_module_info.power_mode_update
  by unfold_locales simp_all

interpretation col_vendor_name: text_column ovs_module_info.vendor_name ovs_module_info.vendor_name_update
  by unfold_locales simp_all

interpretation col_vendor_oui: text_column ovs_module_info.vendor_oui ovs_module_info.vendor_oui_update
  by unfold_locales simp_all

interpretation col_vendor_part_number: text_column ovs_module_info.vendor_part_number ovs_module_info.vendor_part_number_update
  by unfold_locales simp_all

interpretation col_vendor_revision: text_column ovs_module_info.vendor_revision ovs_module_info.vendor_revision_update
  by unfold_locales simp_all

interpretation col_vendor_serial_number: text_column ovs_module_info.vendor_serial_number ovs_module_info.vendor_serial_number_update
  by unfold_locales simp_all

interpretation col_a0: text_column ovs_module_info.a0 ovs_module_info.a0_update
  by unfold_locales simp_all

interpretation col_a0_uppers: text_column ovs_module_info.a0_uppers ovs_module_info.a0_uppers_update
  by unfold_locales simp_all

interpretation col_a2: text_column ovs_module_info.a2 ovs_module_info.a2_update
  by unfold_locales simp_all

interpretation dom_temperature: dom_column ovs_module_dom_info.temperature ovs_module_dom_info.temperature_update
  by unfold_locales simp_all

interpretation dom_vcc: dom_column ovs_module_dom_info.vcc ovs_module_dom_info.vcc_update
  by unfold_locales simp_all

interpretation dom_temperature_high_alarm: dom_column ovs_module_dom_info.temperature_high_alarm ovs_module_dom_info.temperature_high_alarm_update
  by unfold_locales simp_all

interpretation dom_temperature_low_alarm: dom_column ovs_module_dom_info.temperature_low_alarm ovs_module_dom_info.temperature_low_alarm_update
  by unfold_locales simp_all

interpretation dom_temperature_high_warning: dom_column ovs_module_dom_info.temperature_high_warning ovs_module_dom_info.temperature_high_warning_update
  by unfold_locales simp_all

interpretation dom_temperature_low_warning: dom_column ovs_module_dom_info.temperature_low_warning ovs_module_dom_info.temperature_low_warning_update
  by unfold_locales simp_all

interpretation dom_vcc_high_alarm: dom_column ovs_module_dom_info.vcc_high_alarm ovs_module_dom_info.vcc_high_alarm_update
  by unfold_locales simp_all

interpretation dom_vcc_low_alarm: dom_column ovs_module_dom_info.vcc_low_alarm ovs_module_dom_info.vcc_low_alarm_update
  by unfold_locales simp_all

interpretation dom_vcc_high_warning: dom_column ovs_module_dom_info.vcc_high_warning ovs_module_dom_info.vcc_high_warning_update
  by unfold_locales simp_all

interpretation dom_vcc_low_warning: dom_column ovs_module_dom_info.vcc_low_warning ovs_module_dom_info.vcc_low_warning_update
  by unfold_locales simp_all

interpretation dom_temperature_high_alarm_threshold: dom_column ovs_module_dom_info.temperature_high_alarm_threshold ovs_module_dom_info.temperature_high_alarm_threshold_update
  by unfold_locales simp_all

interpretation dom_temperature_low_alarm_threshold: dom_column ovs_module_dom_info.temperature_low_alarm_threshold ovs_module_dom_info.temperature_low_alarm_threshold_update
  by unfold_locales simp_all

interpretation dom_temperature_high_warning_threshold: dom_column ovs_module_dom_info.temperature_high_warning_threshold ovs_module_dom_info.temperature_high_warning_threshold_update
  by unfold_locales simp_all

interpretation dom_temperature_low_warning_threshold: dom_column ovs_module_dom_info.temperature_low_warning_threshold ovs_module_dom_info.temperature_low_warning_threshold_update
  by unfold_locales simp_all

interpretation dom_vcc_high_alarm_threshold: dom_column ovs_module_dom_info.vcc_high_alarm_threshold ovs_module_dom_info.vcc_high_alarm_threshold_update
  by unfold_locales simp_all

interpretation dom_vcc_low_alarm_threshold: dom_column ovs_module_dom_info.vcc_low_alarm_threshold ovs_module_dom_info.vcc_low_alarm_threshold_update
  by unfold_locales simp_all

interpretation dom_vcc_high_warning_threshold: dom_column ovs_module_dom_info.vcc_high_warning_threshold ovs_module_dom_info.vcc_high_warning_threshold_update
  by unfold_locales simp_all

interpretation dom_vcc_low_warning_threshold: dom_column ovs_module_dom_info.vcc_low_warning_threshold ovs_module_dom_info.vcc_low_warning_threshold_update
  by unfold_locales simp_all

interpretation dom_tx_bias: dom_column ovs_module_dom_info.tx_bias ovs_module_dom_info.tx_bias_update
  by unfold_locales simp_all

interpretation dom_rx_power: dom_column ovs_module_dom_info.rx_power ovs_module_dom_info.rx_power_update
  by unfold_locales simp_all

interpretation dom_tx_power: dom_column ovs_module_dom_info.tx_power ovs_module_dom_info.tx_power_update
  by unfold_locales simp_all

interpretation dom_tx_bias_high_alarm: dom_column ovs_module_dom_info.tx_bias_high_alarm ovs_module_dom_info.tx_bias_high_alarm_update
  by unfold_locales simp_all

interpretation dom_tx_bias_low_alarm: dom_column ovs_module_dom_info.tx_bias_low_alarm ovs_module_dom_info.tx_bias_low_alarm_update
  by unfold_locales simp_all

interpretation dom_tx_bias_high_warning: dom_column ovs_module_dom_info.tx_bias_high_warning ovs_module_dom_info.tx_bias_high_warning_update
  by unfold_locales simp_all

interpretation dom_tx_bias_low_warning: dom_column ovs_module_dom_info.tx_bias_low_warning ovs_module_dom_info.tx_bias_low_warning_update
  by unfold_locales simp_all

interpretation dom_tx_power_high_alarm: dom_column ovs_module_dom_info.tx_power_high_alarm ovs_module_dom_info.tx_power_high_alarm_update
  by unfold_locales simp_all

interpretation dom_tx_power_low_alarm: dom_column ovs_module_dom_info.tx_power_low_alarm ovs_module_dom_info.tx_power_low_alarm_update
  by unfold_locales simp_all

interpretation dom_tx_power_high_warning: dom_column ovs_module_dom_info.tx_power_high_warning ovs_module_dom_info.tx_power_high_warning_update
  by unfold_locales simp_all

interpretation dom_tx_power_low_warning: dom_column ovs_module_dom_info.tx_power_low_warning ovs_module_dom_info.tx_power_low_warning_update
  by unfold_locales simp_all

interpretation dom_rx_power_high_alarm: dom_column ovs_module_dom_info.rx_power_high_alarm ovs_module_dom_info.rx_power_high_alarm_update
  by unfold_locales simp_all

interpretation dom_rx_power_low_alarm: dom_column ovs_module_dom_info.rx_power_low_alarm ovs_module_dom_info.rx_power_low_alarm_update
  by unfold_locales simp_all

interpretation dom_rx_power_high_warning: dom_column ovs_module_dom_info.rx_power_high_warning ovs_module_dom_info.rx_power_high_warning_update
  by unfold_locales simp_all

interpretation dom_rx_power_low_warning: dom_column ovs_module_dom_info.rx_power_low_warning ovs_module_dom_info.rx_power_low_warning_update
  by unfold_locales simp_all

interpretation dom_tx_bias_high_alarm_threshold: dom_column ovs_module_dom_info.tx_bias_high_alarm_threshold ovs_module_dom_info.tx_bias_high_alarm_threshold_update
  by unfold_locales simp_all

interpretation dom_tx_bias_low_alarm_threshold: dom_column ovs_module_dom_info.tx_bias_low_alarm_threshold ovs_module_dom_info.tx_bias_low_alarm_threshold_update
  by unfold_locales simp_all

interpretation dom_tx_bias_high_warning_threshold: dom_column ovs_module_dom_info.tx_bias_high_warning_threshold ovs_module_dom_info.tx_bias_high_warning_threshold_update
  by unfold_locales simp_all

interpretation dom_tx_bias_low_warning_threshold: dom_column ovs_module_dom_info.tx_bias_low_warning_threshold ovs_module_dom_info.tx_bias_low_warning_threshold_update
  by unfold_locales simp_all

interpretation dom_tx_power_high_alarm_threshold: dom_column ovs_module_dom_info.tx_power_high_alarm_threshold ovs_module_dom_info.tx_power_high_alarm_threshold_update
  by unfold_locales simp_all

interpretation dom_tx_power_low_alarm_threshold: dom_column ovs_module_dom_info.tx_power_low_alarm_threshold ovs_module_dom_info.tx_power_low_alarm_threshold_update
  by unfold_locales simp_all

interpretation dom_tx_power_high_warning_threshold: dom_column ovs_module_dom_info.tx_power_high_warning_threshold ovs_module_dom_info.tx_power_high_warning_threshold_update
  by unfold_locales simp_all

interpretation dom_tx_power_low_warning_threshold: dom_column ovs_module_dom_info.tx_power_low_warning_threshold ovs_module_dom_info.tx_power_low_warning_threshold_update
  by unfold_locales simp_all

interpretation dom_rx_power_high_alarm_threshold: dom_column ovs_module_dom_info.rx_power_high_alarm_threshold ovs_module_dom_info.rx_power_high_alarm_threshold_update
  by unfold_locales simp_all

interpretation dom_rx_power_low_alarm_threshold: dom_column ovs_module_dom_info.rx_power_low_alarm_threshold ovs_module_dom_info.rx_power_low_alarm_threshold_update
  by unfold_locales simp_all

interpretation dom_rx_power_high_warning_threshold: dom_column ovs_module_dom_info.rx_power_high_warning_threshold ovs_module_dom_info.rx_power_high_warning_threshold_update
  by unfold_locales simp_all

interpretation dom_rx_power_low_warning_threshold: dom_column ovs_module_dom_info.rx_power_low_warning_threshold ovs_module_dom_info.rx_power_low_warning_threshold_update
  by unfold_locales simp_all

interpretation dom_tx1_bias: dom_column ovs_module_dom_info.tx1_bias ovs_module_dom_info.tx1_bias_update
  by unfold_locales simp_all

interpretation dom_tx2_bias: dom_column ovs_module_dom_info.tx2_bias ovs_module_dom_info.tx2_bias_update
  by unfold_locales simp_all

interpretation dom_tx3_bias: dom_column ovs_module_dom_info.tx3_bias ovs_module_dom_info.tx3_bias_update
  by unfold_locales simp_all

interpretation dom_tx4_bias: dom_column ovs_module_dom_info.tx4_bias ovs_module_dom_info.tx4_bias_update
  by unfold_locales simp_all

interpretation dom_rx1_power: dom_column ovs_module_dom_info.rx1_power ovs_module_dom_info.rx1_power_update
  by unfold_locales simp_all

interpretation dom_rx2_power: dom_column ovs_module_dom_info.rx2_power ovs_module_dom_info.rx2_power_update
  by unfold_locales simp_all

interpretation dom_rx3_power: dom_column ovs_module_dom_info.rx3_power ovs_module_dom_info.rx3_power_update
  by unfold_locales simp_all

interpretation dom_rx4_power: dom_column ovs_module_dom_info.rx4_power ovs_module_dom_info.rx4_power_update
  by unfold_locales simp_all

interpretation dom_tx1_bias_high_alarm: dom_column ovs_module_dom_info.tx1_bias_high_alarm ovs_module_dom_info.tx1_bias_high_alarm_update
  by unfold_locales simp_all

interpretation dom_tx1_bias_low_alarm: dom_column ovs_module_dom_info.tx1_bias_low_alarm ovs_module_dom_info.tx1_bias_low_alarm_update
  by unfold_locales simp_all

interpretation dom_tx1_bias_high_warning: dom_column ovs_module_dom_info.tx1_bias_high_warning ovs_module_dom_info.tx1_bias_high_warning_update
  by unfold_locales simp_all

interpretation dom_tx1_bias_low_warning: dom_column ovs_module_dom_info.tx1_bias_low_warning ovs_module_dom_info.tx1_bias_low_warning_update
  by unfold_locales simp_all

interpretation dom_tx2_bias_high_alarm: dom_column ovs_module_dom_info.tx2_bias_high_alarm ovs_module_dom_info.tx2_bias_high_alarm_update
  by unfold_locales simp_all

interpretation dom_tx2_bias_low_alarm: dom_column ovs_module_dom_info.tx2_bias_low_alarm ovs_module_dom_info.tx2_bias_low_alarm_update
  by unfold_locales simp_all

interpretation dom_tx2_bias_high_warning: dom_column ovs_module_dom_info.tx2_bias_high_warning ovs_module_dom_info.tx2_bias_high_warning_update
  by unfold_locales simp_all

interpretation dom_tx2_bias_low_warning: dom_column ovs_module_dom_info.tx2_bias_low_warning ovs_module_dom_info.tx2_bias_low_warning_update
  by unfold_locales simp_all

interpretation dom_tx3_bias_high_alarm: dom_column ovs_module_dom_info.tx3_bias_high_alarm ovs_module_dom_info.tx3_bias_high_alarm_update
  by unfold_locales simp_all

interpretation dom_tx3_bias_low_alarm: dom_column ovs_module_dom_info.tx3_bias_low_alarm ovs_module_dom_info.tx3_bias_low_alarm_update
  by unfold_locales simp_all

interpretation dom_tx3_bias_high_warning: dom_column ovs_module_dom_info.tx3_bias_high_warning ovs_module_dom_info.tx3_bias_high_warning_update
  by unfold_locales simp_all

interpretation dom_tx3_bias_low_warning: dom_column ovs_module_dom_info.tx3_bias_low_warning ovs_module_dom_info.tx3_bias_low_warning_update
  by unfold_locales simp_all

interpretation dom_tx4_bias_high_alarm: dom_column ovs_module_dom_info.tx4_bias_high_alarm ovs_module_dom_info.tx4_bias_high_alarm_update
  by unfold_locales simp_all

interpretation dom_tx4_bias_low_alarm: dom_column ovs_module_dom_info.tx4_bias_low_alarm ovs_module_dom_info.tx4_bias_low_alarm_update
  by unfold_locales simp_all

interpretation dom_tx4_bias_high_warning: dom_column ovs_module_dom_info.tx4_bias_high_warning ovs_module_dom_info.tx4_bias_high_warning_update
  by unfold_locales simp_all

interpretation dom_tx4_bias_low_warning: dom_column ovs_module_dom_info.tx4_bias_low_warning ovs_module_dom_info.tx4_bias_low_warning_update
  by unfold_locales simp_all

interpretation dom_rx1_power_high_alarm: dom_column ovs_module_dom_info.rx1_power_high_alarm ovs_module_dom_info.rx1_power_high_alarm_update
  by unfold_locales simp_all

interpretation dom_rx1_power_low_alarm: dom_column ovs_module_dom_info.rx1_power_low_alarm ovs_module_dom_info.rx1_power_low_alarm_update
  by unfold_locales simp_all

interpretation dom_rx1_power_high_warning: dom_column ovs_module_dom_info.rx1_power_high_warning ovs_module_dom_info.rx1_power_high_warning_update
  by unfold_locales simp_all

interpretation dom_rx1_power_low_warning: dom_column ovs_module_dom_info.rx1_power_low_warning ovs_module_dom_info.rx1_power_low_warning_update
  by unfold_locales simp_all

interpretation dom_rx2_power_high_alarm: dom_column ovs_module_dom_info.rx2_power_high_alarm ovs_module_dom_info.rx2_power_high_alarm_update
  by unfold_locales simp_all

interpretation dom_rx2_power_low_alarm: dom_column ovs_module_dom_info.rx2_power_low_alarm ovs_module_dom_info.rx2_power_low_alarm_update
  by unfold_locales simp_all

interpretation dom_rx2_power_high_warning: dom_column ovs_module_dom_info.rx2_power_high_warning ovs_module_dom_info.rx2_power_high_warning_update
  by unfold_locales simp_all

interpretation dom_rx2_power_low_warning: dom_column ovs_module_dom_info.rx2_power_low_warning ovs_module_dom_info.rx2_power_low_warning_update
  by unfold_locales simp_all

interpretation dom_rx3_power_high_alarm: dom_column ovs_module_dom_info.rx3_power_high_alarm ovs_module_dom_info.rx3_power_high_alarm_update
  by unfold_locales simp_all

interpretation dom_rx3_power_low_alarm: dom_column ovs_module_dom_info.rx3_power_low_alarm ovs_module_dom_info.rx3_power_low_alarm_update
  by unfold_locales simp_all

interpretation dom_rx3_power_high_warning: dom_column ovs_module_dom_info.rx3_power_high_warning ovs_module_dom_info.rx3_power_high_warning_update
  by unfold_locales simp_all

interpretation dom_rx3_power_low_warning: dom_column ovs_module_dom_info.rx3_power_low_warning ovs_module_dom_info.rx3_power_low_warning_update
  by unfold_locales simp_all

interpretation dom_rx4_power_high_alarm: dom_column ovs_module_dom_info.rx4_power_high_alarm ovs_module_dom_info.rx4_power_high_alarm_update
  by unfold_locales simp_all

interpretation dom_rx4_power_low_alarm: dom_column ovs_module_dom_info.rx4_power_low_alarm ovs_module_dom_info.rx4_power_low_alarm_update
  by unfold_locales simp_all

interpretation dom_rx4_power_high_warning: dom_column ovs_module_dom_info.rx4_power_high_warning ovs_module_dom_info.rx4_power_high_warning_update
  by unfold_locales simp_all

interpretation dom_rx4_power_low_warning: dom_column ovs_module_dom_info.rx4_power_low_warning ovs_module_dom_info.rx4_power_low_warning_update
  by unfold_locales simp_all

interpretation dom_tx1_bias_high_alarm_threshold: dom_column ovs_module_dom_info.tx1_bias_high_alarm_threshold ovs_module_dom_info.tx1_bias_high_alarm_threshold_update
  by unfold_locales simp_all

interpretation dom_tx1_bias_low_alarm_threshold: dom_column ovs_module_dom_info.tx1_bias_low_alarm_threshold ovs_module_dom_info.tx1_bias_low_alarm_threshold_update
  by unfold_locales simp_all

interpretation dom_tx1_bias_high_warning_threshold: dom_column ovs_module_dom_info.tx1_bias_high_warning_threshold ovs_module_dom_info.tx1_bias_high_warning_threshold_update
  by unfold_locales simp_all

interpretation dom_tx1_bias_low_warning_threshold: dom_column ovs_module_dom_info.tx1_bias_low_warning_threshold ovs_module_dom_info.tx1_bias_low_warning_threshold_update
  by unfold_locales simp_all

interpretation dom_tx2_bias_high_alarm_threshold: dom_column ovs_module_dom_info.tx2_bias_high_alarm_threshold ovs_module_dom_info.tx2_bias_high_alarm_threshold_update
  by unfold_locales simp_all

interpretation dom_tx2_bias_low_alarm_threshold: dom_column ovs_module_dom_info.tx2_bias_low_alarm_threshold ovs_module_dom_info.tx2_bias_low_alarm_threshold_update
  by unfold_locales simp_all

interpretation dom_tx2_bias_high_warning_threshold: dom_column ovs_module_dom_info.tx2_bias_high_warning_threshold ovs_module_dom_info.tx2_bias_high_warning_threshold_update
  by unfold_locales simp_all

interpretation dom_tx2_bias_low_warning_threshold: dom_column ovs_module_dom_info.tx2_bias_low_warning_threshold ovs_module_dom_info.tx2_bias_low_warning_threshold_update
  by unfold_locales simp_all

interpretation dom_tx3_bias_high_alarm_threshold: dom_column ovs_module_dom_info.tx3_bias_high_alarm_threshold ovs_module_dom_info.tx3_bias_high_alarm_threshold_update
  by unfold_locales simp_all

interpretation dom_tx3_bias_low_alarm_threshold: dom_column ovs_module_dom_info.tx3_bias_low_alarm_threshold ovs_module_dom_info.tx3_bias_low_alarm_threshold_update
  by unfold_locales simp_all

interpretation dom_tx3_bias_high_warning_threshold: dom_column ovs_module_dom_info.tx3_bias_high_warning_threshold ovs_module_dom_info.tx3_bias_high_warning_threshold_update
  by unfold_locales simp_all

interpretation dom_tx3_bias_low_warning_threshold: dom_column ovs_module_dom_info.tx3_bias_low_warning_threshold ovs_module_dom_info.tx3_bias_low_warning_threshold_update
  by unfold_locales simp_all

interpretation dom_tx4_bias_high_alarm_threshold: dom_column ovs_module_dom_info.tx4_bias_high_alarm_threshold ovs_module_dom_info.tx4_bias_high_alarm_threshold_update
  by unfold_locales simp_all

interpretation dom_tx4_bias_low_alarm_threshold: dom_column ovs_module_dom_info.tx4_bias_low_alarm_threshold ovs_module_dom_info.tx4_bias_low_alarm_threshold_update
  by unfold_locales simp_all

interpretation dom_tx4_bias_high_warning_threshold: dom_column ovs_module_dom_info.tx4_bias_high_warning_threshold ovs_module_dom_info.tx4_bias_high_warning_threshold_update
  by unfold_locales simp_all

interpretation dom_tx4_bias_low_warning_threshold: dom_column ovs_module_dom_info.tx4_bias_low_warning_threshold ovs_module_dom_info.tx4_bias_low_warning_threshold_update
  by unfold_locales simp_all

interpretation dom_rx1_power_high_alarm_threshold: dom_column ovs_module_dom_info.rx1_power_high_alarm_threshold ovs_module_dom_info.rx1_power_high_alarm_threshold_update
  by unfold_locales simp_all

interpretation dom_rx1_power_low_alarm_threshold: dom_column ovs_module_dom_info.rx1_power_low_alarm_threshold ovs_module_dom_info.rx1_power_low_alarm_threshold_update
  by unfold_locales simp_all

interpretation dom_rx1_power_high_warning_threshold: dom_column ovs_module_dom_info.rx1_power_high_warning_threshold ovs_module_dom_info.rx1_power_high_warning_threshold_update
  by unfold_locales simp_all

interpretation dom_rx1_power_low_warning_threshold: dom_column ovs_module_dom_info.rx1_power_low_warning_threshold ovs_module_dom_info.rx1_power_low_warning_threshold_update
  by unfold_locales simp_all

interpretation dom_rx2_power_high_alarm_threshold: dom_column ovs_module_dom_info.rx2_power_high_alarm_threshold ovs_module_dom_info.rx2_power_high_alarm_threshold_update
  by unfold_locales simp_all

interpretation dom_rx2_power_low_alarm_threshold: dom_column ovs_module_dom_info.rx2_power_low_alarm_threshold ovs_module_dom_info.rx2_power_low_alarm_threshold_update
  by unfold_locales simp_all

interpretation dom_rx2_power_high_warning_threshold: dom_column ovs_module_dom_info.rx2_power_high_warning_threshold ovs_module_dom_info.rx2_power_high_warning_threshold_update
  by unfold_locales simp_all

interpretation dom_rx2_power_low_warning_threshold: dom_column ovs_module_dom_info.rx2_power_low_warning_threshold ovs_module_dom_info.rx2_power_low_warning_threshold_update
  by unfold_locales simp_all

interpretation dom_rx3_power_high_alarm_threshold: dom_column ovs_module_dom_info.rx3_power_high_alarm_threshold ovs_module_dom_info.rx3_power_high_alarm_threshold_update
  by unfold_locales simp_all

interpretation dom_rx3_power_low_alarm_threshold: dom_column ovs_module_dom_info.rx3_power_low_alarm_threshold ovs_module_dom_info.rx3_power_low_alarm_threshold_update
  by unfold_locales simp_all

interpretation dom_rx3_power_high_warning_threshold: dom_column ovs_module_dom_info.rx3_power_high_warning_threshold ovs_module_dom_info.rx3_power_high_warning_threshold_update
  by unfold_locales simp_all

interpretation dom_rx3_power_low_warning_threshold: dom_column ovs_module_dom_info.rx3_power_low_warning_threshold ovs_module_dom_info.rx3_power_low_warning_threshold_update
  by unfold_locales simp_all

interpretation dom_rx4_power_high_alarm_threshold: dom_column ovs_module_dom_info.rx4_power_high_alarm_threshold ovs_module_dom_info.rx4_power_high_alarm_threshold_update
  by unfold_locales simp_all

interpretation dom_rx4_power_low_alarm_threshold: dom_column ovs_module_dom_info.rx4_power_low_alarm_threshold ovs_module_dom_info.rx4_power_low_alarm_threshold_update
  by unfold_locales simp_all

interpretation dom_rx4_power_high_warning_threshold: dom_column ovs_module_dom_info.rx4_power_high_warning_threshold ovs_module_dom_info.rx4_power_high_warning_threshold_update
  by unfold_locales simp_all

interpretation dom_rx4_power_low_warning_threshold: dom_column ovs_module_dom_info.rx4_power_low_warning_threshold ovs_module_dom_info.rx4_power_low_warning_threshold_update
  by unfold_locales simp_all

end
