(* ===== verification/Sfp_Layout.thy ===== *)
theory Sfp_Layout
  imports Pmd_Prelude
begin

text \<open>
  The structs of \<^verbatim>\<open>include/plug.h\<close> that describe the 128-byte serial id page of an SFP+
  module, with their memory layout. A 1-bit field is a \<open>bool\<close>, a wider bit-field a word of its
  width, \<open>unsigned char\<close> a byte, an array a byte list, \<open>unsigned short\<close> a 16-bit word stored
  little endian. Bit-fields are allocated from the least significant bit of a byte, as the x86-64
  ABI the daemon is built for does. No struct has padding: the only field with an alignment above
  one, \<open>laser_wavelength\<close>, stands at an even offset. Every struct type gets the functions that read
  and store it and the proof that they are inverse to each other on exactly its \<open>sizeof\<close> bytes.
\<close>

subsection \<open>\<^verbatim>\<open>pm_date_code_t\<close>\<close>

record pm_date_code_t =
  year :: "byte list"
  month :: "byte list"
  day :: "byte list"
  lot_code :: "byte list"

definition date_code_of_bytes :: "byte list \<Rightarrow> pm_date_code_t" where
  "date_code_of_bytes bs = \<lparr>
     pm_date_code_t.year = bytes_at 0 2 bs, pm_date_code_t.month = bytes_at 2 2 bs,
     pm_date_code_t.day = bytes_at 4 2 bs, pm_date_code_t.lot_code = bytes_at 6 2 bs\<rparr>"

definition bytes_of_date_code :: "pm_date_code_t \<Rightarrow> byte list" where
  "bytes_of_date_code r =
     pm_date_code_t.year r @
     pm_date_code_t.month r @
     pm_date_code_t.day r @
     pm_date_code_t.lot_code r"

definition wf_date_code :: "pm_date_code_t \<Rightarrow> bool" where
  "wf_date_code r \<longleftrightarrow> length (pm_date_code_t.year r) = 2 \<and>
     length (pm_date_code_t.month r) = 2 \<and>
     length (pm_date_code_t.day r) = 2 \<and>
     length (pm_date_code_t.lot_code r) = 2"

interpretation date_code: struct_layout date_code_of_bytes bytes_of_date_code 8 wf_date_code
  by unfold_locales
    (simp_all add: date_code_of_bytes_def bytes_of_date_code_def wf_date_code_def layout glue unglue)

lemmas [layout] = date_code.length_enc date_code.dec_enc date_code.enc_dec date_code.wf_dec

subsection \<open>\<^verbatim>\<open>pm_sfp_serial_id_transceiver_t\<close>\<close>

record pm_sfp_serial_id_transceiver_t =
  ib_1x_copper_passive :: bool
  ib_1x_copper_active :: bool
  ib_1x_lx :: bool
  ib_1x_sx :: bool
  enet_10gbase_sr :: bool
  enet_10gbase_lr :: bool
  enet_10gbase_lrm :: bool
  enet_10gbase_er :: bool
  oc_48_short :: bool
  oc_48_intermediate :: bool
  oc_48_long :: bool
  sonet_reach_specifier :: "2 word"
  oc_192 :: bool
  escon_smf_1310nm_laser :: bool
  escon_mmf_1310nm_led :: bool
  oc_3_multi_short :: bool
  oc_3_single_intermdiate :: bool
  oc_3_single_long :: bool
  reserved_4 :: bool
  oc_12_multi_short :: bool
  oc_12_single_intermdiate :: bool
  oc_12_single_long :: bool
  reserved_3 :: bool
  enet_1000base_sx :: bool
  enet_1000base_lx :: bool
  enet_1000base_cx :: bool
  enet_1000base_t :: bool
  enet_100base_lx_lx10 :: bool
  enet_100base_fx :: bool
  enet_base_bx10 :: bool
  enet_base_px :: bool
  fc_electrical_inter_enclosure :: bool
  fc_longwave_laser_lc :: bool
  fc_shortwave_laser_linear_rx :: bool
  fc_length_medium :: bool
  fc_length_long :: bool
  fc_length_intermediate :: bool
  fc_length_short :: bool
  fc_length_very_long :: bool
  reserved_7 :: bool
  reserved_7_1 :: bool
  cable_technology_passive :: bool
  cable_technology_active :: bool
  fc_longwave_laser_ll :: bool
  fc_shortwave_laser_ofc :: bool
  fc_shortwave_laser :: bool
  fc_electrical_intra_enclosure :: bool
  fc_media_single_mode :: bool
  reserved_8 :: bool
  fc_media_multi_mode_5000cm :: bool
  fc_media_multi_mode_6250cm :: bool
  fc_media_video_coax :: bool
  fc_media_miniature_coax :: bool
  fc_media_shielded_twisted_pair :: bool
  fc_media_twin_axial_pair :: bool
  fc_speed_100 :: bool
  reserved_11 :: bool
  fc_speed_200 :: bool
  fc_speed_3200 :: bool
  fc_speed_400 :: bool
  fc_speed_1600 :: bool
  fc_speed_800 :: bool
  fc_speed_1200 :: bool

definition sfp_serial_id_transceiver_of_bytes :: "byte list \<Rightarrow> pm_sfp_serial_id_transceiver_t" where
  "sfp_serial_id_transceiver_of_bytes bs = \<lparr>
     pm_sfp_serial_id_transceiver_t.ib_1x_copper_passive = bit (bs ! 0) 0,
     pm_sfp_serial_id_transceiver_t.ib_1x_copper_active = bit (bs ! 0) 1,
     pm_sfp_serial_id_transceiver_t.ib_1x_lx = bit (bs ! 0) 2,
     pm_sfp_serial_id_transceiver_t.ib_1x_sx = bit (bs ! 0) 3,
     pm_sfp_serial_id_transceiver_t.enet_10gbase_sr = bit (bs ! 0) 4,
     pm_sfp_serial_id_transceiver_t.enet_10gbase_lr = bit (bs ! 0) 5,
     pm_sfp_serial_id_transceiver_t.enet_10gbase_lrm = bit (bs ! 0) 6,
     pm_sfp_serial_id_transceiver_t.enet_10gbase_er = bit (bs ! 0) 7,
     pm_sfp_serial_id_transceiver_t.oc_48_short = bit (bs ! 1) 0,
     pm_sfp_serial_id_transceiver_t.oc_48_intermediate = bit (bs ! 1) 1,
     pm_sfp_serial_id_transceiver_t.oc_48_long = bit (bs ! 1) 2,
     pm_sfp_serial_id_transceiver_t.sonet_reach_specifier = bits2 (bit (bs ! 1) 3) (bit (bs ! 1) 4),
     pm_sfp_serial_id_transceiver_t.oc_192 = bit (bs ! 1) 5,
     pm_sfp_serial_id_transceiver_t.escon_smf_1310nm_laser = bit (bs ! 1) 6,
     pm_sfp_serial_id_transceiver_t.escon_mmf_1310nm_led = bit (bs ! 1) 7,
     pm_sfp_serial_id_transceiver_t.oc_3_multi_short = bit (bs ! 2) 0,
     pm_sfp_serial_id_transceiver_t.oc_3_single_intermdiate = bit (bs ! 2) 1,
     pm_sfp_serial_id_transceiver_t.oc_3_single_long = bit (bs ! 2) 2,
     pm_sfp_serial_id_transceiver_t.reserved_4 = bit (bs ! 2) 3,
     pm_sfp_serial_id_transceiver_t.oc_12_multi_short = bit (bs ! 2) 4,
     pm_sfp_serial_id_transceiver_t.oc_12_single_intermdiate = bit (bs ! 2) 5,
     pm_sfp_serial_id_transceiver_t.oc_12_single_long = bit (bs ! 2) 6,
     pm_sfp_serial_id_transceiver_t.reserved_3 = bit (bs ! 2) 7,
     pm_sfp_serial_id_transceiver_t.enet_1000base_sx = bit (bs ! 3) 0,
     pm_sfp_serial_id_transceiver_t.enet_1000base_lx = bit (bs ! 3) 1,
     pm_sfp_serial_id_transceiver_t.enet_1000base_cx = bit (bs ! 3) 2,
     pm_sfp_serial_id_transceiver_t.enet_1000base_t = bit (bs ! 3) 3,
     pm_sfp_serial_id_transceiver_t.enet_100base_lx_lx10 = bit (bs ! 3) 4,
     pm_sfp_serial_id_transceiver_t.enet_100base_fx = bit (bs ! 3) 5,
     pm_sfp_serial_id_transceiver_t.enet_base_bx10 = bit (bs ! 3) 6,
     pm_sfp_serial_id_transceiver_t.enet_base_px = bit (bs ! 3) 7,
     pm_sfp_serial_id_transceiver_t.fc_electrical_inter_enclosure = bit (bs ! 4) 0,
     pm_sfp_serial_id_transceiver_t.fc_longwave_laser_lc = bit (bs ! 4) 1,
     pm_sfp_serial_id_transceiver_t.fc_shortwave_laser_linear_rx = bit (bs ! 4) 2,
     pm_sfp_serial_id_transceiver_t.fc_length_medium = bit (bs ! 4) 3,
     pm_sfp_serial_id_transceiver_t.fc_length_long = bit (bs ! 4) 4,
     pm_sfp_serial_id_transceiver_t.fc_length_intermediate = bit (bs ! 4) 5,
     pm_sfp_serial_id_transceiver_t.fc_length_short = bit (bs ! 4) 6,
     pm_sfp_serial_id_transceiver_t.fc_length_very_long = bit (bs ! 4) 7,
     pm_sfp_serial_id_transceiver_t.reserved_7 = bit (bs ! 5) 0,
     pm_sfp_serial_id_transceiver_t.reserved_7_1 = bit (bs ! 5) 1,
     pm_sfp_serial_id_transceiver_t.cable_technology_passive = bit (bs ! 5) 2,
     pm_sfp_serial_id_transceiver_t.cable_technology_active = bit (bs ! 5) 3,
     pm_sfp_serial_id_transceiver_t.fc_longwave_laser_ll = bit (bs ! 5) 4,
     pm_sfp_serial_id_transceiver_t.fc_shortwave_laser_ofc = bit (bs ! 5) 5,
     pm_sfp_serial_id_transceiver_t.fc_shortwave_laser = bit (bs ! 5) 6,
     pm_sfp_serial_id_transceiver_t.fc_electrical_intra_enclosure = bit (bs ! 5) 7,
     pm_sfp_serial_id_transceiver_t.fc_media_single_mode = bit (bs ! 6) 0,
     pm_sfp_serial_id_transceiver_t.reserved_8 = bit (bs ! 6) 1,
     pm_sfp_serial_id_transceiver_t.fc_media_multi_mode_5000cm = bit (bs ! 6) 2,
     pm_sfp_serial_id_transceiver_t.fc_media_multi_mode_6250cm = bit (bs ! 6) 3,
     pm_sfp_serial_id_transceiver_t.fc_media_video_coax = bit (bs ! 6) 4,
     pm_sfp_serial_id_transceiver_t.fc_media_miniature_coax = bit (bs ! 6) 5,
     pm_sfp_serial_id_transceiver_t.fc_media_shielded_twisted_pair = bit (bs ! 6) 6,
     pm_sfp_serial_id_transceiver_t.fc_media_twin_axial_pair = bit (bs ! 6) 7,
     pm_sfp_serial_id_transceiver_t.fc_speed_100 = bit (bs ! 7) 0,
     pm_sfp_serial_id_transceiver_t.reserved_11 = bit (bs ! 7) 1,
     pm_sfp_serial_id_transceiver_t.fc_speed_200 = bit (bs ! 7) 2,
     pm_sfp_serial_id_transceiver_t.fc_speed_3200 = bit (bs ! 7) 3,
     pm_sfp_serial_id_transceiver_t.fc_speed_400 = bit (bs ! 7) 4,
     pm_sfp_serial_id_transceiver_t.fc_speed_1600 = bit (bs ! 7) 5,
     pm_sfp_serial_id_transceiver_t.fc_speed_800 = bit (bs ! 7) 6,
     pm_sfp_serial_id_transceiver_t.fc_speed_1200 = bit (bs ! 7) 7\<rparr>"

definition bytes_of_sfp_serial_id_transceiver :: "pm_sfp_serial_id_transceiver_t \<Rightarrow> byte list" where
  "bytes_of_sfp_serial_id_transceiver r =
     [byte_of_bits [pm_sfp_serial_id_transceiver_t.ib_1x_copper_passive r, 
      pm_sfp_serial_id_transceiver_t.ib_1x_copper_active r, 
      pm_sfp_serial_id_transceiver_t.ib_1x_lx r, 
      pm_sfp_serial_id_transceiver_t.ib_1x_sx r, 
      pm_sfp_serial_id_transceiver_t.enet_10gbase_sr r, 
      pm_sfp_serial_id_transceiver_t.enet_10gbase_lr r, 
      pm_sfp_serial_id_transceiver_t.enet_10gbase_lrm r, 
      pm_sfp_serial_id_transceiver_t.enet_10gbase_er r], 
      byte_of_bits [pm_sfp_serial_id_transceiver_t.oc_48_short r, 
      pm_sfp_serial_id_transceiver_t.oc_48_intermediate r, 
      pm_sfp_serial_id_transceiver_t.oc_48_long r, 
      bit (pm_sfp_serial_id_transceiver_t.sonet_reach_specifier r) 0, 
      bit (pm_sfp_serial_id_transceiver_t.sonet_reach_specifier r) 1, 
      pm_sfp_serial_id_transceiver_t.oc_192 r, 
      pm_sfp_serial_id_transceiver_t.escon_smf_1310nm_laser r, 
      pm_sfp_serial_id_transceiver_t.escon_mmf_1310nm_led r], 
      byte_of_bits [pm_sfp_serial_id_transceiver_t.oc_3_multi_short r, 
      pm_sfp_serial_id_transceiver_t.oc_3_single_intermdiate r, 
      pm_sfp_serial_id_transceiver_t.oc_3_single_long r, 
      pm_sfp_serial_id_transceiver_t.reserved_4 r, 
      pm_sfp_serial_id_transceiver_t.oc_12_multi_short r, 
      pm_sfp_serial_id_transceiver_t.oc_12_single_intermdiate r, 
      pm_sfp_serial_id_transceiver_t.oc_12_single_long r, 
      pm_sfp_serial_id_transceiver_t.reserved_3 r], 
      byte_of_bits [pm_sfp_serial_id_transceiver_t.enet_1000base_sx r, 
      pm_sfp_serial_id_transceiver_t.enet_1000base_lx r, 
      pm_sfp_serial_id_transceiver_t.enet_1000base_cx r, 
      pm_sfp_serial_id_transceiver_t.enet_1000base_t r, 
      pm_sfp_serial_id_transceiver_t.enet_100base_lx_lx10 r, 
      pm_sfp_serial_id_transceiver_t.enet_100base_fx r, 
      pm_sfp_serial_id_transceiver_t.enet_base_bx10 r, 
      pm_sfp_serial_id_transceiver_t.enet_base_px r], 
      byte_of_bits [pm_sfp_serial_id_transceiver_t.fc_electrical_inter_enclosure r, 
      pm_sfp_serial_id_transceiver_t.fc_longwave_laser_lc r, 
      pm_sfp_serial_id_transceiver_t.fc_shortwave_laser_linear_rx r, 
      pm_sfp_serial_id_transceiver_t.fc_length_medium r, 
      pm_sfp_serial_id_transceiver_t.fc_length_long r, 
      pm_sfp_serial_id_transceiver_t.fc_length_intermediate r, 
      pm_sfp_serial_id_transceiver_t.fc_length_short r, 
      pm_sfp_serial_id_transceiver_t.fc_length_very_long r], 
      byte_of_bits [pm_sfp_serial_id_transceiver_t.reserved_7 r, 
      pm_sfp_serial_id_transceiver_t.reserved_7_1 r, 
      pm_sfp_serial_id_transceiver_t.cable_technology_passive r, 
      pm_sfp_serial_id_transceiver_t.cable_technology_active r, 
      pm_sfp_serial_id_transceiver_t.fc_longwave_laser_ll r, 
      pm_sfp_serial_id_transceiver_t.fc_shortwave_laser_ofc r, 
      pm_sfp_serial_id_transceiver_t.fc_shortwave_laser r, 
      pm_sfp_serial_id_transceiver_t.fc_electrical_intra_enclosure r], 
      byte_of_bits [pm_sfp_serial_id_transceiver_t.fc_media_single_mode r, 
      pm_sfp_serial_id_transceiver_t.reserved_8 r, 
      pm_sfp_serial_id_transceiver_t.fc_media_multi_mode_5000cm r, 
      pm_sfp_serial_id_transceiver_t.fc_media_multi_mode_6250cm r, 
      pm_sfp_serial_id_transceiver_t.fc_media_video_coax r, 
      pm_sfp_serial_id_transceiver_t.fc_media_miniature_coax r, 
      pm_sfp_serial_id_transceiver_t.fc_media_shielded_twisted_pair r, 
      pm_sfp_serial_id_transceiver_t.fc_media_twin_axial_pair r], 
      byte_of_bits [pm_sfp_serial_id_transceiver_t.fc_speed_100 r, 
      pm_sfp_serial_id_transceiver_t.reserved_11 r, 
      pm_sfp_serial_id_transceiver_t.fc_speed_200 r, 
      pm_sfp_serial_id_transceiver_t.fc_speed_3200 r, 
      pm_sfp_serial_id_transceiver_t.fc_speed_400 r, 
      pm_sfp_serial_id_transceiver_t.fc_speed_1600 r, 
      pm_sfp_serial_id_transceiver_t.fc_speed_800 r, 
      pm_sfp_serial_id_transceiver_t.fc_speed_1200 r]]"

interpretation sfp_serial_id_transceiver: struct_layout sfp_serial_id_transceiver_of_bytes bytes_of_sfp_serial_id_transceiver 8 "\<lambda>_. True"
  by unfold_locales
    (simp_all add: sfp_serial_id_transceiver_of_bytes_def bytes_of_sfp_serial_id_transceiver_def layout glue unglue)

lemmas [layout] = sfp_serial_id_transceiver.length_enc sfp_serial_id_transceiver.dec_enc sfp_serial_id_transceiver.enc_dec

subsection \<open>\<^verbatim>\<open>pm_sfp_options_t\<close>\<close>

record pm_sfp_options_t =
  linear_receiver_output :: bool
  power_class :: bool
  cooled_transceiver :: bool
  retimer_or_cdr :: bool
  paging_implementation :: bool
  high_power_level_declaration :: bool
  reserved_0 :: "2 word"
  reserved_2 :: bool
  loss_of_signal :: bool
  loss_of_signal_inverted :: bool
  tx_fault :: bool
  tx_disable :: bool
  rate_select :: bool
  tunable_transmitter :: bool
  receiver_decision_threshold :: bool

definition sfp_options_of_bytes :: "byte list \<Rightarrow> pm_sfp_options_t" where
  "sfp_options_of_bytes bs = \<lparr>
     pm_sfp_options_t.linear_receiver_output = bit (bs ! 0) 0,
     pm_sfp_options_t.power_class = bit (bs ! 0) 1,
     pm_sfp_options_t.cooled_transceiver = bit (bs ! 0) 2,
     pm_sfp_options_t.retimer_or_cdr = bit (bs ! 0) 3,
     pm_sfp_options_t.paging_implementation = bit (bs ! 0) 4,
     pm_sfp_options_t.high_power_level_declaration = bit (bs ! 0) 5,
     pm_sfp_options_t.reserved_0 = bits2 (bit (bs ! 0) 6) (bit (bs ! 0) 7),
     pm_sfp_options_t.reserved_2 = bit (bs ! 1) 0,
     pm_sfp_options_t.loss_of_signal = bit (bs ! 1) 1,
     pm_sfp_options_t.loss_of_signal_inverted = bit (bs ! 1) 2,
     pm_sfp_options_t.tx_fault = bit (bs ! 1) 3, pm_sfp_options_t.tx_disable = bit (bs ! 1) 4,
     pm_sfp_options_t.rate_select = bit (bs ! 1) 5,
     pm_sfp_options_t.tunable_transmitter = bit (bs ! 1) 6,
     pm_sfp_options_t.receiver_decision_threshold = bit (bs ! 1) 7\<rparr>"

definition bytes_of_sfp_options :: "pm_sfp_options_t \<Rightarrow> byte list" where
  "bytes_of_sfp_options r =
     [byte_of_bits [pm_sfp_options_t.linear_receiver_output r, 
      pm_sfp_options_t.power_class r, pm_sfp_options_t.cooled_transceiver r, 
      pm_sfp_options_t.retimer_or_cdr r, pm_sfp_options_t.paging_implementation r, 
      pm_sfp_options_t.high_power_level_declaration r, 
      bit (pm_sfp_options_t.reserved_0 r) 0, bit (pm_sfp_options_t.reserved_0 r) 1], 
      byte_of_bits [pm_sfp_options_t.reserved_2 r, pm_sfp_options_t.loss_of_signal r, 
      pm_sfp_options_t.loss_of_signal_inverted r, pm_sfp_options_t.tx_fault r, 
      pm_sfp_options_t.tx_disable r, pm_sfp_options_t.rate_select r, 
      pm_sfp_options_t.tunable_transmitter r, 
      pm_sfp_options_t.receiver_decision_threshold r]]"

interpretation sfp_options: struct_layout sfp_options_of_bytes bytes_of_sfp_options 2 "\<lambda>_. True"
  by unfold_locales
    (simp_all add: sfp_options_of_bytes_def bytes_of_sfp_options_def layout glue unglue)

lemmas [layout] = sfp_options.length_enc sfp_options.dec_enc sfp_options.enc_dec

subsection \<open>\<^verbatim>\<open>pm_sfp_diag_monitoring_type_t\<close>\<close>

record pm_sfp_diag_monitoring_type_t =
  reserved :: "2 word"
  addr_change_required :: bool
  power_measurement_type :: bool
  externally_calibrated :: bool
  internally_calibrated :: bool
  implemented_digital :: bool
  legacy :: bool

definition sfp_diag_monitoring_type_of_bytes :: "byte list \<Rightarrow> pm_sfp_diag_monitoring_type_t" where
  "sfp_diag_monitoring_type_of_bytes bs = \<lparr>
     pm_sfp_diag_monitoring_type_t.reserved = bits2 (bit (bs ! 0) 0) (bit (bs ! 0) 1),
     pm_sfp_diag_monitoring_type_t.addr_change_required = bit (bs ! 0) 2,
     pm_sfp_diag_monitoring_type_t.power_measurement_type = bit (bs ! 0) 3,
     pm_sfp_diag_monitoring_type_t.externally_calibrated = bit (bs ! 0) 4,
     pm_sfp_diag_monitoring_type_t.internally_calibrated = bit (bs ! 0) 5,
     pm_sfp_diag_monitoring_type_t.implemented_digital = bit (bs ! 0) 6,
     pm_sfp_diag_monitoring_type_t.legacy = bit (bs ! 0) 7\<rparr>"

definition bytes_of_sfp_diag_monitoring_type :: "pm_sfp_diag_monitoring_type_t \<Rightarrow> byte list" where
  "bytes_of_sfp_diag_monitoring_type r =
     [byte_of_bits [bit (pm_sfp_diag_monitoring_type_t.reserved r) 0, 
      bit (pm_sfp_diag_monitoring_type_t.reserved r) 1, 
      pm_sfp_diag_monitoring_type_t.addr_change_required r, 
      pm_sfp_diag_monitoring_type_t.power_measurement_type r, 
      pm_sfp_diag_monitoring_type_t.externally_calibrated r, 
      pm_sfp_diag_monitoring_type_t.internally_calibrated r, 
      pm_sfp_diag_monitoring_type_t.implemented_digital r, 
      pm_sfp_diag_monitoring_type_t.legacy r]]"

interpretation sfp_diag_monitoring_type: struct_layout sfp_diag_monitoring_type_of_bytes bytes_of_sfp_diag_monitoring_type 1 "\<lambda>_. True"
  by unfold_locales
    (simp_all add: sfp_diag_monitoring_type_of_bytes_def bytes_of_sfp_diag_monitoring_type_def layout glue unglue)

lemmas [layout] = sfp_diag_monitoring_type.length_enc sfp_diag_monitoring_type.dec_enc sfp_diag_monitoring_type.enc_dec

subsection \<open>\<^verbatim>\<open>pm_sfp_enhanced_options_t\<close>\<close>

record pm_sfp_enhanced_options_t =
  reserved :: bool
  sff8431_rate_select :: bool
  sff8079_appl_select :: bool
  soft_rate_select :: bool
  soft_rx_los :: bool
  soft_tx_fault :: bool
  soft_tx_disable :: bool
  alarm_warning_flags :: bool

definition sfp_enhanced_options_of_bytes :: "byte list \<Rightarrow> pm_sfp_enhanced_options_t" where
  "sfp_enhanced_options_of_bytes bs = \<lparr>
     pm_sfp_enhanced_options_t.reserved = bit (bs ! 0) 0,
     pm_sfp_enhanced_options_t.sff8431_rate_select = bit (bs ! 0) 1,
     pm_sfp_enhanced_options_t.sff8079_appl_select = bit (bs ! 0) 2,
     pm_sfp_enhanced_options_t.soft_rate_select = bit (bs ! 0) 3,
     pm_sfp_enhanced_options_t.soft_rx_los = bit (bs ! 0) 4,
     pm_sfp_enhanced_options_t.soft_tx_fault = bit (bs ! 0) 5,
     pm_sfp_enhanced_options_t.soft_tx_disable = bit (bs ! 0) 6,
     pm_sfp_enhanced_options_t.alarm_warning_flags = bit (bs ! 0) 7\<rparr>"

definition bytes_of_sfp_enhanced_options :: "pm_sfp_enhanced_options_t \<Rightarrow> byte list" where
  "bytes_of_sfp_enhanced_options r =
     [byte_of_bits [pm_sfp_enhanced_options_t.reserved r, 
      pm_sfp_enhanced_options_t.sff8431_rate_select r, 
      pm_sfp_enhanced_options_t.sff8079_appl_select r, 
      pm_sfp_enhanced_options_t.soft_rate_select r, 
      pm_sfp_enhanced_options_t.soft_rx_los r, pm_sfp_enhanced_options_t.soft_tx_fault r, 
      pm_sfp_enhanced_options_t.soft_tx_disable r, 
      pm_sfp_enhanced_options_t.alarm_warning_flags r]]"

interpretation sfp_enhanced_options: struct_layout sfp_enhanced_options_of_bytes bytes_of_sfp_enhanced_options 1 "\<lambda>_. True"
  by unfold_locales
    (simp_all add: sfp_enhanced_options_of_bytes_def bytes_of_sfp_enhanced_options_def layout glue unglue)

lemmas [layout] = sfp_enhanced_options.length_enc sfp_enhanced_options.dec_enc sfp_enhanced_options.enc_dec

subsection \<open>\<^verbatim>\<open>pm_sfp_serial_id_t\<close>\<close>

record pm_sfp_serial_id_t =
  "identifier" :: byte
  ext_identifier :: byte
  connector :: byte
  transceiver :: pm_sfp_serial_id_transceiver_t
  encoding :: byte
  bit_rate_nominal :: byte
  rate_identifier :: byte
  length_smf_9um_in_km :: byte
  length_smf_9um_in_100m :: byte
  length_mmf_50um_om2 :: byte
  length_mmf_62_5um_om1 :: byte
  length_copper :: byte
  length_mmf_50um_om3 :: byte
  vendor_name :: "byte list"
  transceiver_2 :: byte
  vendor_oui :: "byte list"
  vendor_part_number :: "byte list"
  vendor_revision :: "byte list"
  laser_wavelength :: "16 word"
  reserved_3 :: byte
  check_code_for_base :: byte
  options :: pm_sfp_options_t
  bit_rate_max_margin :: byte
  bit_rate_min_margin :: byte
  vendor_serial_number :: "byte list"
  vendor_date_code :: pm_date_code_t
  diag_monitor_type :: pm_sfp_diag_monitoring_type_t
  enhanced_options :: pm_sfp_enhanced_options_t
  sff8472_compliance :: byte
  check_code_for_extended :: byte
  vendor_area :: "byte list"

definition sfp_serial_id_of_bytes :: "byte list \<Rightarrow> pm_sfp_serial_id_t" where
  "sfp_serial_id_of_bytes bs = \<lparr>
     pm_sfp_serial_id_t.identifier = bs ! 0, pm_sfp_serial_id_t.ext_identifier = bs ! 1,
     pm_sfp_serial_id_t.connector = bs ! 2,
     pm_sfp_serial_id_t.transceiver = sfp_serial_id_transceiver_of_bytes (bytes_at 3 8 bs),
     pm_sfp_serial_id_t.encoding = bs ! 11, pm_sfp_serial_id_t.bit_rate_nominal = bs ! 12,
     pm_sfp_serial_id_t.rate_identifier = bs ! 13,
     pm_sfp_serial_id_t.length_smf_9um_in_km = bs ! 14,
     pm_sfp_serial_id_t.length_smf_9um_in_100m = bs ! 15,
     pm_sfp_serial_id_t.length_mmf_50um_om2 = bs ! 16,
     pm_sfp_serial_id_t.length_mmf_62_5um_om1 = bs ! 17,
     pm_sfp_serial_id_t.length_copper = bs ! 18,
     pm_sfp_serial_id_t.length_mmf_50um_om3 = bs ! 19,
     pm_sfp_serial_id_t.vendor_name = bytes_at 20 16 bs,
     pm_sfp_serial_id_t.transceiver_2 = bs ! 36,
     pm_sfp_serial_id_t.vendor_oui = bytes_at 37 3 bs,
     pm_sfp_serial_id_t.vendor_part_number = bytes_at 40 16 bs,
     pm_sfp_serial_id_t.vendor_revision = bytes_at 56 4 bs,
     pm_sfp_serial_id_t.laser_wavelength = le16 (bs ! 60) (bs ! 61),
     pm_sfp_serial_id_t.reserved_3 = bs ! 62, pm_sfp_serial_id_t.check_code_for_base = bs ! 63,
     pm_sfp_serial_id_t.options = sfp_options_of_bytes (bytes_at 64 2 bs),
     pm_sfp_serial_id_t.bit_rate_max_margin = bs ! 66,
     pm_sfp_serial_id_t.bit_rate_min_margin = bs ! 67,
     pm_sfp_serial_id_t.vendor_serial_number = bytes_at 68 16 bs,
     pm_sfp_serial_id_t.vendor_date_code = date_code_of_bytes (bytes_at 84 8 bs),
     pm_sfp_serial_id_t.diag_monitor_type = sfp_diag_monitoring_type_of_bytes (bytes_at 92 1 bs),
     pm_sfp_serial_id_t.enhanced_options = sfp_enhanced_options_of_bytes (bytes_at 93 1 bs),
     pm_sfp_serial_id_t.sff8472_compliance = bs ! 94,
     pm_sfp_serial_id_t.check_code_for_extended = bs ! 95,
     pm_sfp_serial_id_t.vendor_area = bytes_at 96 32 bs\<rparr>"

definition bytes_of_sfp_serial_id :: "pm_sfp_serial_id_t \<Rightarrow> byte list" where
  "bytes_of_sfp_serial_id r =
     [pm_sfp_serial_id_t.identifier r, pm_sfp_serial_id_t.ext_identifier r, 
      pm_sfp_serial_id_t.connector r] @
     bytes_of_sfp_serial_id_transceiver (pm_sfp_serial_id_t.transceiver r) @
     [pm_sfp_serial_id_t.encoding r, pm_sfp_serial_id_t.bit_rate_nominal r, 
      pm_sfp_serial_id_t.rate_identifier r, pm_sfp_serial_id_t.length_smf_9um_in_km r, 
      pm_sfp_serial_id_t.length_smf_9um_in_100m r, 
      pm_sfp_serial_id_t.length_mmf_50um_om2 r, 
      pm_sfp_serial_id_t.length_mmf_62_5um_om1 r, pm_sfp_serial_id_t.length_copper r, 
      pm_sfp_serial_id_t.length_mmf_50um_om3 r] @
     pm_sfp_serial_id_t.vendor_name r @
     [pm_sfp_serial_id_t.transceiver_2 r] @
     pm_sfp_serial_id_t.vendor_oui r @
     pm_sfp_serial_id_t.vendor_part_number r @
     pm_sfp_serial_id_t.vendor_revision r @
     [le16_lo (pm_sfp_serial_id_t.laser_wavelength r), 
      le16_hi (pm_sfp_serial_id_t.laser_wavelength r), pm_sfp_serial_id_t.reserved_3 r, 
      pm_sfp_serial_id_t.check_code_for_base r] @
     bytes_of_sfp_options (pm_sfp_serial_id_t.options r) @
     [pm_sfp_serial_id_t.bit_rate_max_margin r, pm_sfp_serial_id_t.bit_rate_min_margin r] @
     pm_sfp_serial_id_t.vendor_serial_number r @
     bytes_of_date_code (pm_sfp_serial_id_t.vendor_date_code r) @
     bytes_of_sfp_diag_monitoring_type (pm_sfp_serial_id_t.diag_monitor_type r) @
     bytes_of_sfp_enhanced_options (pm_sfp_serial_id_t.enhanced_options r) @
     [pm_sfp_serial_id_t.sff8472_compliance r, 
      pm_sfp_serial_id_t.check_code_for_extended r] @
     pm_sfp_serial_id_t.vendor_area r"

definition wf_sfp_serial_id :: "pm_sfp_serial_id_t \<Rightarrow> bool" where
  "wf_sfp_serial_id r \<longleftrightarrow> length (pm_sfp_serial_id_t.vendor_name r) = 16 \<and>
     length (pm_sfp_serial_id_t.vendor_oui r) = 3 \<and>
     length (pm_sfp_serial_id_t.vendor_part_number r) = 16 \<and>
     length (pm_sfp_serial_id_t.vendor_revision r) = 4 \<and>
     length (pm_sfp_serial_id_t.vendor_serial_number r) = 16 \<and>
     wf_date_code (pm_sfp_serial_id_t.vendor_date_code r) \<and>
     length (pm_sfp_serial_id_t.vendor_area r) = 32"

interpretation sfp_serial_id: struct_layout sfp_serial_id_of_bytes bytes_of_sfp_serial_id 128 wf_sfp_serial_id
  by unfold_locales
    (simp_all add: sfp_serial_id_of_bytes_def bytes_of_sfp_serial_id_def wf_sfp_serial_id_def layout glue unglue)

lemmas [layout] = sfp_serial_id.length_enc sfp_serial_id.dec_enc sfp_serial_id.enc_dec sfp_serial_id.wf_dec

text \<open>The memory map of the page: the address and the bytes of every field, in the order of the struct.\<close>

definition sfp_serial_id_map :: "pm_sfp_serial_id_t \<Rightarrow> (nat \<times> byte list) list" where
  "sfp_serial_id_map r =
     [(0, [pm_sfp_serial_id_t.identifier r, pm_sfp_serial_id_t.ext_identifier r,
      pm_sfp_serial_id_t.connector r]),
      (3, bytes_of_sfp_serial_id_transceiver (pm_sfp_serial_id_t.transceiver r)),
      (11, [pm_sfp_serial_id_t.encoding r, pm_sfp_serial_id_t.bit_rate_nominal r,
      pm_sfp_serial_id_t.rate_identifier r, pm_sfp_serial_id_t.length_smf_9um_in_km r,
      pm_sfp_serial_id_t.length_smf_9um_in_100m r, pm_sfp_serial_id_t.length_mmf_50um_om2 r,
      pm_sfp_serial_id_t.length_mmf_62_5um_om1 r, pm_sfp_serial_id_t.length_copper r]),
      (19, [pm_sfp_serial_id_t.length_mmf_50um_om3 r]), (20, pm_sfp_serial_id_t.vendor_name r),
      (36, [pm_sfp_serial_id_t.transceiver_2 r]), (37, pm_sfp_serial_id_t.vendor_oui r),
      (40, pm_sfp_serial_id_t.vendor_part_number r), (56, pm_sfp_serial_id_t.vendor_revision r),
      (60, [le16_lo (pm_sfp_serial_id_t.laser_wavelength r),
      le16_hi (pm_sfp_serial_id_t.laser_wavelength r)]), (62, [pm_sfp_serial_id_t.reserved_3 r,
      pm_sfp_serial_id_t.check_code_for_base r]),
      (64, bytes_of_sfp_options (pm_sfp_serial_id_t.options r)),
      (66, [pm_sfp_serial_id_t.bit_rate_max_margin r, pm_sfp_serial_id_t.bit_rate_min_margin r]),
      (68, pm_sfp_serial_id_t.vendor_serial_number r),
      (84, bytes_of_date_code (pm_sfp_serial_id_t.vendor_date_code r)),
      (92, bytes_of_sfp_diag_monitoring_type (pm_sfp_serial_id_t.diag_monitor_type r)),
      (93, bytes_of_sfp_enhanced_options (pm_sfp_serial_id_t.enhanced_options r)),
      (94, [pm_sfp_serial_id_t.sff8472_compliance r,
      pm_sfp_serial_id_t.check_code_for_extended r]), (96, pm_sfp_serial_id_t.vendor_area r)]"

lemma sfp_serial_id_mapped: "length page = 128 \<Longrightarrow> memory_map 0 page (sfp_serial_id_map (sfp_serial_id_of_bytes page))"
  by (simp add: sfp_serial_id_map_def sfp_serial_id_of_bytes_def memory_map layout)

end
