(* ===== verification/Qsfp_Layout.thy ===== *)
theory Qsfp_Layout
  imports Sfp_Layout
begin

text \<open>
  The structs of \<^verbatim>\<open>include/plug.h\<close> that describe the 128-byte upper page 0 of a QSFP module
  (bytes 128 to 255 of its memory map), with their memory layout, in the conventions of
  \<^theory_text>\<open>Sfp_Layout\<close>. The union \<open>pm_qsfp_wavelength_t\<close> is kept as its two bytes; its 16-bit member
  is read by \<open>laser_wavelength_of\<close>.
\<close>

subsection \<open>\<^verbatim>\<open>pm_qsfp_ext_indentifier_t\<close>\<close>

record pm_qsfp_ext_indentifier_t =
  reserved_129_1 :: "2 word"
  cdr_present_in_rx :: bool
  cdr_present_in_tx :: bool
  clei_code_present :: bool
  reserved_129_5 :: bool
  power_class :: "2 word"

definition qsfp_ext_indentifier_of_bytes :: "byte list \<Rightarrow> pm_qsfp_ext_indentifier_t" where
  "qsfp_ext_indentifier_of_bytes bs = \<lparr>
     pm_qsfp_ext_indentifier_t.reserved_129_1 = bits2 (bit (bs ! 0) 0) (bit (bs ! 0) 1),
     pm_qsfp_ext_indentifier_t.cdr_present_in_rx = bit (bs ! 0) 2,
     pm_qsfp_ext_indentifier_t.cdr_present_in_tx = bit (bs ! 0) 3,
     pm_qsfp_ext_indentifier_t.clei_code_present = bit (bs ! 0) 4,
     pm_qsfp_ext_indentifier_t.reserved_129_5 = bit (bs ! 0) 5,
     pm_qsfp_ext_indentifier_t.power_class = bits2 (bit (bs ! 0) 6) (bit (bs ! 0) 7)\<rparr>"

definition bytes_of_qsfp_ext_indentifier :: "pm_qsfp_ext_indentifier_t \<Rightarrow> byte list" where
  "bytes_of_qsfp_ext_indentifier r =
     [byte_of_bits [bit (pm_qsfp_ext_indentifier_t.reserved_129_1 r) 0, 
      bit (pm_qsfp_ext_indentifier_t.reserved_129_1 r) 1, 
      pm_qsfp_ext_indentifier_t.cdr_present_in_rx r, 
      pm_qsfp_ext_indentifier_t.cdr_present_in_tx r, 
      pm_qsfp_ext_indentifier_t.clei_code_present r, 
      pm_qsfp_ext_indentifier_t.reserved_129_5 r, 
      bit (pm_qsfp_ext_indentifier_t.power_class r) 0, 
      bit (pm_qsfp_ext_indentifier_t.power_class r) 1]]"

interpretation qsfp_ext_indentifier: struct_layout qsfp_ext_indentifier_of_bytes bytes_of_qsfp_ext_indentifier 1 "\<lambda>_. True"
  by unfold_locales
    (simp_all add: qsfp_ext_indentifier_of_bytes_def bytes_of_qsfp_ext_indentifier_def layout glue unglue)

lemmas [layout] = qsfp_ext_indentifier.length_enc qsfp_ext_indentifier.dec_enc qsfp_ext_indentifier.enc_dec

subsection \<open>\<^verbatim>\<open>pm_qsfp_spec_compliance_t\<close>\<close>

record pm_qsfp_spec_compliance_t =
  enet_40g_xlppi :: bool
  enet_40gbase_lr4 :: bool
  enet_40gbase_sr4 :: bool
  enet_40gbase_cr4 :: bool
  enet_10gbase_sr :: bool
  enet_10gbase_lr :: bool
  enet_10gbase_lrm :: bool
  enet_extended :: bool
  oc_48_short :: bool
  oc_48_intermediate :: bool
  oc_48_long :: bool
  sonet_40g_otn :: bool
  reserved_132_4 :: bool
  reserved_132_5 :: bool
  reserved_132_6 :: bool
  reserved_132_7 :: bool
  reserved_133_0 :: bool
  reserved_133_1 :: bool
  reserved_133_2 :: bool
  reserved_133_3 :: bool
  sas_3_0g :: bool
  sas_6_0g :: bool
  reserved_133_6 :: bool
  reserved_133_7 :: bool
  enet_1000base_sx :: bool
  enet_1000base_lx :: bool
  enet_1000base_cx :: bool
  enet_1000base_t :: bool
  reserved_134_4 :: bool
  reserved_134_5 :: bool
  reserved_134_6 :: bool
  reserved_134_7 :: bool
  fc_electrical_inter_enclosure_el :: bool
  fc_longwave_laser_lc :: bool
  reserved_135_2 :: bool
  fc_length_medium :: bool
  fc_length_long :: bool
  fc_length_intermediate :: bool
  fc_length_short :: bool
  fc_length_very_long :: bool
  reserved_136_0 :: bool
  reserved_136_1 :: bool
  reserved_136_2 :: bool
  reserved_136_3 :: bool
  fc_longwave_laser_ll :: bool
  fc_shortwave_laser_ofc_sl :: bool
  fc_shortwave_laser_sn :: bool
  fc_electrical_intra_enclosure :: bool
  fc_media_single_mode_sm :: bool
  fc_media_multi_mode_50um_om3 :: bool
  fc_media_multi_mode_50m_m5 :: bool
  fc_media_multi_mode_6250cm_m6 :: bool
  fc_media_video_coax_tv :: bool
  fc_media_miniature_coax_mi :: bool
  fc_media_shielded_twisted_pair_tp :: bool
  fc_media_twin_axial_pair_tw :: bool
  fc_speed_100 :: bool
  reserved_138_1 :: bool
  fc_speed_200 :: bool
  reserved_138_3 :: bool
  fc_speed_400 :: bool
  fc_speed_1600 :: bool
  fc_speed_800 :: bool
  fc_speed_1200 :: bool

definition qsfp_spec_compliance_of_bytes :: "byte list \<Rightarrow> pm_qsfp_spec_compliance_t" where
  "qsfp_spec_compliance_of_bytes bs = \<lparr>
     pm_qsfp_spec_compliance_t.enet_40g_xlppi = bit (bs ! 0) 0,
     pm_qsfp_spec_compliance_t.enet_40gbase_lr4 = bit (bs ! 0) 1,
     pm_qsfp_spec_compliance_t.enet_40gbase_sr4 = bit (bs ! 0) 2,
     pm_qsfp_spec_compliance_t.enet_40gbase_cr4 = bit (bs ! 0) 3,
     pm_qsfp_spec_compliance_t.enet_10gbase_sr = bit (bs ! 0) 4,
     pm_qsfp_spec_compliance_t.enet_10gbase_lr = bit (bs ! 0) 5,
     pm_qsfp_spec_compliance_t.enet_10gbase_lrm = bit (bs ! 0) 6,
     pm_qsfp_spec_compliance_t.enet_extended = bit (bs ! 0) 7,
     pm_qsfp_spec_compliance_t.oc_48_short = bit (bs ! 1) 0,
     pm_qsfp_spec_compliance_t.oc_48_intermediate = bit (bs ! 1) 1,
     pm_qsfp_spec_compliance_t.oc_48_long = bit (bs ! 1) 2,
     pm_qsfp_spec_compliance_t.sonet_40g_otn = bit (bs ! 1) 3,
     pm_qsfp_spec_compliance_t.reserved_132_4 = bit (bs ! 1) 4,
     pm_qsfp_spec_compliance_t.reserved_132_5 = bit (bs ! 1) 5,
     pm_qsfp_spec_compliance_t.reserved_132_6 = bit (bs ! 1) 6,
     pm_qsfp_spec_compliance_t.reserved_132_7 = bit (bs ! 1) 7,
     pm_qsfp_spec_compliance_t.reserved_133_0 = bit (bs ! 2) 0,
     pm_qsfp_spec_compliance_t.reserved_133_1 = bit (bs ! 2) 1,
     pm_qsfp_spec_compliance_t.reserved_133_2 = bit (bs ! 2) 2,
     pm_qsfp_spec_compliance_t.reserved_133_3 = bit (bs ! 2) 3,
     pm_qsfp_spec_compliance_t.sas_3_0g = bit (bs ! 2) 4,
     pm_qsfp_spec_compliance_t.sas_6_0g = bit (bs ! 2) 5,
     pm_qsfp_spec_compliance_t.reserved_133_6 = bit (bs ! 2) 6,
     pm_qsfp_spec_compliance_t.reserved_133_7 = bit (bs ! 2) 7,
     pm_qsfp_spec_compliance_t.enet_1000base_sx = bit (bs ! 3) 0,
     pm_qsfp_spec_compliance_t.enet_1000base_lx = bit (bs ! 3) 1,
     pm_qsfp_spec_compliance_t.enet_1000base_cx = bit (bs ! 3) 2,
     pm_qsfp_spec_compliance_t.enet_1000base_t = bit (bs ! 3) 3,
     pm_qsfp_spec_compliance_t.reserved_134_4 = bit (bs ! 3) 4,
     pm_qsfp_spec_compliance_t.reserved_134_5 = bit (bs ! 3) 5,
     pm_qsfp_spec_compliance_t.reserved_134_6 = bit (bs ! 3) 6,
     pm_qsfp_spec_compliance_t.reserved_134_7 = bit (bs ! 3) 7,
     pm_qsfp_spec_compliance_t.fc_electrical_inter_enclosure_el = bit (bs ! 4) 0,
     pm_qsfp_spec_compliance_t.fc_longwave_laser_lc = bit (bs ! 4) 1,
     pm_qsfp_spec_compliance_t.reserved_135_2 = bit (bs ! 4) 2,
     pm_qsfp_spec_compliance_t.fc_length_medium = bit (bs ! 4) 3,
     pm_qsfp_spec_compliance_t.fc_length_long = bit (bs ! 4) 4,
     pm_qsfp_spec_compliance_t.fc_length_intermediate = bit (bs ! 4) 5,
     pm_qsfp_spec_compliance_t.fc_length_short = bit (bs ! 4) 6,
     pm_qsfp_spec_compliance_t.fc_length_very_long = bit (bs ! 4) 7,
     pm_qsfp_spec_compliance_t.reserved_136_0 = bit (bs ! 5) 0,
     pm_qsfp_spec_compliance_t.reserved_136_1 = bit (bs ! 5) 1,
     pm_qsfp_spec_compliance_t.reserved_136_2 = bit (bs ! 5) 2,
     pm_qsfp_spec_compliance_t.reserved_136_3 = bit (bs ! 5) 3,
     pm_qsfp_spec_compliance_t.fc_longwave_laser_ll = bit (bs ! 5) 4,
     pm_qsfp_spec_compliance_t.fc_shortwave_laser_ofc_sl = bit (bs ! 5) 5,
     pm_qsfp_spec_compliance_t.fc_shortwave_laser_sn = bit (bs ! 5) 6,
     pm_qsfp_spec_compliance_t.fc_electrical_intra_enclosure = bit (bs ! 5) 7,
     pm_qsfp_spec_compliance_t.fc_media_single_mode_sm = bit (bs ! 6) 0,
     pm_qsfp_spec_compliance_t.fc_media_multi_mode_50um_om3 = bit (bs ! 6) 1,
     pm_qsfp_spec_compliance_t.fc_media_multi_mode_50m_m5 = bit (bs ! 6) 2,
     pm_qsfp_spec_compliance_t.fc_media_multi_mode_6250cm_m6 = bit (bs ! 6) 3,
     pm_qsfp_spec_compliance_t.fc_media_video_coax_tv = bit (bs ! 6) 4,
     pm_qsfp_spec_compliance_t.fc_media_miniature_coax_mi = bit (bs ! 6) 5,
     pm_qsfp_spec_compliance_t.fc_media_shielded_twisted_pair_tp = bit (bs ! 6) 6,
     pm_qsfp_spec_compliance_t.fc_media_twin_axial_pair_tw = bit (bs ! 6) 7,
     pm_qsfp_spec_compliance_t.fc_speed_100 = bit (bs ! 7) 0,
     pm_qsfp_spec_compliance_t.reserved_138_1 = bit (bs ! 7) 1,
     pm_qsfp_spec_compliance_t.fc_speed_200 = bit (bs ! 7) 2,
     pm_qsfp_spec_compliance_t.reserved_138_3 = bit (bs ! 7) 3,
     pm_qsfp_spec_compliance_t.fc_speed_400 = bit (bs ! 7) 4,
     pm_qsfp_spec_compliance_t.fc_speed_1600 = bit (bs ! 7) 5,
     pm_qsfp_spec_compliance_t.fc_speed_800 = bit (bs ! 7) 6,
     pm_qsfp_spec_compliance_t.fc_speed_1200 = bit (bs ! 7) 7\<rparr>"

definition bytes_of_qsfp_spec_compliance :: "pm_qsfp_spec_compliance_t \<Rightarrow> byte list" where
  "bytes_of_qsfp_spec_compliance r =
     [byte_of_bits [pm_qsfp_spec_compliance_t.enet_40g_xlppi r, 
      pm_qsfp_spec_compliance_t.enet_40gbase_lr4 r, 
      pm_qsfp_spec_compliance_t.enet_40gbase_sr4 r, 
      pm_qsfp_spec_compliance_t.enet_40gbase_cr4 r, 
      pm_qsfp_spec_compliance_t.enet_10gbase_sr r, 
      pm_qsfp_spec_compliance_t.enet_10gbase_lr r, 
      pm_qsfp_spec_compliance_t.enet_10gbase_lrm r, 
      pm_qsfp_spec_compliance_t.enet_extended r], 
      byte_of_bits [pm_qsfp_spec_compliance_t.oc_48_short r, 
      pm_qsfp_spec_compliance_t.oc_48_intermediate r, 
      pm_qsfp_spec_compliance_t.oc_48_long r, pm_qsfp_spec_compliance_t.sonet_40g_otn r, 
      pm_qsfp_spec_compliance_t.reserved_132_4 r, 
      pm_qsfp_spec_compliance_t.reserved_132_5 r, 
      pm_qsfp_spec_compliance_t.reserved_132_6 r, 
      pm_qsfp_spec_compliance_t.reserved_132_7 r], 
      byte_of_bits [pm_qsfp_spec_compliance_t.reserved_133_0 r, 
      pm_qsfp_spec_compliance_t.reserved_133_1 r, 
      pm_qsfp_spec_compliance_t.reserved_133_2 r, 
      pm_qsfp_spec_compliance_t.reserved_133_3 r, pm_qsfp_spec_compliance_t.sas_3_0g r, 
      pm_qsfp_spec_compliance_t.sas_6_0g r, pm_qsfp_spec_compliance_t.reserved_133_6 r, 
      pm_qsfp_spec_compliance_t.reserved_133_7 r], 
      byte_of_bits [pm_qsfp_spec_compliance_t.enet_1000base_sx r, 
      pm_qsfp_spec_compliance_t.enet_1000base_lx r, 
      pm_qsfp_spec_compliance_t.enet_1000base_cx r, 
      pm_qsfp_spec_compliance_t.enet_1000base_t r, 
      pm_qsfp_spec_compliance_t.reserved_134_4 r, 
      pm_qsfp_spec_compliance_t.reserved_134_5 r, 
      pm_qsfp_spec_compliance_t.reserved_134_6 r, 
      pm_qsfp_spec_compliance_t.reserved_134_7 r], 
      byte_of_bits [pm_qsfp_spec_compliance_t.fc_electrical_inter_enclosure_el r, 
      pm_qsfp_spec_compliance_t.fc_longwave_laser_lc r, 
      pm_qsfp_spec_compliance_t.reserved_135_2 r, 
      pm_qsfp_spec_compliance_t.fc_length_medium r, 
      pm_qsfp_spec_compliance_t.fc_length_long r, 
      pm_qsfp_spec_compliance_t.fc_length_intermediate r, 
      pm_qsfp_spec_compliance_t.fc_length_short r, 
      pm_qsfp_spec_compliance_t.fc_length_very_long r], 
      byte_of_bits [pm_qsfp_spec_compliance_t.reserved_136_0 r, 
      pm_qsfp_spec_compliance_t.reserved_136_1 r, 
      pm_qsfp_spec_compliance_t.reserved_136_2 r, 
      pm_qsfp_spec_compliance_t.reserved_136_3 r, 
      pm_qsfp_spec_compliance_t.fc_longwave_laser_ll r, 
      pm_qsfp_spec_compliance_t.fc_shortwave_laser_ofc_sl r, 
      pm_qsfp_spec_compliance_t.fc_shortwave_laser_sn r, 
      pm_qsfp_spec_compliance_t.fc_electrical_intra_enclosure r], 
      byte_of_bits [pm_qsfp_spec_compliance_t.fc_media_single_mode_sm r, 
      pm_qsfp_spec_compliance_t.fc_media_multi_mode_50um_om3 r, 
      pm_qsfp_spec_compliance_t.fc_media_multi_mode_50m_m5 r, 
      pm_qsfp_spec_compliance_t.fc_media_multi_mode_6250cm_m6 r, 
      pm_qsfp_spec_compliance_t.fc_media_video_coax_tv r, 
      pm_qsfp_spec_compliance_t.fc_media_miniature_coax_mi r, 
      pm_qsfp_spec_compliance_t.fc_media_shielded_twisted_pair_tp r, 
      pm_qsfp_spec_compliance_t.fc_media_twin_axial_pair_tw r], 
      byte_of_bits [pm_qsfp_spec_compliance_t.fc_speed_100 r, 
      pm_qsfp_spec_compliance_t.reserved_138_1 r, 
      pm_qsfp_spec_compliance_t.fc_speed_200 r, 
      pm_qsfp_spec_compliance_t.reserved_138_3 r, 
      pm_qsfp_spec_compliance_t.fc_speed_400 r, pm_qsfp_spec_compliance_t.fc_speed_1600 r, 
      pm_qsfp_spec_compliance_t.fc_speed_800 r, 
      pm_qsfp_spec_compliance_t.fc_speed_1200 r]]"

interpretation qsfp_spec_compliance: struct_layout qsfp_spec_compliance_of_bytes bytes_of_qsfp_spec_compliance 8 "\<lambda>_. True"
  by unfold_locales
    (simp_all add: qsfp_spec_compliance_of_bytes_def bytes_of_qsfp_spec_compliance_def layout glue unglue)

lemmas [layout] = qsfp_spec_compliance.length_enc qsfp_spec_compliance.dec_enc qsfp_spec_compliance.enc_dec

subsection \<open>\<^verbatim>\<open>pm_qsfp_rate_select_t\<close>\<close>

record pm_qsfp_rate_select_t =
  version_1 :: bool
  reserved_141_1 :: bool
  reserved_141_2 :: bool
  reserved_141_3 :: bool
  reserved_141_4 :: bool
  reserved_141_5 :: bool
  reserved_141_6 :: bool
  reserved_141_7 :: bool

definition qsfp_rate_select_of_bytes :: "byte list \<Rightarrow> pm_qsfp_rate_select_t" where
  "qsfp_rate_select_of_bytes bs = \<lparr>
     pm_qsfp_rate_select_t.version_1 = bit (bs ! 0) 0,
     pm_qsfp_rate_select_t.reserved_141_1 = bit (bs ! 0) 1,
     pm_qsfp_rate_select_t.reserved_141_2 = bit (bs ! 0) 2,
     pm_qsfp_rate_select_t.reserved_141_3 = bit (bs ! 0) 3,
     pm_qsfp_rate_select_t.reserved_141_4 = bit (bs ! 0) 4,
     pm_qsfp_rate_select_t.reserved_141_5 = bit (bs ! 0) 5,
     pm_qsfp_rate_select_t.reserved_141_6 = bit (bs ! 0) 6,
     pm_qsfp_rate_select_t.reserved_141_7 = bit (bs ! 0) 7\<rparr>"

definition bytes_of_qsfp_rate_select :: "pm_qsfp_rate_select_t \<Rightarrow> byte list" where
  "bytes_of_qsfp_rate_select r =
     [byte_of_bits [pm_qsfp_rate_select_t.version_1 r, 
      pm_qsfp_rate_select_t.reserved_141_1 r, pm_qsfp_rate_select_t.reserved_141_2 r, 
      pm_qsfp_rate_select_t.reserved_141_3 r, pm_qsfp_rate_select_t.reserved_141_4 r, 
      pm_qsfp_rate_select_t.reserved_141_5 r, pm_qsfp_rate_select_t.reserved_141_6 r, 
      pm_qsfp_rate_select_t.reserved_141_7 r]]"

interpretation qsfp_rate_select: struct_layout qsfp_rate_select_of_bytes bytes_of_qsfp_rate_select 1 "\<lambda>_. True"
  by unfold_locales
    (simp_all add: qsfp_rate_select_of_bytes_def bytes_of_qsfp_rate_select_def layout glue unglue)

lemmas [layout] = qsfp_rate_select.length_enc qsfp_rate_select.dec_enc qsfp_rate_select.enc_dec

subsection \<open>\<^verbatim>\<open>pm_qsfp_device_tech_t\<close>\<close>

record pm_qsfp_device_tech_t =
  transmitter_tunable :: bool
  apd_detector :: bool
  cooled_transmitter :: bool
  active_wavelength_control :: bool
  transmitter_tech :: "4 word"

definition qsfp_device_tech_of_bytes :: "byte list \<Rightarrow> pm_qsfp_device_tech_t" where
  "qsfp_device_tech_of_bytes bs = \<lparr>
     pm_qsfp_device_tech_t.transmitter_tunable = bit (bs ! 0) 0,
     pm_qsfp_device_tech_t.apd_detector = bit (bs ! 0) 1,
     pm_qsfp_device_tech_t.cooled_transmitter = bit (bs ! 0) 2,
     pm_qsfp_device_tech_t.active_wavelength_control = bit (bs ! 0) 3,
     pm_qsfp_device_tech_t.transmitter_tech = bits4 (bit (bs ! 0) 4) (bit (bs ! 0) 5) (bit (bs ! 0) 6) (bit (bs ! 0) 7)\<rparr>"

definition bytes_of_qsfp_device_tech :: "pm_qsfp_device_tech_t \<Rightarrow> byte list" where
  "bytes_of_qsfp_device_tech r =
     [byte_of_bits [pm_qsfp_device_tech_t.transmitter_tunable r, 
      pm_qsfp_device_tech_t.apd_detector r, pm_qsfp_device_tech_t.cooled_transmitter r, 
      pm_qsfp_device_tech_t.active_wavelength_control r, 
      bit (pm_qsfp_device_tech_t.transmitter_tech r) 0, 
      bit (pm_qsfp_device_tech_t.transmitter_tech r) 1, 
      bit (pm_qsfp_device_tech_t.transmitter_tech r) 2, 
      bit (pm_qsfp_device_tech_t.transmitter_tech r) 3]]"

interpretation qsfp_device_tech: struct_layout qsfp_device_tech_of_bytes bytes_of_qsfp_device_tech 1 "\<lambda>_. True"
  by unfold_locales
    (simp_all add: qsfp_device_tech_of_bytes_def bytes_of_qsfp_device_tech_def layout glue unglue)

lemmas [layout] = qsfp_device_tech.length_enc qsfp_device_tech.dec_enc qsfp_device_tech.enc_dec

subsection \<open>\<^verbatim>\<open>pm_qsfp_ib_compliance_t\<close>\<close>

record pm_qsfp_ib_compliance_t =
  sdr :: bool
  ddr :: bool
  qdr :: bool
  fdr :: bool
  edr :: bool
  reserved_164_5 :: bool
  reserved_164_6 :: bool
  reserved_164_7 :: bool

definition qsfp_ib_compliance_of_bytes :: "byte list \<Rightarrow> pm_qsfp_ib_compliance_t" where
  "qsfp_ib_compliance_of_bytes bs = \<lparr>
     pm_qsfp_ib_compliance_t.sdr = bit (bs ! 0) 0,
     pm_qsfp_ib_compliance_t.ddr = bit (bs ! 0) 1,
     pm_qsfp_ib_compliance_t.qdr = bit (bs ! 0) 2,
     pm_qsfp_ib_compliance_t.fdr = bit (bs ! 0) 3,
     pm_qsfp_ib_compliance_t.edr = bit (bs ! 0) 4,
     pm_qsfp_ib_compliance_t.reserved_164_5 = bit (bs ! 0) 5,
     pm_qsfp_ib_compliance_t.reserved_164_6 = bit (bs ! 0) 6,
     pm_qsfp_ib_compliance_t.reserved_164_7 = bit (bs ! 0) 7\<rparr>"

definition bytes_of_qsfp_ib_compliance :: "pm_qsfp_ib_compliance_t \<Rightarrow> byte list" where
  "bytes_of_qsfp_ib_compliance r =
     [byte_of_bits [pm_qsfp_ib_compliance_t.sdr r, pm_qsfp_ib_compliance_t.ddr r, 
      pm_qsfp_ib_compliance_t.qdr r, pm_qsfp_ib_compliance_t.fdr r, 
      pm_qsfp_ib_compliance_t.edr r, pm_qsfp_ib_compliance_t.reserved_164_5 r, 
      pm_qsfp_ib_compliance_t.reserved_164_6 r, pm_qsfp_ib_compliance_t.reserved_164_7 r]]"

interpretation qsfp_ib_compliance: struct_layout qsfp_ib_compliance_of_bytes bytes_of_qsfp_ib_compliance 1 "\<lambda>_. True"
  by unfold_locales
    (simp_all add: qsfp_ib_compliance_of_bytes_def bytes_of_qsfp_ib_compliance_def layout glue unglue)

lemmas [layout] = qsfp_ib_compliance.length_enc qsfp_ib_compliance.dec_enc qsfp_ib_compliance.enc_dec

subsection \<open>\<^verbatim>\<open>pm_qsfp_wavelength_t\<close>\<close>

record pm_qsfp_wavelength_t =
  at_2_5_ghz :: byte
  at_5_0_ghz :: byte

definition laser_wavelength_of :: "pm_qsfp_wavelength_t \<Rightarrow> 16 word" where
  "laser_wavelength_of w = le16 (at_2_5_ghz w) (at_5_0_ghz w)"

definition qsfp_wavelength_of_bytes :: "byte list \<Rightarrow> pm_qsfp_wavelength_t" where
  "qsfp_wavelength_of_bytes bs = \<lparr>
     pm_qsfp_wavelength_t.at_2_5_ghz = bs ! 0, pm_qsfp_wavelength_t.at_5_0_ghz = bs ! 1\<rparr>"

definition bytes_of_qsfp_wavelength :: "pm_qsfp_wavelength_t \<Rightarrow> byte list" where
  "bytes_of_qsfp_wavelength r =
     [pm_qsfp_wavelength_t.at_2_5_ghz r, pm_qsfp_wavelength_t.at_5_0_ghz r]"

interpretation qsfp_wavelength: struct_layout qsfp_wavelength_of_bytes bytes_of_qsfp_wavelength 2 "\<lambda>_. True"
  by unfold_locales
    (simp_all add: qsfp_wavelength_of_bytes_def bytes_of_qsfp_wavelength_def layout glue unglue)

lemmas [layout] = qsfp_wavelength.length_enc qsfp_wavelength.dec_enc qsfp_wavelength.enc_dec

subsection \<open>\<^verbatim>\<open>pm_qsfp_options_t\<close>\<close>

record pm_qsfp_options_t =
  ext_compliance_code :: byte
  rx_output_amplitude :: bool
  reserved_193_1 :: bool
  reserved_193_2 :: bool
  reserved_193_3 :: bool
  reserved_193_4 :: bool
  reserved_193_5 :: bool
  reserved_193_6 :: bool
  reserved_193_7 :: bool
  tx_squelch :: bool
  tx_squelch_disable :: bool
  rx_output_disable :: bool
  rx_squelch_disable :: bool
  reserved_194_4 :: bool
  reserved_194_5 :: bool
  reserved_194_6 :: bool
  reserved_194_7 :: bool
  reserved_195_0 :: bool
  loss_of_signal :: bool
  tx_squelch_pave :: bool
  tx_fault :: bool
  tx_disable :: bool
  rate_select :: bool
  memory_page_1 :: bool
  memory_page_2 :: bool

definition qsfp_options_of_bytes :: "byte list \<Rightarrow> pm_qsfp_options_t" where
  "qsfp_options_of_bytes bs = \<lparr>
     pm_qsfp_options_t.ext_compliance_code = bs ! 0,
     pm_qsfp_options_t.rx_output_amplitude = bit (bs ! 1) 0,
     pm_qsfp_options_t.reserved_193_1 = bit (bs ! 1) 1,
     pm_qsfp_options_t.reserved_193_2 = bit (bs ! 1) 2,
     pm_qsfp_options_t.reserved_193_3 = bit (bs ! 1) 3,
     pm_qsfp_options_t.reserved_193_4 = bit (bs ! 1) 4,
     pm_qsfp_options_t.reserved_193_5 = bit (bs ! 1) 5,
     pm_qsfp_options_t.reserved_193_6 = bit (bs ! 1) 6,
     pm_qsfp_options_t.reserved_193_7 = bit (bs ! 1) 7,
     pm_qsfp_options_t.tx_squelch = bit (bs ! 2) 0,
     pm_qsfp_options_t.tx_squelch_disable = bit (bs ! 2) 1,
     pm_qsfp_options_t.rx_output_disable = bit (bs ! 2) 2,
     pm_qsfp_options_t.rx_squelch_disable = bit (bs ! 2) 3,
     pm_qsfp_options_t.reserved_194_4 = bit (bs ! 2) 4,
     pm_qsfp_options_t.reserved_194_5 = bit (bs ! 2) 5,
     pm_qsfp_options_t.reserved_194_6 = bit (bs ! 2) 6,
     pm_qsfp_options_t.reserved_194_7 = bit (bs ! 2) 7,
     pm_qsfp_options_t.reserved_195_0 = bit (bs ! 3) 0,
     pm_qsfp_options_t.loss_of_signal = bit (bs ! 3) 1,
     pm_qsfp_options_t.tx_squelch_pave = bit (bs ! 3) 2,
     pm_qsfp_options_t.tx_fault = bit (bs ! 3) 3,
     pm_qsfp_options_t.tx_disable = bit (bs ! 3) 4,
     pm_qsfp_options_t.rate_select = bit (bs ! 3) 5,
     pm_qsfp_options_t.memory_page_1 = bit (bs ! 3) 6,
     pm_qsfp_options_t.memory_page_2 = bit (bs ! 3) 7\<rparr>"

definition bytes_of_qsfp_options :: "pm_qsfp_options_t \<Rightarrow> byte list" where
  "bytes_of_qsfp_options r =
     [pm_qsfp_options_t.ext_compliance_code r, 
      byte_of_bits [pm_qsfp_options_t.rx_output_amplitude r, 
      pm_qsfp_options_t.reserved_193_1 r, pm_qsfp_options_t.reserved_193_2 r, 
      pm_qsfp_options_t.reserved_193_3 r, pm_qsfp_options_t.reserved_193_4 r, 
      pm_qsfp_options_t.reserved_193_5 r, pm_qsfp_options_t.reserved_193_6 r, 
      pm_qsfp_options_t.reserved_193_7 r], byte_of_bits [pm_qsfp_options_t.tx_squelch r, 
      pm_qsfp_options_t.tx_squelch_disable r, pm_qsfp_options_t.rx_output_disable r, 
      pm_qsfp_options_t.rx_squelch_disable r, pm_qsfp_options_t.reserved_194_4 r, 
      pm_qsfp_options_t.reserved_194_5 r, pm_qsfp_options_t.reserved_194_6 r, 
      pm_qsfp_options_t.reserved_194_7 r], 
      byte_of_bits [pm_qsfp_options_t.reserved_195_0 r, 
      pm_qsfp_options_t.loss_of_signal r, pm_qsfp_options_t.tx_squelch_pave r, 
      pm_qsfp_options_t.tx_fault r, pm_qsfp_options_t.tx_disable r, 
      pm_qsfp_options_t.rate_select r, pm_qsfp_options_t.memory_page_1 r, 
      pm_qsfp_options_t.memory_page_2 r]]"

interpretation qsfp_options: struct_layout qsfp_options_of_bytes bytes_of_qsfp_options 4 "\<lambda>_. True"
  by unfold_locales
    (simp_all add: qsfp_options_of_bytes_def bytes_of_qsfp_options_def layout glue unglue)

lemmas [layout] = qsfp_options.length_enc qsfp_options.dec_enc qsfp_options.enc_dec

subsection \<open>\<^verbatim>\<open>pm_qsfp_diag_monitoring_type_t\<close>\<close>

record pm_qsfp_diag_monitoring_type_t =
  reserved_220_0 :: bool
  reserved_220_1 :: bool
  reserved_220_2 :: bool
  average_input_optical_power :: bool
  reserved_220_4 :: bool
  reserved_220_5 :: bool
  reserved_220_6 :: bool
  reserved_220_7 :: bool

definition qsfp_diag_monitoring_type_of_bytes :: "byte list \<Rightarrow> pm_qsfp_diag_monitoring_type_t" where
  "qsfp_diag_monitoring_type_of_bytes bs = \<lparr>
     pm_qsfp_diag_monitoring_type_t.reserved_220_0 = bit (bs ! 0) 0,
     pm_qsfp_diag_monitoring_type_t.reserved_220_1 = bit (bs ! 0) 1,
     pm_qsfp_diag_monitoring_type_t.reserved_220_2 = bit (bs ! 0) 2,
     pm_qsfp_diag_monitoring_type_t.average_input_optical_power = bit (bs ! 0) 3,
     pm_qsfp_diag_monitoring_type_t.reserved_220_4 = bit (bs ! 0) 4,
     pm_qsfp_diag_monitoring_type_t.reserved_220_5 = bit (bs ! 0) 5,
     pm_qsfp_diag_monitoring_type_t.reserved_220_6 = bit (bs ! 0) 6,
     pm_qsfp_diag_monitoring_type_t.reserved_220_7 = bit (bs ! 0) 7\<rparr>"

definition bytes_of_qsfp_diag_monitoring_type :: "pm_qsfp_diag_monitoring_type_t \<Rightarrow> byte list" where
  "bytes_of_qsfp_diag_monitoring_type r =
     [byte_of_bits [pm_qsfp_diag_monitoring_type_t.reserved_220_0 r, 
      pm_qsfp_diag_monitoring_type_t.reserved_220_1 r, 
      pm_qsfp_diag_monitoring_type_t.reserved_220_2 r, 
      pm_qsfp_diag_monitoring_type_t.average_input_optical_power r, 
      pm_qsfp_diag_monitoring_type_t.reserved_220_4 r, 
      pm_qsfp_diag_monitoring_type_t.reserved_220_5 r, 
      pm_qsfp_diag_monitoring_type_t.reserved_220_6 r, 
      pm_qsfp_diag_monitoring_type_t.reserved_220_7 r]]"

interpretation qsfp_diag_monitoring_type: struct_layout qsfp_diag_monitoring_type_of_bytes bytes_of_qsfp_diag_monitoring_type 1 "\<lambda>_. True"
  by unfold_locales
    (simp_all add: qsfp_diag_monitoring_type_of_bytes_def bytes_of_qsfp_diag_monitoring_type_def layout glue unglue)

lemmas [layout] = qsfp_diag_monitoring_type.length_enc qsfp_diag_monitoring_type.dec_enc qsfp_diag_monitoring_type.enc_dec

subsection \<open>\<^verbatim>\<open>pm_qsfp_enhanced_options_t\<close>\<close>

record pm_qsfp_enhanced_options_t =
  reserved_221_0 :: bool
  reserved_221_1 :: bool
  application_rate_selection :: bool
  rate_selection_supported :: bool
  reserved_221_4 :: bool
  reserved_221_5 :: bool
  reserved_221_6 :: bool
  reserved_221_7 :: bool

definition qsfp_enhanced_options_of_bytes :: "byte list \<Rightarrow> pm_qsfp_enhanced_options_t" where
  "qsfp_enhanced_options_of_bytes bs = \<lparr>
     pm_qsfp_enhanced_options_t.reserved_221_0 = bit (bs ! 0) 0,
     pm_qsfp_enhanced_options_t.reserved_221_1 = bit (bs ! 0) 1,
     pm_qsfp_enhanced_options_t.application_rate_selection = bit (bs ! 0) 2,
     pm_qsfp_enhanced_options_t.rate_selection_supported = bit (bs ! 0) 3,
     pm_qsfp_enhanced_options_t.reserved_221_4 = bit (bs ! 0) 4,
     pm_qsfp_enhanced_options_t.reserved_221_5 = bit (bs ! 0) 5,
     pm_qsfp_enhanced_options_t.reserved_221_6 = bit (bs ! 0) 6,
     pm_qsfp_enhanced_options_t.reserved_221_7 = bit (bs ! 0) 7\<rparr>"

definition bytes_of_qsfp_enhanced_options :: "pm_qsfp_enhanced_options_t \<Rightarrow> byte list" where
  "bytes_of_qsfp_enhanced_options r =
     [byte_of_bits [pm_qsfp_enhanced_options_t.reserved_221_0 r, 
      pm_qsfp_enhanced_options_t.reserved_221_1 r, 
      pm_qsfp_enhanced_options_t.application_rate_selection r, 
      pm_qsfp_enhanced_options_t.rate_selection_supported r, 
      pm_qsfp_enhanced_options_t.reserved_221_4 r, 
      pm_qsfp_enhanced_options_t.reserved_221_5 r, 
      pm_qsfp_enhanced_options_t.reserved_221_6 r, 
      pm_qsfp_enhanced_options_t.reserved_221_7 r]]"

interpretation qsfp_enhanced_options: struct_layout qsfp_enhanced_options_of_bytes bytes_of_qsfp_enhanced_options 1 "\<lambda>_. True"
  by unfold_locales
    (simp_all add: qsfp_enhanced_options_of_bytes_def bytes_of_qsfp_enhanced_options_def layout glue unglue)

lemmas [layout] = qsfp_enhanced_options.length_enc qsfp_enhanced_options.dec_enc qsfp_enhanced_options.enc_dec

subsection \<open>\<^verbatim>\<open>pm_qsfp_serial_id_t\<close>\<close>

record pm_qsfp_serial_id_t =
  "identifier" :: byte
  ext_identifier :: pm_qsfp_ext_indentifier_t
  connector :: byte
  spec_compliance :: pm_qsfp_spec_compliance_t
  encoding :: byte
  bit_rate_nominal :: byte
  rate_select :: pm_qsfp_rate_select_t
  length_smf_in_km :: byte
  length_om3_in_2m :: byte
  length_om2_in_m :: byte
  length_om1_in_m :: byte
  length_copper_in_m :: byte
  device_tech :: pm_qsfp_device_tech_t
  vendor_name :: "byte list"
  ib_compliance :: pm_qsfp_ib_compliance_t
  vendor_oui :: "byte list"
  vendor_part_number :: "byte list"
  vendor_revision :: "byte list"
  wavelength :: pm_qsfp_wavelength_t
  wavelength_tolerance :: "16 word"
  max_case_temperature :: byte
  check_code_for_base :: byte
  options :: pm_qsfp_options_t
  vendor_serial_number :: "byte list"
  vendor_date_code :: pm_date_code_t
  diag_monitor_type :: pm_qsfp_diag_monitoring_type_t
  enhanced_options :: pm_qsfp_enhanced_options_t
  reserved_222 :: byte
  check_code_for_extended :: byte
  vendor_area :: "byte list"

definition qsfp_serial_id_of_bytes :: "byte list \<Rightarrow> pm_qsfp_serial_id_t" where
  "qsfp_serial_id_of_bytes bs = \<lparr>
     pm_qsfp_serial_id_t.identifier = bs ! 0,
     pm_qsfp_serial_id_t.ext_identifier = qsfp_ext_indentifier_of_bytes (bytes_at 1 1 bs),
     pm_qsfp_serial_id_t.connector = bs ! 2,
     pm_qsfp_serial_id_t.spec_compliance = qsfp_spec_compliance_of_bytes (bytes_at 3 8 bs),
     pm_qsfp_serial_id_t.encoding = bs ! 11, pm_qsfp_serial_id_t.bit_rate_nominal = bs ! 12,
     pm_qsfp_serial_id_t.rate_select = qsfp_rate_select_of_bytes (bytes_at 13 1 bs),
     pm_qsfp_serial_id_t.length_smf_in_km = bs ! 14,
     pm_qsfp_serial_id_t.length_om3_in_2m = bs ! 15,
     pm_qsfp_serial_id_t.length_om2_in_m = bs ! 16,
     pm_qsfp_serial_id_t.length_om1_in_m = bs ! 17,
     pm_qsfp_serial_id_t.length_copper_in_m = bs ! 18,
     pm_qsfp_serial_id_t.device_tech = qsfp_device_tech_of_bytes (bytes_at 19 1 bs),
     pm_qsfp_serial_id_t.vendor_name = bytes_at 20 16 bs,
     pm_qsfp_serial_id_t.ib_compliance = qsfp_ib_compliance_of_bytes (bytes_at 36 1 bs),
     pm_qsfp_serial_id_t.vendor_oui = bytes_at 37 3 bs,
     pm_qsfp_serial_id_t.vendor_part_number = bytes_at 40 16 bs,
     pm_qsfp_serial_id_t.vendor_revision = bytes_at 56 2 bs,
     pm_qsfp_serial_id_t.wavelength = qsfp_wavelength_of_bytes (bytes_at 58 2 bs),
     pm_qsfp_serial_id_t.wavelength_tolerance = le16 (bs ! 60) (bs ! 61),
     pm_qsfp_serial_id_t.max_case_temperature = bs ! 62,
     pm_qsfp_serial_id_t.check_code_for_base = bs ! 63,
     pm_qsfp_serial_id_t.options = qsfp_options_of_bytes (bytes_at 64 4 bs),
     pm_qsfp_serial_id_t.vendor_serial_number = bytes_at 68 16 bs,
     pm_qsfp_serial_id_t.vendor_date_code = date_code_of_bytes (bytes_at 84 8 bs),
     pm_qsfp_serial_id_t.diag_monitor_type = qsfp_diag_monitoring_type_of_bytes (bytes_at 92 1 bs),
     pm_qsfp_serial_id_t.enhanced_options = qsfp_enhanced_options_of_bytes (bytes_at 93 1 bs),
     pm_qsfp_serial_id_t.reserved_222 = bs ! 94,
     pm_qsfp_serial_id_t.check_code_for_extended = bs ! 95,
     pm_qsfp_serial_id_t.vendor_area = bytes_at 96 32 bs\<rparr>"

definition bytes_of_qsfp_serial_id :: "pm_qsfp_serial_id_t \<Rightarrow> byte list" where
  "bytes_of_qsfp_serial_id r =
     [pm_qsfp_serial_id_t.identifier r] @
     bytes_of_qsfp_ext_indentifier (pm_qsfp_serial_id_t.ext_identifier r) @
     [pm_qsfp_serial_id_t.connector r] @
     bytes_of_qsfp_spec_compliance (pm_qsfp_serial_id_t.spec_compliance r) @
     [pm_qsfp_serial_id_t.encoding r, pm_qsfp_serial_id_t.bit_rate_nominal r] @
     bytes_of_qsfp_rate_select (pm_qsfp_serial_id_t.rate_select r) @
     [pm_qsfp_serial_id_t.length_smf_in_km r, pm_qsfp_serial_id_t.length_om3_in_2m r, 
      pm_qsfp_serial_id_t.length_om2_in_m r, pm_qsfp_serial_id_t.length_om1_in_m r, 
      pm_qsfp_serial_id_t.length_copper_in_m r] @
     bytes_of_qsfp_device_tech (pm_qsfp_serial_id_t.device_tech r) @
     pm_qsfp_serial_id_t.vendor_name r @
     bytes_of_qsfp_ib_compliance (pm_qsfp_serial_id_t.ib_compliance r) @
     pm_qsfp_serial_id_t.vendor_oui r @
     pm_qsfp_serial_id_t.vendor_part_number r @
     pm_qsfp_serial_id_t.vendor_revision r @
     bytes_of_qsfp_wavelength (pm_qsfp_serial_id_t.wavelength r) @
     [le16_lo (pm_qsfp_serial_id_t.wavelength_tolerance r), 
      le16_hi (pm_qsfp_serial_id_t.wavelength_tolerance r), 
      pm_qsfp_serial_id_t.max_case_temperature r, 
      pm_qsfp_serial_id_t.check_code_for_base r] @
     bytes_of_qsfp_options (pm_qsfp_serial_id_t.options r) @
     pm_qsfp_serial_id_t.vendor_serial_number r @
     bytes_of_date_code (pm_qsfp_serial_id_t.vendor_date_code r) @
     bytes_of_qsfp_diag_monitoring_type (pm_qsfp_serial_id_t.diag_monitor_type r) @
     bytes_of_qsfp_enhanced_options (pm_qsfp_serial_id_t.enhanced_options r) @
     [pm_qsfp_serial_id_t.reserved_222 r, pm_qsfp_serial_id_t.check_code_for_extended r] @
     pm_qsfp_serial_id_t.vendor_area r"

definition wf_qsfp_serial_id :: "pm_qsfp_serial_id_t \<Rightarrow> bool" where
  "wf_qsfp_serial_id r \<longleftrightarrow> length (pm_qsfp_serial_id_t.vendor_name r) = 16 \<and>
     length (pm_qsfp_serial_id_t.vendor_oui r) = 3 \<and>
     length (pm_qsfp_serial_id_t.vendor_part_number r) = 16 \<and>
     length (pm_qsfp_serial_id_t.vendor_revision r) = 2 \<and>
     length (pm_qsfp_serial_id_t.vendor_serial_number r) = 16 \<and>
     wf_date_code (pm_qsfp_serial_id_t.vendor_date_code r) \<and>
     length (pm_qsfp_serial_id_t.vendor_area r) = 32"

interpretation qsfp_serial_id: struct_layout qsfp_serial_id_of_bytes bytes_of_qsfp_serial_id 128 wf_qsfp_serial_id
  by unfold_locales
    (simp_all add: qsfp_serial_id_of_bytes_def bytes_of_qsfp_serial_id_def wf_qsfp_serial_id_def layout glue unglue)

lemmas [layout] = qsfp_serial_id.length_enc qsfp_serial_id.dec_enc qsfp_serial_id.enc_dec qsfp_serial_id.wf_dec

text \<open>The memory map of the page: the address and the bytes of every field, in the order of the struct.\<close>

definition qsfp_serial_id_map :: "pm_qsfp_serial_id_t \<Rightarrow> (nat \<times> byte list) list" where
  "qsfp_serial_id_map r =
     [(0, [pm_qsfp_serial_id_t.identifier r]),
      (1, bytes_of_qsfp_ext_indentifier (pm_qsfp_serial_id_t.ext_identifier r)),
      (2, [pm_qsfp_serial_id_t.connector r]),
      (3, bytes_of_qsfp_spec_compliance (pm_qsfp_serial_id_t.spec_compliance r)),
      (11, [pm_qsfp_serial_id_t.encoding r, pm_qsfp_serial_id_t.bit_rate_nominal r]),
      (13, bytes_of_qsfp_rate_select (pm_qsfp_serial_id_t.rate_select r)),
      (14, [pm_qsfp_serial_id_t.length_smf_in_km r, pm_qsfp_serial_id_t.length_om3_in_2m r,
      pm_qsfp_serial_id_t.length_om2_in_m r, pm_qsfp_serial_id_t.length_om1_in_m r,
      pm_qsfp_serial_id_t.length_copper_in_m r]),
      (19, bytes_of_qsfp_device_tech (pm_qsfp_serial_id_t.device_tech r)),
      (20, pm_qsfp_serial_id_t.vendor_name r),
      (36, bytes_of_qsfp_ib_compliance (pm_qsfp_serial_id_t.ib_compliance r)),
      (37, pm_qsfp_serial_id_t.vendor_oui r), (40, pm_qsfp_serial_id_t.vendor_part_number r),
      (56, pm_qsfp_serial_id_t.vendor_revision r),
      (58, bytes_of_qsfp_wavelength (pm_qsfp_serial_id_t.wavelength r)),
      (60, [le16_lo (pm_qsfp_serial_id_t.wavelength_tolerance r),
      le16_hi (pm_qsfp_serial_id_t.wavelength_tolerance r)]),
      (62, [pm_qsfp_serial_id_t.max_case_temperature r,
      pm_qsfp_serial_id_t.check_code_for_base r]),
      (64, bytes_of_qsfp_options (pm_qsfp_serial_id_t.options r)),
      (68, pm_qsfp_serial_id_t.vendor_serial_number r),
      (84, bytes_of_date_code (pm_qsfp_serial_id_t.vendor_date_code r)),
      (92, bytes_of_qsfp_diag_monitoring_type (pm_qsfp_serial_id_t.diag_monitor_type r)),
      (93, bytes_of_qsfp_enhanced_options (pm_qsfp_serial_id_t.enhanced_options r)),
      (94, [pm_qsfp_serial_id_t.reserved_222 r, pm_qsfp_serial_id_t.check_code_for_extended r]),
      (96, pm_qsfp_serial_id_t.vendor_area r)]"

lemma qsfp_serial_id_mapped: "length page = 128 \<Longrightarrow> memory_map 0 page (qsfp_serial_id_map (qsfp_serial_id_of_bytes page))"
  by (simp add: qsfp_serial_id_map_def qsfp_serial_id_of_bytes_def memory_map layout)

text \<open>The two members of the union \<open>pm_qsfp_wavelength_t\<close> share its two bytes.\<close>

lemma qsfp_wavelength_fields:
  assumes "length page = 128"
  shows "laser_wavelength_of (wavelength (qsfp_serial_id_of_bytes page)) = le16 (page ! 58) (page ! 59)"
    and "at_2_5_ghz (wavelength (qsfp_serial_id_of_bytes page)) = page ! 58"
    and "at_5_0_ghz (wavelength (qsfp_serial_id_of_bytes page)) = page ! 59"
  using assms
  by (simp_all add: laser_wavelength_of_def qsfp_serial_id_of_bytes_def qsfp_wavelength_of_bytes_def layout)

end
