(* ===== verification/Pm_Detect.thy ===== *)
theory Pm_Detect
  imports Port Qsfp_Layout
begin

text \<open>
  \<^verbatim>\<open>src/pm_detect.c\<close>: the parser that turns the serial id page of a module into the columns of
  its port, and the checksum test of the page. The page is the 128 bytes the module returned; the
  parser reads them through the SFP+ or the QSFP struct type, as the casts of the source do, and
  returns its result code, the page (which it modifies) and the port. \<open>rodata lit i\<close> is the byte at
  offset \<open>i\<close> of the storage of the string literal \<open>lit\<close>, for the offsets behind its terminating NUL that
  two of the source's \<open>memcpy\<close> calls read.
\<close>

section \<open>Small helpers of the source\<close>

definition pm_delete_all_data :: "'z pm_port_t_scheme \<Rightarrow> 'z pm_port_t_scheme" where
  "pm_delete_all_data port = (
     let port = DELETE connector_status connector_status_update port;
         port = DELETE_FREE supported_speeds supported_speeds_update port;
         port = DELETE cable_technology cable_technology_update port;
         port = DELETE_FREE cable_length cable_length_update port;
         port = DELETE_FREE max_speed max_speed_update port;
         port = DELETE power_mode power_mode_update port;
         port = DELETE_FREE ovs_module_info.vendor_name ovs_module_info.vendor_name_update port;
         port = DELETE_FREE ovs_module_info.vendor_oui ovs_module_info.vendor_oui_update port;
         port = DELETE_FREE ovs_module_info.vendor_part_number
                  ovs_module_info.vendor_part_number_update port;
         port = DELETE_FREE ovs_module_info.vendor_revision ovs_module_info.vendor_revision_update port;
         port = DELETE_FREE ovs_module_info.vendor_serial_number
                  ovs_module_info.vendor_serial_number_update port;
         port = DELETE_FREE a0 a0_update port;
         port = DELETE_FREE a2 a2_update port;
         port = DELETE_FREE a0_uppers a0_uppers_update port
     in port)"

fun supported_speeds_loop :: "nat \<Rightarrow> string option \<Rightarrow> int list \<Rightarrow> string option" where
  "supported_speeds_loop idx speeds [] = speeds"
| "supported_speeds_loop idx speeds (speed # args) =
     supported_speeds_loop (idx + 1)
       (Some ((case speeds of None \<Rightarrow> '''' | Some s \<Rightarrow> s) @ (if idx = 0 then '''' else '' '') @ fmt_d speed))
       args"

definition set_supported_speeds :: "int list \<Rightarrow> 'z pm_port_t_scheme \<Rightarrow> 'z pm_port_t_scheme" where
  "set_supported_speeds args port =
     set_column supported_speeds_update (supported_speeds_loop 0 None args) port"

definition pm_oui_format :: "byte list \<Rightarrow> string" where
  "pm_oui_format binary_oui =
     take (3 * 3 - 1)
       (fmt_02x (binary_oui ! 0) @ ''-'' @ fmt_02x (binary_oui ! 1) @ ''-'' @ fmt_02x (binary_oui ! 2))"

fun strip_trailing :: "byte list \<Rightarrow> nat \<Rightarrow> byte list" where
  "strip_trailing buf 0 = buf"
| "strip_trailing buf (Suc idx) =
     (if SPACE = buf ! Suc idx then strip_trailing (buf[Suc idx := 0]) idx else buf)"

definition vendor_string :: "byte list \<Rightarrow> string" where
  "vendor_string field = c_string (strip_trailing (field @ [0]) (length field - 1))"

definition literal_bytes :: "(string \<Rightarrow> nat \<Rightarrow> byte) \<Rightarrow> string \<Rightarrow> nat \<Rightarrow> byte list" where
  "literal_bytes rodata lit n =
     map (\<lambda>i. if i < length lit then byte_of_char (lit ! i) else if i = length lit then 0 else rodata lit i)
       [0..<n]"

section \<open>Classification\<close>

text \<open>
  The block that most branches of the source repeat: whether the module is optical, its connector,
  its status, its one speed, and no cable data.
\<close>

definition report_module ::
  "bool \<Rightarrow> ovs_connector \<Rightarrow> ovs_connector_status \<Rightarrow> int \<Rightarrow> 'z pm_port_t_scheme \<Rightarrow> 'z pm_port_t_scheme" where
  "report_module opt conn status speed port = (
     let port = port\<lparr>optical := opt\<rparr>;
         port = SET_STATIC_STRING ovs_module_info.connector_update conn port;
         port = SET_STATIC_STRING connector_status_update status port;
         port = SET_INT_STRING max_speed max_speed_update speed port;
         port = set_supported_speeds [speed] port;
         port = DELETE cable_technology cable_technology_update port;
         port = DELETE_FREE cable_length cable_length_update port
     in port)"

abbreviation "supported opt conn speed \<equiv> report_module opt conn CONNECTOR_STATUS_SUPPORTED speed"
abbreviation "unrecognized \<equiv> report_module False CONNECTOR_UNKNOWN CONNECTOR_STATUS_UNRECOGNIZED 0"

definition PM_CONNECTOR_COPPER_PIGTAIL :: byte where "PM_CONNECTOR_COPPER_PIGTAIL = 0x21"
definition SFP_BIT_RATE_NOMINAL_10G :: byte where "SFP_BIT_RATE_NOMINAL_10G = 0x64"

definition report_dac :: "pm_sfp_serial_id_t \<Rightarrow> 'z pm_port_t_scheme \<Rightarrow> 'z pm_port_t_scheme" where
  "report_dac s port = (
     let cable_tech = CABLE_TECHNOLOGY_PASSIVE;
         port = port\<lparr>optical := False\<rparr>;
         port = SET_STATIC_STRING ovs_module_info.connector_update CONNECTOR_SFP_DAC port;
         port = SET_STATIC_STRING connector_status_update CONNECTOR_STATUS_SUPPORTED port;
         speed = (if SFP_BIT_RATE_NOMINAL_10G \<le> pm_sfp_serial_id_t.bit_rate_nominal s then 10000 else 1000);
         port = SET_INT_STRING max_speed max_speed_update speed port;
         port = set_supported_speeds [speed] port;
         cable_tech =
           (if cable_technology_active (transceiver s) then CABLE_TECHNOLOGY_ACTIVE
            else if cable_technology_passive (transceiver s) then CABLE_TECHNOLOGY_PASSIVE
            else cable_tech);
         port = SET_STATIC_STRING cable_technology_update cable_tech port;
         port = SET_INT_STRING cable_length cable_length_update (uint (length_copper s)) port
     in port)"

text \<open>
  The SFP+ branches in their order. The source appends \<open>&& false\<close> to the first five conditions and
  \<open>|| true\<close> to the sixth.
\<close>

definition pm_parse_sfp_type :: "pm_sfp_serial_id_t \<Rightarrow> 'z pm_port_t_scheme \<Rightarrow> 'z pm_port_t_scheme" where
  "pm_parse_sfp_type s port =
     (let t = transceiver s in
      if PM_CONNECTOR_COPPER_PIGTAIL = pm_sfp_serial_id_t.connector s \<and> False then report_dac s port
      else if pm_sfp_serial_id_transceiver_t.enet_1000base_sx t \<and> False then supported True CONNECTOR_SFP_SX 1000 port
      else if pm_sfp_serial_id_transceiver_t.enet_1000base_lx t \<and> False then supported True CONNECTOR_SFP_LX 1000 port
      else if pm_sfp_serial_id_transceiver_t.enet_1000base_cx t \<and> False then supported False CONNECTOR_SFP_CX 1000 port
      else if pm_sfp_serial_id_transceiver_t.enet_1000base_t t \<and> False then supported False CONNECTOR_SFP_RJ45 1000 port
      else if pm_sfp_serial_id_transceiver_t.enet_10gbase_sr t \<or> True then supported True CONNECTOR_SFP_SR 10000 port
      else if pm_sfp_serial_id_transceiver_t.enet_10gbase_lr t then supported True CONNECTOR_SFP_LR 10000 port
      else if pm_sfp_serial_id_transceiver_t.enet_10gbase_lrm t then supported True CONNECTOR_SFP_LRM 10000 port
      else unrecognized port)"

definition pm_parse_qsfp_plus_type :: "pm_qsfp_serial_id_t \<Rightarrow> 'z pm_port_t_scheme \<Rightarrow> 'z pm_port_t_scheme" where
  "pm_parse_qsfp_plus_type q port =
     (let c = spec_compliance q in
      if enet_40gbase_lr4 c then supported True CONNECTOR_QSFP_LR4 40000 port
      else if enet_40gbase_sr4 c then supported True CONNECTOR_QSFP_SR4 40000 port
      else if enet_40gbase_cr4 c then supported False CONNECTOR_QSFP_CR4 40000 port
      else unrecognized port)"

definition PM_QSFP_EXT_COMPLIANCE_CODE_100GBASE_SR4 :: byte where "PM_QSFP_EXT_COMPLIANCE_CODE_100GBASE_SR4 = 0x02"
definition PM_QSFP_EXT_COMPLIANCE_CODE_100GBASE_LR4 :: byte where "PM_QSFP_EXT_COMPLIANCE_CODE_100GBASE_LR4 = 0x03"
definition PM_QSFP_EXT_COMPLIANCE_CODE_100GBASE_CWDM4 :: byte where "PM_QSFP_EXT_COMPLIANCE_CODE_100GBASE_CWDM4 = 0x06"
definition PM_QSFP_EXT_COMPLIANCE_CODE_100GBASE_PSM4 :: byte where "PM_QSFP_EXT_COMPLIANCE_CODE_100GBASE_PSM4 = 0x07"
definition PM_QSFP_EXT_COMPLIANCE_CODE_100GBASE_CR4 :: byte where "PM_QSFP_EXT_COMPLIANCE_CODE_100GBASE_CR4 = 0x0B"
definition PM_QSFP_EXT_COMPLIANCE_CODE_100GBASE_CLR4 :: byte where "PM_QSFP_EXT_COMPLIANCE_CODE_100GBASE_CLR4 = 0x17"

lemmas ext_compliance_codes =
  PM_QSFP_EXT_COMPLIANCE_CODE_100GBASE_SR4_def PM_QSFP_EXT_COMPLIANCE_CODE_100GBASE_LR4_def
  PM_QSFP_EXT_COMPLIANCE_CODE_100GBASE_CWDM4_def PM_QSFP_EXT_COMPLIANCE_CODE_100GBASE_PSM4_def
  PM_QSFP_EXT_COMPLIANCE_CODE_100GBASE_CR4_def PM_QSFP_EXT_COMPLIANCE_CODE_100GBASE_CLR4_def

definition pm_parse_qsfp28_type :: "pm_qsfp_serial_id_t \<Rightarrow> 'z pm_port_t_scheme \<Rightarrow> 'z pm_port_t_scheme" where
  "pm_parse_qsfp28_type q port =
     (let c = spec_compliance q; code = ext_compliance_code (pm_qsfp_serial_id_t.options q) in
      if enet_extended c then
        (if code = PM_QSFP_EXT_COMPLIANCE_CODE_100GBASE_SR4 then supported True CONNECTOR_QSFP28_SR4 100000 port
         else if code = PM_QSFP_EXT_COMPLIANCE_CODE_100GBASE_LR4 then supported True CONNECTOR_QSFP28_LR4 100000 port
         else if code = PM_QSFP_EXT_COMPLIANCE_CODE_100GBASE_CWDM4 then supported True CONNECTOR_QSFP28_CWDM4 100000 port
         else if code = PM_QSFP_EXT_COMPLIANCE_CODE_100GBASE_PSM4 then supported True CONNECTOR_QSFP28_PSM4 100000 port
         else if code = PM_QSFP_EXT_COMPLIANCE_CODE_100GBASE_CR4 then supported False CONNECTOR_QSFP28_CR4 100000 port
         else if code = PM_QSFP_EXT_COMPLIANCE_CODE_100GBASE_CLR4 then supported True CONNECTOR_QSFP28_CLR4 100000 port
         else unrecognized port)
      else if enet_40gbase_lr4 c then supported True CONNECTOR_QSFP_LR4 40000 port
      else if enet_40gbase_sr4 c then supported True CONNECTOR_QSFP_SR4 40000 port
      else if enet_40gbase_cr4 c then supported False CONNECTOR_QSFP_CR4 40000 port
      else unrecognized port)"

section \<open>Vendor data and the raw page\<close>

definition pm_parse_sfp_vendor ::
  "(string \<Rightarrow> nat \<Rightarrow> byte) \<Rightarrow> byte list \<Rightarrow> 'z pm_port_t_scheme \<Rightarrow> 'z pm_port_t_scheme" where
  "pm_parse_sfp_vendor rodata page port = (
     let port = DELETE power_mode power_mode_update port;
         port = SET_STRING ovs_module_info.vendor_name ovs_module_info.vendor_name_update
                  (vendor_string (literal_bytes rodata ''vendor_name'' 16)) port;
         port = SET_STRING ovs_module_info.vendor_part_number ovs_module_info.vendor_part_number_update
                  (vendor_string (literal_bytes rodata ''vendor_part_number'' 16)) port;
         port = SET_STRING ovs_module_info.vendor_revision ovs_module_info.vendor_revision_update
                  (vendor_string (literal_bytes rodata ''rev'' 4)) port;
         port = SET_STRING ovs_module_info.vendor_serial_number ovs_module_info.vendor_serial_number_update
                  (vendor_string (literal_bytes rodata ''serial_number'' 16)) port;
         port = SET_BINARY a0_update page port
     in port)"

definition pm_parse_qsfp_plus_vendor ::
  "pm_qsfp_serial_id_t \<Rightarrow> 'z pm_port_t_scheme \<Rightarrow> 'z pm_port_t_scheme" where
  "pm_parse_qsfp_plus_vendor q port = (
     let port = DELETE power_mode power_mode_update port;
         port = SET_STRING ovs_module_info.vendor_name ovs_module_info.vendor_name_update
                  (vendor_string (pm_qsfp_serial_id_t.vendor_name q)) port;
         port = SET_STRING ovs_module_info.vendor_oui ovs_module_info.vendor_oui_update
                  (pm_oui_format (pm_qsfp_serial_id_t.vendor_oui q)) port;
         port = SET_STRING ovs_module_info.vendor_part_number ovs_module_info.vendor_part_number_update
                  (vendor_string (pm_qsfp_serial_id_t.vendor_part_number q)) port;
         port = SET_STRING ovs_module_info.vendor_revision ovs_module_info.vendor_revision_update
                  (vendor_string (pm_qsfp_serial_id_t.vendor_revision q)) port;
         port = SET_STRING ovs_module_info.vendor_serial_number ovs_module_info.vendor_serial_number_update
                  (vendor_string (pm_qsfp_serial_id_t.vendor_serial_number q)) port;
         port = SET_BINARY a0_update (bytes_of_qsfp_serial_id q) port
     in port)"

definition pm_parse_qsfp28_vendor ::
  "pm_qsfp_serial_id_t \<Rightarrow> 'z pm_port_t_scheme \<Rightarrow> 'z pm_port_t_scheme" where
  "pm_parse_qsfp28_vendor q port = (
     let port = DELETE power_mode power_mode_update port;
         port = SET_STRING ovs_module_info.vendor_name ovs_module_info.vendor_name_update
                  (vendor_string (pm_qsfp_serial_id_t.vendor_name q)) port;
         port = SET_STRING ovs_module_info.vendor_oui ovs_module_info.vendor_oui_update
                  (pm_oui_format (pm_qsfp_serial_id_t.vendor_oui q)) port;
         port = SET_STRING ovs_module_info.vendor_part_number ovs_module_info.vendor_part_number_update
                  (vendor_string (pm_qsfp_serial_id_t.vendor_part_number q)) port;
         port = SET_STRING ovs_module_info.vendor_revision ovs_module_info.vendor_revision_update
                  (vendor_string (pm_qsfp_serial_id_t.vendor_revision q)) port;
         port = SET_STRING ovs_module_info.vendor_serial_number ovs_module_info.vendor_serial_number_update
                  (vendor_string (pm_qsfp_serial_id_t.vendor_serial_number q)) port;
         port = SET_BINARY a0_update (bytes_of_qsfp_serial_id q) port
     in port)"

section \<open>The parser\<close>

definition module_type_of :: "string \<Rightarrow> module_type option" where
  "module_type_of c =
     (if c = CONNECTOR_SFP_PLUS then Some MODULE_TYPE_SFP_PLUS
      else if c = CONNECTOR_QSFP_PLUS then Some MODULE_TYPE_QSFP_PLUS
      else if c = CONNECTOR_QSFP28 then Some MODULE_TYPE_QSFP28
      else None)"

text \<open>\<^verbatim>\<open>serial_datap->transceiver.enet_10gbase_sr = 1;\<close>\<close>

definition set_enet_10gbase_sr :: "byte list \<Rightarrow> byte list" where
  "set_enet_10gbase_sr page =
     (let s = sfp_serial_id_of_bytes page in
      bytes_of_sfp_serial_id
        (s\<lparr>transceiver := (transceiver s)\<lparr>pm_sfp_serial_id_transceiver_t.enet_10gbase_sr := True\<rparr>\<rparr>))"

definition pm_parse ::
  "(string \<Rightarrow> nat \<Rightarrow> byte) \<Rightarrow> byte list \<Rightarrow> 'z pm_port_t_scheme \<Rightarrow>
   int \<times> byte list \<times> 'z pm_port_t_scheme" where
  "pm_parse rodata page port =
     (if \<not> pluggable (module_device port) then (0, page, port)
      else case YamlPort.connector (module_device port) of
        None \<Rightarrow> (-1, page, port)
      | Some c \<Rightarrow>
          (case module_type_of c of
             None \<Rightarrow>
               let port = pm_delete_all_data port;
                   port = SET_STATIC_STRING ovs_module_info.connector_update CONNECTOR_UNKNOWN port
               in (-1, page, port)
           | Some type \<Rightarrow>
               let page = set_enet_10gbase_sr page in
               (case type of
                  MODULE_TYPE_SFP_PLUS \<Rightarrow>
                    let s = sfp_serial_id_of_bytes page;
                        port = pm_parse_sfp_type s port;
                        port = pm_parse_sfp_vendor rodata page port
                    in (0, page, port)
                | MODULE_TYPE_QSFP_PLUS \<Rightarrow>
                    let q = qsfp_serial_id_of_bytes page;
                        port = pm_parse_qsfp_plus_type q port;
                        port = pm_parse_qsfp_plus_vendor q port
                    in (0, page, port)
                | MODULE_TYPE_QSFP28 \<Rightarrow>
                    let q = qsfp_serial_id_of_bytes page;
                        port = pm_parse_qsfp28_type q port;
                        port = pm_parse_qsfp28_vendor q port
                    in (0, page, port))))"

section \<open>Checksums\<close>

function byte_sum_loop :: "byte list \<Rightarrow> nat \<Rightarrow> nat \<Rightarrow> byte \<Rightarrow> byte" where
  "byte_sum_loop block idx stop value =
     (if idx \<le> stop then byte_sum_loop block (idx + 1) stop (value + block ! idx) else value)"
  by pat_completeness auto
termination
  by (relation "measure (\<lambda>(block, idx, stop, value). Suc stop - idx)") auto

declare byte_sum_loop.simps [simp del]

definition pm_byte_sum :: "byte list \<Rightarrow> nat \<Rightarrow> nat \<Rightarrow> nat \<Rightarrow> int" where
  "pm_byte_sum block start stop offset =
     (let value = byte_sum_loop block start stop 0
      in if value \<noteq> block ! offset then 1 else 0)"

definition sfpp_sum_verify :: "byte list \<Rightarrow> int" where
  "sfpp_sum_verify serial =
     (let check = pm_byte_sum serial 0 62 63;
          check = check + pm_byte_sum serial 64 94 95
      in check)"

section \<open>Lemmas: helpers\<close>

lemma columns_set_supported_speeds [column_simps]:
  "ovs_module_columns (set_supported_speeds args port) =
     (ovs_module_columns port)\<lparr>supported_speeds := supported_speeds_loop 0 None args\<rparr>"
  by (simp add: set_supported_speeds_def set_column_def)

lemma frame_set_supported_speeds [frame_simps]:
  "port_config (set_supported_speeds args port) = port_config port"
  "module_device (set_supported_speeds args port) = module_device port"
  "present (set_supported_speeds args port) = present port"
  "retry (set_supported_speeds args port) = retry port"
  "a2_read_requested (set_supported_speeds args port) = a2_read_requested port"
  "optical (set_supported_speeds args port) = optical port"
  "ovs_module_dom_columns (set_supported_speeds args port) = ovs_module_dom_columns port"
  by (simp_all add: set_supported_speeds_def set_column_def port_config_def)

fun joined :: "string list \<Rightarrow> string" where
  "joined [] = []"
| "joined [s] = s"
| "joined (s # ss) = s @ '' '' @ joined ss"

lemma joined_app: "joined ((s @ t) # ss) = s @ joined (t # ss)"
  by (cases ss) simp_all

lemma supported_speeds_loop_tail:
  "0 < idx \<Longrightarrow> supported_speeds_loop idx (Some s) args = Some (joined (s # map fmt_d args))"
proof (induction args arbitrary: idx s)
  case (Cons a args)
  with joined_app [of "s @ '' ''" "fmt_d a" "map fmt_d args"] show ?case by simp
qed simp

lemma supported_speeds_loop_eq:
  "supported_speeds_loop 0 None args = (if args = [] then None else Some (joined (map fmt_d args)))"
  by (cases args) (simp_all add: supported_speeds_loop_tail)

lemma length_pm_oui_format: "length (pm_oui_format oui) = 8"
  by (simp add: pm_oui_format_def)

lemma columns_report_module [column_simps]:
  "ovs_module_columns (report_module opt conn status speed port) =
     (ovs_module_columns port)\<lparr>ovs_module_info.connector := Some conn, connector_status := Some status,
        max_speed := Some (int_text (max_speed (ovs_module_columns port)) speed),
        supported_speeds := Some (fmt_d speed), cable_technology := None, cable_length := None\<rparr>"
  by (simp add: report_module_def Let_def column_simps)

lemma columns_delete_all [column_simps]:
  "ovs_module_columns (pm_delete_all_data port) =
     \<lparr>cable_length = None, cable_technology = None,
      ovs_module_info.connector = ovs_module_info.connector (ovs_module_columns port),
      connector_status = None, supported_speeds = None, max_speed = None, power_mode = None,
      vendor_name = None, vendor_oui = None, vendor_part_number = None, vendor_revision = None,
      vendor_serial_number = None, a0 = None, a0_uppers = None, a2 = None\<rparr>"
  by (simp add: pm_delete_all_data_def Let_def column_simps)

lemma frame_report_module [frame_simps]:
  "port_config (report_module opt conn status speed port) = port_config port"
  "module_device (report_module opt conn status speed port) = module_device port"
  "present (report_module opt conn status speed port) = present port"
  "retry (report_module opt conn status speed port) = retry port"
  "a2_read_requested (report_module opt conn status speed port) = a2_read_requested port"
  "optical (report_module opt conn status speed port) = opt"
  "ovs_module_dom_columns (report_module opt conn status speed port) = ovs_module_dom_columns port"
  by (simp_all add: report_module_def Let_def frame_simps)

lemma frame_delete_all [frame_simps]:
  "port_config (pm_delete_all_data port) = port_config port"
  "module_device (pm_delete_all_data port) = module_device port"
  "present (pm_delete_all_data port) = present port"
  "retry (pm_delete_all_data port) = retry port"
  "a2_read_requested (pm_delete_all_data port) = a2_read_requested port"
  "optical (pm_delete_all_data port) = optical port"
  "ovs_module_dom_columns (pm_delete_all_data port) = ovs_module_dom_columns port"
  by (simp_all add: pm_delete_all_data_def Let_def frame_simps)

section \<open>Lemmas: vendor strings\<close>

text \<open>
  \<open>rstrip\<close> drops the trailing spaces of a field. The loop of the source never looks at the first
  byte of a field, so a field of spaces only becomes a single space.
\<close>

definition rstrip :: "byte list \<Rightarrow> byte list" where
  "rstrip bs = rev (dropWhile (\<lambda>b. b = SPACE) (rev bs))"

lemma rstrip_snoc: "rstrip (bs @ [b]) = (if b = SPACE then rstrip bs else bs @ [b])"
  by (simp add: rstrip_def)

lemma c_string_NULs: "c_string (xs @ replicate (Suc n) 0 @ ys) = c_string xs"
  by simp

lemma strip_trailing_eq:
  "c_string (strip_trailing (b # bs @ replicate (Suc n) 0) (length bs)) = c_string (b # rstrip bs)"
proof (induction bs arbitrary: n rule: rev_induct)
  case Nil
  have "c_string ([b] @ 0 # replicate n 0) = c_string [b]" by (rule c_string_app_NUL)
  then show ?case by (simp add: rstrip_def)
next
  case (snoc x bs)
  have nth: "(b # (bs @ [x]) @ replicate (Suc n) 0) ! Suc (length bs) = x"
    by (simp add: nth_append)
  show ?case
  proof (cases "x = SPACE")
    case True
    have "(b # (bs @ [x]) @ replicate (Suc n) 0)[Suc (length bs) := 0]
        = b # bs @ replicate (Suc (Suc n)) 0"
      by (simp add: list_update_append)
    with True nth snoc.IH [of "Suc n"] show ?thesis by (simp add: rstrip_snoc)
  next
    case False
    have "c_string ((b # bs @ [x]) @ 0 # replicate n 0) = c_string (b # bs @ [x])"
      by (rule c_string_app_NUL)
    with False nth show ?thesis by (simp add: rstrip_snoc)
  qed
qed

lemma vendor_string_eq: "vendor_string (b # bs) = c_string (b # rstrip bs)"
  using strip_trailing_eq [of b bs 0] by (simp add: vendor_string_def)

lemma byte_of_char_SPACE: "byte_of_char c = SPACE \<longleftrightarrow> c = CHR '' ''"
proof -
  have "char_of_byte SPACE = CHR '' ''" by code_simp
  then show ?thesis by (metis byte_of_char_of_byte char_of_byte_of_char)
qed

lemma c_string_of_text: "CHR 0x00 \<notin> set s \<Longrightarrow> c_string (map byte_of_char s) = s"
proof -
  assume "CHR 0x00 \<notin> set s"
  moreover have "byte_of_char c = 0 \<longleftrightarrow> c = CHR 0x00" for c
  proof -
    have "char_of_byte 0 = CHR 0x00" by code_simp
    then show ?thesis by (metis byte_of_char_of_byte char_of_byte_of_char)
  qed
  ultimately have "takeWhile (\<lambda>b. b \<noteq> 0) (map byte_of_char s) = map byte_of_char s"
    unfolding takeWhile_eq_all_conv by auto
  then have "c_string (map byte_of_char s) = map char_of_byte (map byte_of_char s)"
    unfolding c_string_def by (rule arg_cong)
  then show ?thesis by (simp add: comp_def)
qed

text \<open>Text padded with spaces to the length of its field is read as that text.\<close>

lemma vendor_string_padded:
  assumes "s \<noteq> []" "last s \<noteq> CHR '' ''" "CHR 0x00 \<notin> set s"
  shows "vendor_string (map byte_of_char s @ replicate n SPACE) = s"
proof -
  obtain c cs where s: "s = c # cs" using assms(1) by (cases s) auto
  have drop: "dropWhile (\<lambda>b. b = SPACE) (replicate n SPACE @ xs) = dropWhile (\<lambda>b. b = SPACE) xs" for xs
    by (induction n) simp_all
  have "rstrip (map byte_of_char cs @ replicate n SPACE) = rstrip (map byte_of_char cs)"
    by (simp add: rstrip_def drop)
  also have "\<dots> = map byte_of_char cs"
  proof (cases cs rule: rev_cases)
    case (snoc ds d)
    then have "byte_of_char d \<noteq> SPACE" using assms(2) s by (auto simp: byte_of_char_SPACE)
    with snoc show ?thesis by (simp add: rstrip_snoc)
  qed (simp add: rstrip_def)
  finally have "vendor_string (map byte_of_char s @ replicate n SPACE) = c_string (map byte_of_char s)"
    by (simp add: s vendor_string_eq)
  also have "\<dots> = s" using assms(3) by (rule c_string_of_text)
  finally show ?thesis .
qed

section \<open>Lemmas: the bit the parser sets\<close>

lemma nth_update_other: "i \<noteq> j \<Longrightarrow> xs[j := v] ! i = xs ! i"
  by simp

lemma bytes_at_update_other: "j < off \<Longrightarrow> bytes_at off n (xs[j := v]) = bytes_at off n xs"
  by (simp add: bytes_at_def drop_update_cancel)

lemma bytes_at_update_here:
  "off \<le> j \<Longrightarrow> j < off + n \<Longrightarrow> bytes_at off n (xs[j := v]) = (bytes_at off n xs)[j - off := v]"
  by (simp add: bytes_at_def drop_update_swap take_update_swap)

lemma bytes_at_update_behind: "off + n \<le> j \<Longrightarrow> bytes_at off n (xs[j := v]) = bytes_at off n xs"
  by (simp add: bytes_at_def drop_update_swap take_update_cancel)

lemmas page_update = nth_update_other bytes_at_update_other bytes_at_update_here bytes_at_update_behind

abbreviation sr_set :: "byte list \<Rightarrow> byte list" where
  "sr_set page \<equiv> page[3 := or (page ! 3) 0x10]"

lemma bit_or_sr: "i < 8 \<Longrightarrow> bit (or b (0x10 :: byte)) i \<longleftrightarrow> bit b i \<or> i = 4"
proof -
  assume "i < 8"
  have "\<forall>i<8. bit (0x10 :: byte) i \<longleftrightarrow> i = 4" unfolding less_8_cases by simp
  then show ?thesis using \<open>i < 8\<close> by (simp add: bit_or_iff)
qed

lemma transceiver_sr_set:
  assumes "length bs = 8"
  shows "sfp_serial_id_transceiver_of_bytes (bs[0 := or (bs ! 0) 0x10]) =
    (sfp_serial_id_transceiver_of_bytes bs)\<lparr>pm_sfp_serial_id_transceiver_t.enet_10gbase_sr := True\<rparr>"
  using assms by (simp add: sfp_serial_id_transceiver_of_bytes_def bit_or_sr)

lemma set_enet_10gbase_sr_eq:
  assumes "length page = 128"
  shows "set_enet_10gbase_sr page = sr_set page"
proof -
  let ?s = "sfp_serial_id_of_bytes page"
  have "sfp_serial_id_of_bytes (sr_set page) =
      ?s\<lparr>transceiver := (transceiver ?s)\<lparr>pm_sfp_serial_id_transceiver_t.enet_10gbase_sr := True\<rparr>\<rparr>"
    using assms transceiver_sr_set [of "bytes_at 3 8 page"]
    by (simp add: sfp_serial_id_of_bytes_def page_update layout)
  then have "set_enet_10gbase_sr page = bytes_of_sfp_serial_id (sfp_serial_id_of_bytes (sr_set page))"
    by (simp add: set_enet_10gbase_sr_def Let_def)
  then show ?thesis using assms by (simp add: sfp_serial_id.enc_dec)
qed

section \<open>Lemmas: what the parser reads of a page\<close>

lemma sr_set_qsfp:
  assumes "length page = 128" and "q = qsfp_serial_id_of_bytes (sr_set page)"
  shows "enet_40gbase_lr4 (spec_compliance q) = bit (page ! 3) 1"
    and "enet_40gbase_sr4 (spec_compliance q) = bit (page ! 3) 2"
    and "enet_40gbase_cr4 (spec_compliance q) = bit (page ! 3) 3"
    and "enet_extended (spec_compliance q) = bit (page ! 3) 7"
    and "ext_compliance_code (pm_qsfp_serial_id_t.options q) = page ! 64"
    and "pm_qsfp_serial_id_t.vendor_name q = bytes_at 20 16 page"
    and "pm_qsfp_serial_id_t.vendor_oui q = bytes_at 37 3 page"
    and "pm_qsfp_serial_id_t.vendor_part_number q = bytes_at 40 16 page"
    and "pm_qsfp_serial_id_t.vendor_revision q = bytes_at 56 2 page"
    and "pm_qsfp_serial_id_t.vendor_serial_number q = bytes_at 68 16 page"
    and "bytes_of_qsfp_serial_id q = sr_set page"
  using assms
  by (simp_all add: qsfp_serial_id.enc_dec, simp_all add: qsfp_serial_id_of_bytes_def
      qsfp_spec_compliance_of_bytes_def qsfp_options_of_bytes_def page_update layout bit_or_sr)

text \<open>
  A column that \<open>SET_INT_STRING\<close> wrote holds the canonical text of a number. With such columns the
  macro's result does not depend on what the column held before.
\<close>

fun int_column_ok :: "string option \<Rightarrow> bool" where
  "int_column_ok None \<longleftrightarrow> True"
| "int_column_ok (Some s) \<longleftrightarrow> s = fmt_d (strtol0 s)"

definition port_ok :: "'z pm_port_t_scheme \<Rightarrow> bool" where
  "port_ok port \<longleftrightarrow>
     int_column_ok (max_speed (ovs_module_columns port)) \<and>
     int_column_ok (cable_length (ovs_module_columns port)) \<and>
     length (hw_enable_subport port) = MAX_SPLIT_COUNT"

lemma int_text_ok: "int_column_ok old \<Longrightarrow> int_text old v = fmt_d v"
  by (cases old) (auto simp: int_text_def)

lemma int_column_ok_fmt_d [simp]:
  "LONG_MIN \<le> v \<Longrightarrow> v \<le> LONG_MAX \<Longrightarrow> int_column_ok (Some (fmt_d v))"
  by (simp add: strtol0_fmt_d)

text \<open>The text of the literals the SFP+ branch publishes does not depend on the bytes behind them.\<close>

lemma c_string_Cons: "c_string (b # bs) = (if b = 0 then [] else char_of_byte b # c_string bs)"
  by (simp add: c_string_def)

lemma c_string_rstrip: "c_string (rstrip (xs @ 0 # ys)) = c_string xs"
proof -
  have "\<exists>zs. rstrip (xs @ 0 # ys) = xs @ 0 # zs"
  proof (induction ys rule: rev_induct)
    case Nil
    have "(0 :: byte) \<noteq> SPACE" by (simp add: SPACE_def)
    then show ?case by (simp add: rstrip_snoc)
  next
    case (snoc y ys)
    then obtain zs where "rstrip (xs @ 0 # ys) = xs @ 0 # zs" by blast
    moreover have "rstrip ((xs @ 0 # ys) @ [y]) = (if y = SPACE then rstrip (xs @ 0 # ys) else (xs @ 0 # ys) @ [y])"
      by (rule rstrip_snoc)
    ultimately show ?case by (cases "y = SPACE") auto
  qed
  then show ?thesis by auto
qed

lemma literal_bytes_short:
  assumes "length lit < n"
  shows "literal_bytes rodata lit n = map byte_of_char lit @ 0 # map (rodata lit) [Suc (length lit)..<n]"
proof -
  have "[0..<n] = [0..<length lit] @ length lit # [Suc (length lit)..<n]"
    using assms upt_add_eq_append [of 0 "length lit" "n - length lit"] by (simp add: upt_conv_Cons)
  moreover have "map (\<lambda>i. if i < length lit then byte_of_char (lit ! i) else if i = length lit then 0
      else rodata lit i) [0..<length lit] = map byte_of_char lit"
    by (rule nth_equalityI) simp_all
  ultimately show ?thesis by (simp add: literal_bytes_def)
qed

lemma vendor_string_short_literal:
  assumes "lit \<noteq> []" "length lit < n" "CHR 0x00 \<notin> set lit"
  shows "vendor_string (literal_bytes rodata lit n) = lit"
proof -
  obtain c cs where lit: "lit = c # cs" using assms(1) by (cases lit) auto
  have "vendor_string (literal_bytes rodata lit n) = c_string (map byte_of_char lit)"
    unfolding literal_bytes_short [OF assms(2)]
    by (simp add: lit vendor_string_eq c_string_Cons c_string_rstrip)
  with assms(3) show ?thesis by (simp add: c_string_of_text)
qed

lemma vendor_string_cut_literal:
  assumes "0 < n" "n \<le> length lit" "CHR 0x00 \<notin> set lit" "lit ! (n - 1) \<noteq> CHR '' ''"
  shows "vendor_string (literal_bytes rodata lit n) = take n lit"
proof -
  have "literal_bytes rodata lit n = map byte_of_char (take n lit)"
    using assms(2) by (auto simp: literal_bytes_def intro!: nth_equalityI)
  moreover have "last (take n lit) = lit ! (n - 1)"
    using assms(1,2) by (subst last_conv_nth) (auto simp: min_def)
  moreover have "CHR 0x00 \<notin> set (take n lit)" using assms(3) by (meson in_set_takeD)
  moreover have "take n lit \<noteq> []" using assms(1,2) by auto
  ultimately show ?thesis using assms(4) vendor_string_padded [of "take n lit" 0] by simp
qed

lemma sfp_literals:
  "vendor_string (literal_bytes rodata ''vendor_name'' 16) = ''vendor_name''"
  "vendor_string (literal_bytes rodata ''vendor_part_number'' 16) = ''vendor_part_numb''"
  "vendor_string (literal_bytes rodata ''rev'' 4) = ''rev''"
  "vendor_string (literal_bytes rodata ''serial_number'' 16) = ''serial_number''"
  by (simp_all add: vendor_string_short_literal vendor_string_cut_literal)

lemma pm_parse_sfp_type_eq: "pm_parse_sfp_type s port = supported True CONNECTOR_SFP_SR 10000 port"
  by (simp add: pm_parse_sfp_type_def Let_def)

lemma columns_sfp_vendor [column_simps]:
  "ovs_module_columns (pm_parse_sfp_vendor rodata page port) =
     (ovs_module_columns port)\<lparr>power_mode := None,
        ovs_module_info.vendor_name := Some ''vendor_name'',
        ovs_module_info.vendor_part_number := Some ''vendor_part_numb'',
        ovs_module_info.vendor_revision := Some ''rev'',
        ovs_module_info.vendor_serial_number := Some ''serial_number'', a0 := hex_to_ascii page\<rparr>"
  by (simp add: pm_parse_sfp_vendor_def Let_def sfp_literals column_simps)

lemma columns_qsfp_plus_vendor [column_simps]:
  "ovs_module_columns (pm_parse_qsfp_plus_vendor q port) =
     (ovs_module_columns port)\<lparr>power_mode := None,
        ovs_module_info.vendor_name := Some (vendor_string (pm_qsfp_serial_id_t.vendor_name q)),
        ovs_module_info.vendor_oui := Some (pm_oui_format (pm_qsfp_serial_id_t.vendor_oui q)),
        ovs_module_info.vendor_part_number := Some (vendor_string (pm_qsfp_serial_id_t.vendor_part_number q)),
        ovs_module_info.vendor_revision := Some (vendor_string (pm_qsfp_serial_id_t.vendor_revision q)),
        ovs_module_info.vendor_serial_number := Some (vendor_string (pm_qsfp_serial_id_t.vendor_serial_number q)),
        a0 := hex_to_ascii (bytes_of_qsfp_serial_id q)\<rparr>"
  by (simp add: pm_parse_qsfp_plus_vendor_def Let_def column_simps)

text \<open>The QSFP28 case of the source repeats the vendor block of the QSFP+ case.\<close>

lemma qsfp28_vendor_eq: "pm_parse_qsfp28_vendor q port = pm_parse_qsfp_plus_vendor q port"
  by (simp add: pm_parse_qsfp28_vendor_def pm_parse_qsfp_plus_vendor_def)

lemma frame_sfp_vendor [frame_simps]:
  "port_config (pm_parse_sfp_vendor rodata page port) = port_config port"
  "module_device (pm_parse_sfp_vendor rodata page port) = module_device port"
  "present (pm_parse_sfp_vendor rodata page port) = present port"
  "retry (pm_parse_sfp_vendor rodata page port) = retry port"
  "a2_read_requested (pm_parse_sfp_vendor rodata page port) = a2_read_requested port"
  "optical (pm_parse_sfp_vendor rodata page port) = optical port"
  "ovs_module_dom_columns (pm_parse_sfp_vendor rodata page port) = ovs_module_dom_columns port"
  by (simp_all add: pm_parse_sfp_vendor_def Let_def frame_simps)

lemma frame_qsfp_vendor [frame_simps]:
  "port_config (pm_parse_qsfp_plus_vendor q port) = port_config port"
  "module_device (pm_parse_qsfp_plus_vendor q port) = module_device port"
  "present (pm_parse_qsfp_plus_vendor q port) = present port"
  "retry (pm_parse_qsfp_plus_vendor q port) = retry port"
  "a2_read_requested (pm_parse_qsfp_plus_vendor q port) = a2_read_requested port"
  "optical (pm_parse_qsfp_plus_vendor q port) = optical port"
  "ovs_module_dom_columns (pm_parse_qsfp_plus_vendor q port) = ovs_module_dom_columns port"
  by (simp_all add: pm_parse_qsfp_plus_vendor_def Let_def frame_simps)

section \<open>The classification tables\<close>

text \<open>
  The tables of the two QSFP cases, over the raw bytes of the page: byte 3 (SFF-8636 byte 131) holds
  the compliance bits and byte 64 (byte 192) the extended compliance code. An entry is the value of
  \<open>optical\<close>, the connector, the status and the speed.
\<close>

type_synonym module_class = "bool \<times> ovs_connector \<times> ovs_connector_status \<times> int"

definition qsfp_plus_table :: "byte \<Rightarrow> module_class" where
  "qsfp_plus_table b3 =
     (if bit b3 1 then (True, CONNECTOR_QSFP_LR4, CONNECTOR_STATUS_SUPPORTED, 40000)
      else if bit b3 2 then (True, CONNECTOR_QSFP_SR4, CONNECTOR_STATUS_SUPPORTED, 40000)
      else if bit b3 3 then (False, CONNECTOR_QSFP_CR4, CONNECTOR_STATUS_SUPPORTED, 40000)
      else (False, CONNECTOR_UNKNOWN, CONNECTOR_STATUS_UNRECOGNIZED, 0))"

definition qsfp28_table :: "byte \<Rightarrow> byte \<Rightarrow> module_class" where
  "qsfp28_table b3 code =
     (if bit b3 7 then
        (case map_of [(0x02, (True, CONNECTOR_QSFP28_SR4)), (0x03, (True, CONNECTOR_QSFP28_LR4)),
                      (0x06, (True, CONNECTOR_QSFP28_CWDM4)), (0x07, (True, CONNECTOR_QSFP28_PSM4)),
                      (0x0B, (False, CONNECTOR_QSFP28_CR4)), (0x17, (True, CONNECTOR_QSFP28_CLR4))] code of
           Some (opt, conn) \<Rightarrow> (opt, conn, CONNECTOR_STATUS_SUPPORTED, 100000)
         | None \<Rightarrow> (False, CONNECTOR_UNKNOWN, CONNECTOR_STATUS_UNRECOGNIZED, 0))
      else qsfp_plus_table b3)"

definition report :: "module_class \<Rightarrow> 'z pm_port_t_scheme \<Rightarrow> 'z pm_port_t_scheme" where
  "report cls port = (case cls of (opt, conn, status, speed) \<Rightarrow> report_module opt conn status speed port)"

lemma pm_parse_qsfp_plus_type_eq:
  "length page = 128 \<Longrightarrow>
   pm_parse_qsfp_plus_type (qsfp_serial_id_of_bytes (sr_set page)) port = report (qsfp_plus_table (page ! 3)) port"
  by (simp add: pm_parse_qsfp_plus_type_def Let_def sr_set_qsfp [OF _ refl] qsfp_plus_table_def report_def)

lemma pm_parse_qsfp28_type_table:
  assumes "enet_extended (spec_compliance q) = bit b3 7"
    and "ext_compliance_code (pm_qsfp_serial_id_t.options q) = code"
    and "pm_parse_qsfp_plus_type q port = report (qsfp_plus_table b3) port"
  shows "pm_parse_qsfp28_type q port = report (qsfp28_table b3 code) port"
proof (cases "bit b3 7")
  case True
  consider "code \<in> {0x02, 0x03, 0x06, 0x07, 0x0B, 0x17}" | "code \<notin> {0x02, 0x03, 0x06, 0x07, 0x0B, 0x17}"
    by blast
  then show ?thesis using assms(1,2) True
    by cases (auto simp: pm_parse_qsfp28_type_def Let_def qsfp28_table_def report_def ext_compliance_codes)
next
  case False
  with assms(1,3) show ?thesis
    by (simp add: pm_parse_qsfp28_type_def pm_parse_qsfp_plus_type_def Let_def qsfp28_table_def)
qed

lemma pm_parse_qsfp28_type_eq:
  "length page = 128 \<Longrightarrow>
   pm_parse_qsfp28_type (qsfp_serial_id_of_bytes (sr_set page)) port =
     report (qsfp28_table (page ! 3) (page ! 64)) port"
  by (intro pm_parse_qsfp28_type_table pm_parse_qsfp_plus_type_eq sr_set_qsfp [OF _ refl])

definition qsfp_class :: "string \<Rightarrow> byte list \<Rightarrow> module_class option" where
  "qsfp_class conn page =
     (if conn = CONNECTOR_QSFP_PLUS then Some (qsfp_plus_table (page ! 3))
      else if conn = CONNECTOR_QSFP28 then Some (qsfp28_table (page ! 3) (page ! 64))
      else None)"

lemma columns_report [column_simps]:
  "ovs_module_columns (report cls port) =
     (case cls of (opt, conn, status, speed) \<Rightarrow>
        (ovs_module_columns port)\<lparr>ovs_module_info.connector := Some conn, connector_status := Some status,
           max_speed := Some (int_text (max_speed (ovs_module_columns port)) speed),
           supported_speeds := Some (fmt_d speed), cable_technology := None, cable_length := None\<rparr>)"
  by (cases cls) (simp add: report_def column_simps)

lemma frame_report [frame_simps]:
  "port_config (report cls port) = port_config port"
  "module_device (report cls port) = module_device port"
  "present (report cls port) = present port"
  "retry (report cls port) = retry port"
  "a2_read_requested (report cls port) = a2_read_requested port"
  "optical (report cls port) = fst cls"
  "ovs_module_dom_columns (report cls port) = ovs_module_dom_columns port"
  by (cases cls; simp add: report_def frame_simps)+

section \<open>What the parser does\<close>

lemma pm_parse_sfp_eq:
  assumes "pluggable (module_device port)" "YamlPort.connector (module_device port) = Some CONNECTOR_SFP_PLUS"
    and "length page = 128"
  shows "pm_parse rodata page port =
    (0, sr_set page, pm_parse_sfp_vendor rodata (sr_set page) (supported True CONNECTOR_SFP_SR 10000 port))"
  using assms
  by (simp add: pm_parse_def module_type_of_def set_enet_10gbase_sr_eq pm_parse_sfp_type_eq Let_def)

lemma pm_parse_qsfp_eq:
  assumes "pluggable (module_device port)" "YamlPort.connector (module_device port) = Some conn"
    and "length page = 128"
    and "qsfp_class conn page = Some cls"
  shows "pm_parse rodata page port =
    (0, sr_set page, pm_parse_qsfp_plus_vendor (qsfp_serial_id_of_bytes (sr_set page)) (report cls port))"
  using assms
  by (auto simp: pm_parse_def module_type_of_def set_enet_10gbase_sr_eq pm_parse_qsfp_plus_type_eq
      pm_parse_qsfp28_type_eq qsfp28_vendor_eq Let_def qsfp_class_def split: if_splits)

lemma pm_parse_unknown_eq:
  assumes "pluggable (module_device port)" "YamlPort.connector (module_device port) = Some conn"
    and "conn \<notin> {CONNECTOR_SFP_PLUS, CONNECTOR_QSFP_PLUS, CONNECTOR_QSFP28}"
  shows "pm_parse rodata page port =
    (-1, page, SET_STATIC_STRING ovs_module_info.connector_update CONNECTOR_UNKNOWN (pm_delete_all_data port))"
  using assms by (simp add: pm_parse_def module_type_of_def Let_def)

lemma pm_parse_cases:
  assumes "pm_parse rodata page port = (rc, page', port')" "length page = 128"
  obtains (ignored) "\<not> pluggable (module_device port)" "rc = 0" "page' = page" "port' = port"
  | (no_connector) "pluggable (module_device port)" "YamlPort.connector (module_device port) = None"
      "rc = -1" "page' = page" "port' = port"
  | (unknown) "pluggable (module_device port)" "rc = -1" "page' = page"
      "port' = SET_STATIC_STRING ovs_module_info.connector_update CONNECTOR_UNKNOWN (pm_delete_all_data port)"
  | (sfp) "YamlPort.connector (module_device port) = Some CONNECTOR_SFP_PLUS" "rc = 0" "page' = sr_set page"
      "port' = pm_parse_sfp_vendor rodata (sr_set page) (supported True CONNECTOR_SFP_SR 10000 port)"
  | (qsfp) conn cls where "YamlPort.connector (module_device port) = Some conn"
      "qsfp_class conn page = Some cls" "rc = 0" "page' = sr_set page"
      "port' = pm_parse_qsfp_plus_vendor (qsfp_serial_id_of_bytes (sr_set page)) (report cls port)"
proof (cases "pluggable (module_device port)")
  case True
  note pluggable = True
  show ?thesis
  proof (cases "YamlPort.connector (module_device port)")
    case None
    with assms(1) pluggable show ?thesis by (intro no_connector) (simp_all add: pm_parse_def)
  next
    case (Some conn)
    show ?thesis
    proof (cases "qsfp_class conn page")
      case None
      then show ?thesis
        using assms pluggable Some pm_parse_sfp_eq [of port page rodata] pm_parse_unknown_eq [of port conn rodata page]
          sfp unknown
        by (cases "conn = CONNECTOR_SFP_PLUS") (auto simp: qsfp_class_def split: if_splits)
    next
      fix cls assume "qsfp_class conn page = Some cls"
      with assms pluggable Some pm_parse_qsfp_eq [of port conn page cls rodata] show ?thesis
        by (intro qsfp) auto
    qed
  qed
next
  case False
  with assms(1) show ?thesis by (intro ignored) (simp_all add: pm_parse_def)
qed

lemma pm_parse_frame:
  assumes "pm_parse rodata page port = (rc, page', port')" "length page = 128"
  shows "port_config port' = port_config port" "present port' = present port" "retry port' = retry port"
    "a2_read_requested port' = a2_read_requested port"
    "ovs_module_dom_columns port' = ovs_module_dom_columns port"
    "rc \<in> {0, -1}" "length page' = 128"
  using assms by (cases rule: pm_parse_cases; simp add: frame_simps)+

lemma table_speeds:
  "snd (snd (snd (qsfp_plus_table b3))) \<in> {0, 40000, 100000}"
  "snd (snd (snd (qsfp28_table b3 code))) \<in> {0, 40000, 100000}"
  by (simp_all add: qsfp_plus_table_def qsfp28_table_def)

lemma qsfp_class_speed: "qsfp_class conn page = Some cls \<Longrightarrow> snd (snd (snd cls)) \<in> {0, 40000, 100000}"
  unfolding qsfp_class_def using table_speeds by (metis option.distinct(1) option.inject)

lemma port_ok_speed_column:
  assumes "v \<in> {0, 10000, 40000, 100000}" and "port_ok port"
    and "max_speed (ovs_module_columns port') = Some (int_text (max_speed (ovs_module_columns port)) v)"
    and "cable_length (ovs_module_columns port') = None" and "port_config port' = port_config port"
  shows "port_ok port'"
proof -
  have "LONG_MIN \<le> v" "v \<le> LONG_MAX" using assms(1) by (auto simp: LONG_MIN_def LONG_MAX_def)
  then have "int_column_ok (Some (fmt_d v))" by (rule int_column_ok_fmt_d)
  moreover have "hw_enable_subport port' = hw_enable_subport port" using assms(5) by (rule port_config_eqD)
  ultimately show ?thesis using assms(2-4) by (simp add: port_ok_def int_text_ok del: int_column_ok.simps(2))
qed

lemma port_ok_supported_sfp:
  "port_ok port \<Longrightarrow>
   port_ok (pm_parse_sfp_vendor rodata page (supported True CONNECTOR_SFP_SR 10000 port))"
  by (rule port_ok_speed_column [where v = 10000 and port = port]) (simp_all add: column_simps frame_simps)

lemma port_ok_report_qsfp:
  assumes "port_ok port" "snd (snd (snd cls)) \<in> {0, 40000, 100000}"
  shows "port_ok (pm_parse_qsfp_plus_vendor q (report cls port))"
  using assms
  by - (rule port_ok_speed_column [where v = "snd (snd (snd cls))" and port = port],
    auto simp: column_simps frame_simps split: prod.splits)

lemma port_ok_withdrawn:
  assumes "port_ok port"
  shows "port_ok (SET_STATIC_STRING ovs_module_info.connector_update CONNECTOR_UNKNOWN (pm_delete_all_data port))"
    (is "port_ok ?port'")
proof -
  have "port_config ?port' = port_config port" by (simp add: frame_simps)
  then have "hw_enable_subport ?port' = hw_enable_subport port" by (rule port_config_eqD)
  then show ?thesis using assms by (simp add: port_ok_def column_simps)
qed

lemma pm_parse_port_ok:
  assumes "pm_parse rodata page port = (rc, page', port')" "length page = 128" "port_ok port"
  shows "port_ok port'"
  using assms(1,2)
proof (cases rule: pm_parse_cases)
  case (qsfp conn cls)
  with assms(3) qsfp_class_speed show ?thesis by (simp add: port_ok_report_qsfp)
qed (use assms(3) in \<open>simp_all add: port_ok_withdrawn port_ok_supported_sfp\<close>)

text \<open>
  C13. Every SFP+ page is reported as a supported optical 10GBASE-SR module with one speed and with
  fixed vendor texts, whatever the page says and whatever bytes lie behind the literals in memory.
  The raw page is published with the 10GBASE-SR bit set; \<open>vendor_oui\<close> and the DOM columns keep their
  old values, and the port's configuration is untouched.
\<close>

theorem pm_parse_sfp:
  assumes "pluggable (module_device port)" "YamlPort.connector (module_device port) = Some CONNECTOR_SFP_PLUS"
    and "length page = 128" and "port_ok port"
    and "pm_parse rodata page port = (rc, page', port')"
  shows "rc = 0 \<and> page' = sr_set page \<and> optical port' \<and> port_config port' = port_config port \<and>
    ovs_module_columns port' = (ovs_module_columns port)\<lparr>
      ovs_module_info.connector := Some CONNECTOR_SFP_SR,
      connector_status := Some CONNECTOR_STATUS_SUPPORTED,
      max_speed := Some ''10000'', supported_speeds := Some ''10000'',
      cable_technology := None, cable_length := None, power_mode := None,
      ovs_module_info.vendor_name := Some ''vendor_name'',
      ovs_module_info.vendor_part_number := Some ''vendor_part_numb'',
      ovs_module_info.vendor_revision := Some ''rev'',
      ovs_module_info.vendor_serial_number := Some ''serial_number'',
      a0 := Some (hex_words (sr_set page))\<rparr>"
proof -
  have "fmt_d 10000 = ''10000''" by (simp add: fmt_d_def text_eval)
  moreover have "int_text (max_speed (ovs_module_columns port)) 10000 = fmt_d 10000"
    using assms(4) by (simp add: port_ok_def int_text_ok)
  ultimately show ?thesis
    using assms(5) unfolding pm_parse_sfp_eq [OF assms(1-3)]
    by (auto simp: column_simps frame_simps assms(3))
qed

text \<open>
  C12. A QSFP+ or QSFP28 page is classified by its compliance bits alone, by the table of its cage;
  the vendor fields are the page's own, without their trailing spaces, and the OUI is printed in hex.
  Setting the 10GBASE-SR bit before the page is read does not change the class.
\<close>

theorem pm_parse_qsfp:
  assumes "pluggable (module_device port)" "YamlPort.connector (module_device port) = Some conn"
    and "length page = 128" and "port_ok port"
    and "qsfp_class conn page = Some cls"
    and "cls = (opt, kind, status, speed)"
    and "pm_parse rodata page port = (rc, page', port')"
  shows "rc = 0 \<and> page' = sr_set page \<and> optical port' = opt \<and> port_config port' = port_config port \<and>
    ovs_module_columns port' = (ovs_module_columns port)\<lparr>
      ovs_module_info.connector := Some kind, connector_status := Some status,
      max_speed := Some (fmt_d speed), supported_speeds := Some (fmt_d speed),
      cable_technology := None, cable_length := None, power_mode := None,
      ovs_module_info.vendor_name := Some (vendor_string (bytes_at 20 16 page)),
      ovs_module_info.vendor_oui := Some (pm_oui_format (bytes_at 37 3 page)),
      ovs_module_info.vendor_part_number := Some (vendor_string (bytes_at 40 16 page)),
      ovs_module_info.vendor_revision := Some (vendor_string (bytes_at 56 2 page)),
      ovs_module_info.vendor_serial_number := Some (vendor_string (bytes_at 68 16 page)),
      a0 := Some (hex_words (sr_set page))\<rparr>"
proof -
  have "int_text (max_speed (ovs_module_columns port)) speed = fmt_d speed"
    using assms(4) by (simp add: port_ok_def int_text_ok)
  then show ?thesis
    using assms(6,7) unfolding pm_parse_qsfp_eq [OF assms(1-3,5)]
    by (auto simp: column_simps frame_simps assms(3) sr_set_qsfp [OF assms(3) refl])
qed

text \<open>
  C35. A pluggable port whose connector is not one of the three the daemon knows is an error: all
  module columns are withdrawn and the connector is reported as unknown.
\<close>

theorem pm_parse_unknown_connector:
  assumes "pluggable (module_device port)" "YamlPort.connector (module_device port) = Some conn"
    and "conn \<notin> {CONNECTOR_SFP_PLUS, CONNECTOR_QSFP_PLUS, CONNECTOR_QSFP28}"
    and "pm_parse rodata page port = (rc, page', port')"
  shows "rc = -1 \<and> page' = page \<and> port_config port' = port_config port \<and>
    ovs_module_columns port' =
     \<lparr>cable_length = None, cable_technology = None, ovs_module_info.connector = Some CONNECTOR_UNKNOWN,
      connector_status = None, supported_speeds = None, max_speed = None, power_mode = None,
      vendor_name = None, vendor_oui = None, vendor_part_number = None, vendor_revision = None,
      vendor_serial_number = None, a0 = None, a0_uppers = None, a2 = None\<rparr>"
  using assms(4) unfolding pm_parse_unknown_eq [OF assms(1-3)]
  by (auto simp: column_simps frame_simps)

section \<open>The check codes\<close>

text \<open>The loop sums a range of bytes modulo 256.\<close>

lemma byte_sum_loop_eq:
  "byte_sum_loop block idx stop v = v + sum_list (map (\<lambda>i. block ! i) [idx..<Suc stop])"
proof (induction block idx stop v rule: byte_sum_loop.induct)
  case (1 block idx stop v)
  then show ?case
    by (subst byte_sum_loop.simps) (auto simp: upt_conv_Cons add.assoc simp del: upt_Suc)
qed

lemma pm_byte_sum_eq:
  "pm_byte_sum block start stop off =
     of_bool (sum_list (map (\<lambda>i. block ! i) [start..<Suc stop]) \<noteq> block ! off)"
  by (simp add: pm_byte_sum_def byte_sum_loop_eq Let_def)

definition check_codes_ok :: "byte list \<Rightarrow> bool" where
  "check_codes_ok page \<longleftrightarrow>
     sum_list (bytes_at 0 63 page) = page ! 63 \<and> sum_list (bytes_at 64 31 page) = page ! 95"

lemma map_nth_upt: "off + n \<le> length xs \<Longrightarrow> map (\<lambda>i. xs ! i) [off..<off + n] = bytes_at off n xs"
  by (rule nth_equalityI) (auto simp: nth_bytes_at)

lemma sfpp_sum_verify_eq:
  assumes "length page = 128"
  shows "sfpp_sum_verify page =
    of_bool (sum_list (bytes_at 0 63 page) \<noteq> page ! 63) + of_bool (sum_list (bytes_at 64 31 page) \<noteq> page ! 95)"
  using assms map_nth_upt [of 0 63 page] map_nth_upt [of 64 31 page]
  by (simp add: sfpp_sum_verify_def pm_byte_sum_eq Let_def)

lemma sum_list_update_byte:
  fixes xs :: "byte list"
  assumes "i < length xs"
  shows "sum_list (xs[i := v]) = sum_list xs - xs ! i + v"
  using assms by (induction xs arbitrary: i) (auto split: nat.splits)

text \<open>
  C32. The checksum test accepts a page exactly when both check codes match, and an accepted page is
  rejected after any change to a single one of its first 96 bytes. The other 32 bytes are not covered: they never change the
  verdict.
\<close>

theorem sfpp_sum_verify_detects:
  assumes "length page = 128"
  shows "(sfpp_sum_verify page = 0 \<longleftrightarrow> check_codes_ok page) \<and> sfpp_sum_verify page \<in> {0, 1, 2} \<and>
    (sfpp_sum_verify page = 0 \<longrightarrow> i < 96 \<longrightarrow> v \<noteq> page ! i \<longrightarrow> sfpp_sum_verify (page[i := v]) \<noteq> 0) \<and>
    (96 \<le> i \<longrightarrow> sfpp_sum_verify (page[i := v]) = sfpp_sum_verify page)"
proof -
  consider "i < 63" | "i = 63" | "64 \<le> i \<and> i < 95" | "i = 95" | "96 \<le> i" by linarith
  then show ?thesis
    by cases (use assms in \<open>auto simp: sfpp_sum_verify_eq check_codes_ok_def page_update
      sum_list_update_byte nth_bytes_at\<close>)
qed

text \<open>
  C34. A module that passes its own checksum but does not claim 10GBASE-SR is published with a page
  that fails the test: the bit the parser sets is covered by the base check code, which it does not adjust.
\<close>

theorem pm_parse_breaks_check_code:
  assumes "pluggable (module_device port)"
    and "YamlPort.connector (module_device port) \<in> Some ` {CONNECTOR_SFP_PLUS, CONNECTOR_QSFP_PLUS, CONNECTOR_QSFP28}"
    and "length page = 128" "sfpp_sum_verify page = 0" "\<not> bit (page ! 3) 4"
    and "pm_parse rodata page port = (rc, page', port')"
  shows "sfpp_sum_verify page' \<noteq> 0 \<and> a0 (ovs_module_columns port') = Some (hex_words page')"
proof -
  have "or (page ! 3) 0x10 \<noteq> page ! 3"
    using assms(5) bit_or_sr [of 4 "page ! 3"] by auto
  then have "sfpp_sum_verify (sr_set page) \<noteq> 0"
    using assms(3,4) by (auto simp: sfpp_sum_verify_eq page_update sum_list_update_byte nth_bytes_at)
  moreover have "page' = sr_set page \<and> a0 (ovs_module_columns port') = Some (hex_words (sr_set page))"
    using assms(6,3)
  proof (cases rule: pm_parse_cases)
    case (qsfp conn cls)
    then show ?thesis by (simp add: column_simps assms(3) sr_set_qsfp(11) [OF assms(3) refl])
  next
    case unknown
    then show ?thesis using assms by (auto simp: pm_parse_def module_type_of_def Let_def)
  qed (use assms in \<open>auto simp: column_simps\<close>)
  ultimately show ?thesis by simp
qed

section \<open>Instances\<close>

text \<open>A pluggable port with a given connector as \<open>calloc\<close> makes it, and a page whose check codes match.\<close>

definition sample_device :: "string \<Rightarrow> YamlPort" where
  "sample_device conn = \<lparr>name = ''1'', pluggable = True, connector = Some conn, module_eeprom = ''eeprom_1'',
     sfpp_mod_present = None, sfpp_tx_disable = None, qsfpp_mod_present = None, qsfpp_reset = None,
     qsfp28p_mod_present = None, qsfp28p_reset = None\<rparr>"

definition sample_port :: "string \<Rightarrow> pm_port_t" where
  "sample_port conn = \<lparr>port_instance = ''1'', uuid = 1, module_device = sample_device conn, subsystem = ''base'',
     ovs_module_columns = zero_module_columns, ovs_module_dom_columns = zero_module_dom_columns,
     module_info_changed = False, hw_enable = False, hw_enable_subport = replicate MAX_SPLIT_COUNT False,
     present = False, retry = False, a2_read_requested = False, split = False, optical = False\<rparr>"

definition sample_page :: "byte list" where
  "sample_page = [0x11, 0, 0, 0x84] @ replicate 59 0 @ [0x95, 0x07] @ replicate 30 0 @ [0x07] @ replicate 32 0"

lemma sample_port_simps [simp]:
  "module_device (sample_port conn) = sample_device conn"
  "pluggable (sample_device conn)"
  "YamlPort.connector (sample_device conn) = Some conn"
  "port_ok (sample_port conn)"
  by (simp_all add: sample_port_def sample_device_def port_ok_def zero_module_columns_def)

lemma sample_page_simps [simp]:
  "length sample_page = 128" "sample_page ! 3 = 0x84" "sample_page ! 64 = 0x07"
  "sfpp_sum_verify sample_page = 0"
proof -
  show "length sample_page = 128" "sample_page ! 3 = 0x84" "sample_page ! 64 = 0x07"
    by (simp_all add: sample_page_def nth_append)
  have "bytes_at 0 63 sample_page = [0x11, 0, 0, 0x84] @ replicate 59 0"
    "bytes_at 64 31 sample_page = 0x07 # replicate 30 0"
    "sample_page ! 63 = 0x95" "sample_page ! 95 = 0x07"
    by (simp_all add: sample_page_def bytes_at_def nth_append)
  then show "sfpp_sum_verify sample_page = 0"
    by (simp add: sfpp_sum_verify_eq \<open>length sample_page = 128\<close> sum_list_replicate)
qed

theorem pm_parse_sfp_witness:
  "case pm_parse (\<lambda>_ _. 0x20) sample_page (sample_port CONNECTOR_SFP_PLUS) of (rc, page', port') \<Rightarrow>
     rc = 0 \<and> ovs_module_info.vendor_name (ovs_module_columns port') = Some ''vendor_name'' \<and>
     ovs_module_info.connector (ovs_module_columns port') = Some CONNECTOR_SFP_SR"
proof -
  obtain rc page' port' where
    result: "pm_parse (\<lambda>_ _. 0x20) sample_page (sample_port CONNECTOR_SFP_PLUS) = (rc, page', port')"
    by (rule prod_cases3)
  with pm_parse_sfp [OF _ _ _ _ result] show ?thesis by simp
qed

lemma sample_class: "qsfp_class CONNECTOR_QSFP28 sample_page =
    Some (True, CONNECTOR_QSFP28_PSM4, CONNECTOR_STATUS_SUPPORTED, 100000)"
proof -
  have "bit (0x84 :: byte) 7" by simp
  then show ?thesis by (simp add: qsfp_class_def qsfp28_table_def)
qed

theorem pm_parse_qsfp_witness:
  "case pm_parse (\<lambda>_ _. 0) sample_page (sample_port CONNECTOR_QSFP28) of (rc, page', port') \<Rightarrow>
     rc = 0 \<and> optical port' \<and>
     ovs_module_info.connector (ovs_module_columns port') = Some CONNECTOR_QSFP28_PSM4"
proof -
  obtain rc page' port' where
    result: "pm_parse (\<lambda>_ _. 0) sample_page (sample_port CONNECTOR_QSFP28) = (rc, page', port')"
    by (rule prod_cases3)
  with pm_parse_qsfp [OF _ _ _ _ sample_class refl result] show ?thesis by simp
qed

lemma CFP_unknown: "''CFP'' \<notin> {CONNECTOR_SFP_PLUS, CONNECTOR_QSFP_PLUS, CONNECTOR_QSFP28}"
  by (simp add: CONNECTOR_SFP_PLUS_def CONNECTOR_QSFP_PLUS_def CONNECTOR_QSFP28_def)

theorem pm_parse_unknown_connector_witness:
  "case pm_parse (\<lambda>_ _. 0) sample_page (sample_port ''CFP'') of (rc, page', port') \<Rightarrow>
     rc = -1 \<and> ovs_module_info.connector (ovs_module_columns port') = Some CONNECTOR_UNKNOWN"
proof -
  obtain rc page' port' where
    result: "pm_parse (\<lambda>_ _. 0) sample_page (sample_port ''CFP'') = (rc, page', port')"
    by (rule prod_cases3)
  with pm_parse_unknown_connector [OF _ _ CFP_unknown result] show ?thesis by simp
qed

theorem sfpp_sum_verify_detects_witness:
  "sfpp_sum_verify sample_page = 0 \<and> sfpp_sum_verify (sample_page[3 := 0]) \<noteq> 0"
  using sfpp_sum_verify_detects [of sample_page 3 0] by simp

theorem pm_parse_breaks_check_code_witness:
  "case pm_parse (\<lambda>_ _. 0) sample_page (sample_port CONNECTOR_QSFP28) of (rc, page', port') \<Rightarrow>
     sfpp_sum_verify sample_page = 0 \<and> sfpp_sum_verify page' \<noteq> 0"
proof -
  obtain rc page' port' where
    result: "pm_parse (\<lambda>_ _. 0) sample_page (sample_port CONNECTOR_QSFP28) = (rc, page', port')"
    by (rule prod_cases3)
  have "\<not> bit (sample_page ! 3) 4" by simp
  with result pm_parse_breaks_check_code [OF _ _ _ _ this result] show ?thesis by simp
qed

end
