(* ===== verification/Sum_Tool.thy ===== *)
theory Sum_Tool
  imports Pm_Detect
begin

text \<open>
  \<^verbatim>\<open>tests/files/sum.c\<close>, the tool with which the check codes of the test pages are inspected: it prints the sum
  and the stored code of both areas. The theorem shows that it agrees with the checksum test of the daemon.
\<close>

function sum_loop :: "byte list \<Rightarrow> nat \<Rightarrow> nat \<Rightarrow> byte \<Rightarrow> byte" where
  "sum_loop data idx stop v = (if idx \<le> stop then sum_loop data (idx + 1) stop (v + data ! idx) else v)"
  by pat_completeness auto
termination
  by (relation "measure (\<lambda>(data, idx, stop, v). Suc stop - idx)") auto

declare sum_loop.simps [simp del]

definition vs_line :: "byte \<Rightarrow> byte \<Rightarrow> string" where
  "vs_line v stored = fmt_d (uint v) @ '' vs. '' @ fmt_d (uint stored) @ ''\<newline>''"

definition sum_area :: "byte list \<Rightarrow> nat \<Rightarrow> nat \<Rightarrow> nat \<Rightarrow> string" where
  "sum_area data start stop off = vs_line (sum_loop data start stop 0) (data ! off)"

text \<open>
  The exit code and the standard output. \<open>junk\<close> is what the uninitialised buffer holds; a short file leaves its
  tail in place.
\<close>

definition sum_main :: "(string \<Rightarrow> byte list option) \<Rightarrow> byte list \<Rightarrow> string \<Rightarrow> int \<times> string" where
  "sum_main files junk file =
     (case files file of
        None \<Rightarrow> (1, '''')
      | Some content \<Rightarrow>
          (let buf = take 128 content @ drop (length content) junk
           in (0, sum_area buf 0 62 63 @ sum_area buf 64 94 95)))"

lemma sum_loop_eq: "sum_loop data idx stop v = byte_sum_loop data idx stop v"
proof (induction data idx stop v rule: sum_loop.induct)
  case (1 data idx stop v)
  then show ?case by (subst sum_loop.simps, subst byte_sum_loop.simps) simp
qed

lemma vs_line_cancel:
  assumes "vs_line a b @ s = vs_line c d @ t"
  shows "a = c" "b = d" "s = t"
proof -
  have byte_range: "LONG_MIN \<le> uint v" "uint v \<le> LONG_MAX" for v :: byte
    using uint_lt2p [of v] uint_ge_0 [of v] unfolding LONG_MIN_def LONG_MAX_def by (simp, linarith, simp)
  have head: "strtol0 (fmt_d (uint v) @ '' vs. '' @ r) = uint v" "strtol0 (fmt_d (uint v) @ ''\<newline>'' @ r) = uint v" for v :: byte and r
    using byte_range by (simp_all add: strtol0_fmt_d_app no_digit_next_def digit_val_def)
  have "uint a = uint c"
    using arg_cong [OF assms, of strtol0] by (simp add: vs_line_def head del: append_Cons)
  then show "a = c" by (rule word_uint_eqI)
  with assms have rest: "fmt_d (uint b) @ ''\<newline>'' @ s = fmt_d (uint d) @ ''\<newline>'' @ t" by (simp add: vs_line_def)
  from arg_cong [OF this, of strtol0] have "uint b = uint d" by (simp only: head)
  then show "b = d" by (rule word_uint_eqI)
  with rest show "s = t" by simp
qed

text \<open>
  C33. The two lines the tool prints for a page show equal numbers exactly when the daemon's checksum test
  accepts the page.
\<close>

theorem sum_tool_agrees:
  assumes "files file = Some page" "length page = 128" "length junk = 128"
  shows "\<exists>out. sum_main files junk file = (0, out) \<and>
    (sfpp_sum_verify page = 0 \<longleftrightarrow> (\<exists>a b. out = vs_line a a @ vs_line b b))"
proof -
  let ?v = "\<lambda>start stop. sum_loop page start stop 0"
  have sums: "sfpp_sum_verify page = 0 \<longleftrightarrow> ?v 0 62 = page ! 63 \<and> ?v 64 94 = page ! 95"
    by (simp add: sfpp_sum_verify_def pm_byte_sum_def sum_loop_eq Let_def)
  let ?out = "vs_line (?v 0 62) (page ! 63) @ vs_line (?v 64 94) (page ! 95)"
  have "sfpp_sum_verify page = 0 \<longleftrightarrow> (\<exists>a b. ?out = vs_line a a @ vs_line b b)"
  proof
    assume "\<exists>a b. ?out = vs_line a a @ vs_line b b"
    then obtain a b where eq: "?out = vs_line a a @ vs_line b b" by blast
    from vs_line_cancel [OF this] have "?v 0 62 = page ! 63" and
      "vs_line (?v 64 94) (page ! 95) @ [] = vs_line b b @ []" by simp_all
    moreover from vs_line_cancel [OF this(2)] have "?v 64 94 = page ! 95" by simp
    ultimately show "sfpp_sum_verify page = 0" using sums by simp
  qed (use sums in auto)
  moreover have "sum_main files junk file = (0, ?out)"
    using assms by (simp add: sum_main_def sum_area_def)
  ultimately show ?thesis by simp
qed

theorem sum_tool_agrees_witness:
  "\<exists>a b. sum_main (\<lambda>f. Some sample_page) (replicate 128 0) ''page.bin'' = (0, vs_line a a @ vs_line b b)"
  using sum_tool_agrees [of "\<lambda>f. Some sample_page" "''page.bin''" sample_page "replicate 128 0"] by auto

end
