(* ===== verification/Sfp_Dom_Layout.thy ===== *)
theory Sfp_Dom_Layout
  imports Pmd_Prelude
begin

text \<open>
  The structs of \<^verbatim>\<open>include/pm_dom.h\<close> that describe the 128-byte diagnostics page (A2) of an
  SFP+ module, with their memory layout, in the conventions of \<^theory_text>\<open>Sfp_Layout\<close>. The fields
  declared \<open>char\<close> (the most significant bytes of the temperatures) are bytes too; the code that
  reads them as signed numbers does so through \<open>sint\<close>.
\<close>

subsection \<open>\<^verbatim>\<open>pm_sfp_status_control_bits_t\<close>\<close>

record pm_sfp_status_control_bits_t =
  data_ready_bar :: bool
  los :: bool
  tx_fault :: bool
  soft_rx_rate_select :: bool
  rx_rate_select_state :: bool
  reserved_110_5 :: bool
  soft_tx_disable :: bool
  tx_disable_status :: bool
  reserved_111 :: byte

definition sfp_status_control_bits_of_bytes :: "byte list \<Rightarrow> pm_sfp_status_control_bits_t" where
  "sfp_status_control_bits_of_bytes bs = \<lparr>
     pm_sfp_status_control_bits_t.data_ready_bar = bit (bs ! 0) 0,
     pm_sfp_status_control_bits_t.los = bit (bs ! 0) 1,
     pm_sfp_status_control_bits_t.tx_fault = bit (bs ! 0) 2,
     pm_sfp_status_control_bits_t.soft_rx_rate_select = bit (bs ! 0) 3,
     pm_sfp_status_control_bits_t.rx_rate_select_state = bit (bs ! 0) 4,
     pm_sfp_status_control_bits_t.reserved_110_5 = bit (bs ! 0) 5,
     pm_sfp_status_control_bits_t.soft_tx_disable = bit (bs ! 0) 6,
     pm_sfp_status_control_bits_t.tx_disable_status = bit (bs ! 0) 7,
     pm_sfp_status_control_bits_t.reserved_111 = bs ! 1\<rparr>"

definition bytes_of_sfp_status_control_bits :: "pm_sfp_status_control_bits_t \<Rightarrow> byte list" where
  "bytes_of_sfp_status_control_bits r =
     [byte_of_bits [pm_sfp_status_control_bits_t.data_ready_bar r, 
      pm_sfp_status_control_bits_t.los r, pm_sfp_status_control_bits_t.tx_fault r, 
      pm_sfp_status_control_bits_t.soft_rx_rate_select r, 
      pm_sfp_status_control_bits_t.rx_rate_select_state r, 
      pm_sfp_status_control_bits_t.reserved_110_5 r, 
      pm_sfp_status_control_bits_t.soft_tx_disable r, 
      pm_sfp_status_control_bits_t.tx_disable_status r], 
      pm_sfp_status_control_bits_t.reserved_111 r]"

interpretation sfp_status_control_bits: struct_layout sfp_status_control_bits_of_bytes bytes_of_sfp_status_control_bits 2 "\<lambda>_. True"
  by unfold_locales
    (simp_all add: sfp_status_control_bits_of_bytes_def bytes_of_sfp_status_control_bits_def layout glue unglue)

lemmas [layout] = sfp_status_control_bits.length_enc sfp_status_control_bits.dec_enc sfp_status_control_bits.enc_dec

subsection \<open>\<^verbatim>\<open>pm_sfp_alarm_warning_bits_t\<close>\<close>

record pm_sfp_alarm_warning_bits_t =
  tx_pwr_low_alarm :: bool
  tx_pwr_high_alarm :: bool
  tx_bias_low_alarm :: bool
  tx_bias_high_alarm :: bool
  vcc_low_alarm :: bool
  vcc_high_alarm :: bool
  temp_low_alarm :: bool
  temp_high_alarm :: bool
  reserved_113_0 :: bool
  reserved_113_1 :: bool
  reserved_113_2 :: bool
  reserved_113_3 :: bool
  reserved_113_4 :: bool
  reserved_113_5 :: bool
  rx_pwr_low_alarm :: bool
  rx_pwr_high_alarm :: bool
  reserved_114 :: byte
  reserved_115 :: byte
  tx_pwr_low_warning :: bool
  tx_pwr_high_warning :: bool
  tx_bias_low_warning :: bool
  tx_bias_high_warning :: bool
  vcc_low_warning :: bool
  vcc_high_warning :: bool
  temp_low_warning :: bool
  temp_high_warning :: bool
  reserved_117_0 :: bool
  reserved_117_1 :: bool
  reserved_117_2 :: bool
  reserved_117_3 :: bool
  reserved_117_4 :: bool
  reserved_117_5 :: bool
  rx_pwr_low_warning :: bool
  rx_pwr_high_warning :: bool
  reserved_118 :: byte
  reserved_119 :: byte

definition sfp_alarm_warning_bits_of_bytes :: "byte list \<Rightarrow> pm_sfp_alarm_warning_bits_t" where
  "sfp_alarm_warning_bits_of_bytes bs = \<lparr>
     pm_sfp_alarm_warning_bits_t.tx_pwr_low_alarm = bit (bs ! 0) 0,
     pm_sfp_alarm_warning_bits_t.tx_pwr_high_alarm = bit (bs ! 0) 1,
     pm_sfp_alarm_warning_bits_t.tx_bias_low_alarm = bit (bs ! 0) 2,
     pm_sfp_alarm_warning_bits_t.tx_bias_high_alarm = bit (bs ! 0) 3,
     pm_sfp_alarm_warning_bits_t.vcc_low_alarm = bit (bs ! 0) 4,
     pm_sfp_alarm_warning_bits_t.vcc_high_alarm = bit (bs ! 0) 5,
     pm_sfp_alarm_warning_bits_t.temp_low_alarm = bit (bs ! 0) 6,
     pm_sfp_alarm_warning_bits_t.temp_high_alarm = bit (bs ! 0) 7,
     pm_sfp_alarm_warning_bits_t.reserved_113_0 = bit (bs ! 1) 0,
     pm_sfp_alarm_warning_bits_t.reserved_113_1 = bit (bs ! 1) 1,
     pm_sfp_alarm_warning_bits_t.reserved_113_2 = bit (bs ! 1) 2,
     pm_sfp_alarm_warning_bits_t.reserved_113_3 = bit (bs ! 1) 3,
     pm_sfp_alarm_warning_bits_t.reserved_113_4 = bit (bs ! 1) 4,
     pm_sfp_alarm_warning_bits_t.reserved_113_5 = bit (bs ! 1) 5,
     pm_sfp_alarm_warning_bits_t.rx_pwr_low_alarm = bit (bs ! 1) 6,
     pm_sfp_alarm_warning_bits_t.rx_pwr_high_alarm = bit (bs ! 1) 7,
     pm_sfp_alarm_warning_bits_t.reserved_114 = bs ! 2,
     pm_sfp_alarm_warning_bits_t.reserved_115 = bs ! 3,
     pm_sfp_alarm_warning_bits_t.tx_pwr_low_warning = bit (bs ! 4) 0,
     pm_sfp_alarm_warning_bits_t.tx_pwr_high_warning = bit (bs ! 4) 1,
     pm_sfp_alarm_warning_bits_t.tx_bias_low_warning = bit (bs ! 4) 2,
     pm_sfp_alarm_warning_bits_t.tx_bias_high_warning = bit (bs ! 4) 3,
     pm_sfp_alarm_warning_bits_t.vcc_low_warning = bit (bs ! 4) 4,
     pm_sfp_alarm_warning_bits_t.vcc_high_warning = bit (bs ! 4) 5,
     pm_sfp_alarm_warning_bits_t.temp_low_warning = bit (bs ! 4) 6,
     pm_sfp_alarm_warning_bits_t.temp_high_warning = bit (bs ! 4) 7,
     pm_sfp_alarm_warning_bits_t.reserved_117_0 = bit (bs ! 5) 0,
     pm_sfp_alarm_warning_bits_t.reserved_117_1 = bit (bs ! 5) 1,
     pm_sfp_alarm_warning_bits_t.reserved_117_2 = bit (bs ! 5) 2,
     pm_sfp_alarm_warning_bits_t.reserved_117_3 = bit (bs ! 5) 3,
     pm_sfp_alarm_warning_bits_t.reserved_117_4 = bit (bs ! 5) 4,
     pm_sfp_alarm_warning_bits_t.reserved_117_5 = bit (bs ! 5) 5,
     pm_sfp_alarm_warning_bits_t.rx_pwr_low_warning = bit (bs ! 5) 6,
     pm_sfp_alarm_warning_bits_t.rx_pwr_high_warning = bit (bs ! 5) 7,
     pm_sfp_alarm_warning_bits_t.reserved_118 = bs ! 6,
     pm_sfp_alarm_warning_bits_t.reserved_119 = bs ! 7\<rparr>"

definition bytes_of_sfp_alarm_warning_bits :: "pm_sfp_alarm_warning_bits_t \<Rightarrow> byte list" where
  "bytes_of_sfp_alarm_warning_bits r =
     [byte_of_bits [pm_sfp_alarm_warning_bits_t.tx_pwr_low_alarm r, 
      pm_sfp_alarm_warning_bits_t.tx_pwr_high_alarm r, 
      pm_sfp_alarm_warning_bits_t.tx_bias_low_alarm r, 
      pm_sfp_alarm_warning_bits_t.tx_bias_high_alarm r, 
      pm_sfp_alarm_warning_bits_t.vcc_low_alarm r, 
      pm_sfp_alarm_warning_bits_t.vcc_high_alarm r, 
      pm_sfp_alarm_warning_bits_t.temp_low_alarm r, 
      pm_sfp_alarm_warning_bits_t.temp_high_alarm r], 
      byte_of_bits [pm_sfp_alarm_warning_bits_t.reserved_113_0 r, 
      pm_sfp_alarm_warning_bits_t.reserved_113_1 r, 
      pm_sfp_alarm_warning_bits_t.reserved_113_2 r, 
      pm_sfp_alarm_warning_bits_t.reserved_113_3 r, 
      pm_sfp_alarm_warning_bits_t.reserved_113_4 r, 
      pm_sfp_alarm_warning_bits_t.reserved_113_5 r, 
      pm_sfp_alarm_warning_bits_t.rx_pwr_low_alarm r, 
      pm_sfp_alarm_warning_bits_t.rx_pwr_high_alarm r], 
      pm_sfp_alarm_warning_bits_t.reserved_114 r, 
      pm_sfp_alarm_warning_bits_t.reserved_115 r, 
      byte_of_bits [pm_sfp_alarm_warning_bits_t.tx_pwr_low_warning r, 
      pm_sfp_alarm_warning_bits_t.tx_pwr_high_warning r, 
      pm_sfp_alarm_warning_bits_t.tx_bias_low_warning r, 
      pm_sfp_alarm_warning_bits_t.tx_bias_high_warning r, 
      pm_sfp_alarm_warning_bits_t.vcc_low_warning r, 
      pm_sfp_alarm_warning_bits_t.vcc_high_warning r, 
      pm_sfp_alarm_warning_bits_t.temp_low_warning r, 
      pm_sfp_alarm_warning_bits_t.temp_high_warning r], 
      byte_of_bits [pm_sfp_alarm_warning_bits_t.reserved_117_0 r, 
      pm_sfp_alarm_warning_bits_t.reserved_117_1 r, 
      pm_sfp_alarm_warning_bits_t.reserved_117_2 r, 
      pm_sfp_alarm_warning_bits_t.reserved_117_3 r, 
      pm_sfp_alarm_warning_bits_t.reserved_117_4 r, 
      pm_sfp_alarm_warning_bits_t.reserved_117_5 r, 
      pm_sfp_alarm_warning_bits_t.rx_pwr_low_warning r, 
      pm_sfp_alarm_warning_bits_t.rx_pwr_high_warning r], 
      pm_sfp_alarm_warning_bits_t.reserved_118 r, 
      pm_sfp_alarm_warning_bits_t.reserved_119 r]"

interpretation sfp_alarm_warning_bits: struct_layout sfp_alarm_warning_bits_of_bytes bytes_of_sfp_alarm_warning_bits 8 "\<lambda>_. True"
  by unfold_locales
    (simp_all add: sfp_alarm_warning_bits_of_bytes_def bytes_of_sfp_alarm_warning_bits_def layout glue unglue)

lemmas [layout] = sfp_alarm_warning_bits.length_enc sfp_alarm_warning_bits.dec_enc sfp_alarm_warning_bits.enc_dec

subsection \<open>\<^verbatim>\<open>pm_sfp_password_t\<close>\<close>

record pm_sfp_password_t =
  reserved_120 :: byte
  reserved_121 :: byte
  reserved_122 :: byte
  password_byte_3 :: byte
  password_byte_2 :: byte
  password_byte_1 :: byte
  password_byte_0 :: byte

definition sfp_password_of_bytes :: "byte list \<Rightarrow> pm_sfp_password_t" where
  "sfp_password_of_bytes bs = \<lparr>
     pm_sfp_password_t.reserved_120 = bs ! 0, pm_sfp_password_t.reserved_121 = bs ! 1,
     pm_sfp_password_t.reserved_122 = bs ! 2, pm_sfp_password_t.password_byte_3 = bs ! 3,
     pm_sfp_password_t.password_byte_2 = bs ! 4, pm_sfp_password_t.password_byte_1 = bs ! 5,
     pm_sfp_password_t.password_byte_0 = bs ! 6\<rparr>"

definition bytes_of_sfp_password :: "pm_sfp_password_t \<Rightarrow> byte list" where
  "bytes_of_sfp_password r =
     [pm_sfp_password_t.reserved_120 r, pm_sfp_password_t.reserved_121 r, 
      pm_sfp_password_t.reserved_122 r, pm_sfp_password_t.password_byte_3 r, 
      pm_sfp_password_t.password_byte_2 r, pm_sfp_password_t.password_byte_1 r, 
      pm_sfp_password_t.password_byte_0 r]"

interpretation sfp_password: struct_layout sfp_password_of_bytes bytes_of_sfp_password 7 "\<lambda>_. True"
  by unfold_locales
    (simp_all add: sfp_password_of_bytes_def bytes_of_sfp_password_def layout glue unglue)

lemmas [layout] = sfp_password.length_enc sfp_password.dec_enc sfp_password.enc_dec

subsection \<open>\<^verbatim>\<open>pm_sfp_dom_t\<close>\<close>

record pm_sfp_dom_t =
  temp_high_alarm_msb :: byte
  temp_high_alarm_lsb :: byte
  temp_low_alarm_msb :: byte
  temp_low_alarm_lsb :: byte
  temp_high_warning_msb :: byte
  temp_high_warning_lsb :: byte
  temp_low_warning_msb :: byte
  temp_low_warning_lsb :: byte
  voltage_high_alarm_msb :: byte
  voltage_high_alarm_lsb :: byte
  voltage_low_alarm_msb :: byte
  voltage_low_alarm_lsb :: byte
  voltage_high_warning_msb :: byte
  voltage_high_warning_lsb :: byte
  voltage_low_warning_msb :: byte
  voltage_low_warning_lsb :: byte
  bias_high_alarm_msb :: byte
  bias_high_alarm_lsb :: byte
  bias_low_alarm_msb :: byte
  bias_low_alarm_lsb :: byte
  bias_high_warning_msb :: byte
  bias_high_warning_lsb :: byte
  bias_low_warning_msb :: byte
  bias_low_warning_lsb :: byte
  tx_power_high_alarm_msb :: byte
  tx_power_high_alarm_lsb :: byte
  tx_power_low_alarm_msb :: byte
  tx_power_low_alarm_lsb :: byte
  tx_power_high_warning_msb :: byte
  tx_power_high_warning_lsb :: byte
  tx_power_low_warning_msb :: byte
  tx_power_low_warning_lsb :: byte
  rx_power_high_alarm_msb :: byte
  rx_power_high_alarm_lsb :: byte
  rx_power_low_alarm_msb :: byte
  rx_power_low_alarm_lsb :: byte
  rx_power_high_warning_msb :: byte
  rx_power_high_warning_lsb :: byte
  rx_power_low_warning_msb :: byte
  rx_power_low_warning_lsb :: byte
  reserved_40 :: byte
  reserved_41 :: byte
  reserved_42 :: byte
  reserved_43 :: byte
  reserved_44 :: byte
  reserved_45 :: byte
  reserved_46 :: byte
  reserved_47 :: byte
  reserved_48 :: byte
  reserved_49 :: byte
  reserved_50 :: byte
  reserved_51 :: byte
  reserved_52 :: byte
  reserved_53 :: byte
  reserved_54 :: byte
  reserved_55 :: byte
  rx_pwr4 :: "byte list"
  rx_pwr3 :: "byte list"
  rx_pwr2 :: "byte list"
  rx_pwr1 :: "byte list"
  rx_pwr0 :: "byte list"
  current_tx_slope :: "byte list"
  current_tx_offset :: "byte list"
  power_tx_slope :: "byte list"
  power_tx_offset :: "byte list"
  temperature_slope :: "byte list"
  temperature_offset :: "byte list"
  voltage_slope :: "byte list"
  voltage_offset :: "byte list"
  reserved_92 :: byte
  reserved_93 :: byte
  reserved_94 :: byte
  checksum :: byte
  temperature_msb :: byte
  temperature_lsb :: byte
  vcc_msb :: byte
  vcc_lsb :: byte
  tx_bias_msb :: byte
  tx_bias_lsb :: byte
  tx_power_msb :: byte
  tx_power_lsb :: byte
  rx_power_msb :: byte
  rx_power_lsb :: byte
  reserved_106 :: byte
  reserved_107 :: byte
  reserved_108 :: byte
  reserved_109 :: byte
  status_control_bits :: pm_sfp_status_control_bits_t
  alarm_warning_bits :: pm_sfp_alarm_warning_bits_t
  password :: pm_sfp_password_t
  eeprom_select :: byte

definition sfp_dom_of_bytes :: "byte list \<Rightarrow> pm_sfp_dom_t" where
  "sfp_dom_of_bytes bs = \<lparr>
     pm_sfp_dom_t.temp_high_alarm_msb = bs ! 0, pm_sfp_dom_t.temp_high_alarm_lsb = bs ! 1,
     pm_sfp_dom_t.temp_low_alarm_msb = bs ! 2, pm_sfp_dom_t.temp_low_alarm_lsb = bs ! 3,
     pm_sfp_dom_t.temp_high_warning_msb = bs ! 4, pm_sfp_dom_t.temp_high_warning_lsb = bs ! 5,
     pm_sfp_dom_t.temp_low_warning_msb = bs ! 6, pm_sfp_dom_t.temp_low_warning_lsb = bs ! 7,
     pm_sfp_dom_t.voltage_high_alarm_msb = bs ! 8,
     pm_sfp_dom_t.voltage_high_alarm_lsb = bs ! 9,
     pm_sfp_dom_t.voltage_low_alarm_msb = bs ! 10,
     pm_sfp_dom_t.voltage_low_alarm_lsb = bs ! 11,
     pm_sfp_dom_t.voltage_high_warning_msb = bs ! 12,
     pm_sfp_dom_t.voltage_high_warning_lsb = bs ! 13,
     pm_sfp_dom_t.voltage_low_warning_msb = bs ! 14,
     pm_sfp_dom_t.voltage_low_warning_lsb = bs ! 15,
     pm_sfp_dom_t.bias_high_alarm_msb = bs ! 16, pm_sfp_dom_t.bias_high_alarm_lsb = bs ! 17,
     pm_sfp_dom_t.bias_low_alarm_msb = bs ! 18, pm_sfp_dom_t.bias_low_alarm_lsb = bs ! 19,
     pm_sfp_dom_t.bias_high_warning_msb = bs ! 20,
     pm_sfp_dom_t.bias_high_warning_lsb = bs ! 21, pm_sfp_dom_t.bias_low_warning_msb = bs ! 22,
     pm_sfp_dom_t.bias_low_warning_lsb = bs ! 23,
     pm_sfp_dom_t.tx_power_high_alarm_msb = bs ! 24,
     pm_sfp_dom_t.tx_power_high_alarm_lsb = bs ! 25,
     pm_sfp_dom_t.tx_power_low_alarm_msb = bs ! 26,
     pm_sfp_dom_t.tx_power_low_alarm_lsb = bs ! 27,
     pm_sfp_dom_t.tx_power_high_warning_msb = bs ! 28,
     pm_sfp_dom_t.tx_power_high_warning_lsb = bs ! 29,
     pm_sfp_dom_t.tx_power_low_warning_msb = bs ! 30,
     pm_sfp_dom_t.tx_power_low_warning_lsb = bs ! 31,
     pm_sfp_dom_t.rx_power_high_alarm_msb = bs ! 32,
     pm_sfp_dom_t.rx_power_high_alarm_lsb = bs ! 33,
     pm_sfp_dom_t.rx_power_low_alarm_msb = bs ! 34,
     pm_sfp_dom_t.rx_power_low_alarm_lsb = bs ! 35,
     pm_sfp_dom_t.rx_power_high_warning_msb = bs ! 36,
     pm_sfp_dom_t.rx_power_high_warning_lsb = bs ! 37,
     pm_sfp_dom_t.rx_power_low_warning_msb = bs ! 38,
     pm_sfp_dom_t.rx_power_low_warning_lsb = bs ! 39, pm_sfp_dom_t.reserved_40 = bs ! 40,
     pm_sfp_dom_t.reserved_41 = bs ! 41, pm_sfp_dom_t.reserved_42 = bs ! 42,
     pm_sfp_dom_t.reserved_43 = bs ! 43, pm_sfp_dom_t.reserved_44 = bs ! 44,
     pm_sfp_dom_t.reserved_45 = bs ! 45, pm_sfp_dom_t.reserved_46 = bs ! 46,
     pm_sfp_dom_t.reserved_47 = bs ! 47, pm_sfp_dom_t.reserved_48 = bs ! 48,
     pm_sfp_dom_t.reserved_49 = bs ! 49, pm_sfp_dom_t.reserved_50 = bs ! 50,
     pm_sfp_dom_t.reserved_51 = bs ! 51, pm_sfp_dom_t.reserved_52 = bs ! 52,
     pm_sfp_dom_t.reserved_53 = bs ! 53, pm_sfp_dom_t.reserved_54 = bs ! 54,
     pm_sfp_dom_t.reserved_55 = bs ! 55, pm_sfp_dom_t.rx_pwr4 = bytes_at 56 4 bs,
     pm_sfp_dom_t.rx_pwr3 = bytes_at 60 4 bs, pm_sfp_dom_t.rx_pwr2 = bytes_at 64 4 bs,
     pm_sfp_dom_t.rx_pwr1 = bytes_at 68 4 bs, pm_sfp_dom_t.rx_pwr0 = bytes_at 72 4 bs,
     pm_sfp_dom_t.current_tx_slope = bytes_at 76 2 bs,
     pm_sfp_dom_t.current_tx_offset = bytes_at 78 2 bs,
     pm_sfp_dom_t.power_tx_slope = bytes_at 80 2 bs,
     pm_sfp_dom_t.power_tx_offset = bytes_at 82 2 bs,
     pm_sfp_dom_t.temperature_slope = bytes_at 84 2 bs,
     pm_sfp_dom_t.temperature_offset = bytes_at 86 2 bs,
     pm_sfp_dom_t.voltage_slope = bytes_at 88 2 bs,
     pm_sfp_dom_t.voltage_offset = bytes_at 90 2 bs, pm_sfp_dom_t.reserved_92 = bs ! 92,
     pm_sfp_dom_t.reserved_93 = bs ! 93, pm_sfp_dom_t.reserved_94 = bs ! 94,
     pm_sfp_dom_t.checksum = bs ! 95, pm_sfp_dom_t.temperature_msb = bs ! 96,
     pm_sfp_dom_t.temperature_lsb = bs ! 97, pm_sfp_dom_t.vcc_msb = bs ! 98,
     pm_sfp_dom_t.vcc_lsb = bs ! 99, pm_sfp_dom_t.tx_bias_msb = bs ! 100,
     pm_sfp_dom_t.tx_bias_lsb = bs ! 101, pm_sfp_dom_t.tx_power_msb = bs ! 102,
     pm_sfp_dom_t.tx_power_lsb = bs ! 103, pm_sfp_dom_t.rx_power_msb = bs ! 104,
     pm_sfp_dom_t.rx_power_lsb = bs ! 105, pm_sfp_dom_t.reserved_106 = bs ! 106,
     pm_sfp_dom_t.reserved_107 = bs ! 107, pm_sfp_dom_t.reserved_108 = bs ! 108,
     pm_sfp_dom_t.reserved_109 = bs ! 109,
     pm_sfp_dom_t.status_control_bits = sfp_status_control_bits_of_bytes (bytes_at 110 2 bs),
     pm_sfp_dom_t.alarm_warning_bits = sfp_alarm_warning_bits_of_bytes (bytes_at 112 8 bs),
     pm_sfp_dom_t.password = sfp_password_of_bytes (bytes_at 120 7 bs),
     pm_sfp_dom_t.eeprom_select = bs ! 127\<rparr>"

definition bytes_of_sfp_dom :: "pm_sfp_dom_t \<Rightarrow> byte list" where
  "bytes_of_sfp_dom r =
     [pm_sfp_dom_t.temp_high_alarm_msb r, pm_sfp_dom_t.temp_high_alarm_lsb r, 
      pm_sfp_dom_t.temp_low_alarm_msb r, pm_sfp_dom_t.temp_low_alarm_lsb r, 
      pm_sfp_dom_t.temp_high_warning_msb r, pm_sfp_dom_t.temp_high_warning_lsb r, 
      pm_sfp_dom_t.temp_low_warning_msb r, pm_sfp_dom_t.temp_low_warning_lsb r, 
      pm_sfp_dom_t.voltage_high_alarm_msb r, pm_sfp_dom_t.voltage_high_alarm_lsb r, 
      pm_sfp_dom_t.voltage_low_alarm_msb r, pm_sfp_dom_t.voltage_low_alarm_lsb r, 
      pm_sfp_dom_t.voltage_high_warning_msb r, pm_sfp_dom_t.voltage_high_warning_lsb r, 
      pm_sfp_dom_t.voltage_low_warning_msb r, pm_sfp_dom_t.voltage_low_warning_lsb r, 
      pm_sfp_dom_t.bias_high_alarm_msb r, pm_sfp_dom_t.bias_high_alarm_lsb r, 
      pm_sfp_dom_t.bias_low_alarm_msb r, pm_sfp_dom_t.bias_low_alarm_lsb r, 
      pm_sfp_dom_t.bias_high_warning_msb r, pm_sfp_dom_t.bias_high_warning_lsb r, 
      pm_sfp_dom_t.bias_low_warning_msb r, pm_sfp_dom_t.bias_low_warning_lsb r, 
      pm_sfp_dom_t.tx_power_high_alarm_msb r, pm_sfp_dom_t.tx_power_high_alarm_lsb r, 
      pm_sfp_dom_t.tx_power_low_alarm_msb r, pm_sfp_dom_t.tx_power_low_alarm_lsb r, 
      pm_sfp_dom_t.tx_power_high_warning_msb r, pm_sfp_dom_t.tx_power_high_warning_lsb r, 
      pm_sfp_dom_t.tx_power_low_warning_msb r, pm_sfp_dom_t.tx_power_low_warning_lsb r, 
      pm_sfp_dom_t.rx_power_high_alarm_msb r, pm_sfp_dom_t.rx_power_high_alarm_lsb r, 
      pm_sfp_dom_t.rx_power_low_alarm_msb r, pm_sfp_dom_t.rx_power_low_alarm_lsb r, 
      pm_sfp_dom_t.rx_power_high_warning_msb r, pm_sfp_dom_t.rx_power_high_warning_lsb r, 
      pm_sfp_dom_t.rx_power_low_warning_msb r, pm_sfp_dom_t.rx_power_low_warning_lsb r, 
      pm_sfp_dom_t.reserved_40 r, pm_sfp_dom_t.reserved_41 r, pm_sfp_dom_t.reserved_42 r, 
      pm_sfp_dom_t.reserved_43 r, pm_sfp_dom_t.reserved_44 r, pm_sfp_dom_t.reserved_45 r, 
      pm_sfp_dom_t.reserved_46 r, pm_sfp_dom_t.reserved_47 r, pm_sfp_dom_t.reserved_48 r, 
      pm_sfp_dom_t.reserved_49 r, pm_sfp_dom_t.reserved_50 r, pm_sfp_dom_t.reserved_51 r, 
      pm_sfp_dom_t.reserved_52 r, pm_sfp_dom_t.reserved_53 r, pm_sfp_dom_t.reserved_54 r, 
      pm_sfp_dom_t.reserved_55 r] @
     pm_sfp_dom_t.rx_pwr4 r @
     pm_sfp_dom_t.rx_pwr3 r @
     pm_sfp_dom_t.rx_pwr2 r @
     pm_sfp_dom_t.rx_pwr1 r @
     pm_sfp_dom_t.rx_pwr0 r @
     pm_sfp_dom_t.current_tx_slope r @
     pm_sfp_dom_t.current_tx_offset r @
     pm_sfp_dom_t.power_tx_slope r @
     pm_sfp_dom_t.power_tx_offset r @
     pm_sfp_dom_t.temperature_slope r @
     pm_sfp_dom_t.temperature_offset r @
     pm_sfp_dom_t.voltage_slope r @
     pm_sfp_dom_t.voltage_offset r @
     [pm_sfp_dom_t.reserved_92 r, pm_sfp_dom_t.reserved_93 r, pm_sfp_dom_t.reserved_94 r, 
      pm_sfp_dom_t.checksum r, pm_sfp_dom_t.temperature_msb r, 
      pm_sfp_dom_t.temperature_lsb r, pm_sfp_dom_t.vcc_msb r, pm_sfp_dom_t.vcc_lsb r, 
      pm_sfp_dom_t.tx_bias_msb r, pm_sfp_dom_t.tx_bias_lsb r, pm_sfp_dom_t.tx_power_msb r, 
      pm_sfp_dom_t.tx_power_lsb r, pm_sfp_dom_t.rx_power_msb r, 
      pm_sfp_dom_t.rx_power_lsb r, pm_sfp_dom_t.reserved_106 r, 
      pm_sfp_dom_t.reserved_107 r, pm_sfp_dom_t.reserved_108 r, 
      pm_sfp_dom_t.reserved_109 r] @
     bytes_of_sfp_status_control_bits (pm_sfp_dom_t.status_control_bits r) @
     bytes_of_sfp_alarm_warning_bits (pm_sfp_dom_t.alarm_warning_bits r) @
     bytes_of_sfp_password (pm_sfp_dom_t.password r) @
     [pm_sfp_dom_t.eeprom_select r]"

definition wf_sfp_dom :: "pm_sfp_dom_t \<Rightarrow> bool" where
  "wf_sfp_dom r \<longleftrightarrow> length (pm_sfp_dom_t.rx_pwr4 r) = 4 \<and>
     length (pm_sfp_dom_t.rx_pwr3 r) = 4 \<and>
     length (pm_sfp_dom_t.rx_pwr2 r) = 4 \<and>
     length (pm_sfp_dom_t.rx_pwr1 r) = 4 \<and>
     length (pm_sfp_dom_t.rx_pwr0 r) = 4 \<and>
     length (pm_sfp_dom_t.current_tx_slope r) = 2 \<and>
     length (pm_sfp_dom_t.current_tx_offset r) = 2 \<and>
     length (pm_sfp_dom_t.power_tx_slope r) = 2 \<and>
     length (pm_sfp_dom_t.power_tx_offset r) = 2 \<and>
     length (pm_sfp_dom_t.temperature_slope r) = 2 \<and>
     length (pm_sfp_dom_t.temperature_offset r) = 2 \<and>
     length (pm_sfp_dom_t.voltage_slope r) = 2 \<and>
     length (pm_sfp_dom_t.voltage_offset r) = 2"

interpretation sfp_dom: struct_layout sfp_dom_of_bytes bytes_of_sfp_dom 128 wf_sfp_dom
  by unfold_locales
    (simp_all add: sfp_dom_of_bytes_def bytes_of_sfp_dom_def wf_sfp_dom_def layout glue unglue)

lemmas [layout] = sfp_dom.length_enc sfp_dom.dec_enc sfp_dom.enc_dec sfp_dom.wf_dec

text \<open>The memory map of the page: the address and the bytes of every field, in the order of the struct.\<close>

definition sfp_dom_map :: "pm_sfp_dom_t \<Rightarrow> (nat \<times> byte list) list" where
  "sfp_dom_map r =
     [(0, [pm_sfp_dom_t.temp_high_alarm_msb r, pm_sfp_dom_t.temp_high_alarm_lsb r,
      pm_sfp_dom_t.temp_low_alarm_msb r, pm_sfp_dom_t.temp_low_alarm_lsb r,
      pm_sfp_dom_t.temp_high_warning_msb r, pm_sfp_dom_t.temp_high_warning_lsb r,
      pm_sfp_dom_t.temp_low_warning_msb r, pm_sfp_dom_t.temp_low_warning_lsb r]),
      (8, [pm_sfp_dom_t.voltage_high_alarm_msb r, pm_sfp_dom_t.voltage_high_alarm_lsb r,
      pm_sfp_dom_t.voltage_low_alarm_msb r, pm_sfp_dom_t.voltage_low_alarm_lsb r,
      pm_sfp_dom_t.voltage_high_warning_msb r, pm_sfp_dom_t.voltage_high_warning_lsb r,
      pm_sfp_dom_t.voltage_low_warning_msb r, pm_sfp_dom_t.voltage_low_warning_lsb r]),
      (16, [pm_sfp_dom_t.bias_high_alarm_msb r, pm_sfp_dom_t.bias_high_alarm_lsb r,
      pm_sfp_dom_t.bias_low_alarm_msb r, pm_sfp_dom_t.bias_low_alarm_lsb r,
      pm_sfp_dom_t.bias_high_warning_msb r, pm_sfp_dom_t.bias_high_warning_lsb r,
      pm_sfp_dom_t.bias_low_warning_msb r, pm_sfp_dom_t.bias_low_warning_lsb r]),
      (24, [pm_sfp_dom_t.tx_power_high_alarm_msb r, pm_sfp_dom_t.tx_power_high_alarm_lsb r,
      pm_sfp_dom_t.tx_power_low_alarm_msb r, pm_sfp_dom_t.tx_power_low_alarm_lsb r,
      pm_sfp_dom_t.tx_power_high_warning_msb r, pm_sfp_dom_t.tx_power_high_warning_lsb r,
      pm_sfp_dom_t.tx_power_low_warning_msb r, pm_sfp_dom_t.tx_power_low_warning_lsb r]),
      (32, [pm_sfp_dom_t.rx_power_high_alarm_msb r, pm_sfp_dom_t.rx_power_high_alarm_lsb r,
      pm_sfp_dom_t.rx_power_low_alarm_msb r, pm_sfp_dom_t.rx_power_low_alarm_lsb r,
      pm_sfp_dom_t.rx_power_high_warning_msb r, pm_sfp_dom_t.rx_power_high_warning_lsb r,
      pm_sfp_dom_t.rx_power_low_warning_msb r, pm_sfp_dom_t.rx_power_low_warning_lsb r]),
      (40, [pm_sfp_dom_t.reserved_40 r, pm_sfp_dom_t.reserved_41 r, pm_sfp_dom_t.reserved_42 r,
      pm_sfp_dom_t.reserved_43 r, pm_sfp_dom_t.reserved_44 r, pm_sfp_dom_t.reserved_45 r,
      pm_sfp_dom_t.reserved_46 r, pm_sfp_dom_t.reserved_47 r]), (48, [pm_sfp_dom_t.reserved_48 r,
      pm_sfp_dom_t.reserved_49 r, pm_sfp_dom_t.reserved_50 r, pm_sfp_dom_t.reserved_51 r,
      pm_sfp_dom_t.reserved_52 r, pm_sfp_dom_t.reserved_53 r, pm_sfp_dom_t.reserved_54 r,
      pm_sfp_dom_t.reserved_55 r]), (56, pm_sfp_dom_t.rx_pwr4 r), (60, pm_sfp_dom_t.rx_pwr3 r),
      (64, pm_sfp_dom_t.rx_pwr2 r), (68, pm_sfp_dom_t.rx_pwr1 r), (72, pm_sfp_dom_t.rx_pwr0 r),
      (76, pm_sfp_dom_t.current_tx_slope r), (78, pm_sfp_dom_t.current_tx_offset r),
      (80, pm_sfp_dom_t.power_tx_slope r), (82, pm_sfp_dom_t.power_tx_offset r),
      (84, pm_sfp_dom_t.temperature_slope r), (86, pm_sfp_dom_t.temperature_offset r),
      (88, pm_sfp_dom_t.voltage_slope r), (90, pm_sfp_dom_t.voltage_offset r),
      (92, [pm_sfp_dom_t.reserved_92 r, pm_sfp_dom_t.reserved_93 r, pm_sfp_dom_t.reserved_94 r,
      pm_sfp_dom_t.checksum r, pm_sfp_dom_t.temperature_msb r, pm_sfp_dom_t.temperature_lsb r,
      pm_sfp_dom_t.vcc_msb r, pm_sfp_dom_t.vcc_lsb r]), (100, [pm_sfp_dom_t.tx_bias_msb r,
      pm_sfp_dom_t.tx_bias_lsb r, pm_sfp_dom_t.tx_power_msb r, pm_sfp_dom_t.tx_power_lsb r,
      pm_sfp_dom_t.rx_power_msb r, pm_sfp_dom_t.rx_power_lsb r, pm_sfp_dom_t.reserved_106 r,
      pm_sfp_dom_t.reserved_107 r]), (108, [pm_sfp_dom_t.reserved_108 r,
      pm_sfp_dom_t.reserved_109 r]),
      (110, bytes_of_sfp_status_control_bits (pm_sfp_dom_t.status_control_bits r)),
      (112, bytes_of_sfp_alarm_warning_bits (pm_sfp_dom_t.alarm_warning_bits r)),
      (120, bytes_of_sfp_password (pm_sfp_dom_t.password r)), (127, [pm_sfp_dom_t.eeprom_select r])]"

lemma sfp_dom_mapped: "length page = 128 \<Longrightarrow> memory_map 0 page (sfp_dom_map (sfp_dom_of_bytes page))"
  by (simp add: sfp_dom_map_def sfp_dom_of_bytes_def memory_map layout)

end
