(* ===== verification/Qsfp_Dom_Layout.thy ===== *)
theory Qsfp_Dom_Layout
  imports Pmd_Prelude
begin

text \<open>
  The structs of \<^verbatim>\<open>include/pm_dom.h\<close> that describe the 128-byte lower memory page of a QSFP
  module, which carries its diagnostics, with their memory layout, in the conventions of
  \<^theory_text>\<open>Sfp_Layout\<close>.
\<close>

subsection \<open>\<^verbatim>\<open>pm_qsfp_status_indicators_t\<close>\<close>

record pm_qsfp_status_indicators_t =
  reserved_1 :: byte
  data_not_ready :: bool
  intl :: bool
  reserved_2_2 :: bool
  reserved_2_3 :: bool
  reserved_2_4 :: bool
  reserved_2_5 :: bool
  reserved_2_6 :: bool
  reserved_2_7 :: bool

definition qsfp_status_indicators_of_bytes :: "byte list \<Rightarrow> pm_qsfp_status_indicators_t" where
  "qsfp_status_indicators_of_bytes bs = \<lparr>
     pm_qsfp_status_indicators_t.reserved_1 = bs ! 0,
     pm_qsfp_status_indicators_t.data_not_ready = bit (bs ! 1) 0,
     pm_qsfp_status_indicators_t.intl = bit (bs ! 1) 1,
     pm_qsfp_status_indicators_t.reserved_2_2 = bit (bs ! 1) 2,
     pm_qsfp_status_indicators_t.reserved_2_3 = bit (bs ! 1) 3,
     pm_qsfp_status_indicators_t.reserved_2_4 = bit (bs ! 1) 4,
     pm_qsfp_status_indicators_t.reserved_2_5 = bit (bs ! 1) 5,
     pm_qsfp_status_indicators_t.reserved_2_6 = bit (bs ! 1) 6,
     pm_qsfp_status_indicators_t.reserved_2_7 = bit (bs ! 1) 7\<rparr>"

definition bytes_of_qsfp_status_indicators :: "pm_qsfp_status_indicators_t \<Rightarrow> byte list" where
  "bytes_of_qsfp_status_indicators r =
     [pm_qsfp_status_indicators_t.reserved_1 r, 
      byte_of_bits [pm_qsfp_status_indicators_t.data_not_ready r, 
      pm_qsfp_status_indicators_t.intl r, pm_qsfp_status_indicators_t.reserved_2_2 r, 
      pm_qsfp_status_indicators_t.reserved_2_3 r, 
      pm_qsfp_status_indicators_t.reserved_2_4 r, 
      pm_qsfp_status_indicators_t.reserved_2_5 r, 
      pm_qsfp_status_indicators_t.reserved_2_6 r, 
      pm_qsfp_status_indicators_t.reserved_2_7 r]]"

interpretation qsfp_status_indicators: struct_layout qsfp_status_indicators_of_bytes bytes_of_qsfp_status_indicators 2 "\<lambda>_. True"
  by unfold_locales
    (simp_all add: qsfp_status_indicators_of_bytes_def bytes_of_qsfp_status_indicators_def layout glue unglue)

lemmas [layout] = qsfp_status_indicators.length_enc qsfp_status_indicators.dec_enc qsfp_status_indicators.enc_dec

subsection \<open>\<^verbatim>\<open>pm_qsfp_interrupt_flags_t\<close>\<close>

record pm_qsfp_interrupt_flags_t =
  latched_rx1_los_indicator :: bool
  latched_rx2_los_indicator :: bool
  latched_rx3_los_indicator :: bool
  latched_rx4_los_indicator :: bool
  latched_tx1_los_indicator :: bool
  latched_tx2_los_indicator :: bool
  latched_tx3_los_indicator :: bool
  latched_tx4_los_indicator :: bool
  latched_tx1_fault_indicator :: bool
  latched_tx2_fault_indicator :: bool
  latched_tx3_fault_indicator :: bool
  latched_tx4_fault_indicator :: bool
  reserved_4_4 :: bool
  reserved_4_5 :: bool
  reserved_4_6 :: bool
  reserved_4_7 :: bool
  reserved_5 :: byte
  reserved_6_0 :: bool
  reserved_6_1 :: bool
  reserved_6_2 :: bool
  reserved_6_3 :: bool
  latched_temp_low_warning :: bool
  latched_temp_high_warning :: bool
  latched_temp_low_alarm :: bool
  latched_temp_high_alarm :: bool
  reserved_7_0 :: bool
  reserved_7_1 :: bool
  reserved_7_2 :: bool
  reserved_7_3 :: bool
  latched_vcc_low_warning :: bool
  latched_vcc_high_warning :: bool
  latched_vcc_low_alarm :: bool
  latched_vcc_high_alarm :: bool
  reserved_8 :: byte
  latched_rx2_power_low_warning :: bool
  latched_rx2_power_high_warning :: bool
  latched_rx2_power_low_alarm :: bool
  latched_rx2_power_high_alarm :: bool
  latched_rx1_power_low_warning :: bool
  latched_rx1_power_high_warning :: bool
  latched_rx1_power_low_alarm :: bool
  latched_rx1_power_high_alarm :: bool
  latched_rx4_power_low_warning :: bool
  latched_rx4_power_high_warning :: bool
  latched_rx4_power_low_alarm :: bool
  latched_rx4_power_high_alarm :: bool
  latched_rx3_power_low_warning :: bool
  latched_rx3_power_high_warning :: bool
  latched_rx3_power_low_alarm :: bool
  latched_rx3_power_high_alarm :: bool
  latched_tx2_bias_low_warning :: bool
  latched_tx2_bias_high_warning :: bool
  latched_tx2_bias_low_alarm :: bool
  latched_tx2_bias_high_alarm :: bool
  latched_tx1_bias_low_warning :: bool
  latched_tx1_bias_high_warning :: bool
  latched_tx1_bias_low_alarm :: bool
  latched_tx1_bias_high_alarm :: bool
  latched_tx4_bias_low_warning :: bool
  latched_tx4_bias_high_warning :: bool
  latched_tx4_bias_low_alarm :: bool
  latched_tx4_bias_high_alarm :: bool
  latched_tx3_bias_low_warning :: bool
  latched_tx3_bias_high_warning :: bool
  latched_tx3_bias_low_alarm :: bool
  latched_tx3_bias_high_alarm :: bool
  reserved_13 :: byte
  reserved_14 :: byte
  reserved_15 :: byte
  reserved_16 :: byte
  reserved_17 :: byte
  reserved_18 :: byte
  reserved_19 :: byte
  reserved_20 :: byte
  reserved_21 :: byte

definition qsfp_interrupt_flags_of_bytes :: "byte list \<Rightarrow> pm_qsfp_interrupt_flags_t" where
  "qsfp_interrupt_flags_of_bytes bs = \<lparr>
     pm_qsfp_interrupt_flags_t.latched_rx1_los_indicator = bit (bs ! 0) 0,
     pm_qsfp_interrupt_flags_t.latched_rx2_los_indicator = bit (bs ! 0) 1,
     pm_qsfp_interrupt_flags_t.latched_rx3_los_indicator = bit (bs ! 0) 2,
     pm_qsfp_interrupt_flags_t.latched_rx4_los_indicator = bit (bs ! 0) 3,
     pm_qsfp_interrupt_flags_t.latched_tx1_los_indicator = bit (bs ! 0) 4,
     pm_qsfp_interrupt_flags_t.latched_tx2_los_indicator = bit (bs ! 0) 5,
     pm_qsfp_interrupt_flags_t.latched_tx3_los_indicator = bit (bs ! 0) 6,
     pm_qsfp_interrupt_flags_t.latched_tx4_los_indicator = bit (bs ! 0) 7,
     pm_qsfp_interrupt_flags_t.latched_tx1_fault_indicator = bit (bs ! 1) 0,
     pm_qsfp_interrupt_flags_t.latched_tx2_fault_indicator = bit (bs ! 1) 1,
     pm_qsfp_interrupt_flags_t.latched_tx3_fault_indicator = bit (bs ! 1) 2,
     pm_qsfp_interrupt_flags_t.latched_tx4_fault_indicator = bit (bs ! 1) 3,
     pm_qsfp_interrupt_flags_t.reserved_4_4 = bit (bs ! 1) 4,
     pm_qsfp_interrupt_flags_t.reserved_4_5 = bit (bs ! 1) 5,
     pm_qsfp_interrupt_flags_t.reserved_4_6 = bit (bs ! 1) 6,
     pm_qsfp_interrupt_flags_t.reserved_4_7 = bit (bs ! 1) 7,
     pm_qsfp_interrupt_flags_t.reserved_5 = bs ! 2,
     pm_qsfp_interrupt_flags_t.reserved_6_0 = bit (bs ! 3) 0,
     pm_qsfp_interrupt_flags_t.reserved_6_1 = bit (bs ! 3) 1,
     pm_qsfp_interrupt_flags_t.reserved_6_2 = bit (bs ! 3) 2,
     pm_qsfp_interrupt_flags_t.reserved_6_3 = bit (bs ! 3) 3,
     pm_qsfp_interrupt_flags_t.latched_temp_low_warning = bit (bs ! 3) 4,
     pm_qsfp_interrupt_flags_t.latched_temp_high_warning = bit (bs ! 3) 5,
     pm_qsfp_interrupt_flags_t.latched_temp_low_alarm = bit (bs ! 3) 6,
     pm_qsfp_interrupt_flags_t.latched_temp_high_alarm = bit (bs ! 3) 7,
     pm_qsfp_interrupt_flags_t.reserved_7_0 = bit (bs ! 4) 0,
     pm_qsfp_interrupt_flags_t.reserved_7_1 = bit (bs ! 4) 1,
     pm_qsfp_interrupt_flags_t.reserved_7_2 = bit (bs ! 4) 2,
     pm_qsfp_interrupt_flags_t.reserved_7_3 = bit (bs ! 4) 3,
     pm_qsfp_interrupt_flags_t.latched_vcc_low_warning = bit (bs ! 4) 4,
     pm_qsfp_interrupt_flags_t.latched_vcc_high_warning = bit (bs ! 4) 5,
     pm_qsfp_interrupt_flags_t.latched_vcc_low_alarm = bit (bs ! 4) 6,
     pm_qsfp_interrupt_flags_t.latched_vcc_high_alarm = bit (bs ! 4) 7,
     pm_qsfp_interrupt_flags_t.reserved_8 = bs ! 5,
     pm_qsfp_interrupt_flags_t.latched_rx2_power_low_warning = bit (bs ! 6) 0,
     pm_qsfp_interrupt_flags_t.latched_rx2_power_high_warning = bit (bs ! 6) 1,
     pm_qsfp_interrupt_flags_t.latched_rx2_power_low_alarm = bit (bs ! 6) 2,
     pm_qsfp_interrupt_flags_t.latched_rx2_power_high_alarm = bit (bs ! 6) 3,
     pm_qsfp_interrupt_flags_t.latched_rx1_power_low_warning = bit (bs ! 6) 4,
     pm_qsfp_interrupt_flags_t.latched_rx1_power_high_warning = bit (bs ! 6) 5,
     pm_qsfp_interrupt_flags_t.latched_rx1_power_low_alarm = bit (bs ! 6) 6,
     pm_qsfp_interrupt_flags_t.latched_rx1_power_high_alarm = bit (bs ! 6) 7,
     pm_qsfp_interrupt_flags_t.latched_rx4_power_low_warning = bit (bs ! 7) 0,
     pm_qsfp_interrupt_flags_t.latched_rx4_power_high_warning = bit (bs ! 7) 1,
     pm_qsfp_interrupt_flags_t.latched_rx4_power_low_alarm = bit (bs ! 7) 2,
     pm_qsfp_interrupt_flags_t.latched_rx4_power_high_alarm = bit (bs ! 7) 3,
     pm_qsfp_interrupt_flags_t.latched_rx3_power_low_warning = bit (bs ! 7) 4,
     pm_qsfp_interrupt_flags_t.latched_rx3_power_high_warning = bit (bs ! 7) 5,
     pm_qsfp_interrupt_flags_t.latched_rx3_power_low_alarm = bit (bs ! 7) 6,
     pm_qsfp_interrupt_flags_t.latched_rx3_power_high_alarm = bit (bs ! 7) 7,
     pm_qsfp_interrupt_flags_t.latched_tx2_bias_low_warning = bit (bs ! 8) 0,
     pm_qsfp_interrupt_flags_t.latched_tx2_bias_high_warning = bit (bs ! 8) 1,
     pm_qsfp_interrupt_flags_t.latched_tx2_bias_low_alarm = bit (bs ! 8) 2,
     pm_qsfp_interrupt_flags_t.latched_tx2_bias_high_alarm = bit (bs ! 8) 3,
     pm_qsfp_interrupt_flags_t.latched_tx1_bias_low_warning = bit (bs ! 8) 4,
     pm_qsfp_interrupt_flags_t.latched_tx1_bias_high_warning = bit (bs ! 8) 5,
     pm_qsfp_interrupt_flags_t.latched_tx1_bias_low_alarm = bit (bs ! 8) 6,
     pm_qsfp_interrupt_flags_t.latched_tx1_bias_high_alarm = bit (bs ! 8) 7,
     pm_qsfp_interrupt_flags_t.latched_tx4_bias_low_warning = bit (bs ! 9) 0,
     pm_qsfp_interrupt_flags_t.latched_tx4_bias_high_warning = bit (bs ! 9) 1,
     pm_qsfp_interrupt_flags_t.latched_tx4_bias_low_alarm = bit (bs ! 9) 2,
     pm_qsfp_interrupt_flags_t.latched_tx4_bias_high_alarm = bit (bs ! 9) 3,
     pm_qsfp_interrupt_flags_t.latched_tx3_bias_low_warning = bit (bs ! 9) 4,
     pm_qsfp_interrupt_flags_t.latched_tx3_bias_high_warning = bit (bs ! 9) 5,
     pm_qsfp_interrupt_flags_t.latched_tx3_bias_low_alarm = bit (bs ! 9) 6,
     pm_qsfp_interrupt_flags_t.latched_tx3_bias_high_alarm = bit (bs ! 9) 7,
     pm_qsfp_interrupt_flags_t.reserved_13 = bs ! 10,
     pm_qsfp_interrupt_flags_t.reserved_14 = bs ! 11,
     pm_qsfp_interrupt_flags_t.reserved_15 = bs ! 12,
     pm_qsfp_interrupt_flags_t.reserved_16 = bs ! 13,
     pm_qsfp_interrupt_flags_t.reserved_17 = bs ! 14,
     pm_qsfp_interrupt_flags_t.reserved_18 = bs ! 15,
     pm_qsfp_interrupt_flags_t.reserved_19 = bs ! 16,
     pm_qsfp_interrupt_flags_t.reserved_20 = bs ! 17,
     pm_qsfp_interrupt_flags_t.reserved_21 = bs ! 18\<rparr>"

definition bytes_of_qsfp_interrupt_flags :: "pm_qsfp_interrupt_flags_t \<Rightarrow> byte list" where
  "bytes_of_qsfp_interrupt_flags r =
     [byte_of_bits [pm_qsfp_interrupt_flags_t.latched_rx1_los_indicator r, 
      pm_qsfp_interrupt_flags_t.latched_rx2_los_indicator r, 
      pm_qsfp_interrupt_flags_t.latched_rx3_los_indicator r, 
      pm_qsfp_interrupt_flags_t.latched_rx4_los_indicator r, 
      pm_qsfp_interrupt_flags_t.latched_tx1_los_indicator r, 
      pm_qsfp_interrupt_flags_t.latched_tx2_los_indicator r, 
      pm_qsfp_interrupt_flags_t.latched_tx3_los_indicator r, 
      pm_qsfp_interrupt_flags_t.latched_tx4_los_indicator r], 
      byte_of_bits [pm_qsfp_interrupt_flags_t.latched_tx1_fault_indicator r, 
      pm_qsfp_interrupt_flags_t.latched_tx2_fault_indicator r, 
      pm_qsfp_interrupt_flags_t.latched_tx3_fault_indicator r, 
      pm_qsfp_interrupt_flags_t.latched_tx4_fault_indicator r, 
      pm_qsfp_interrupt_flags_t.reserved_4_4 r, pm_qsfp_interrupt_flags_t.reserved_4_5 r, 
      pm_qsfp_interrupt_flags_t.reserved_4_6 r, pm_qsfp_interrupt_flags_t.reserved_4_7 r], 
      pm_qsfp_interrupt_flags_t.reserved_5 r, 
      byte_of_bits [pm_qsfp_interrupt_flags_t.reserved_6_0 r, 
      pm_qsfp_interrupt_flags_t.reserved_6_1 r, pm_qsfp_interrupt_flags_t.reserved_6_2 r, 
      pm_qsfp_interrupt_flags_t.reserved_6_3 r, 
      pm_qsfp_interrupt_flags_t.latched_temp_low_warning r, 
      pm_qsfp_interrupt_flags_t.latched_temp_high_warning r, 
      pm_qsfp_interrupt_flags_t.latched_temp_low_alarm r, 
      pm_qsfp_interrupt_flags_t.latched_temp_high_alarm r], 
      byte_of_bits [pm_qsfp_interrupt_flags_t.reserved_7_0 r, 
      pm_qsfp_interrupt_flags_t.reserved_7_1 r, pm_qsfp_interrupt_flags_t.reserved_7_2 r, 
      pm_qsfp_interrupt_flags_t.reserved_7_3 r, 
      pm_qsfp_interrupt_flags_t.latched_vcc_low_warning r, 
      pm_qsfp_interrupt_flags_t.latched_vcc_high_warning r, 
      pm_qsfp_interrupt_flags_t.latched_vcc_low_alarm r, 
      pm_qsfp_interrupt_flags_t.latched_vcc_high_alarm r], 
      pm_qsfp_interrupt_flags_t.reserved_8 r, 
      byte_of_bits [pm_qsfp_interrupt_flags_t.latched_rx2_power_low_warning r, 
      pm_qsfp_interrupt_flags_t.latched_rx2_power_high_warning r, 
      pm_qsfp_interrupt_flags_t.latched_rx2_power_low_alarm r, 
      pm_qsfp_interrupt_flags_t.latched_rx2_power_high_alarm r, 
      pm_qsfp_interrupt_flags_t.latched_rx1_power_low_warning r, 
      pm_qsfp_interrupt_flags_t.latched_rx1_power_high_warning r, 
      pm_qsfp_interrupt_flags_t.latched_rx1_power_low_alarm r, 
      pm_qsfp_interrupt_flags_t.latched_rx1_power_high_alarm r], 
      byte_of_bits [pm_qsfp_interrupt_flags_t.latched_rx4_power_low_warning r, 
      pm_qsfp_interrupt_flags_t.latched_rx4_power_high_warning r, 
      pm_qsfp_interrupt_flags_t.latched_rx4_power_low_alarm r, 
      pm_qsfp_interrupt_flags_t.latched_rx4_power_high_alarm r, 
      pm_qsfp_interrupt_flags_t.latched_rx3_power_low_warning r, 
      pm_qsfp_interrupt_flags_t.latched_rx3_power_high_warning r, 
      pm_qsfp_interrupt_flags_t.latched_rx3_power_low_alarm r, 
      pm_qsfp_interrupt_flags_t.latched_rx3_power_high_alarm r], 
      byte_of_bits [pm_qsfp_interrupt_flags_t.latched_tx2_bias_low_warning r, 
      pm_qsfp_interrupt_flags_t.latched_tx2_bias_high_warning r, 
      pm_qsfp_interrupt_flags_t.latched_tx2_bias_low_alarm r, 
      pm_qsfp_interrupt_flags_t.latched_tx2_bias_high_alarm r, 
      pm_qsfp_interrupt_flags_t.latched_tx1_bias_low_warning r, 
      pm_qsfp_interrupt_flags_t.latched_tx1_bias_high_warning r, 
      pm_qsfp_interrupt_flags_t.latched_tx1_bias_low_alarm r, 
      pm_qsfp_interrupt_flags_t.latched_tx1_bias_high_alarm r], 
      byte_of_bits [pm_qsfp_interrupt_flags_t.latched_tx4_bias_low_warning r, 
      pm_qsfp_interrupt_flags_t.latched_tx4_bias_high_warning r, 
      pm_qsfp_interrupt_flags_t.latched_tx4_bias_low_alarm r, 
      pm_qsfp_interrupt_flags_t.latched_tx4_bias_high_alarm r, 
      pm_qsfp_interrupt_flags_t.latched_tx3_bias_low_warning r, 
      pm_qsfp_interrupt_flags_t.latched_tx3_bias_high_warning r, 
      pm_qsfp_interrupt_flags_t.latched_tx3_bias_low_alarm r, 
      pm_qsfp_interrupt_flags_t.latched_tx3_bias_high_alarm r], 
      pm_qsfp_interrupt_flags_t.reserved_13 r, pm_qsfp_interrupt_flags_t.reserved_14 r, 
      pm_qsfp_interrupt_flags_t.reserved_15 r, pm_qsfp_interrupt_flags_t.reserved_16 r, 
      pm_qsfp_interrupt_flags_t.reserved_17 r, pm_qsfp_interrupt_flags_t.reserved_18 r, 
      pm_qsfp_interrupt_flags_t.reserved_19 r, pm_qsfp_interrupt_flags_t.reserved_20 r, 
      pm_qsfp_interrupt_flags_t.reserved_21 r]"

interpretation qsfp_interrupt_flags: struct_layout qsfp_interrupt_flags_of_bytes bytes_of_qsfp_interrupt_flags 19 "\<lambda>_. True"
  by unfold_locales
    (simp_all add: qsfp_interrupt_flags_of_bytes_def bytes_of_qsfp_interrupt_flags_def layout glue unglue)

lemmas [layout] = qsfp_interrupt_flags.length_enc qsfp_interrupt_flags.dec_enc qsfp_interrupt_flags.enc_dec

subsection \<open>\<^verbatim>\<open>pm_qsfp_module_monitors_t\<close>\<close>

record pm_qsfp_module_monitors_t =
  temp_msb :: byte
  temp_lsb :: byte
  reserved_24 :: byte
  reserved_25 :: byte
  voltage_msb :: byte
  voltage_lsb :: byte
  reserved_28 :: byte
  reserved_29 :: byte
  reserved_30 :: byte
  reserved_31 :: byte
  reserved_32 :: byte
  reserved_33 :: byte

definition qsfp_module_monitors_of_bytes :: "byte list \<Rightarrow> pm_qsfp_module_monitors_t" where
  "qsfp_module_monitors_of_bytes bs = \<lparr>
     pm_qsfp_module_monitors_t.temp_msb = bs ! 0, pm_qsfp_module_monitors_t.temp_lsb = bs ! 1,
     pm_qsfp_module_monitors_t.reserved_24 = bs ! 2,
     pm_qsfp_module_monitors_t.reserved_25 = bs ! 3,
     pm_qsfp_module_monitors_t.voltage_msb = bs ! 4,
     pm_qsfp_module_monitors_t.voltage_lsb = bs ! 5,
     pm_qsfp_module_monitors_t.reserved_28 = bs ! 6,
     pm_qsfp_module_monitors_t.reserved_29 = bs ! 7,
     pm_qsfp_module_monitors_t.reserved_30 = bs ! 8,
     pm_qsfp_module_monitors_t.reserved_31 = bs ! 9,
     pm_qsfp_module_monitors_t.reserved_32 = bs ! 10,
     pm_qsfp_module_monitors_t.reserved_33 = bs ! 11\<rparr>"

definition bytes_of_qsfp_module_monitors :: "pm_qsfp_module_monitors_t \<Rightarrow> byte list" where
  "bytes_of_qsfp_module_monitors r =
     [pm_qsfp_module_monitors_t.temp_msb r, pm_qsfp_module_monitors_t.temp_lsb r, 
      pm_qsfp_module_monitors_t.reserved_24 r, pm_qsfp_module_monitors_t.reserved_25 r, 
      pm_qsfp_module_monitors_t.voltage_msb r, pm_qsfp_module_monitors_t.voltage_lsb r, 
      pm_qsfp_module_monitors_t.reserved_28 r, pm_qsfp_module_monitors_t.reserved_29 r, 
      pm_qsfp_module_monitors_t.reserved_30 r, pm_qsfp_module_monitors_t.reserved_31 r, 
      pm_qsfp_module_monitors_t.reserved_32 r, pm_qsfp_module_monitors_t.reserved_33 r]"

interpretation qsfp_module_monitors: struct_layout qsfp_module_monitors_of_bytes bytes_of_qsfp_module_monitors 12 "\<lambda>_. True"
  by unfold_locales
    (simp_all add: qsfp_module_monitors_of_bytes_def bytes_of_qsfp_module_monitors_def layout glue unglue)

lemmas [layout] = qsfp_module_monitors.length_enc qsfp_module_monitors.dec_enc qsfp_module_monitors.enc_dec

subsection \<open>\<^verbatim>\<open>pm_qsfp_channel_monitors_t\<close>\<close>

record pm_qsfp_channel_monitors_t =
  rx1_power_msb :: byte
  rx1_power_lsb :: byte
  rx2_power_msb :: byte
  rx2_power_lsb :: byte
  rx3_power_msb :: byte
  rx3_power_lsb :: byte
  rx4_power_msb :: byte
  rx4_power_lsb :: byte
  tx1_bias_msb :: byte
  tx1_bias_lsb :: byte
  tx2_bias_msb :: byte
  tx2_bias_lsb :: byte
  tx3_bias_msb :: byte
  tx3_bias_lsb :: byte
  tx4_bias_msb :: byte
  tx4_bias_lsb :: byte
  reserved_50 :: byte
  reserved_51 :: byte
  reserved_52 :: byte
  reserved_53 :: byte
  reserved_54 :: byte
  reserved_55 :: byte
  reserved_56 :: byte
  reserved_57 :: byte
  reserved_58 :: byte
  reserved_59 :: byte
  reserved_60 :: byte
  reserved_61 :: byte
  reserved_62 :: byte
  reserved_63 :: byte
  reserved_64 :: byte
  reserved_65 :: byte
  reserved_66 :: byte
  reserved_67 :: byte
  reserved_68 :: byte
  reserved_69 :: byte
  reserved_70 :: byte
  reserved_71 :: byte
  reserved_72 :: byte
  reserved_73 :: byte
  reserved_74 :: byte
  reserved_75 :: byte
  reserved_76 :: byte
  reserved_77 :: byte
  reserved_78 :: byte
  reserved_79 :: byte
  reserved_80 :: byte
  reserved_81 :: byte

definition qsfp_channel_monitors_of_bytes :: "byte list \<Rightarrow> pm_qsfp_channel_monitors_t" where
  "qsfp_channel_monitors_of_bytes bs = \<lparr>
     pm_qsfp_channel_monitors_t.rx1_power_msb = bs ! 0,
     pm_qsfp_channel_monitors_t.rx1_power_lsb = bs ! 1,
     pm_qsfp_channel_monitors_t.rx2_power_msb = bs ! 2,
     pm_qsfp_channel_monitors_t.rx2_power_lsb = bs ! 3,
     pm_qsfp_channel_monitors_t.rx3_power_msb = bs ! 4,
     pm_qsfp_channel_monitors_t.rx3_power_lsb = bs ! 5,
     pm_qsfp_channel_monitors_t.rx4_power_msb = bs ! 6,
     pm_qsfp_channel_monitors_t.rx4_power_lsb = bs ! 7,
     pm_qsfp_channel_monitors_t.tx1_bias_msb = bs ! 8,
     pm_qsfp_channel_monitors_t.tx1_bias_lsb = bs ! 9,
     pm_qsfp_channel_monitors_t.tx2_bias_msb = bs ! 10,
     pm_qsfp_channel_monitors_t.tx2_bias_lsb = bs ! 11,
     pm_qsfp_channel_monitors_t.tx3_bias_msb = bs ! 12,
     pm_qsfp_channel_monitors_t.tx3_bias_lsb = bs ! 13,
     pm_qsfp_channel_monitors_t.tx4_bias_msb = bs ! 14,
     pm_qsfp_channel_monitors_t.tx4_bias_lsb = bs ! 15,
     pm_qsfp_channel_monitors_t.reserved_50 = bs ! 16,
     pm_qsfp_channel_monitors_t.reserved_51 = bs ! 17,
     pm_qsfp_channel_monitors_t.reserved_52 = bs ! 18,
     pm_qsfp_channel_monitors_t.reserved_53 = bs ! 19,
     pm_qsfp_channel_monitors_t.reserved_54 = bs ! 20,
     pm_qsfp_channel_monitors_t.reserved_55 = bs ! 21,
     pm_qsfp_channel_monitors_t.reserved_56 = bs ! 22,
     pm_qsfp_channel_monitors_t.reserved_57 = bs ! 23,
     pm_qsfp_channel_monitors_t.reserved_58 = bs ! 24,
     pm_qsfp_channel_monitors_t.reserved_59 = bs ! 25,
     pm_qsfp_channel_monitors_t.reserved_60 = bs ! 26,
     pm_qsfp_channel_monitors_t.reserved_61 = bs ! 27,
     pm_qsfp_channel_monitors_t.reserved_62 = bs ! 28,
     pm_qsfp_channel_monitors_t.reserved_63 = bs ! 29,
     pm_qsfp_channel_monitors_t.reserved_64 = bs ! 30,
     pm_qsfp_channel_monitors_t.reserved_65 = bs ! 31,
     pm_qsfp_channel_monitors_t.reserved_66 = bs ! 32,
     pm_qsfp_channel_monitors_t.reserved_67 = bs ! 33,
     pm_qsfp_channel_monitors_t.reserved_68 = bs ! 34,
     pm_qsfp_channel_monitors_t.reserved_69 = bs ! 35,
     pm_qsfp_channel_monitors_t.reserved_70 = bs ! 36,
     pm_qsfp_channel_monitors_t.reserved_71 = bs ! 37,
     pm_qsfp_channel_monitors_t.reserved_72 = bs ! 38,
     pm_qsfp_channel_monitors_t.reserved_73 = bs ! 39,
     pm_qsfp_channel_monitors_t.reserved_74 = bs ! 40,
     pm_qsfp_channel_monitors_t.reserved_75 = bs ! 41,
     pm_qsfp_channel_monitors_t.reserved_76 = bs ! 42,
     pm_qsfp_channel_monitors_t.reserved_77 = bs ! 43,
     pm_qsfp_channel_monitors_t.reserved_78 = bs ! 44,
     pm_qsfp_channel_monitors_t.reserved_79 = bs ! 45,
     pm_qsfp_channel_monitors_t.reserved_80 = bs ! 46,
     pm_qsfp_channel_monitors_t.reserved_81 = bs ! 47\<rparr>"

definition bytes_of_qsfp_channel_monitors :: "pm_qsfp_channel_monitors_t \<Rightarrow> byte list" where
  "bytes_of_qsfp_channel_monitors r =
     [pm_qsfp_channel_monitors_t.rx1_power_msb r, 
      pm_qsfp_channel_monitors_t.rx1_power_lsb r, 
      pm_qsfp_channel_monitors_t.rx2_power_msb r, 
      pm_qsfp_channel_monitors_t.rx2_power_lsb r, 
      pm_qsfp_channel_monitors_t.rx3_power_msb r, 
      pm_qsfp_channel_monitors_t.rx3_power_lsb r, 
      pm_qsfp_channel_monitors_t.rx4_power_msb r, 
      pm_qsfp_channel_monitors_t.rx4_power_lsb r, 
      pm_qsfp_channel_monitors_t.tx1_bias_msb r, 
      pm_qsfp_channel_monitors_t.tx1_bias_lsb r, 
      pm_qsfp_channel_monitors_t.tx2_bias_msb r, 
      pm_qsfp_channel_monitors_t.tx2_bias_lsb r, 
      pm_qsfp_channel_monitors_t.tx3_bias_msb r, 
      pm_qsfp_channel_monitors_t.tx3_bias_lsb r, 
      pm_qsfp_channel_monitors_t.tx4_bias_msb r, 
      pm_qsfp_channel_monitors_t.tx4_bias_lsb r, pm_qsfp_channel_monitors_t.reserved_50 r, 
      pm_qsfp_channel_monitors_t.reserved_51 r, pm_qsfp_channel_monitors_t.reserved_52 r, 
      pm_qsfp_channel_monitors_t.reserved_53 r, pm_qsfp_channel_monitors_t.reserved_54 r, 
      pm_qsfp_channel_monitors_t.reserved_55 r, pm_qsfp_channel_monitors_t.reserved_56 r, 
      pm_qsfp_channel_monitors_t.reserved_57 r, pm_qsfp_channel_monitors_t.reserved_58 r, 
      pm_qsfp_channel_monitors_t.reserved_59 r, pm_qsfp_channel_monitors_t.reserved_60 r, 
      pm_qsfp_channel_monitors_t.reserved_61 r, pm_qsfp_channel_monitors_t.reserved_62 r, 
      pm_qsfp_channel_monitors_t.reserved_63 r, pm_qsfp_channel_monitors_t.reserved_64 r, 
      pm_qsfp_channel_monitors_t.reserved_65 r, pm_qsfp_channel_monitors_t.reserved_66 r, 
      pm_qsfp_channel_monitors_t.reserved_67 r, pm_qsfp_channel_monitors_t.reserved_68 r, 
      pm_qsfp_channel_monitors_t.reserved_69 r, pm_qsfp_channel_monitors_t.reserved_70 r, 
      pm_qsfp_channel_monitors_t.reserved_71 r, pm_qsfp_channel_monitors_t.reserved_72 r, 
      pm_qsfp_channel_monitors_t.reserved_73 r, pm_qsfp_channel_monitors_t.reserved_74 r, 
      pm_qsfp_channel_monitors_t.reserved_75 r, pm_qsfp_channel_monitors_t.reserved_76 r, 
      pm_qsfp_channel_monitors_t.reserved_77 r, pm_qsfp_channel_monitors_t.reserved_78 r, 
      pm_qsfp_channel_monitors_t.reserved_79 r, pm_qsfp_channel_monitors_t.reserved_80 r, 
      pm_qsfp_channel_monitors_t.reserved_81 r]"

interpretation qsfp_channel_monitors: struct_layout qsfp_channel_monitors_of_bytes bytes_of_qsfp_channel_monitors 48 "\<lambda>_. True"
  by unfold_locales
    (simp_all add: qsfp_channel_monitors_of_bytes_def bytes_of_qsfp_channel_monitors_def layout glue unglue)

lemmas [layout] = qsfp_channel_monitors.length_enc qsfp_channel_monitors.dec_enc qsfp_channel_monitors.enc_dec

subsection \<open>\<^verbatim>\<open>pm_qsfp_control_t\<close>\<close>

record pm_qsfp_control_t =
  tx1_disable :: bool
  tx2_disable :: bool
  tx3_disable :: bool
  tx4_disable :: bool
  reserved_86_4 :: bool
  reserved_86_5 :: bool
  reserved_86_6 :: bool
  reserved_86_7 :: bool
  rx1_rate_select_lsb :: bool
  rx1_rate_select_msb :: bool
  rx2_rate_select_lsb :: bool
  rx2_rate_select_msb :: bool
  rx3_rate_select_lsb :: bool
  rx3_rate_select_msb :: bool
  rx4_rate_select_lsb :: bool
  rx4_rate_select_msb :: bool
  tx1_rate_select_lsb :: bool
  tx1_rate_select_msb :: bool
  tx2_rate_select_lsb :: bool
  tx2_rate_select_msb :: bool
  tx3_rate_select_lsb :: bool
  tx3_rate_select_msb :: bool
  tx4_rate_select_lsb :: bool
  tx4_rate_select_msb :: bool
  rx4_application_select :: byte
  rx3_application_select :: byte
  rx2_application_select :: byte
  rx1_application_select :: byte
  power_override :: bool
  power_set :: bool
  reserved_93_2 :: bool
  reserved_93_3 :: bool
  reserved_93_4 :: bool
  reserved_93_5 :: bool
  reserved_93_6 :: bool
  reserved_93_7 :: bool
  tx4_application_select :: byte
  tx3_application_select :: byte
  tx2_application_select :: byte
  tx1_application_select :: byte

definition qsfp_control_of_bytes :: "byte list \<Rightarrow> pm_qsfp_control_t" where
  "qsfp_control_of_bytes bs = \<lparr>
     pm_qsfp_control_t.tx1_disable = bit (bs ! 0) 0,
     pm_qsfp_control_t.tx2_disable = bit (bs ! 0) 1,
     pm_qsfp_control_t.tx3_disable = bit (bs ! 0) 2,
     pm_qsfp_control_t.tx4_disable = bit (bs ! 0) 3,
     pm_qsfp_control_t.reserved_86_4 = bit (bs ! 0) 4,
     pm_qsfp_control_t.reserved_86_5 = bit (bs ! 0) 5,
     pm_qsfp_control_t.reserved_86_6 = bit (bs ! 0) 6,
     pm_qsfp_control_t.reserved_86_7 = bit (bs ! 0) 7,
     pm_qsfp_control_t.rx1_rate_select_lsb = bit (bs ! 1) 0,
     pm_qsfp_control_t.rx1_rate_select_msb = bit (bs ! 1) 1,
     pm_qsfp_control_t.rx2_rate_select_lsb = bit (bs ! 1) 2,
     pm_qsfp_control_t.rx2_rate_select_msb = bit (bs ! 1) 3,
     pm_qsfp_control_t.rx3_rate_select_lsb = bit (bs ! 1) 4,
     pm_qsfp_control_t.rx3_rate_select_msb = bit (bs ! 1) 5,
     pm_qsfp_control_t.rx4_rate_select_lsb = bit (bs ! 1) 6,
     pm_qsfp_control_t.rx4_rate_select_msb = bit (bs ! 1) 7,
     pm_qsfp_control_t.tx1_rate_select_lsb = bit (bs ! 2) 0,
     pm_qsfp_control_t.tx1_rate_select_msb = bit (bs ! 2) 1,
     pm_qsfp_control_t.tx2_rate_select_lsb = bit (bs ! 2) 2,
     pm_qsfp_control_t.tx2_rate_select_msb = bit (bs ! 2) 3,
     pm_qsfp_control_t.tx3_rate_select_lsb = bit (bs ! 2) 4,
     pm_qsfp_control_t.tx3_rate_select_msb = bit (bs ! 2) 5,
     pm_qsfp_control_t.tx4_rate_select_lsb = bit (bs ! 2) 6,
     pm_qsfp_control_t.tx4_rate_select_msb = bit (bs ! 2) 7,
     pm_qsfp_control_t.rx4_application_select = bs ! 3,
     pm_qsfp_control_t.rx3_application_select = bs ! 4,
     pm_qsfp_control_t.rx2_application_select = bs ! 5,
     pm_qsfp_control_t.rx1_application_select = bs ! 6,
     pm_qsfp_control_t.power_override = bit (bs ! 7) 0,
     pm_qsfp_control_t.power_set = bit (bs ! 7) 1,
     pm_qsfp_control_t.reserved_93_2 = bit (bs ! 7) 2,
     pm_qsfp_control_t.reserved_93_3 = bit (bs ! 7) 3,
     pm_qsfp_control_t.reserved_93_4 = bit (bs ! 7) 4,
     pm_qsfp_control_t.reserved_93_5 = bit (bs ! 7) 5,
     pm_qsfp_control_t.reserved_93_6 = bit (bs ! 7) 6,
     pm_qsfp_control_t.reserved_93_7 = bit (bs ! 7) 7,
     pm_qsfp_control_t.tx4_application_select = bs ! 8,
     pm_qsfp_control_t.tx3_application_select = bs ! 9,
     pm_qsfp_control_t.tx2_application_select = bs ! 10,
     pm_qsfp_control_t.tx1_application_select = bs ! 11\<rparr>"

definition bytes_of_qsfp_control :: "pm_qsfp_control_t \<Rightarrow> byte list" where
  "bytes_of_qsfp_control r =
     [byte_of_bits [pm_qsfp_control_t.tx1_disable r, pm_qsfp_control_t.tx2_disable r, 
      pm_qsfp_control_t.tx3_disable r, pm_qsfp_control_t.tx4_disable r, 
      pm_qsfp_control_t.reserved_86_4 r, pm_qsfp_control_t.reserved_86_5 r, 
      pm_qsfp_control_t.reserved_86_6 r, pm_qsfp_control_t.reserved_86_7 r], 
      byte_of_bits [pm_qsfp_control_t.rx1_rate_select_lsb r, 
      pm_qsfp_control_t.rx1_rate_select_msb r, pm_qsfp_control_t.rx2_rate_select_lsb r, 
      pm_qsfp_control_t.rx2_rate_select_msb r, pm_qsfp_control_t.rx3_rate_select_lsb r, 
      pm_qsfp_control_t.rx3_rate_select_msb r, pm_qsfp_control_t.rx4_rate_select_lsb r, 
      pm_qsfp_control_t.rx4_rate_select_msb r], 
      byte_of_bits [pm_qsfp_control_t.tx1_rate_select_lsb r, 
      pm_qsfp_control_t.tx1_rate_select_msb r, pm_qsfp_control_t.tx2_rate_select_lsb r, 
      pm_qsfp_control_t.tx2_rate_select_msb r, pm_qsfp_control_t.tx3_rate_select_lsb r, 
      pm_qsfp_control_t.tx3_rate_select_msb r, pm_qsfp_control_t.tx4_rate_select_lsb r, 
      pm_qsfp_control_t.tx4_rate_select_msb r], 
      pm_qsfp_control_t.rx4_application_select r, 
      pm_qsfp_control_t.rx3_application_select r, 
      pm_qsfp_control_t.rx2_application_select r, 
      pm_qsfp_control_t.rx1_application_select r, 
      byte_of_bits [pm_qsfp_control_t.power_override r, pm_qsfp_control_t.power_set r, 
      pm_qsfp_control_t.reserved_93_2 r, pm_qsfp_control_t.reserved_93_3 r, 
      pm_qsfp_control_t.reserved_93_4 r, pm_qsfp_control_t.reserved_93_5 r, 
      pm_qsfp_control_t.reserved_93_6 r, pm_qsfp_control_t.reserved_93_7 r], 
      pm_qsfp_control_t.tx4_application_select r, 
      pm_qsfp_control_t.tx3_application_select r, 
      pm_qsfp_control_t.tx2_application_select r, 
      pm_qsfp_control_t.tx1_application_select r]"

interpretation qsfp_control: struct_layout qsfp_control_of_bytes bytes_of_qsfp_control 12 "\<lambda>_. True"
  by unfold_locales
    (simp_all add: qsfp_control_of_bytes_def bytes_of_qsfp_control_def layout glue unglue)

lemmas [layout] = qsfp_control.length_enc qsfp_control.dec_enc qsfp_control.enc_dec

subsection \<open>\<^verbatim>\<open>pm_qsfp_module_and_channel_masks_t\<close>\<close>

record pm_qsfp_module_and_channel_masks_t =
  masking_bit_rx1_los_indicator :: bool
  masking_bit_rx2_los_indicator :: bool
  masking_bit_rx3_los_indicator :: bool
  masking_bit_rx4_los_indicator :: bool
  masking_bit_tx1_los_indicator :: bool
  masking_bit_tx2_los_indicator :: bool
  masking_bit_tx3_los_indicator :: bool
  masking_bit_tx4_los_indicator :: bool
  masking_bit_tx1_fault_indicator :: bool
  masking_bit_tx2_fault_indicator :: bool
  masking_bit_tx3_fault_indicator :: bool
  masking_bit_tx4_fault_indicator :: bool
  reserved_101_4 :: bool
  reserved_101_5 :: bool
  reserved_101_6 :: bool
  reserved_101_7 :: bool
  reserved_102 :: byte
  reserved_103_0 :: bool
  reserved_103_1 :: bool
  reserved_103_2 :: bool
  reserved_103_3 :: bool
  masking_bit_low_temp_warning :: bool
  masking_bit_high_temp_warning :: bool
  masking_bit_low_temp_alarm :: bool
  masking_bit_high_temp_alarm :: bool
  reserved_104_0 :: bool
  reserved_104_1 :: bool
  reserved_104_2 :: bool
  reserved_104_3 :: bool
  masking_bit_low_vcc_warning :: bool
  masking_bit_high_vcc_warning :: bool
  masking_bit_low_vcc_alarm :: bool
  masking_bit_high_vcc_alarm :: bool
  reserved_105 :: byte
  reserved_106 :: byte

definition qsfp_module_and_channel_masks_of_bytes :: "byte list \<Rightarrow> pm_qsfp_module_and_channel_masks_t" where
  "qsfp_module_and_channel_masks_of_bytes bs = \<lparr>
     pm_qsfp_module_and_channel_masks_t.masking_bit_rx1_los_indicator = bit (bs ! 0) 0,
     pm_qsfp_module_and_channel_masks_t.masking_bit_rx2_los_indicator = bit (bs ! 0) 1,
     pm_qsfp_module_and_channel_masks_t.masking_bit_rx3_los_indicator = bit (bs ! 0) 2,
     pm_qsfp_module_and_channel_masks_t.masking_bit_rx4_los_indicator = bit (bs ! 0) 3,
     pm_qsfp_module_and_channel_masks_t.masking_bit_tx1_los_indicator = bit (bs ! 0) 4,
     pm_qsfp_module_and_channel_masks_t.masking_bit_tx2_los_indicator = bit (bs ! 0) 5,
     pm_qsfp_module_and_channel_masks_t.masking_bit_tx3_los_indicator = bit (bs ! 0) 6,
     pm_qsfp_module_and_channel_masks_t.masking_bit_tx4_los_indicator = bit (bs ! 0) 7,
     pm_qsfp_module_and_channel_masks_t.masking_bit_tx1_fault_indicator = bit (bs ! 1) 0,
     pm_qsfp_module_and_channel_masks_t.masking_bit_tx2_fault_indicator = bit (bs ! 1) 1,
     pm_qsfp_module_and_channel_masks_t.masking_bit_tx3_fault_indicator = bit (bs ! 1) 2,
     pm_qsfp_module_and_channel_masks_t.masking_bit_tx4_fault_indicator = bit (bs ! 1) 3,
     pm_qsfp_module_and_channel_masks_t.reserved_101_4 = bit (bs ! 1) 4,
     pm_qsfp_module_and_channel_masks_t.reserved_101_5 = bit (bs ! 1) 5,
     pm_qsfp_module_and_channel_masks_t.reserved_101_6 = bit (bs ! 1) 6,
     pm_qsfp_module_and_channel_masks_t.reserved_101_7 = bit (bs ! 1) 7,
     pm_qsfp_module_and_channel_masks_t.reserved_102 = bs ! 2,
     pm_qsfp_module_and_channel_masks_t.reserved_103_0 = bit (bs ! 3) 0,
     pm_qsfp_module_and_channel_masks_t.reserved_103_1 = bit (bs ! 3) 1,
     pm_qsfp_module_and_channel_masks_t.reserved_103_2 = bit (bs ! 3) 2,
     pm_qsfp_module_and_channel_masks_t.reserved_103_3 = bit (bs ! 3) 3,
     pm_qsfp_module_and_channel_masks_t.masking_bit_low_temp_warning = bit (bs ! 3) 4,
     pm_qsfp_module_and_channel_masks_t.masking_bit_high_temp_warning = bit (bs ! 3) 5,
     pm_qsfp_module_and_channel_masks_t.masking_bit_low_temp_alarm = bit (bs ! 3) 6,
     pm_qsfp_module_and_channel_masks_t.masking_bit_high_temp_alarm = bit (bs ! 3) 7,
     pm_qsfp_module_and_channel_masks_t.reserved_104_0 = bit (bs ! 4) 0,
     pm_qsfp_module_and_channel_masks_t.reserved_104_1 = bit (bs ! 4) 1,
     pm_qsfp_module_and_channel_masks_t.reserved_104_2 = bit (bs ! 4) 2,
     pm_qsfp_module_and_channel_masks_t.reserved_104_3 = bit (bs ! 4) 3,
     pm_qsfp_module_and_channel_masks_t.masking_bit_low_vcc_warning = bit (bs ! 4) 4,
     pm_qsfp_module_and_channel_masks_t.masking_bit_high_vcc_warning = bit (bs ! 4) 5,
     pm_qsfp_module_and_channel_masks_t.masking_bit_low_vcc_alarm = bit (bs ! 4) 6,
     pm_qsfp_module_and_channel_masks_t.masking_bit_high_vcc_alarm = bit (bs ! 4) 7,
     pm_qsfp_module_and_channel_masks_t.reserved_105 = bs ! 5,
     pm_qsfp_module_and_channel_masks_t.reserved_106 = bs ! 6\<rparr>"

definition bytes_of_qsfp_module_and_channel_masks :: "pm_qsfp_module_and_channel_masks_t \<Rightarrow> byte list" where
  "bytes_of_qsfp_module_and_channel_masks r =
     [byte_of_bits [pm_qsfp_module_and_channel_masks_t.masking_bit_rx1_los_indicator r, 
      pm_qsfp_module_and_channel_masks_t.masking_bit_rx2_los_indicator r, 
      pm_qsfp_module_and_channel_masks_t.masking_bit_rx3_los_indicator r, 
      pm_qsfp_module_and_channel_masks_t.masking_bit_rx4_los_indicator r, 
      pm_qsfp_module_and_channel_masks_t.masking_bit_tx1_los_indicator r, 
      pm_qsfp_module_and_channel_masks_t.masking_bit_tx2_los_indicator r, 
      pm_qsfp_module_and_channel_masks_t.masking_bit_tx3_los_indicator r, 
      pm_qsfp_module_and_channel_masks_t.masking_bit_tx4_los_indicator r], 
      byte_of_bits [pm_qsfp_module_and_channel_masks_t.masking_bit_tx1_fault_indicator r, 
      pm_qsfp_module_and_channel_masks_t.masking_bit_tx2_fault_indicator r, 
      pm_qsfp_module_and_channel_masks_t.masking_bit_tx3_fault_indicator r, 
      pm_qsfp_module_and_channel_masks_t.masking_bit_tx4_fault_indicator r, 
      pm_qsfp_module_and_channel_masks_t.reserved_101_4 r, 
      pm_qsfp_module_and_channel_masks_t.reserved_101_5 r, 
      pm_qsfp_module_and_channel_masks_t.reserved_101_6 r, 
      pm_qsfp_module_and_channel_masks_t.reserved_101_7 r], 
      pm_qsfp_module_and_channel_masks_t.reserved_102 r, 
      byte_of_bits [pm_qsfp_module_and_channel_masks_t.reserved_103_0 r, 
      pm_qsfp_module_and_channel_masks_t.reserved_103_1 r, 
      pm_qsfp_module_and_channel_masks_t.reserved_103_2 r, 
      pm_qsfp_module_and_channel_masks_t.reserved_103_3 r, 
      pm_qsfp_module_and_channel_masks_t.masking_bit_low_temp_warning r, 
      pm_qsfp_module_and_channel_masks_t.masking_bit_high_temp_warning r, 
      pm_qsfp_module_and_channel_masks_t.masking_bit_low_temp_alarm r, 
      pm_qsfp_module_and_channel_masks_t.masking_bit_high_temp_alarm r], 
      byte_of_bits [pm_qsfp_module_and_channel_masks_t.reserved_104_0 r, 
      pm_qsfp_module_and_channel_masks_t.reserved_104_1 r, 
      pm_qsfp_module_and_channel_masks_t.reserved_104_2 r, 
      pm_qsfp_module_and_channel_masks_t.reserved_104_3 r, 
      pm_qsfp_module_and_channel_masks_t.masking_bit_low_vcc_warning r, 
      pm_qsfp_module_and_channel_masks_t.masking_bit_high_vcc_warning r, 
      pm_qsfp_module_and_channel_masks_t.masking_bit_low_vcc_alarm r, 
      pm_qsfp_module_and_channel_masks_t.masking_bit_high_vcc_alarm r], 
      pm_qsfp_module_and_channel_masks_t.reserved_105 r, 
      pm_qsfp_module_and_channel_masks_t.reserved_106 r]"

interpretation qsfp_module_and_channel_masks: struct_layout qsfp_module_and_channel_masks_of_bytes bytes_of_qsfp_module_and_channel_masks 7 "\<lambda>_. True"
  by unfold_locales
    (simp_all add: qsfp_module_and_channel_masks_of_bytes_def bytes_of_qsfp_module_and_channel_masks_def layout glue unglue)

lemmas [layout] = qsfp_module_and_channel_masks.length_enc qsfp_module_and_channel_masks.dec_enc qsfp_module_and_channel_masks.enc_dec

subsection \<open>\<^verbatim>\<open>pm_qsfp_password_change_entry_area_t\<close>\<close>

record pm_qsfp_password_change_entry_area_t =
  password_change_entry_area :: "byte list"

definition qsfp_password_change_entry_area_of_bytes :: "byte list \<Rightarrow> pm_qsfp_password_change_entry_area_t" where
  "qsfp_password_change_entry_area_of_bytes bs = \<lparr>
     pm_qsfp_password_change_entry_area_t.password_change_entry_area = bytes_at 0 4 bs\<rparr>"

definition bytes_of_qsfp_password_change_entry_area :: "pm_qsfp_password_change_entry_area_t \<Rightarrow> byte list" where
  "bytes_of_qsfp_password_change_entry_area r =
     pm_qsfp_password_change_entry_area_t.password_change_entry_area r"

definition wf_qsfp_password_change_entry_area :: "pm_qsfp_password_change_entry_area_t \<Rightarrow> bool" where
  "wf_qsfp_password_change_entry_area r \<longleftrightarrow> length (pm_qsfp_password_change_entry_area_t.password_change_entry_area r) = 4"

interpretation qsfp_password_change_entry_area: struct_layout qsfp_password_change_entry_area_of_bytes bytes_of_qsfp_password_change_entry_area 4 wf_qsfp_password_change_entry_area
  by unfold_locales
    (simp_all add: qsfp_password_change_entry_area_of_bytes_def bytes_of_qsfp_password_change_entry_area_def wf_qsfp_password_change_entry_area_def layout glue unglue)

lemmas [layout] = qsfp_password_change_entry_area.length_enc qsfp_password_change_entry_area.dec_enc qsfp_password_change_entry_area.enc_dec qsfp_password_change_entry_area.wf_dec

subsection \<open>\<^verbatim>\<open>pm_qsfp_password_entry_area_t\<close>\<close>

record pm_qsfp_password_entry_area_t =
  password_entry_area :: "byte list"

definition qsfp_password_entry_area_of_bytes :: "byte list \<Rightarrow> pm_qsfp_password_entry_area_t" where
  "qsfp_password_entry_area_of_bytes bs = \<lparr>
     pm_qsfp_password_entry_area_t.password_entry_area = bytes_at 0 4 bs\<rparr>"

definition bytes_of_qsfp_password_entry_area :: "pm_qsfp_password_entry_area_t \<Rightarrow> byte list" where
  "bytes_of_qsfp_password_entry_area r =
     pm_qsfp_password_entry_area_t.password_entry_area r"

definition wf_qsfp_password_entry_area :: "pm_qsfp_password_entry_area_t \<Rightarrow> bool" where
  "wf_qsfp_password_entry_area r \<longleftrightarrow> length (pm_qsfp_password_entry_area_t.password_entry_area r) = 4"

interpretation qsfp_password_entry_area: struct_layout qsfp_password_entry_area_of_bytes bytes_of_qsfp_password_entry_area 4 wf_qsfp_password_entry_area
  by unfold_locales
    (simp_all add: qsfp_password_entry_area_of_bytes_def bytes_of_qsfp_password_entry_area_def wf_qsfp_password_entry_area_def layout glue unglue)

lemmas [layout] = qsfp_password_entry_area.length_enc qsfp_password_entry_area.dec_enc qsfp_password_entry_area.enc_dec qsfp_password_entry_area.wf_dec

subsection \<open>\<^verbatim>\<open>pm_qsfp_dom_t\<close>\<close>

record pm_qsfp_dom_t =
  indentifier :: byte
  status :: pm_qsfp_status_indicators_t
  interrupt_flags :: pm_qsfp_interrupt_flags_t
  module_monitors :: pm_qsfp_module_monitors_t
  channel_monitors :: pm_qsfp_channel_monitors_t
  reserved_82 :: "byte list"
  control :: pm_qsfp_control_t
  reserved_98 :: "byte list"
  module_and_channel_masks :: pm_qsfp_module_and_channel_masks_t
  reserved_107 :: "byte list"
  password_change_entry_area :: pm_qsfp_password_change_entry_area_t
  password_entry_area :: pm_qsfp_password_entry_area_t
  page_select_btye :: byte

definition qsfp_dom_of_bytes :: "byte list \<Rightarrow> pm_qsfp_dom_t" where
  "qsfp_dom_of_bytes bs = \<lparr>
     pm_qsfp_dom_t.indentifier = bs ! 0,
     pm_qsfp_dom_t.status = qsfp_status_indicators_of_bytes (bytes_at 1 2 bs),
     pm_qsfp_dom_t.interrupt_flags = qsfp_interrupt_flags_of_bytes (bytes_at 3 19 bs),
     pm_qsfp_dom_t.module_monitors = qsfp_module_monitors_of_bytes (bytes_at 22 12 bs),
     pm_qsfp_dom_t.channel_monitors = qsfp_channel_monitors_of_bytes (bytes_at 34 48 bs),
     pm_qsfp_dom_t.reserved_82 = bytes_at 82 4 bs,
     pm_qsfp_dom_t.control = qsfp_control_of_bytes (bytes_at 86 12 bs),
     pm_qsfp_dom_t.reserved_98 = bytes_at 98 2 bs,
     pm_qsfp_dom_t.module_and_channel_masks = qsfp_module_and_channel_masks_of_bytes (bytes_at 100 7 bs),
     pm_qsfp_dom_t.reserved_107 = bytes_at 107 12 bs,
     pm_qsfp_dom_t.password_change_entry_area = qsfp_password_change_entry_area_of_bytes (bytes_at 119 4 bs),
     pm_qsfp_dom_t.password_entry_area = qsfp_password_entry_area_of_bytes (bytes_at 123 4 bs),
     pm_qsfp_dom_t.page_select_btye = bs ! 127\<rparr>"

definition bytes_of_qsfp_dom :: "pm_qsfp_dom_t \<Rightarrow> byte list" where
  "bytes_of_qsfp_dom r =
     [pm_qsfp_dom_t.indentifier r] @
     bytes_of_qsfp_status_indicators (pm_qsfp_dom_t.status r) @
     bytes_of_qsfp_interrupt_flags (pm_qsfp_dom_t.interrupt_flags r) @
     bytes_of_qsfp_module_monitors (pm_qsfp_dom_t.module_monitors r) @
     bytes_of_qsfp_channel_monitors (pm_qsfp_dom_t.channel_monitors r) @
     pm_qsfp_dom_t.reserved_82 r @
     bytes_of_qsfp_control (pm_qsfp_dom_t.control r) @
     pm_qsfp_dom_t.reserved_98 r @
     bytes_of_qsfp_module_and_channel_masks (pm_qsfp_dom_t.module_and_channel_masks r) @
     pm_qsfp_dom_t.reserved_107 r @
     
      bytes_of_qsfp_password_change_entry_area (pm_qsfp_dom_t.password_change_entry_area r) @
     bytes_of_qsfp_password_entry_area (pm_qsfp_dom_t.password_entry_area r) @
     [pm_qsfp_dom_t.page_select_btye r]"

definition wf_qsfp_dom :: "pm_qsfp_dom_t \<Rightarrow> bool" where
  "wf_qsfp_dom r \<longleftrightarrow> length (pm_qsfp_dom_t.reserved_82 r) = 4 \<and>
     length (pm_qsfp_dom_t.reserved_98 r) = 2 \<and>
     length (pm_qsfp_dom_t.reserved_107 r) = 12 \<and>
     wf_qsfp_password_change_entry_area (pm_qsfp_dom_t.password_change_entry_area r) \<and>
     wf_qsfp_password_entry_area (pm_qsfp_dom_t.password_entry_area r)"

interpretation qsfp_dom: struct_layout qsfp_dom_of_bytes bytes_of_qsfp_dom 128 wf_qsfp_dom
  by unfold_locales
    (simp_all add: qsfp_dom_of_bytes_def bytes_of_qsfp_dom_def wf_qsfp_dom_def layout glue unglue)

lemmas [layout] = qsfp_dom.length_enc qsfp_dom.dec_enc qsfp_dom.enc_dec qsfp_dom.wf_dec

text \<open>The memory map of the page: the address and the bytes of every field, in the order of the struct.\<close>

definition qsfp_dom_map :: "pm_qsfp_dom_t \<Rightarrow> (nat \<times> byte list) list" where
  "qsfp_dom_map r =
     [(0, [pm_qsfp_dom_t.indentifier r]),
      (1, bytes_of_qsfp_status_indicators (pm_qsfp_dom_t.status r)),
      (3, bytes_of_qsfp_interrupt_flags (pm_qsfp_dom_t.interrupt_flags r)),
      (22, bytes_of_qsfp_module_monitors (pm_qsfp_dom_t.module_monitors r)),
      (34, bytes_of_qsfp_channel_monitors (pm_qsfp_dom_t.channel_monitors r)),
      (82, pm_qsfp_dom_t.reserved_82 r), (86, bytes_of_qsfp_control (pm_qsfp_dom_t.control r)),
      (98, pm_qsfp_dom_t.reserved_98 r),
      (100, bytes_of_qsfp_module_and_channel_masks (pm_qsfp_dom_t.module_and_channel_masks r)),
      (107, pm_qsfp_dom_t.reserved_107 r),
      (119, bytes_of_qsfp_password_change_entry_area (pm_qsfp_dom_t.password_change_entry_area r)),
      (123, bytes_of_qsfp_password_entry_area (pm_qsfp_dom_t.password_entry_area r)),
      (127, [pm_qsfp_dom_t.page_select_btye r])]"

lemma qsfp_dom_mapped: "length page = 128 \<Longrightarrow> memory_map 0 page (qsfp_dom_map (qsfp_dom_of_bytes page))"
  by (simp add: qsfp_dom_map_def qsfp_dom_of_bytes_def memory_map layout)

end
