(* ===== verification/Pm_Dom.thy ===== *)
theory Pm_Dom
  imports Pm_Detect Sfp_Dom_Layout Qsfp_Dom_Layout
begin

text \<open>
  \<^verbatim>\<open>src/pm_dom.c\<close>: the diagnostics (DOM) of a module. \<open>set_a2_read_request\<close> decides from the serial id
  page whether the module has diagnostics the daemon can read; \<open>pm_set_a2\<close> turns the diagnostics page into
  the DOM columns of the port, through the SFP+ or the QSFP struct type. The groups of assignments of
  the source, one per measured quantity or lane, are definitions of their own. Each group is then
  shown to read the page at the offsets of the SFF-8472 and SFF-8636 tables.
\<close>

section \<open>The request for the diagnostics page\<close>

text \<open>\<open>strcmp\<close> on a NULL connector is undefined: \<open>None\<close>.\<close>

definition set_a2_read_request ::
  "byte list \<Rightarrow> 'z pm_port_t_scheme \<Rightarrow> 'z pm_port_t_scheme option" where
  "set_a2_read_request page port =
     (case YamlPort.connector (module_device port) of
        None \<Rightarrow> None
      | Some c \<Rightarrow> Some
          (if c = CONNECTOR_SFP_PLUS then
             (let t = pm_sfp_serial_id_t.diag_monitor_type (sfp_serial_id_of_bytes page) in
              if pm_sfp_diag_monitoring_type_t.implemented_digital t \<and>
                 pm_sfp_diag_monitoring_type_t.internally_calibrated t \<and>
                 pm_sfp_diag_monitoring_type_t.power_measurement_type t \<and>
                 \<not> pm_sfp_diag_monitoring_type_t.addr_change_required t
              then port\<lparr>a2_read_requested := True\<rparr> else port)
           else if c = CONNECTOR_QSFP_PLUS \<or> c = CONNECTOR_QSFP28 then
             (if pm_qsfp_diag_monitoring_type_t.average_input_optical_power
                   (pm_qsfp_serial_id_t.diag_monitor_type (qsfp_serial_id_of_bytes page))
              then port\<lparr>a2_read_requested := True\<rparr> else port)
           else port))"

section \<open>Measured values\<close>

text \<open>
  \<open>celsius\<close> is the temperature expression of the source: a signed \<open>char\<close> plus the float of an
  integer quotient, added in single precision. \<open>raw16\<close> is \<open>msb<<8 | lsb\<close> in \<open>int\<close>.
\<close>

definition celsius :: "byte \<Rightarrow> byte \<Rightarrow> cfloat" where
  "celsius msb lsb = to_float (cf_add (cf_of_int (sint msb)) (cf_of_int (uint lsb div 256)))"

definition raw16 :: "byte \<Rightarrow> byte \<Rightarrow> int" where
  "raw16 msb lsb = sint (or (push_bit 8 (ucast msb)) (ucast lsb) :: 32 word)"

section \<open>The groups of columns\<close>

definition pm_set_a2_sfp_temperature :: "pm_sfp_dom_t \<Rightarrow> 'z pm_port_t_scheme \<Rightarrow> 'z pm_port_t_scheme" where
  "pm_set_a2_sfp_temperature d port = (
     let port = SET_FLOAT_STRING ovs_module_dom_info.temperature ovs_module_dom_info.temperature_update
                  (celsius (pm_sfp_dom_t.temperature_msb d) (pm_sfp_dom_t.temperature_lsb d)) port;
         port = SET_BOOL_STRING ovs_module_dom_info.temperature_high_alarm ovs_module_dom_info.temperature_high_alarm_update
                  (pm_sfp_alarm_warning_bits_t.temp_high_alarm (pm_sfp_dom_t.alarm_warning_bits d)) port;
         port = SET_BOOL_STRING ovs_module_dom_info.temperature_low_alarm ovs_module_dom_info.temperature_low_alarm_update
                  (pm_sfp_alarm_warning_bits_t.temp_low_alarm (pm_sfp_dom_t.alarm_warning_bits d)) port;
         port = SET_BOOL_STRING ovs_module_dom_info.temperature_high_warning ovs_module_dom_info.temperature_high_warning_update
                  (pm_sfp_alarm_warning_bits_t.temp_high_warning (pm_sfp_dom_t.alarm_warning_bits d)) port;
         port = SET_BOOL_STRING ovs_module_dom_info.temperature_low_warning ovs_module_dom_info.temperature_low_warning_update
                  (pm_sfp_alarm_warning_bits_t.temp_low_warning (pm_sfp_dom_t.alarm_warning_bits d)) port;
         port = SET_FLOAT_STRING ovs_module_dom_info.temperature_high_alarm_threshold ovs_module_dom_info.temperature_high_alarm_threshold_update
                  (celsius (pm_sfp_dom_t.temp_high_alarm_msb d) (pm_sfp_dom_t.temp_high_alarm_lsb d)) port;
         port = SET_FLOAT_STRING ovs_module_dom_info.temperature_low_alarm_threshold ovs_module_dom_info.temperature_low_alarm_threshold_update
                  (celsius (pm_sfp_dom_t.temp_low_alarm_msb d) (pm_sfp_dom_t.temp_low_alarm_lsb d)) port;
         port = SET_FLOAT_STRING ovs_module_dom_info.temperature_high_warning_threshold ovs_module_dom_info.temperature_high_warning_threshold_update
                  (celsius (pm_sfp_dom_t.temp_high_warning_msb d) (pm_sfp_dom_t.temp_high_warning_lsb d)) port;
         port = SET_FLOAT_STRING ovs_module_dom_info.temperature_low_warning_threshold ovs_module_dom_info.temperature_low_warning_threshold_update
                  (celsius (pm_sfp_dom_t.temp_low_warning_msb d) (pm_sfp_dom_t.temp_low_warning_lsb d)) port
     in port)"

definition pm_set_a2_sfp_vcc :: "pm_sfp_dom_t \<Rightarrow> 'z pm_port_t_scheme \<Rightarrow> 'z pm_port_t_scheme" where
  "pm_set_a2_sfp_vcc d port = (
     let port = SET_FLOAT_STRING ovs_module_dom_info.vcc ovs_module_dom_info.vcc_update
                  (float_scaled lit_0_0001 (raw16 (pm_sfp_dom_t.vcc_msb d) (pm_sfp_dom_t.vcc_lsb d))) port;
         port = SET_BOOL_STRING ovs_module_dom_info.vcc_high_alarm ovs_module_dom_info.vcc_high_alarm_update
                  (pm_sfp_alarm_warning_bits_t.vcc_high_alarm (pm_sfp_dom_t.alarm_warning_bits d)) port;
         port = SET_BOOL_STRING ovs_module_dom_info.vcc_low_alarm ovs_module_dom_info.vcc_low_alarm_update
                  (pm_sfp_alarm_warning_bits_t.vcc_low_alarm (pm_sfp_dom_t.alarm_warning_bits d)) port;
         port = SET_BOOL_STRING ovs_module_dom_info.vcc_high_warning ovs_module_dom_info.vcc_high_warning_update
                  (pm_sfp_alarm_warning_bits_t.vcc_high_warning (pm_sfp_dom_t.alarm_warning_bits d)) port;
         port = SET_BOOL_STRING ovs_module_dom_info.vcc_low_warning ovs_module_dom_info.vcc_low_warning_update
                  (pm_sfp_alarm_warning_bits_t.vcc_low_warning (pm_sfp_dom_t.alarm_warning_bits d)) port;
         port = SET_FLOAT_STRING ovs_module_dom_info.vcc_high_alarm_threshold ovs_module_dom_info.vcc_high_alarm_threshold_update
                  (float_scaled lit_0_0001 (raw16 (pm_sfp_dom_t.voltage_high_alarm_msb d) (pm_sfp_dom_t.voltage_high_alarm_lsb d))) port;
         port = SET_FLOAT_STRING ovs_module_dom_info.vcc_low_alarm_threshold ovs_module_dom_info.vcc_low_alarm_threshold_update
                  (float_scaled lit_0_0001 (raw16 (pm_sfp_dom_t.voltage_low_alarm_msb d) (pm_sfp_dom_t.voltage_low_alarm_lsb d))) port;
         port = SET_FLOAT_STRING ovs_module_dom_info.vcc_high_warning_threshold ovs_module_dom_info.vcc_high_warning_threshold_update
                  (float_scaled lit_0_0001 (raw16 (pm_sfp_dom_t.voltage_high_warning_msb d) (pm_sfp_dom_t.voltage_high_warning_lsb d))) port;
         port = SET_FLOAT_STRING ovs_module_dom_info.vcc_low_warning_threshold ovs_module_dom_info.vcc_low_warning_threshold_update
                  (float_scaled lit_0_0001 (raw16 (pm_sfp_dom_t.voltage_low_warning_msb d) (pm_sfp_dom_t.voltage_low_warning_lsb d))) port
     in port)"

definition pm_set_a2_sfp_tx_bias :: "pm_sfp_dom_t \<Rightarrow> 'z pm_port_t_scheme \<Rightarrow> 'z pm_port_t_scheme" where
  "pm_set_a2_sfp_tx_bias d port = (
     let port = SET_FLOAT_STRING ovs_module_dom_info.tx_bias ovs_module_dom_info.tx_bias_update
                  (float_scaled lit_0_002 (raw16 (pm_sfp_dom_t.tx_bias_msb d) (pm_sfp_dom_t.tx_bias_lsb d))) port;
         port = SET_BOOL_STRING ovs_module_dom_info.tx_bias_high_alarm ovs_module_dom_info.tx_bias_high_alarm_update
                  (pm_sfp_alarm_warning_bits_t.tx_bias_high_alarm (pm_sfp_dom_t.alarm_warning_bits d)) port;
         port = SET_BOOL_STRING ovs_module_dom_info.tx_bias_low_alarm ovs_module_dom_info.tx_bias_low_alarm_update
                  (pm_sfp_alarm_warning_bits_t.tx_bias_low_alarm (pm_sfp_dom_t.alarm_warning_bits d)) port;
         port = SET_BOOL_STRING ovs_module_dom_info.tx_bias_high_warning ovs_module_dom_info.tx_bias_high_warning_update
                  (pm_sfp_alarm_warning_bits_t.tx_bias_high_warning (pm_sfp_dom_t.alarm_warning_bits d)) port;
         port = SET_BOOL_STRING ovs_module_dom_info.tx_bias_low_warning ovs_module_dom_info.tx_bias_low_warning_update
                  (pm_sfp_alarm_warning_bits_t.tx_bias_low_warning (pm_sfp_dom_t.alarm_warning_bits d)) port;
         port = SET_FLOAT_STRING ovs_module_dom_info.tx_bias_high_alarm_threshold ovs_module_dom_info.tx_bias_high_alarm_threshold_update
                  (float_scaled lit_0_002 (raw16 (pm_sfp_dom_t.bias_high_alarm_msb d) (pm_sfp_dom_t.bias_high_alarm_lsb d))) port;
         port = SET_FLOAT_STRING ovs_module_dom_info.tx_bias_low_alarm_threshold ovs_module_dom_info.tx_bias_low_alarm_threshold_update
                  (float_scaled lit_0_002 (raw16 (pm_sfp_dom_t.bias_low_alarm_msb d) (pm_sfp_dom_t.bias_low_alarm_lsb d))) port;
         port = SET_FLOAT_STRING ovs_module_dom_info.tx_bias_high_warning_threshold ovs_module_dom_info.tx_bias_high_warning_threshold_update
                  (float_scaled lit_0_002 (raw16 (pm_sfp_dom_t.bias_high_warning_msb d) (pm_sfp_dom_t.bias_high_warning_lsb d))) port;
         port = SET_FLOAT_STRING ovs_module_dom_info.tx_bias_low_warning_threshold ovs_module_dom_info.tx_bias_low_warning_threshold_update
                  (float_scaled lit_0_002 (raw16 (pm_sfp_dom_t.bias_low_warning_msb d) (pm_sfp_dom_t.bias_low_warning_lsb d))) port
     in port)"

definition pm_set_a2_sfp_rx_power :: "pm_sfp_dom_t \<Rightarrow> 'z pm_port_t_scheme \<Rightarrow> 'z pm_port_t_scheme" where
  "pm_set_a2_sfp_rx_power d port = (
     let port = SET_FLOAT_STRING ovs_module_dom_info.rx_power ovs_module_dom_info.rx_power_update
                  (float_scaled lit_0_0001 (raw16 (pm_sfp_dom_t.rx_power_msb d) (pm_sfp_dom_t.rx_power_lsb d))) port;
         port = SET_BOOL_STRING ovs_module_dom_info.rx_power_high_alarm ovs_module_dom_info.rx_power_high_alarm_update
                  (pm_sfp_alarm_warning_bits_t.rx_pwr_high_alarm (pm_sfp_dom_t.alarm_warning_bits d)) port;
         port = SET_BOOL_STRING ovs_module_dom_info.rx_power_low_alarm ovs_module_dom_info.rx_power_low_alarm_update
                  (pm_sfp_alarm_warning_bits_t.rx_pwr_low_alarm (pm_sfp_dom_t.alarm_warning_bits d)) port;
         port = SET_BOOL_STRING ovs_module_dom_info.rx_power_high_warning ovs_module_dom_info.rx_power_high_warning_update
                  (pm_sfp_alarm_warning_bits_t.rx_pwr_high_warning (pm_sfp_dom_t.alarm_warning_bits d)) port;
         port = SET_BOOL_STRING ovs_module_dom_info.rx_power_low_warning ovs_module_dom_info.rx_power_low_warning_update
                  (pm_sfp_alarm_warning_bits_t.rx_pwr_low_warning (pm_sfp_dom_t.alarm_warning_bits d)) port;
         port = SET_FLOAT_STRING ovs_module_dom_info.rx_power_high_alarm_threshold ovs_module_dom_info.rx_power_high_alarm_threshold_update
                  (float_scaled lit_0_0001 (raw16 (pm_sfp_dom_t.rx_power_high_alarm_msb d) (pm_sfp_dom_t.rx_power_high_alarm_lsb d))) port;
         port = SET_FLOAT_STRING ovs_module_dom_info.rx_power_low_alarm_threshold ovs_module_dom_info.rx_power_low_alarm_threshold_update
                  (float_scaled lit_0_0001 (raw16 (pm_sfp_dom_t.rx_power_low_alarm_msb d) (pm_sfp_dom_t.rx_power_low_alarm_lsb d))) port;
         port = SET_FLOAT_STRING ovs_module_dom_info.rx_power_high_warning_threshold ovs_module_dom_info.rx_power_high_warning_threshold_update
                  (float_scaled lit_0_0001 (raw16 (pm_sfp_dom_t.rx_power_high_warning_msb d) (pm_sfp_dom_t.rx_power_high_warning_lsb d))) port;
         port = SET_FLOAT_STRING ovs_module_dom_info.rx_power_low_warning_threshold ovs_module_dom_info.rx_power_low_warning_threshold_update
                  (float_scaled lit_0_0001 (raw16 (pm_sfp_dom_t.rx_power_low_warning_msb d) (pm_sfp_dom_t.rx_power_low_warning_lsb d))) port
     in port)"

definition pm_set_a2_sfp_tx_power :: "pm_sfp_dom_t \<Rightarrow> 'z pm_port_t_scheme \<Rightarrow> 'z pm_port_t_scheme" where
  "pm_set_a2_sfp_tx_power d port = (
     let port = SET_FLOAT_STRING ovs_module_dom_info.tx_power ovs_module_dom_info.tx_power_update
                  (float_scaled lit_0_0001 (raw16 (pm_sfp_dom_t.tx_power_msb d) (pm_sfp_dom_t.tx_power_lsb d))) port;
         port = SET_BOOL_STRING ovs_module_dom_info.tx_power_high_alarm ovs_module_dom_info.tx_power_high_alarm_update
                  (pm_sfp_alarm_warning_bits_t.tx_pwr_high_alarm (pm_sfp_dom_t.alarm_warning_bits d)) port;
         port = SET_BOOL_STRING ovs_module_dom_info.tx_power_low_alarm ovs_module_dom_info.tx_power_low_alarm_update
                  (pm_sfp_alarm_warning_bits_t.tx_pwr_low_alarm (pm_sfp_dom_t.alarm_warning_bits d)) port;
         port = SET_BOOL_STRING ovs_module_dom_info.tx_power_high_warning ovs_module_dom_info.tx_power_high_warning_update
                  (pm_sfp_alarm_warning_bits_t.tx_pwr_high_warning (pm_sfp_dom_t.alarm_warning_bits d)) port;
         port = SET_BOOL_STRING ovs_module_dom_info.tx_power_low_warning ovs_module_dom_info.tx_power_low_warning_update
                  (pm_sfp_alarm_warning_bits_t.tx_pwr_low_warning (pm_sfp_dom_t.alarm_warning_bits d)) port;
         port = SET_FLOAT_STRING ovs_module_dom_info.tx_power_high_alarm_threshold ovs_module_dom_info.tx_power_high_alarm_threshold_update
                  (float_scaled lit_0_0001 (raw16 (pm_sfp_dom_t.tx_power_high_alarm_msb d) (pm_sfp_dom_t.tx_power_high_alarm_lsb d))) port;
         port = SET_FLOAT_STRING ovs_module_dom_info.tx_power_low_alarm_threshold ovs_module_dom_info.tx_power_low_alarm_threshold_update
                  (float_scaled lit_0_0001 (raw16 (pm_sfp_dom_t.tx_power_low_alarm_msb d) (pm_sfp_dom_t.tx_power_low_alarm_lsb d))) port;
         port = SET_FLOAT_STRING ovs_module_dom_info.tx_power_high_warning_threshold ovs_module_dom_info.tx_power_high_warning_threshold_update
                  (float_scaled lit_0_0001 (raw16 (pm_sfp_dom_t.tx_power_high_warning_msb d) (pm_sfp_dom_t.tx_power_high_warning_lsb d))) port;
         port = SET_FLOAT_STRING ovs_module_dom_info.tx_power_low_warning_threshold ovs_module_dom_info.tx_power_low_warning_threshold_update
                  (float_scaled lit_0_0001 (raw16 (pm_sfp_dom_t.tx_power_low_warning_msb d) (pm_sfp_dom_t.tx_power_low_warning_lsb d))) port
     in port)"

definition pm_set_a2_qsfp_module :: "pm_qsfp_dom_t \<Rightarrow> 'z pm_port_t_scheme \<Rightarrow> 'z pm_port_t_scheme" where
  "pm_set_a2_qsfp_module d port = (
     let port = SET_FLOAT_STRING ovs_module_dom_info.temperature ovs_module_dom_info.temperature_update
                  (celsius (pm_qsfp_module_monitors_t.temp_msb (pm_qsfp_dom_t.module_monitors d)) (pm_qsfp_module_monitors_t.temp_lsb (pm_qsfp_dom_t.module_monitors d))) port;
         port = SET_FLOAT_STRING ovs_module_dom_info.vcc ovs_module_dom_info.vcc_update
                  (float_scaled lit_0_0001 (raw16 (pm_qsfp_module_monitors_t.voltage_msb (pm_qsfp_dom_t.module_monitors d)) (pm_qsfp_module_monitors_t.voltage_lsb (pm_qsfp_dom_t.module_monitors d)))) port
     in port)"

definition pm_set_a2_qsfp_lane1 :: "pm_qsfp_dom_t \<Rightarrow> 'z pm_port_t_scheme \<Rightarrow> 'z pm_port_t_scheme" where
  "pm_set_a2_qsfp_lane1 d port = (
     let port = SET_FLOAT_STRING ovs_module_dom_info.tx1_bias ovs_module_dom_info.tx1_bias_update
                  (float_scaled lit_0_002 (raw16 (pm_qsfp_channel_monitors_t.tx1_bias_msb (pm_qsfp_dom_t.channel_monitors d)) (pm_qsfp_channel_monitors_t.tx1_bias_lsb (pm_qsfp_dom_t.channel_monitors d)))) port;
         port = SET_BOOL_STRING ovs_module_dom_info.tx1_bias_high_alarm ovs_module_dom_info.tx1_bias_high_alarm_update
                  (pm_qsfp_interrupt_flags_t.latched_tx1_bias_high_alarm (pm_qsfp_dom_t.interrupt_flags d)) port;
         port = SET_BOOL_STRING ovs_module_dom_info.tx1_bias_low_alarm ovs_module_dom_info.tx1_bias_low_alarm_update
                  (pm_qsfp_interrupt_flags_t.latched_tx1_bias_low_alarm (pm_qsfp_dom_t.interrupt_flags d)) port;
         port = SET_BOOL_STRING ovs_module_dom_info.tx1_bias_high_warning ovs_module_dom_info.tx1_bias_high_warning_update
                  (pm_qsfp_interrupt_flags_t.latched_tx1_bias_high_warning (pm_qsfp_dom_t.interrupt_flags d)) port;
         port = SET_BOOL_STRING ovs_module_dom_info.tx1_bias_low_warning ovs_module_dom_info.tx1_bias_low_warning_update
                  (pm_qsfp_interrupt_flags_t.latched_tx1_bias_low_warning (pm_qsfp_dom_t.interrupt_flags d)) port;
         port = SET_FLOAT_STRING ovs_module_dom_info.rx1_power ovs_module_dom_info.rx1_power_update
                  (float_scaled lit_0_0001 (raw16 (pm_qsfp_channel_monitors_t.rx1_power_msb (pm_qsfp_dom_t.channel_monitors d)) (pm_qsfp_channel_monitors_t.rx1_power_lsb (pm_qsfp_dom_t.channel_monitors d)))) port;
         port = SET_BOOL_STRING ovs_module_dom_info.rx1_power_high_alarm ovs_module_dom_info.rx1_power_high_alarm_update
                  (pm_qsfp_interrupt_flags_t.latched_rx1_power_high_alarm (pm_qsfp_dom_t.interrupt_flags d)) port;
         port = SET_BOOL_STRING ovs_module_dom_info.rx1_power_low_alarm ovs_module_dom_info.rx1_power_low_alarm_update
                  (pm_qsfp_interrupt_flags_t.latched_rx1_power_low_alarm (pm_qsfp_dom_t.interrupt_flags d)) port;
         port = SET_BOOL_STRING ovs_module_dom_info.rx1_power_high_warning ovs_module_dom_info.rx1_power_high_warning_update
                  (pm_qsfp_interrupt_flags_t.latched_rx1_power_high_warning (pm_qsfp_dom_t.interrupt_flags d)) port;
         port = SET_BOOL_STRING ovs_module_dom_info.rx1_power_low_warning ovs_module_dom_info.rx1_power_low_warning_update
                  (pm_qsfp_interrupt_flags_t.latched_rx1_power_low_warning (pm_qsfp_dom_t.interrupt_flags d)) port
     in port)"

definition pm_set_a2_qsfp_lane2 :: "pm_qsfp_dom_t \<Rightarrow> 'z pm_port_t_scheme \<Rightarrow> 'z pm_port_t_scheme" where
  "pm_set_a2_qsfp_lane2 d port = (
     let port = SET_FLOAT_STRING ovs_module_dom_info.tx2_bias ovs_module_dom_info.tx2_bias_update
                  (float_scaled lit_0_002 (raw16 (pm_qsfp_channel_monitors_t.tx2_bias_msb (pm_qsfp_dom_t.channel_monitors d)) (pm_qsfp_channel_monitors_t.tx2_bias_lsb (pm_qsfp_dom_t.channel_monitors d)))) port;
         port = SET_BOOL_STRING ovs_module_dom_info.tx2_bias_high_alarm ovs_module_dom_info.tx2_bias_high_alarm_update
                  (pm_qsfp_interrupt_flags_t.latched_tx2_bias_high_alarm (pm_qsfp_dom_t.interrupt_flags d)) port;
         port = SET_BOOL_STRING ovs_module_dom_info.tx2_bias_low_alarm ovs_module_dom_info.tx2_bias_low_alarm_update
                  (pm_qsfp_interrupt_flags_t.latched_tx2_bias_low_alarm (pm_qsfp_dom_t.interrupt_flags d)) port;
         port = SET_BOOL_STRING ovs_module_dom_info.tx2_bias_high_warning ovs_module_dom_info.tx2_bias_high_warning_update
                  (pm_qsfp_interrupt_flags_t.latched_tx2_bias_high_warning (pm_qsfp_dom_t.interrupt_flags d)) port;
         port = SET_BOOL_STRING ovs_module_dom_info.tx2_bias_low_warning ovs_module_dom_info.tx2_bias_low_warning_update
                  (pm_qsfp_interrupt_flags_t.latched_tx2_bias_low_warning (pm_qsfp_dom_t.interrupt_flags d)) port;
         port = SET_FLOAT_STRING ovs_module_dom_info.rx2_power ovs_module_dom_info.rx2_power_update
                  (float_scaled lit_0_0001 (raw16 (pm_qsfp_channel_monitors_t.rx2_power_msb (pm_qsfp_dom_t.channel_monitors d)) (pm_qsfp_channel_monitors_t.rx2_power_lsb (pm_qsfp_dom_t.channel_monitors d)))) port;
         port = SET_BOOL_STRING ovs_module_dom_info.rx2_power_high_alarm ovs_module_dom_info.rx2_power_high_alarm_update
                  (pm_qsfp_interrupt_flags_t.latched_rx2_power_high_alarm (pm_qsfp_dom_t.interrupt_flags d)) port;
         port = SET_BOOL_STRING ovs_module_dom_info.rx2_power_low_alarm ovs_module_dom_info.rx2_power_low_alarm_update
                  (pm_qsfp_interrupt_flags_t.latched_rx2_power_low_alarm (pm_qsfp_dom_t.interrupt_flags d)) port;
         port = SET_BOOL_STRING ovs_module_dom_info.rx2_power_high_warning ovs_module_dom_info.rx2_power_high_warning_update
                  (pm_qsfp_interrupt_flags_t.latched_rx2_power_high_warning (pm_qsfp_dom_t.interrupt_flags d)) port;
         port = SET_BOOL_STRING ovs_module_dom_info.rx2_power_low_warning ovs_module_dom_info.rx2_power_low_warning_update
                  (pm_qsfp_interrupt_flags_t.latched_rx2_power_low_warning (pm_qsfp_dom_t.interrupt_flags d)) port
     in port)"

definition pm_set_a2_qsfp_lane3 :: "pm_qsfp_dom_t \<Rightarrow> 'z pm_port_t_scheme \<Rightarrow> 'z pm_port_t_scheme" where
  "pm_set_a2_qsfp_lane3 d port = (
     let port = SET_FLOAT_STRING ovs_module_dom_info.tx3_bias ovs_module_dom_info.tx3_bias_update
                  (float_scaled lit_0_002 (raw16 (pm_qsfp_channel_monitors_t.tx3_bias_msb (pm_qsfp_dom_t.channel_monitors d)) (pm_qsfp_channel_monitors_t.tx3_bias_lsb (pm_qsfp_dom_t.channel_monitors d)))) port;
         port = SET_BOOL_STRING ovs_module_dom_info.tx3_bias_high_alarm ovs_module_dom_info.tx3_bias_high_alarm_update
                  (pm_qsfp_interrupt_flags_t.latched_tx3_bias_high_alarm (pm_qsfp_dom_t.interrupt_flags d)) port;
         port = SET_BOOL_STRING ovs_module_dom_info.tx3_bias_low_alarm ovs_module_dom_info.tx3_bias_low_alarm_update
                  (pm_qsfp_interrupt_flags_t.latched_tx3_bias_low_alarm (pm_qsfp_dom_t.interrupt_flags d)) port;
         port = SET_BOOL_STRING ovs_module_dom_info.tx3_bias_high_warning ovs_module_dom_info.tx3_bias_high_warning_update
                  (pm_qsfp_interrupt_flags_t.latched_tx3_bias_high_warning (pm_qsfp_dom_t.interrupt_flags d)) port;
         port = SET_BOOL_STRING ovs_module_dom_info.tx3_bias_low_warning ovs_module_dom_info.tx3_bias_low_warning_update
                  (pm_qsfp_interrupt_flags_t.latched_tx3_bias_low_warning (pm_qsfp_dom_t.interrupt_flags d)) port;
         port = SET_FLOAT_STRING ovs_module_dom_info.rx3_power ovs_module_dom_info.rx3_power_update
                  (float_scaled lit_0_0001 (raw16 (pm_qsfp_channel_monitors_t.rx3_power_msb (pm_qsfp_dom_t.channel_monitors d)) (pm_qsfp_channel_monitors_t.rx3_power_lsb (pm_qsfp_dom_t.channel_monitors d)))) port;
         port = SET_BOOL_STRING ovs_module_dom_info.rx3_power_high_alarm ovs_module_dom_info.rx3_power_high_alarm_update
                  (pm_qsfp_interrupt_flags_t.latched_rx3_power_high_alarm (pm_qsfp_dom_t.interrupt_flags d)) port;
         port = SET_BOOL_STRING ovs_module_dom_info.rx3_power_low_alarm ovs_module_dom_info.rx3_power_low_alarm_update
                  (pm_qsfp_interrupt_flags_t.latched_rx3_power_low_alarm (pm_qsfp_dom_t.interrupt_flags d)) port;
         port = SET_BOOL_STRING ovs_module_dom_info.rx3_power_high_warning ovs_module_dom_info.rx3_power_high_warning_update
                  (pm_qsfp_interrupt_flags_t.latched_rx3_power_high_warning (pm_qsfp_dom_t.interrupt_flags d)) port;
         port = SET_BOOL_STRING ovs_module_dom_info.rx3_power_low_warning ovs_module_dom_info.rx3_power_low_warning_update
                  (pm_qsfp_interrupt_flags_t.latched_rx3_power_low_warning (pm_qsfp_dom_t.interrupt_flags d)) port
     in port)"

definition pm_set_a2_qsfp_lane4 :: "pm_qsfp_dom_t \<Rightarrow> 'z pm_port_t_scheme \<Rightarrow> 'z pm_port_t_scheme" where
  "pm_set_a2_qsfp_lane4 d port = (
     let port = SET_FLOAT_STRING ovs_module_dom_info.tx4_bias ovs_module_dom_info.tx4_bias_update
                  (float_scaled lit_0_002 (raw16 (pm_qsfp_channel_monitors_t.tx4_bias_msb (pm_qsfp_dom_t.channel_monitors d)) (pm_qsfp_channel_monitors_t.tx4_bias_lsb (pm_qsfp_dom_t.channel_monitors d)))) port;
         port = SET_BOOL_STRING ovs_module_dom_info.tx4_bias_high_alarm ovs_module_dom_info.tx4_bias_high_alarm_update
                  (pm_qsfp_interrupt_flags_t.latched_tx4_bias_high_alarm (pm_qsfp_dom_t.interrupt_flags d)) port;
         port = SET_BOOL_STRING ovs_module_dom_info.tx4_bias_low_alarm ovs_module_dom_info.tx4_bias_low_alarm_update
                  (pm_qsfp_interrupt_flags_t.latched_tx4_bias_low_alarm (pm_qsfp_dom_t.interrupt_flags d)) port;
         port = SET_BOOL_STRING ovs_module_dom_info.tx4_bias_high_warning ovs_module_dom_info.tx4_bias_high_warning_update
                  (pm_qsfp_interrupt_flags_t.latched_tx4_bias_high_warning (pm_qsfp_dom_t.interrupt_flags d)) port;
         port = SET_BOOL_STRING ovs_module_dom_info.tx4_bias_low_warning ovs_module_dom_info.tx4_bias_low_warning_update
                  (pm_qsfp_interrupt_flags_t.latched_tx4_bias_low_warning (pm_qsfp_dom_t.interrupt_flags d)) port;
         port = SET_FLOAT_STRING ovs_module_dom_info.rx4_power ovs_module_dom_info.rx4_power_update
                  (float_scaled lit_0_0001 (raw16 (pm_qsfp_channel_monitors_t.rx4_power_msb (pm_qsfp_dom_t.channel_monitors d)) (pm_qsfp_channel_monitors_t.rx4_power_lsb (pm_qsfp_dom_t.channel_monitors d)))) port;
         port = SET_BOOL_STRING ovs_module_dom_info.rx4_power_high_alarm ovs_module_dom_info.rx4_power_high_alarm_update
                  (pm_qsfp_interrupt_flags_t.latched_rx4_power_high_alarm (pm_qsfp_dom_t.interrupt_flags d)) port;
         port = SET_BOOL_STRING ovs_module_dom_info.rx4_power_low_alarm ovs_module_dom_info.rx4_power_low_alarm_update
                  (pm_qsfp_interrupt_flags_t.latched_rx4_power_low_alarm (pm_qsfp_dom_t.interrupt_flags d)) port;
         port = SET_BOOL_STRING ovs_module_dom_info.rx4_power_high_warning ovs_module_dom_info.rx4_power_high_warning_update
                  (pm_qsfp_interrupt_flags_t.latched_rx4_power_high_warning (pm_qsfp_dom_t.interrupt_flags d)) port;
         port = SET_BOOL_STRING ovs_module_dom_info.rx4_power_low_warning ovs_module_dom_info.rx4_power_low_warning_update
                  (pm_qsfp_interrupt_flags_t.latched_rx4_power_low_warning (pm_qsfp_dom_t.interrupt_flags d)) port
     in port)"

section \<open>Setting the diagnostics columns\<close>

definition pm_set_a2_sfp :: "byte list \<Rightarrow> 'z pm_port_t_scheme \<Rightarrow> 'z pm_port_t_scheme" where
  "pm_set_a2_sfp page port = (
     let d = sfp_dom_of_bytes page;
         port = pm_set_a2_sfp_temperature d port;
         port = pm_set_a2_sfp_vcc d port;
         port = pm_set_a2_sfp_tx_bias d port;
         port = pm_set_a2_sfp_rx_power d port;
         port = pm_set_a2_sfp_tx_power d port;
         port = SET_BINARY a2_update page port
     in port)"

definition pm_set_a2_qsfp :: "byte list \<Rightarrow> 'z pm_port_t_scheme \<Rightarrow> 'z pm_port_t_scheme" where
  "pm_set_a2_qsfp page port = (
     let d = qsfp_dom_of_bytes page;
         port = pm_set_a2_qsfp_module d port;
         port = pm_set_a2_qsfp_lane1 d port;
         port = pm_set_a2_qsfp_lane2 d port;
         port = pm_set_a2_qsfp_lane3 d port;
         port = pm_set_a2_qsfp_lane4 d port;
         port = SET_BINARY a2_update page port
     in port)"

definition pm_set_a2 :: "byte list \<Rightarrow> 'z pm_port_t_scheme \<Rightarrow> 'z pm_port_t_scheme" where
  "pm_set_a2 page port =
     (if \<not> pluggable (module_device port) then port
      else case YamlPort.connector (module_device port) of
        None \<Rightarrow> port
      | Some c \<Rightarrow>
          (case module_type_of c of
             None \<Rightarrow> SET_STATIC_STRING ovs_module_info.connector_update CONNECTOR_UNKNOWN port
           | Some MODULE_TYPE_SFP_PLUS \<Rightarrow> pm_set_a2_sfp page port
           | Some MODULE_TYPE_QSFP_PLUS \<Rightarrow> pm_set_a2_qsfp page port
           | Some MODULE_TYPE_QSFP28 \<Rightarrow> pm_set_a2_qsfp page port))"

section \<open>The tables of the standards\<close>

text \<open>
  The columns over the raw page, at the byte offsets of SFF-8472 (address A2h) and of the SFF-8636
  lower page. A measured value is published through \<open>float_text\<close>, which keeps the old text when the
  macro's change test sees no change.
\<close>

abbreviation celsius_at :: "byte list \<Rightarrow> nat \<Rightarrow> cfloat" where
  "celsius_at page i \<equiv> celsius (page ! i) (page ! (i + 1))"

abbreviation scaled_at :: "cfloat \<Rightarrow> byte list \<Rightarrow> nat \<Rightarrow> cfloat" where
  "scaled_at lit page i \<equiv> float_scaled lit (raw16 (page ! i) (page ! (i + 1)))"

abbreviation flag_at :: "byte list \<Rightarrow> nat \<Rightarrow> nat \<Rightarrow> string" where
  "flag_at page i b \<equiv> flag_text (bit (page ! i) b)"

definition sfp_temperature_columns :: "byte list \<Rightarrow> ovs_module_dom_info \<Rightarrow> ovs_module_dom_info" where
  "sfp_temperature_columns page cols = cols\<lparr>
     temperature :=
       Some (float_text (temperature cols) (celsius_at page 96)),
     temperature_high_alarm := Some (flag_at page 112 7),
     temperature_low_alarm := Some (flag_at page 112 6),
     temperature_high_warning := Some (flag_at page 116 7),
     temperature_low_warning := Some (flag_at page 116 6),
     temperature_high_alarm_threshold :=
       Some (float_text (temperature_high_alarm_threshold cols) (celsius_at page 0)),
     temperature_low_alarm_threshold :=
       Some (float_text (temperature_low_alarm_threshold cols) (celsius_at page 2)),
     temperature_high_warning_threshold :=
       Some (float_text (temperature_high_warning_threshold cols) (celsius_at page 4)),
     temperature_low_warning_threshold :=
       Some (float_text (temperature_low_warning_threshold cols) (celsius_at page 6))\<rparr>"

definition sfp_vcc_columns :: "byte list \<Rightarrow> ovs_module_dom_info \<Rightarrow> ovs_module_dom_info" where
  "sfp_vcc_columns page cols = cols\<lparr>
     vcc :=
       Some (float_text (vcc cols) (scaled_at lit_0_0001 page 98)),
     ovs_module_dom_info.vcc_high_alarm := Some (flag_at page 112 5),
     ovs_module_dom_info.vcc_low_alarm := Some (flag_at page 112 4),
     ovs_module_dom_info.vcc_high_warning := Some (flag_at page 116 5),
     ovs_module_dom_info.vcc_low_warning := Some (flag_at page 116 4),
     vcc_high_alarm_threshold :=
       Some (float_text (vcc_high_alarm_threshold cols) (scaled_at lit_0_0001 page 8)),
     vcc_low_alarm_threshold :=
       Some (float_text (vcc_low_alarm_threshold cols) (scaled_at lit_0_0001 page 10)),
     vcc_high_warning_threshold :=
       Some (float_text (vcc_high_warning_threshold cols) (scaled_at lit_0_0001 page 12)),
     vcc_low_warning_threshold :=
       Some (float_text (vcc_low_warning_threshold cols) (scaled_at lit_0_0001 page 14))\<rparr>"

definition sfp_tx_bias_columns :: "byte list \<Rightarrow> ovs_module_dom_info \<Rightarrow> ovs_module_dom_info" where
  "sfp_tx_bias_columns page cols = cols\<lparr>
     tx_bias :=
       Some (float_text (tx_bias cols) (scaled_at lit_0_002 page 100)),
     ovs_module_dom_info.tx_bias_high_alarm := Some (flag_at page 112 3),
     ovs_module_dom_info.tx_bias_low_alarm := Some (flag_at page 112 2),
     ovs_module_dom_info.tx_bias_high_warning := Some (flag_at page 116 3),
     ovs_module_dom_info.tx_bias_low_warning := Some (flag_at page 116 2),
     tx_bias_high_alarm_threshold :=
       Some (float_text (tx_bias_high_alarm_threshold cols) (scaled_at lit_0_002 page 16)),
     tx_bias_low_alarm_threshold :=
       Some (float_text (tx_bias_low_alarm_threshold cols) (scaled_at lit_0_002 page 18)),
     tx_bias_high_warning_threshold :=
       Some (float_text (tx_bias_high_warning_threshold cols) (scaled_at lit_0_002 page 20)),
     tx_bias_low_warning_threshold :=
       Some (float_text (tx_bias_low_warning_threshold cols) (scaled_at lit_0_002 page 22))\<rparr>"

definition sfp_rx_power_columns :: "byte list \<Rightarrow> ovs_module_dom_info \<Rightarrow> ovs_module_dom_info" where
  "sfp_rx_power_columns page cols = cols\<lparr>
     rx_power :=
       Some (float_text (rx_power cols) (scaled_at lit_0_0001 page 104)),
     rx_power_high_alarm := Some (flag_at page 113 7),
     rx_power_low_alarm := Some (flag_at page 113 6),
     rx_power_high_warning := Some (flag_at page 117 7),
     rx_power_low_warning := Some (flag_at page 117 6),
     rx_power_high_alarm_threshold :=
       Some (float_text (rx_power_high_alarm_threshold cols) (scaled_at lit_0_0001 page 32)),
     rx_power_low_alarm_threshold :=
       Some (float_text (rx_power_low_alarm_threshold cols) (scaled_at lit_0_0001 page 34)),
     rx_power_high_warning_threshold :=
       Some (float_text (rx_power_high_warning_threshold cols) (scaled_at lit_0_0001 page 36)),
     rx_power_low_warning_threshold :=
       Some (float_text (rx_power_low_warning_threshold cols) (scaled_at lit_0_0001 page 38))\<rparr>"

definition sfp_tx_power_columns :: "byte list \<Rightarrow> ovs_module_dom_info \<Rightarrow> ovs_module_dom_info" where
  "sfp_tx_power_columns page cols = cols\<lparr>
     tx_power :=
       Some (float_text (tx_power cols) (scaled_at lit_0_0001 page 102)),
     tx_power_high_alarm := Some (flag_at page 112 1),
     tx_power_low_alarm := Some (flag_at page 112 0),
     tx_power_high_warning := Some (flag_at page 116 1),
     tx_power_low_warning := Some (flag_at page 116 0),
     tx_power_high_alarm_threshold :=
       Some (float_text (tx_power_high_alarm_threshold cols) (scaled_at lit_0_0001 page 24)),
     tx_power_low_alarm_threshold :=
       Some (float_text (tx_power_low_alarm_threshold cols) (scaled_at lit_0_0001 page 26)),
     tx_power_high_warning_threshold :=
       Some (float_text (tx_power_high_warning_threshold cols) (scaled_at lit_0_0001 page 28)),
     tx_power_low_warning_threshold :=
       Some (float_text (tx_power_low_warning_threshold cols) (scaled_at lit_0_0001 page 30))\<rparr>"

definition qsfp_module_columns :: "byte list \<Rightarrow> ovs_module_dom_info \<Rightarrow> ovs_module_dom_info" where
  "qsfp_module_columns page cols = cols\<lparr>
     temperature :=
       Some (float_text (temperature cols) (celsius_at page 22)),
     vcc :=
       Some (float_text (vcc cols) (scaled_at lit_0_0001 page 26))\<rparr>"

definition qsfp_lane1_columns :: "byte list \<Rightarrow> ovs_module_dom_info \<Rightarrow> ovs_module_dom_info" where
  "qsfp_lane1_columns page cols = cols\<lparr>
     tx1_bias :=
       Some (float_text (tx1_bias cols) (scaled_at lit_0_002 page 42)),
     tx1_bias_high_alarm := Some (flag_at page 11 7),
     tx1_bias_low_alarm := Some (flag_at page 11 6),
     tx1_bias_high_warning := Some (flag_at page 11 5),
     tx1_bias_low_warning := Some (flag_at page 11 4),
     rx1_power :=
       Some (float_text (rx1_power cols) (scaled_at lit_0_0001 page 34)),
     rx1_power_high_alarm := Some (flag_at page 9 7),
     rx1_power_low_alarm := Some (flag_at page 9 6),
     rx1_power_high_warning := Some (flag_at page 9 5),
     rx1_power_low_warning := Some (flag_at page 9 4)\<rparr>"

definition qsfp_lane2_columns :: "byte list \<Rightarrow> ovs_module_dom_info \<Rightarrow> ovs_module_dom_info" where
  "qsfp_lane2_columns page cols = cols\<lparr>
     tx2_bias :=
       Some (float_text (tx2_bias cols) (scaled_at lit_0_002 page 44)),
     tx2_bias_high_alarm := Some (flag_at page 11 3),
     tx2_bias_low_alarm := Some (flag_at page 11 2),
     tx2_bias_high_warning := Some (flag_at page 11 1),
     tx2_bias_low_warning := Some (flag_at page 11 0),
     rx2_power :=
       Some (float_text (rx2_power cols) (scaled_at lit_0_0001 page 36)),
     rx2_power_high_alarm := Some (flag_at page 9 3),
     rx2_power_low_alarm := Some (flag_at page 9 2),
     rx2_power_high_warning := Some (flag_at page 9 1),
     rx2_power_low_warning := Some (flag_at page 9 0)\<rparr>"

definition qsfp_lane3_columns :: "byte list \<Rightarrow> ovs_module_dom_info \<Rightarrow> ovs_module_dom_info" where
  "qsfp_lane3_columns page cols = cols\<lparr>
     tx3_bias :=
       Some (float_text (tx3_bias cols) (scaled_at lit_0_002 page 46)),
     tx3_bias_high_alarm := Some (flag_at page 12 7),
     tx3_bias_low_alarm := Some (flag_at page 12 6),
     tx3_bias_high_warning := Some (flag_at page 12 5),
     tx3_bias_low_warning := Some (flag_at page 12 4),
     rx3_power :=
       Some (float_text (rx3_power cols) (scaled_at lit_0_0001 page 38)),
     rx3_power_high_alarm := Some (flag_at page 10 7),
     rx3_power_low_alarm := Some (flag_at page 10 6),
     rx3_power_high_warning := Some (flag_at page 10 5),
     rx3_power_low_warning := Some (flag_at page 10 4)\<rparr>"

definition qsfp_lane4_columns :: "byte list \<Rightarrow> ovs_module_dom_info \<Rightarrow> ovs_module_dom_info" where
  "qsfp_lane4_columns page cols = cols\<lparr>
     tx4_bias :=
       Some (float_text (tx4_bias cols) (scaled_at lit_0_002 page 48)),
     tx4_bias_high_alarm := Some (flag_at page 12 3),
     tx4_bias_low_alarm := Some (flag_at page 12 2),
     tx4_bias_high_warning := Some (flag_at page 12 1),
     tx4_bias_low_warning := Some (flag_at page 12 0),
     rx4_power :=
       Some (float_text (rx4_power cols) (scaled_at lit_0_0001 page 40)),
     rx4_power_high_alarm := Some (flag_at page 10 3),
     rx4_power_low_alarm := Some (flag_at page 10 2),
     rx4_power_high_warning := Some (flag_at page 10 1),
     rx4_power_low_warning := Some (flag_at page 10 0)\<rparr>"

definition sfp_dom_table :: "byte list \<Rightarrow> ovs_module_dom_info \<Rightarrow> ovs_module_dom_info" where
  "sfp_dom_table page cols =
     sfp_tx_power_columns page (
       sfp_rx_power_columns page (
       sfp_tx_bias_columns page (
       sfp_vcc_columns page (
       sfp_temperature_columns page cols))))"

definition qsfp_dom_table :: "byte list \<Rightarrow> ovs_module_dom_info \<Rightarrow> ovs_module_dom_info" where
  "qsfp_dom_table page cols =
     qsfp_lane4_columns page (
       qsfp_lane3_columns page (
       qsfp_lane2_columns page (
       qsfp_lane1_columns page (
       qsfp_module_columns page cols))))"

lemmas dom_decode = sfp_dom_of_bytes_def sfp_alarm_warning_bits_of_bytes_def qsfp_dom_of_bytes_def
  qsfp_module_monitors_of_bytes_def qsfp_channel_monitors_of_bytes_def qsfp_interrupt_flags_of_bytes_def
  nth_bytes_at

lemma dom_columns_sfp_temperature:
  "length page = 128 \<Longrightarrow>
   ovs_module_dom_columns (pm_set_a2_sfp_temperature (sfp_dom_of_bytes page) port) =
     sfp_temperature_columns page (ovs_module_dom_columns port)"
  by (simp add: pm_set_a2_sfp_temperature_def Let_def column_simps sfp_temperature_columns_def dom_decode)

lemma dom_columns_sfp_vcc:
  "length page = 128 \<Longrightarrow>
   ovs_module_dom_columns (pm_set_a2_sfp_vcc (sfp_dom_of_bytes page) port) =
     sfp_vcc_columns page (ovs_module_dom_columns port)"
  by (simp add: pm_set_a2_sfp_vcc_def Let_def column_simps sfp_vcc_columns_def dom_decode)

lemma dom_columns_sfp_tx_bias:
  "length page = 128 \<Longrightarrow>
   ovs_module_dom_columns (pm_set_a2_sfp_tx_bias (sfp_dom_of_bytes page) port) =
     sfp_tx_bias_columns page (ovs_module_dom_columns port)"
  by (simp add: pm_set_a2_sfp_tx_bias_def Let_def column_simps sfp_tx_bias_columns_def dom_decode)

lemma dom_columns_sfp_rx_power:
  "length page = 128 \<Longrightarrow>
   ovs_module_dom_columns (pm_set_a2_sfp_rx_power (sfp_dom_of_bytes page) port) =
     sfp_rx_power_columns page (ovs_module_dom_columns port)"
  by (simp add: pm_set_a2_sfp_rx_power_def Let_def column_simps sfp_rx_power_columns_def dom_decode)

lemma dom_columns_sfp_tx_power:
  "length page = 128 \<Longrightarrow>
   ovs_module_dom_columns (pm_set_a2_sfp_tx_power (sfp_dom_of_bytes page) port) =
     sfp_tx_power_columns page (ovs_module_dom_columns port)"
  by (simp add: pm_set_a2_sfp_tx_power_def Let_def column_simps sfp_tx_power_columns_def dom_decode)

lemma dom_columns_qsfp_module:
  "length page = 128 \<Longrightarrow>
   ovs_module_dom_columns (pm_set_a2_qsfp_module (qsfp_dom_of_bytes page) port) =
     qsfp_module_columns page (ovs_module_dom_columns port)"
  by (simp add: pm_set_a2_qsfp_module_def Let_def column_simps qsfp_module_columns_def dom_decode)

lemma dom_columns_qsfp_lane1:
  "length page = 128 \<Longrightarrow>
   ovs_module_dom_columns (pm_set_a2_qsfp_lane1 (qsfp_dom_of_bytes page) port) =
     qsfp_lane1_columns page (ovs_module_dom_columns port)"
  by (simp add: pm_set_a2_qsfp_lane1_def Let_def column_simps qsfp_lane1_columns_def dom_decode)

lemma dom_columns_qsfp_lane2:
  "length page = 128 \<Longrightarrow>
   ovs_module_dom_columns (pm_set_a2_qsfp_lane2 (qsfp_dom_of_bytes page) port) =
     qsfp_lane2_columns page (ovs_module_dom_columns port)"
  by (simp add: pm_set_a2_qsfp_lane2_def Let_def column_simps qsfp_lane2_columns_def dom_decode)

lemma dom_columns_qsfp_lane3:
  "length page = 128 \<Longrightarrow>
   ovs_module_dom_columns (pm_set_a2_qsfp_lane3 (qsfp_dom_of_bytes page) port) =
     qsfp_lane3_columns page (ovs_module_dom_columns port)"
  by (simp add: pm_set_a2_qsfp_lane3_def Let_def column_simps qsfp_lane3_columns_def dom_decode)

lemma dom_columns_qsfp_lane4:
  "length page = 128 \<Longrightarrow>
   ovs_module_dom_columns (pm_set_a2_qsfp_lane4 (qsfp_dom_of_bytes page) port) =
     qsfp_lane4_columns page (ovs_module_dom_columns port)"
  by (simp add: pm_set_a2_qsfp_lane4_def Let_def column_simps qsfp_lane4_columns_def dom_decode)

lemma frame_pm_set_a2_groups [frame_simps]:
  "port_config (pm_set_a2_sfp_temperature ds port) = port_config port"
  "ovs_module_columns (pm_set_a2_sfp_temperature ds port) = ovs_module_columns port"
  "port_config (pm_set_a2_sfp_vcc ds port) = port_config port"
  "ovs_module_columns (pm_set_a2_sfp_vcc ds port) = ovs_module_columns port"
  "port_config (pm_set_a2_sfp_tx_bias ds port) = port_config port"
  "ovs_module_columns (pm_set_a2_sfp_tx_bias ds port) = ovs_module_columns port"
  "port_config (pm_set_a2_sfp_rx_power ds port) = port_config port"
  "ovs_module_columns (pm_set_a2_sfp_rx_power ds port) = ovs_module_columns port"
  "port_config (pm_set_a2_sfp_tx_power ds port) = port_config port"
  "ovs_module_columns (pm_set_a2_sfp_tx_power ds port) = ovs_module_columns port"
  "port_config (pm_set_a2_qsfp_module dq port) = port_config port"
  "ovs_module_columns (pm_set_a2_qsfp_module dq port) = ovs_module_columns port"
  "port_config (pm_set_a2_qsfp_lane1 dq port) = port_config port"
  "ovs_module_columns (pm_set_a2_qsfp_lane1 dq port) = ovs_module_columns port"
  "port_config (pm_set_a2_qsfp_lane2 dq port) = port_config port"
  "ovs_module_columns (pm_set_a2_qsfp_lane2 dq port) = ovs_module_columns port"
  "port_config (pm_set_a2_qsfp_lane3 dq port) = port_config port"
  "ovs_module_columns (pm_set_a2_qsfp_lane3 dq port) = ovs_module_columns port"
  "port_config (pm_set_a2_qsfp_lane4 dq port) = port_config port"
  "ovs_module_columns (pm_set_a2_qsfp_lane4 dq port) = ovs_module_columns port"
  by (simp_all add: pm_set_a2_sfp_temperature_def pm_set_a2_sfp_vcc_def 
      pm_set_a2_sfp_tx_bias_def pm_set_a2_sfp_rx_power_def pm_set_a2_sfp_tx_power_def 
      pm_set_a2_qsfp_module_def pm_set_a2_qsfp_lane1_def pm_set_a2_qsfp_lane2_def pm_set_a2_qsfp_lane3_def pm_set_a2_qsfp_lane4_def
      Let_def frame_simps)

section \<open>Lemmas: values and texts\<close>

lemma raw16_eq: "raw16 msb lsb = 256 * uint msb + uint lsb"
proof -
  have "or (push_bit 8 (ucast msb)) (ucast lsb) = (push_bit 8 (ucast msb) + ucast lsb :: 32 word)"
    by (rule disjunctive_add [symmetric]) (auto simp: bit_simps dest: bit_imp_le_length)
  also have "\<dots> = word_of_int (256 * uint msb + uint lsb)"
    by (simp add: push_bit_eq_mult)
  finally have "raw16 msb lsb = sint (word_of_int (256 * uint msb + uint lsb) :: 32 word)"
    by (simp only: raw16_def)
  also have "\<dots> = signed_take_bit 31 (256 * uint msb + uint lsb)"
    by (simp only: signed_of_int) simp
  also have "\<dots> = 256 * uint msb + uint lsb"
    using uint_bounded [of msb] uint_bounded [of lsb] uint_ge_0 [of msb] uint_ge_0 [of lsb]
    by (intro signed_take_bit_int_eq_self) (simp_all add: order_trans [of _ 0])
  finally show ?thesis .
qed

lemma raw16_range: "0 \<le> raw16 msb lsb" "raw16 msb lsb < 65536"
  using uint_bounded [of msb] uint_bounded [of lsb] by (simp_all add: raw16_eq)

text \<open>Dividing the 8-bit fraction by 256 in integer arithmetic always gives 0.\<close>

lemma celsius_eq: "celsius msb lsb = (sint msb, 0)"
proof -
  have "uint lsb div 256 = 0" using uint_bounded [of lsb] by (simp add: div_pos_pos_trivial)
  moreover have "\<bar>sint msb\<bar> < 2 ^ 24"
    using sint_greater_eq [of msb] sint_less [of msb] by simp
  ultimately show ?thesis by (simp add: celsius_def cf_of_int_def cf_of_small_int cf_add_def)
qed

text \<open>
  A text that \<open>SET_FLOAT_STRING\<close> wrote for a temperature is replaced whenever the next temperature
  differs, because temperatures are integral and \<open>strtol\<close> reads the integral part of a text.
\<close>

lemma sint_byte_long: "LONG_MIN \<le> sint (b :: byte)" "sint b \<le> LONG_MAX"
  using sint_greater_eq [of b] sint_less [of b] by (simp_all add: LONG_MIN_def LONG_MAX_def)

lemma float_text_celsius:
  "float_text (Some (fmt_4_2f (celsius m l))) (celsius m' l') = fmt_4_2f (celsius m' l')"
  "float_text None (celsius m' l') = fmt_4_2f (celsius m' l')"
proof -
  have "\<bar>sint m\<bar> < 2 ^ 24" using sint_greater_eq [of m] sint_less [of m] by simp
  then show "float_text (Some (fmt_4_2f (celsius m l))) (celsius m' l') = fmt_4_2f (celsius m' l')"
    by (simp add: float_text_def celsius_eq strtol0_fmt_4_2f_of_int sint_byte_long cf_of_int_def
        cf_of_small_int cf_eq_def)
qed (simp add: float_text_def)

section \<open>Lemmas: the whole page\<close>

lemma dom_columns_sfp:
  "length page = 128 \<Longrightarrow>
   ovs_module_dom_columns (pm_set_a2_sfp page port) = sfp_dom_table page (ovs_module_dom_columns port)"
  by (simp add: pm_set_a2_sfp_def Let_def frame_simps sfp_dom_table_def dom_columns_sfp_temperature
      dom_columns_sfp_vcc dom_columns_sfp_tx_bias dom_columns_sfp_rx_power dom_columns_sfp_tx_power)

lemma dom_columns_qsfp:
  "length page = 128 \<Longrightarrow>
   ovs_module_dom_columns (pm_set_a2_qsfp page port) = qsfp_dom_table page (ovs_module_dom_columns port)"
  by (simp add: pm_set_a2_qsfp_def Let_def frame_simps qsfp_dom_table_def dom_columns_qsfp_module
      dom_columns_qsfp_lane1 dom_columns_qsfp_lane2 dom_columns_qsfp_lane3 dom_columns_qsfp_lane4)

lemma frame_pm_set_a2 [frame_simps]:
  "port_config (pm_set_a2_sfp page port) = port_config port"
  "port_config (pm_set_a2_qsfp page port) = port_config port"
  by (simp_all add: pm_set_a2_sfp_def pm_set_a2_qsfp_def Let_def frame_simps)

lemma columns_pm_set_a2 [column_simps]:
  "ovs_module_columns (pm_set_a2_sfp page port) = (ovs_module_columns port)\<lparr>a2 := hex_to_ascii page\<rparr>"
  "ovs_module_columns (pm_set_a2_qsfp page port) = (ovs_module_columns port)\<lparr>a2 := hex_to_ascii page\<rparr>"
  by (simp_all add: pm_set_a2_sfp_def pm_set_a2_qsfp_def Let_def column_simps frame_simps)

text \<open>Where a measured column of the SFP+ table stands, for the columns the properties speak of.\<close>

lemma sfp_dom_table_measures:
  "temperature (sfp_dom_table page cols) = Some (float_text (temperature cols) (celsius_at page 96))"
  "vcc (sfp_dom_table page cols) = Some (float_text (vcc cols) (scaled_at lit_0_0001 page 98))"
  "tx_bias (sfp_dom_table page cols) = Some (float_text (tx_bias cols) (scaled_at lit_0_002 page 100))"
  "tx_power (sfp_dom_table page cols) = Some (float_text (tx_power cols) (scaled_at lit_0_0001 page 102))"
  "rx_power (sfp_dom_table page cols) = Some (float_text (rx_power cols) (scaled_at lit_0_0001 page 104))"
  by (simp_all add: sfp_dom_table_def sfp_temperature_columns_def sfp_vcc_columns_def
      sfp_tx_bias_columns_def sfp_rx_power_columns_def sfp_tx_power_columns_def)

section \<open>What the diagnostics code does\<close>

text \<open>
  C16. The diagnostics columns of a pluggable port are read from the page at the offsets of the standard
  of its cage: SFF-8472 for SFP+, the SFF-8636 lower page for QSFP+ and QSFP28. The raw page is
  published in \<open>a2\<close> and nothing else of the port changes but the change mark.
\<close>

theorem pm_set_a2_tables:
  assumes "pluggable (module_device port)" "YamlPort.connector (module_device port) = Some conn"
    and "length page = 128"
    and "conn = CONNECTOR_SFP_PLUS \<and> table = sfp_dom_table \<or>
         conn \<in> {CONNECTOR_QSFP_PLUS, CONNECTOR_QSFP28} \<and> table = qsfp_dom_table"
  shows "ovs_module_dom_columns (pm_set_a2 page port) = table page (ovs_module_dom_columns port) \<and>
    ovs_module_columns (pm_set_a2 page port) = (ovs_module_columns port)\<lparr>a2 := Some (hex_words page)\<rparr> \<and>
    port_config (pm_set_a2 page port) = port_config port"
  using assms
  by (auto simp: pm_set_a2_def module_type_of_def dom_columns_sfp dom_columns_qsfp column_simps frame_simps)

text \<open>
  C17. On the first read the published voltage and optical power are the raw readings rounded to the
  nearest hundredth of a volt and milliwatt, and the bias current likewise in milliampere: the single
  precision detour never moves a value to the wrong side of a rounding boundary that is not a tie.
\<close>

theorem dom_values_accurate:
  assumes "length page = 128" "pluggable (module_device port)"
    and "YamlPort.connector (module_device port) = Some CONNECTOR_SFP_PLUS"
    and "ovs_module_dom_columns port = zero_module_dom_columns"
    and "cols = ovs_module_dom_columns (pm_set_a2 page port)"
  shows "\<exists>v b t r :: cfloat.
    vcc cols = Some (fmt_4_2f v) \<and> \<bar>100 * centi v - raw16 (page ! 98) (page ! 99)\<bar> \<le> 50 \<and>
    tx_bias cols = Some (fmt_4_2f b) \<and> \<bar>5 * centi b - raw16 (page ! 100) (page ! 101)\<bar> \<le> 2 \<and>
    tx_power cols = Some (fmt_4_2f t) \<and> \<bar>100 * centi t - raw16 (page ! 102) (page ! 103)\<bar> \<le> 50 \<and>
    rx_power cols = Some (fmt_4_2f r) \<and> \<bar>100 * centi r - raw16 (page ! 104) (page ! 105)\<bar> \<le> 50"
proof -
  have "cols = sfp_dom_table page zero_module_dom_columns"
    using assms by (simp add: pm_set_a2_def module_type_of_def dom_columns_sfp)
  then have "vcc cols = Some (fmt_4_2f (scaled_at lit_0_0001 page 98))"
    "tx_bias cols = Some (fmt_4_2f (scaled_at lit_0_002 page 100))"
    "tx_power cols = Some (fmt_4_2f (scaled_at lit_0_0001 page 102))"
    "rx_power cols = Some (fmt_4_2f (scaled_at lit_0_0001 page 104))"
    by (simp_all add: sfp_dom_table_measures zero_module_dom_columns_def float_text_def)
  then show ?thesis
    by (intro exI conjI) (assumption | simp add: centi_0_0001 centi_0_002 raw16_range)+
qed

text \<open>
  C39. A temperature is published without its fraction: the text is the signed most significant byte
  followed by \<open>.00\<close>, whatever the other byte says. It is always up to date: a text written for any
  earlier temperature does not survive.
\<close>

theorem temperature_text:
  assumes "length page = 128" "pluggable (module_device port)"
    and "YamlPort.connector (module_device port) = Some conn"
    and "conn = CONNECTOR_SFP_PLUS \<and> msb = 96 \<or> conn \<in> {CONNECTOR_QSFP_PLUS, CONNECTOR_QSFP28} \<and> msb = 22"
    and "temperature (ovs_module_dom_columns port) \<in> {None, Some (fmt_4_2f (celsius m l))}"
  shows "temperature (ovs_module_dom_columns (pm_set_a2 page port)) = Some (fmt_d (sint (page ! msb)) @ ''.00'')"
proof -
  have "temperature (qsfp_dom_table page cols) = Some (float_text (temperature cols) (celsius_at page 22))" for cols
    by (simp add: qsfp_dom_table_def qsfp_module_columns_def qsfp_lane1_columns_def qsfp_lane2_columns_def
        qsfp_lane3_columns_def qsfp_lane4_columns_def)
  then have "temperature (ovs_module_dom_columns (pm_set_a2 page port)) =
      Some (float_text (temperature (ovs_module_dom_columns port)) (celsius_at page msb))"
    using assms(1-4)
    by (auto simp: pm_set_a2_def module_type_of_def dom_columns_sfp dom_columns_qsfp sfp_dom_table_measures)
  also have "\<dots> = Some (fmt_4_2f (celsius_at page msb))"
    using assms(5) float_text_celsius by auto
  finally show ?thesis by (simp add: celsius_eq fmt_4_2f_of_int)
qed

text \<open>A number of hundredths as \<open>%4.2f\<close> prints it.\<close>

definition hundredths :: "int \<Rightarrow> string" where
  "hundredths c = fmt_d (c div 100) @ [CHR ''.'', digit_char (nat c div 10 mod 10), digit_char (nat c mod 10)]"

lemma bias_text:
  assumes "0 \<le> r" "r < 65536"
  shows "fmt_4_2f (float_scaled lit_0_002 r) = hundredths ((r + 2) div 5)"
    "strtol0 (fmt_4_2f (float_scaled lit_0_002 r)) = (r + 2) div 500"
proof -
  let ?v = "float_scaled lit_0_002 r"
  have pos: "0 \<le> fst ?v" using assms(1) by (rule float_scaled_nonneg) (simp add: lit_0_002_def)
  have c: "centi ?v = (r + 2) div 5" using assms by (rule centi_0_002_eq)
  show "fmt_4_2f ?v = hundredths ((r + 2) div 5)"
    using pos assms(1) by (simp add: fmt_4_2f_unpadded hundredths_def fmt_d_def c nat_div_distrib Let_def)
  have "(r + 2) div 5 div 100 = (r + 2) div 500" by (simp add: zdiv_zmult2_eq [symmetric])
  moreover have "(r + 2) div 500 \<le> LONG_MAX" using assms by (simp add: LONG_MAX_def)
  ultimately show "strtol0 (fmt_4_2f ?v) = (r + 2) div 500"
    using strtol0_fmt_4_2f [OF pos] c by simp
qed

lemma bias_float_text:
  assumes "0 \<le> r" "r < 65536" "0 \<le> r'" "r' < 65536"
  shows "float_text (Some (hundredths ((r + 2) div 5))) (float_scaled lit_0_002 r') =
    hundredths (if r' = 500 * ((r + 2) div 500) then (r + 2) div 5 else (r' + 2) div 5)"
proof -
  have "0 \<le> (r + 2) div 500" "(r + 2) div 500 < 256" using assms(1,2) by (simp_all add: div_less_iff_less_mult pos_imp_zdiv_nonneg_iff)
  from cf_eq_0_002 [OF this assms(3,4)] show ?thesis
    using bias_text [OF assms(1,2)] bias_text(1) [OF assms(3,4)] by (simp add: float_text_def)
qed


lemma diag_mask: "and b 0x6C = 0x68 \<longleftrightarrow> bit b 6 \<and> bit b 5 \<and> bit b 3 \<and> \<not> bit b 2" for b :: byte
proof -
  have bits: "\<forall>i<8. bit (0x6C :: byte) i \<longleftrightarrow> i \<in> {2, 3, 5, 6}" "\<forall>i<8. bit (0x68 :: byte) i \<longleftrightarrow> i \<in> {3, 5, 6}"
    unfolding less_8_cases by simp_all
  have "and b 0x6C = 0x68 \<longleftrightarrow> (\<forall>i<8. bit b i \<and> i \<in> {2, 3, 5, 6} \<longleftrightarrow> i \<in> {3, 5, 6})"
    using bits unfolding byte_eq_iff bit_and_iff by blast
  also have "\<dots> \<longleftrightarrow> bit b 6 \<and> bit b 5 \<and> bit b 3 \<and> \<not> bit b 2"
    unfolding less_8_cases by auto
  finally show ?thesis .
qed

lemma diag_types:
  assumes "length page = 128"
  shows "pm_sfp_serial_id_t.diag_monitor_type (sfp_serial_id_of_bytes page) =
      sfp_diag_monitoring_type_of_bytes [page ! 92]"
    and "pm_qsfp_serial_id_t.diag_monitor_type (qsfp_serial_id_of_bytes page) =
      qsfp_diag_monitoring_type_of_bytes [page ! 92]"
  using assms glue_last [of 92 page]
  by (simp_all add: sfp_serial_id_of_bytes_def qsfp_serial_id_of_bytes_def)

lemma set_a2_read_requested:
  "(if b then port\<lparr>a2_read_requested := True\<rparr> else port) = port\<lparr>a2_read_requested := a2_read_requested port \<or> b\<rparr>"
  by (cases b) simp_all

text \<open>
  C38. The diagnostics page is requested exactly when the serial id page says so: an SFP+ module must
  implement digital diagnostics, calibrate internally, measure average power and need no address
  change; a QSFP module must measure average power.
\<close>

theorem a2_request_bits:
  assumes "length page = 128" "YamlPort.connector (module_device port) = Some conn"
  shows "set_a2_read_request page port = Some (port\<lparr>a2_read_requested := a2_read_requested port \<or>
    (if conn = CONNECTOR_SFP_PLUS then and (page ! 92) 0x6C = 0x68
     else conn \<in> {CONNECTOR_QSFP_PLUS, CONNECTOR_QSFP28} \<and> bit (page ! 92) 3)\<rparr>)"
  using assms
  by (simp add: set_a2_read_request_def Let_def diag_types diag_mask set_a2_read_requested
      sfp_diag_monitoring_type_of_bytes_def qsfp_diag_monitoring_type_of_bytes_def conj_ac)

section \<open>Instances\<close>

definition sample_dom_page :: "byte \<Rightarrow> byte \<Rightarrow> byte list" where
  "sample_dom_page bias_msb bias_lsb =
     (replicate 128 0)[96 := 0xEC, 97 := 0x80, 98 := 0x80, 100 := bias_msb, 101 := bias_lsb, 92 := 0x68]"

lemma sample_dom_page_simps [simp]:
  "length (sample_dom_page m l) = 128" "sample_dom_page m l ! 96 = 0xEC" "sample_dom_page m l ! 98 = 0x80"
  "sample_dom_page m l ! 99 = 0" "sample_dom_page m l ! 100 = m" "sample_dom_page m l ! 101 = l"
  "sample_dom_page m l ! 92 = 0x68"
  by (simp_all add: sample_dom_page_def)

lemma sample_port_dom [simp]: "ovs_module_dom_columns (sample_port conn) = zero_module_dom_columns"
  by (simp add: sample_port_def)

theorem pm_set_a2_tables_witness:
  "ovs_module_dom_columns (pm_set_a2 (sample_dom_page 0 0) (sample_port CONNECTOR_QSFP28)) =
     qsfp_dom_table (sample_dom_page 0 0) zero_module_dom_columns"
  using pm_set_a2_tables [of "sample_port CONNECTOR_QSFP28" CONNECTOR_QSFP28 "sample_dom_page 0 0" qsfp_dom_table]
  by simp

theorem dom_values_accurate_witness:
  "\<exists>v. vcc (ovs_module_dom_columns (pm_set_a2 (sample_dom_page 0 0) (sample_port CONNECTOR_SFP_PLUS))) = Some (fmt_4_2f v) \<and>
     \<bar>100 * centi v - 32768\<bar> \<le> 50"
  using dom_values_accurate [of "sample_dom_page 0 0" "sample_port CONNECTOR_SFP_PLUS", OF _ _ _ _ refl]
  by (auto simp: raw16_eq)

theorem temperature_text_witness:
  "temperature (ovs_module_dom_columns (pm_set_a2 (sample_dom_page 0 0) (sample_port CONNECTOR_SFP_PLUS))) =
     Some ''-20.00''"
proof -
  have "sint (0xEC :: byte) = -20" by simp
  moreover have "fmt_d (-20) = ''-20''" by (simp add: fmt_d_def text_eval)
  moreover have "temperature (ovs_module_dom_columns (sample_port CONNECTOR_SFP_PLUS)) = None"
    by (simp add: zero_module_dom_columns_def)
  ultimately show ?thesis
    using temperature_text [of "sample_dom_page 0 0" "sample_port CONNECTOR_SFP_PLUS" CONNECTOR_SFP_PLUS 96]
    by simp
qed


theorem a2_request_bits_witness:
  "set_a2_read_request (sample_dom_page 0 0) (sample_port CONNECTOR_SFP_PLUS) =
     Some ((sample_port CONNECTOR_SFP_PLUS)\<lparr>a2_read_requested := True\<rparr>)"
  using a2_request_bits [of "sample_dom_page 0 0" "sample_port CONNECTOR_SFP_PLUS" CONNECTOR_SFP_PLUS]
  by simp

end
