(* ===== verification/Externals.thy ===== *)
theory Externals
  imports Pm_Dom "HOL-Library.Multiset"
begin

text \<open>
  The code the daemon calls but the repository does not contain, as a record of functions that every
  definition takes as an argument: the YAML and I2C parts of the OpenSwitch configuration library
  (\<^verbatim>\<open>config-yaml.h\<close>), the \<open>shash\<close> tables of Open vSwitch and the constants of the generated headers. Their
  state (parsed files, hardware registers, module memories) is the world \<open>'w\<close>, a \<open>YamlDevice\<close> is
  a \<open>'d\<close> and a table is a \<open>'h\<close>. The rows of the database replica are data; \<open>smap\<close> values are maps. The
  second part is the global state of the daemon and the view of its tables that the proofs use.
\<close>

section \<open>External functions\<close>

text \<open>
  A call that reads or writes hardware or files returns its result code and the new world.
  \<open>i2c_data_read\<close> also gives the new content of the caller's buffer, byte by byte; it writes inside the
  buffer. A node of a table is its name and its data pointer; \<open>shash_nodes\<close> lists the nodes in the order
  of \<open>SHASH_FOR_EACH\<close>.
\<close>

record ('w, 'd, 'h) externals =
  yaml_new_config_handle :: "'w \<Rightarrow> 'w"
  yaml_get_port_count :: "'w \<Rightarrow> string \<Rightarrow> nat"
  yaml_get_port :: "'w \<Rightarrow> string \<Rightarrow> nat \<Rightarrow> YamlPort"
  yaml_find_device :: "'w \<Rightarrow> string \<Rightarrow> string \<Rightarrow> 'd option"
  yaml_add_subsystem :: "string \<Rightarrow> string \<Rightarrow> 'w \<Rightarrow> int \<times> 'w"
  yaml_parse_devices :: "string \<Rightarrow> 'w \<Rightarrow> int \<times> 'w"
  yaml_parse_ports :: "string \<Rightarrow> 'w \<Rightarrow> int \<times> 'w"
  yaml_init_devices :: "string \<Rightarrow> 'w \<Rightarrow> 'w"
  i2c_reg_read :: "string \<Rightarrow> i2c_bit_op option \<Rightarrow> 'w \<Rightarrow> int \<times> 32 word \<times> 'w"
  i2c_reg_write :: "string \<Rightarrow> i2c_bit_op option \<Rightarrow> 32 word \<Rightarrow> 'w \<Rightarrow> int \<times> 'w"
  i2c_data_read :: "'d option \<Rightarrow> string \<Rightarrow> nat \<Rightarrow> byte list \<Rightarrow> 'w \<Rightarrow> int \<times> (nat \<Rightarrow> byte) \<times> 'w"
  i2c_data_write :: "'d option \<Rightarrow> string \<Rightarrow> nat \<Rightarrow> byte list \<Rightarrow> 'w \<Rightarrow> int \<times> 'w"
  shash_init :: 'h
  shash_find :: "'h \<Rightarrow> string \<Rightarrow> (string \<times> nat) option"
  shash_add :: "'h \<Rightarrow> string \<Rightarrow> nat \<Rightarrow> 'h"
  shash_delete :: "'h \<Rightarrow> string \<times> nat \<Rightarrow> 'h"
  shash_nodes :: "'h \<Rightarrow> (string \<times> nat) list"
  string_literal_tail :: "string \<Rightarrow> nat \<Rightarrow> byte"
  MAP_ENABLE :: string
  MAP_ENABLE_TRUE :: string
  connector_string :: "ovs_connector \<Rightarrow> string"
  connector_status_string :: "ovs_connector_status \<Rightarrow> string"
  cable_technology_string :: "ovs_cable_technology \<Rightarrow> string"

section \<open>What the daemon relies on\<close>

text \<open>
  The contract of \<open>shash\<close>: a lookup finds a node of that name if there is one, adding adds one node and
  deleting a node of the table removes it. Duplicate names are possible, and the order of the
  nodes after an operation is open.
\<close>

definition shash_laws :: "('w, 'd, 'h, 'e) externals_scheme \<Rightarrow> bool" where
  "shash_laws E \<longleftrightarrow>
     shash_nodes E (shash_init E) = [] \<and>
     (\<forall>h k. case shash_find E h k of
        None \<Rightarrow> k \<notin> fst ` set (shash_nodes E h)
      | Some node \<Rightarrow> fst node = k \<and> node \<in> set (shash_nodes E h)) \<and>
     (\<forall>h k d. mset (shash_nodes E (shash_add E h k d)) = add_mset (k, d) (mset (shash_nodes E h))) \<and>
     (\<forall>h node. node \<in> set (shash_nodes E h) \<longrightarrow>
        mset (shash_nodes E (shash_delete E h node)) = mset (shash_nodes E h) - {#node#})"

text \<open>
  A port description the daemon can drive: it has a connector type, and a port that is not driven as
  a QSFP port has a transmit-disable signal.
\<close>

definition device_ready :: "YamlPort \<Rightarrow> bool" where
  "device_ready y \<longleftrightarrow>
     YamlPort.connector y \<noteq> None \<and>
     (YamlPort.connector y \<notin> {Some CONNECTOR_QSFP_PLUS, Some CONNECTOR_QSFP28} \<longrightarrow> sfpp_tx_disable y \<noteq> None)"

definition yaml_laws :: "('w, 'd, 'h, 'e) externals_scheme \<Rightarrow> bool" where
  "yaml_laws E \<longleftrightarrow>
     (\<forall>w sub i. i < yaml_get_port_count E w sub \<longrightarrow> pluggable (yaml_get_port E w sub i) \<longrightarrow>
        device_ready (yaml_get_port E w sub i))"

section \<open>The database replica\<close>

record ovsrec_interface =
  intf_name :: string
  intf_uuid :: "128 word"
  hw_intf_config :: "string \<rightharpoonup> string"

record ovsrec_subsystem =
  subsys_name :: string
  subsys_uuid :: "128 word"
  hw_desc_dir :: string
  subsys_interfaces :: "ovsrec_interface list"

record ovsrec_daemon =
  daemon_name :: string

record ovsdb_idl =
  idl_get_seqno :: "32 word"
  lock_contended :: bool
  has_lock :: bool
  idl_subsystems :: "ovsrec_subsystem list"
  idl_interfaces :: "ovsrec_interface list"
  idl_daemons :: "ovsrec_daemon list"

definition ovsrec_interface_get_for_uuid :: "ovsdb_idl \<Rightarrow> 128 word \<Rightarrow> ovsrec_interface option" where
  "ovsrec_interface_get_for_uuid idl u = find (\<lambda>r. intf_uuid r = u) (idl_interfaces idl)"

definition ovsrec_subsystem_get_for_uuid :: "ovsdb_idl \<Rightarrow> 128 word \<Rightarrow> ovsrec_subsystem option" where
  "ovsrec_subsystem_get_for_uuid idl u = find (\<lambda>r. subsys_uuid r = u) (idl_subsystems idl)"

text \<open>What the daemon writes: the \<open>pm_info\<close> map of an interface row, or \<open>cur_hw\<close> of a daemon row.\<close>

datatype db_write =
    Set_pm_info "128 word" "(string \<times> string) list"
  | Set_cur_hw string int

text \<open>
  What the daemon registers with the replica: its lock, the tables and columns it follows and the columns whose
  changes must not wake it; and the release of the replica at the end. Tables and columns are named as in the generated header.
\<close>

datatype idl_call =
    Idl_set_lock string
  | Idl_verify_write_only
  | Idl_add_table string
  | Idl_add_column string string
  | Idl_omit_alert string string
  | Idl_destroy

section \<open>The state of the daemon\<close>

text \<open>
  The globals of \<^verbatim>\<open>ovsdb_access.c\<close> and the heap: ports and uuids that \<open>calloc\<close> has made, by address. Address 0
  is NULL and addresses are not reused; a freed block is removed, so that following a pointer to it
  fails. \<open>committed\<close> collects the transactions and \<open>idl_calls\<close> the
  registrations in their order.
\<close>

record ('w, 'h, 'z) pmd_state =
  ovs_intfs :: 'h
  ovs_subs :: 'h
  ports :: "nat \<rightharpoonup> 'z pm_port_t_scheme"
  uuids :: "nat \<rightharpoonup> 128 word"
  next_addr :: nat
  idl_seqno :: "32 word"
  cur_hw_set :: bool
  world :: 'w
  committed :: "db_write list list"
  idl_calls :: "idl_call list"

definition on_port ::
  "('z pm_port_t_scheme \<Rightarrow> 'w \<Rightarrow> ('z pm_port_t_scheme \<times> 'w) option) \<Rightarrow> nat \<Rightarrow>
   ('w, 'h, 'z) pmd_state \<Rightarrow> ('w, 'h, 'z) pmd_state option" where
  "on_port f a st = do {
     port \<leftarrow> ports st a;
     (port, w) \<leftarrow> f port (world st);
     Some (st\<lparr>ports := (ports st)(a \<mapsto> port), world := w\<rparr>) }"

text \<open>A loop over a list whose body may fail.\<close>

fun for_each :: "('a \<Rightarrow> 's \<Rightarrow> 's option) \<Rightarrow> 'a list \<Rightarrow> 's \<Rightarrow> 's option" where
  "for_each f [] st = Some st"
| "for_each f (x # xs) st = do { st \<leftarrow> f x st; for_each f xs st }"

lemma for_each_invariant:
  assumes "I st" "\<And>x st. x \<in> set xs \<Longrightarrow> I st \<Longrightarrow> \<exists>st'. f x st = Some st' \<and> I st'"
  shows "\<exists>st'. for_each f xs st = Some st' \<and> I st'"
  using assms
proof (induction xs arbitrary: st)
  case (Cons x xs)
  then obtain st1 where "f x st = Some st1" "I st1" by force
  moreover have "\<exists>st'. for_each f xs st1 = Some st' \<and> I st'"
    using Cons.IH [OF \<open>I st1\<close>] Cons.prems(2) by simp
  ultimately show ?case by simp
qed simp

lemma for_each_rel:
  assumes "for_each f xs st = Some st'"
    and "\<And>s. R s s" "\<And>r s t. R r s \<Longrightarrow> R s t \<Longrightarrow> R r t"
    and "\<And>x s t. x \<in> set xs \<Longrightarrow> f x s = Some t \<Longrightarrow> R s t"
  shows "R st st'"
  using assms(1,4)
proof (induction xs arbitrary: st)
  case Nil
  then show ?case using assms(2) by simp
next
  case (Cons x xs)
  from Cons.prems(1) obtain s where s: "f x st = Some s" "for_each f xs s = Some st'"
    by (auto simp: bind_eq_Some_conv)
  have "R st s" by (rule Cons.prems(2) [OF _ s(1)]) simp
  moreover have "R s st'" by (rule Cons.IH [OF s(2)]) (rule Cons.prems(2), simp_all)
  ultimately show ?case by (rule assms(3))
qed

section \<open>Tables as maps\<close>

definition table :: "('w, 'd, 'h, 'e) externals_scheme \<Rightarrow> 'h \<Rightarrow> (string \<rightharpoonup> nat)" where
  "table E h = map_of (shash_nodes E h)"

definition table_ok :: "('w, 'd, 'h, 'e) externals_scheme \<Rightarrow> 'h \<Rightarrow> bool" where
  "table_ok E h \<longleftrightarrow> distinct (map fst (shash_nodes E h)) \<and> distinct (map snd (shash_nodes E h))"

lemma distinct_map_mset: "mset xs = mset ys \<Longrightarrow> distinct (map f xs) = distinct (map f ys)"
  by (metis mset_map mset_eq_imp_distinct_iff)

lemma map_of_mset: "mset xs = mset ys \<Longrightarrow> distinct (map fst xs) \<Longrightarrow> map_of xs = map_of ys"
  by (metis distinct_map_mset map_of_inject_set set_mset_mset)

lemma shash_nodes_init: "shash_laws E \<Longrightarrow> shash_nodes E (shash_init E) = []"
  by (simp add: shash_laws_def)

lemma table_init [simp]:
  "shash_laws E \<Longrightarrow> table E (shash_init E) = Map.empty" "shash_laws E \<Longrightarrow> table_ok E (shash_init E)"
  by (simp_all add: table_def table_ok_def shash_nodes_init)

lemma shash_find_None: "shash_laws E \<Longrightarrow> shash_find E h k = None \<longleftrightarrow> table E h k = None"
proof -
  assume "shash_laws E"
  then have "case shash_find E h k of None \<Rightarrow> k \<notin> fst ` set (shash_nodes E h)
      | Some node \<Rightarrow> fst node = k \<and> node \<in> set (shash_nodes E h)"
    unfolding shash_laws_def by blast
  then show ?thesis by (auto simp: table_def map_of_eq_None_iff split: option.splits)
qed

lemma shash_find_table:
  assumes "shash_laws E" "table_ok E h"
  shows "shash_find E h k = map_option (Pair k) (table E h k)"
proof -
  have "case shash_find E h k of None \<Rightarrow> k \<notin> fst ` set (shash_nodes E h)
      | Some node \<Rightarrow> fst node = k \<and> node \<in> set (shash_nodes E h)"
    using assms(1) unfolding shash_laws_def by blast
  then show ?thesis
    using assms(2)
    by (auto simp: table_def table_ok_def map_of_eq_None_iff [symmetric] split: option.splits)
qed

lemma shash_add_table:
  assumes "shash_laws E" "table_ok E h" "table E h k = None" "d \<notin> ran (table E h)"
  shows "table_ok E (shash_add E h k d)" "table E (shash_add E h k d) = (table E h)(k \<mapsto> d)"
proof -
  have nodes: "mset (shash_nodes E (shash_add E h k d)) = mset ((k, d) # shash_nodes E h)"
    using assms(1) by (simp add: shash_laws_def)
  have new: "k \<notin> fst ` set (shash_nodes E h)" "d \<notin> snd ` set (shash_nodes E h)"
    using assms(2-4) by (force simp: table_def table_ok_def map_of_eq_None_iff ran_def)+
  have "distinct (map fst ((k, d) # shash_nodes E h))" "distinct (map snd ((k, d) # shash_nodes E h))"
    using new assms(2) by (simp_all add: table_ok_def)
  then show "table_ok E (shash_add E h k d)"
    unfolding table_ok_def distinct_map_mset [OF nodes] by blast
  have "map_of (shash_nodes E (shash_add E h k d)) = map_of ((k, d) # shash_nodes E h)"
    using nodes \<open>table_ok E (shash_add E h k d)\<close> by (intro map_of_mset) (simp_all add: table_ok_def)
  then show "table E (shash_add E h k d) = (table E h)(k \<mapsto> d)" by (simp add: table_def)
qed

lemma shash_delete_table:
  assumes "shash_laws E" "table_ok E h" "table E h k = Some d"
  shows "table_ok E (shash_delete E h (k, d))" "table E (shash_delete E h (k, d)) = (table E h)(k := None)"
proof -
  have mem: "(k, d) \<in> set (shash_nodes E h)" using assms(3) by (simp add: table_def map_of_SomeD)
  then obtain xs ys where split: "shash_nodes E h = xs @ (k, d) # ys" by (meson split_list)
  have nodes: "mset (shash_nodes E (shash_delete E h (k, d))) = mset (xs @ ys)"
    using assms(1) mem by (simp add: shash_laws_def split)
  have dist: "distinct (map fst (xs @ ys))" "distinct (map snd (xs @ ys))" "k \<notin> fst ` set (xs @ ys)"
    using assms(2) by (auto simp: table_ok_def split)
  show "table_ok E (shash_delete E h (k, d))"
    unfolding table_ok_def distinct_map_mset [OF nodes] using dist by blast
  have "map_of (shash_nodes E (shash_delete E h (k, d))) = map_of (xs @ ys)"
    using nodes \<open>table_ok E (shash_delete E h (k, d))\<close> by (intro map_of_mset) (simp_all add: table_ok_def)
  also have "\<dots> = (table E h)(k := None)"
    using dist map_of_eq_None_iff [of xs k] map_of_eq_None_iff [of ys k]
    by (intro ext) (auto simp: table_def split map_add_def split: option.splits)
  finally show "table E (shash_delete E h (k, d)) = (table E h)(k := None)" by (simp add: table_def)
qed

lemma table_nodes: "table_ok E h \<Longrightarrow> table E h k = Some d \<longleftrightarrow> (k, d) \<in> set (shash_nodes E h)"
  by (simp add: table_def table_ok_def)

lemma table_inj: "table_ok E h \<Longrightarrow> table E h k = Some d \<Longrightarrow> table E h k' = Some d \<Longrightarrow> k = k'"
  unfolding table_nodes by (fastforce simp: table_ok_def distinct_map inj_on_def)

end
