(* ===== verification/Sample_Platform.thy ===== *)
theory Sample_Platform
  imports Externals
begin

text \<open>
  A small concrete platform on which the hypotheses of the theorems hold: a table is a list of nodes, and the
  world is the number of bus reads so far with the words written so far. Every other register read fails;
  the module memory holds \<open>sample_page\<close>. The port descriptions and the result of the YAML reader are parameters.
\<close>

type_synonym sample_world = "nat \<times> 32 word list"

definition sample_externals ::
  "YamlPort list \<Rightarrow> int \<Rightarrow> (sample_world, unit, (string \<times> nat) list) externals" where
  "sample_externals ys yaml_rc = \<lparr>
     yaml_new_config_handle = (\<lambda>w. w),
     yaml_get_port_count = (\<lambda>w sub. length ys),
     yaml_get_port = (\<lambda>w sub i. ys ! i),
     yaml_find_device = (\<lambda>w sub dev. Some ()),
     yaml_add_subsystem = (\<lambda>sub dir w. (yaml_rc, w)),
     yaml_parse_devices = (\<lambda>sub w. (0, w)),
     yaml_parse_ports = (\<lambda>sub w. (0, w)),
     yaml_init_devices = (\<lambda>sub w. w),
     i2c_reg_read = (\<lambda>sub reg_op (n, ws). (if even n then -1 else 0, 1, (n + 1, ws))),
     i2c_reg_write = (\<lambda>sub reg_op data (n, ws). (0, (n, ws @ [data]))),
     i2c_data_read = (\<lambda>dev sub off buf (n, ws). (0, (!) sample_page, (n + 1, ws))),
     i2c_data_write = (\<lambda>dev sub off buf (n, ws). (0, (n, ws @ map ucast buf))),
     shash_init = [],
     shash_find = (\<lambda>h k. find (\<lambda>node. fst node = k) h),
     shash_add = (\<lambda>h k d. (k, d) # h),
     shash_delete = (\<lambda>h node. remove1 node h),
     shash_nodes = (\<lambda>h. h),
     string_literal_tail = (\<lambda>s i. 0),
     MAP_ENABLE = ''enable'',
     MAP_ENABLE_TRUE = ''true'',
     connector_string = (\<lambda>c. if c = CONNECTOR_SFP_SR then ''SFP_SR'' else ''other''),
     connector_status_string = (\<lambda>c. if c = CONNECTOR_STATUS_SUPPORTED then ''supported'' else ''other''),
     cable_technology_string = (\<lambda>c. ''other'')\<rparr>"

lemma sample_fields [simp]:
  "yaml_new_config_handle (sample_externals ys yaml_rc) = (\<lambda>w. w)"
  "yaml_get_port_count (sample_externals ys yaml_rc) = (\<lambda>w sub. length ys)"
  "yaml_get_port (sample_externals ys yaml_rc) = (\<lambda>w sub i. ys ! i)"
  "yaml_find_device (sample_externals ys yaml_rc) = (\<lambda>w sub dev. Some ())"
  "yaml_add_subsystem (sample_externals ys yaml_rc) = (\<lambda>sub dir w. (yaml_rc, w))"
  "yaml_parse_devices (sample_externals ys yaml_rc) = (\<lambda>sub w. (0, w))"
  "yaml_parse_ports (sample_externals ys yaml_rc) = (\<lambda>sub w. (0, w))"
  "yaml_init_devices (sample_externals ys yaml_rc) = (\<lambda>sub w. w)"
  "i2c_reg_read (sample_externals ys yaml_rc) = (\<lambda>sub reg_op (n, ws). (if even n then -1 else 0, 1, (n + 1, ws)))"
  "i2c_reg_write (sample_externals ys yaml_rc) = (\<lambda>sub reg_op data (n, ws). (0, (n, ws @ [data])))"
  "i2c_data_read (sample_externals ys yaml_rc) = (\<lambda>dev sub off buf (n, ws). (0, (!) sample_page, (n + 1, ws)))"
  "i2c_data_write (sample_externals ys yaml_rc) = (\<lambda>dev sub off buf (n, ws). (0, (n, ws @ map ucast buf)))"
  "shash_init (sample_externals ys yaml_rc) = []"
  "shash_find (sample_externals ys yaml_rc) = (\<lambda>h k. find (\<lambda>node. fst node = k) h)"
  "shash_add (sample_externals ys yaml_rc) = (\<lambda>h k d. (k, d) # h)"
  "shash_delete (sample_externals ys yaml_rc) = (\<lambda>h node. remove1 node h)"
  "shash_nodes (sample_externals ys yaml_rc) = (\<lambda>h. h)"
  "string_literal_tail (sample_externals ys yaml_rc) = (\<lambda>s i. 0)"
  "MAP_ENABLE (sample_externals ys yaml_rc) = ''enable''"
  "MAP_ENABLE_TRUE (sample_externals ys yaml_rc) = ''true''"
  "connector_string (sample_externals ys yaml_rc) = (\<lambda>c. if c = CONNECTOR_SFP_SR then ''SFP_SR'' else ''other'')"
  "connector_status_string (sample_externals ys yaml_rc) = (\<lambda>c. if c = CONNECTOR_STATUS_SUPPORTED then ''supported'' else ''other'')"
  "cable_technology_string (sample_externals ys yaml_rc) = (\<lambda>c. ''other'')"
  by (simp_all add: sample_externals_def)

lemma sample_shash_laws: "shash_laws (sample_externals ys rc)"
proof -
  have "case find (\<lambda>node. fst node = k) h of None \<Rightarrow> k \<notin> fst ` set h | Some node \<Rightarrow> fst node = k \<and> node \<in> set h"
    for k and h :: "(string \<times> nat) list"
    by (induction h) (auto split: option.splits)
  then show ?thesis unfolding shash_laws_def sample_fields by simp
qed

lemma sample_yaml_laws: "\<forall>y\<in>set ys. device_ready y \<Longrightarrow> yaml_laws (sample_externals ys rc)"
  by (simp add: yaml_laws_def)

text \<open>A port the daemon can drive, for a connector type, and a database with its interface.\<close>

definition sample_drivable :: "string \<Rightarrow> YamlPort" where
  "sample_drivable conn = (sample_device conn)
     \<lparr>sfpp_mod_present := Some \<lparr>op_id = 1, bit_mask = 0x10\<rparr>, sfpp_tx_disable := Some \<lparr>op_id = 2, bit_mask = 0x20\<rparr>,
      qsfpp_reset := Some \<lparr>op_id = 3, bit_mask = 0x40\<rparr>, qsfp28p_reset := Some \<lparr>op_id = 3, bit_mask = 0x40\<rparr>\<rparr>"

definition sample_interface :: "bool \<Rightarrow> ovsrec_interface" where
  "sample_interface enabled =
     \<lparr>intf_name = ''1'', intf_uuid = 1, hw_intf_config = (if enabled then [''enable'' \<mapsto> ''true''] else Map.empty)\<rparr>"

definition sample_subsystem :: "bool \<Rightarrow> ovsrec_subsystem" where
  "sample_subsystem enabled =
     \<lparr>subsys_name = ''base'', subsys_uuid = 2, hw_desc_dir = ''/etc'', subsys_interfaces = [sample_interface enabled]\<rparr>"

definition sample_idl :: "32 word \<Rightarrow> bool \<Rightarrow> ovsdb_idl" where
  "sample_idl seqno enabled =
     \<lparr>idl_get_seqno = seqno, lock_contended = False, has_lock = True, idl_subsystems = [sample_subsystem enabled],
      idl_interfaces = [sample_interface enabled], idl_daemons = [\<lparr>daemon_name = ''ops-pmd''\<rparr>]\<rparr>"

abbreviation sample_platform :: "string \<Rightarrow> (sample_world, unit, (string \<times> nat) list) externals" where
  "sample_platform conn \<equiv> sample_externals [sample_drivable conn] 0"

lemma sample_drivable_simps [simp]:
  "device_ready (sample_drivable conn)" "pluggable (sample_drivable conn)"
  "YamlPort.connector (sample_drivable conn) = Some conn" "YamlPort.name (sample_drivable conn) = ''1''"
  by (simp_all add: device_ready_def sample_drivable_def sample_device_def)

lemma sample_laws [simp]:
  "shash_laws (sample_externals ys rc)" "yaml_laws (sample_externals [sample_drivable conn] rc)"
  by (simp_all add: sample_shash_laws sample_yaml_laws)

end
