(* ===== verification/Plug.thy ===== *)
theory Plug
  imports Sample_Platform
begin

text \<open>
  \<^verbatim>\<open>src/plug.c\<close>: presence detection, reading and resetting a module, enabling and disabling a port, for the
  hardware build and for the simulation build (\<^verbatim>\<open>PLATFORM_SIMULATION\<close>). \<open>None\<close> stands for undefined
  behaviour: a NULL pointer that is followed or a buffer that overflows. Delays and log messages have
  no effect on the state. The functions whose body depends on the build are collected in the record
  \<open>build\<close>; the locale \<open>build_contract\<close> is what the rest of the daemon relies on of them.
\<close>

section \<open>Constants\<close>

definition SFP_SERIAL_ID_OFFSET :: nat where "SFP_SERIAL_ID_OFFSET = 0"
definition QSFP_SERIAL_ID_OFFSET :: nat where "QSFP_SERIAL_ID_OFFSET = 128"
definition QSFP_DISABLE_OFFSET :: nat where "QSFP_DISABLE_OFFSET = 86"
definition MAX_DEVICE_NAME_LEN :: nat where "MAX_DEVICE_NAME_LEN = 1024"

datatype clear_reset_t = SET_RESET | CLEAR_RESET

section \<open>Presence\<close>

fun presence_loop ::
  "('w, 'd, 'h) externals \<Rightarrow> string \<Rightarrow> i2c_bit_op option \<Rightarrow> nat \<Rightarrow> 'w \<Rightarrow> bool \<times> 'w" where
  "presence_loop E sub reg_op 0 w =
     (case i2c_reg_read E sub reg_op w of (rc, result, w) \<Rightarrow>
        if rc \<noteq> 0 then (False, w) else (result \<noteq> 0, w))"
| "presence_loop E sub reg_op (Suc retry_count) w =
     (case i2c_reg_read E sub reg_op w of (rc, result, w) \<Rightarrow>
        if rc \<noteq> 0 then presence_loop E sub reg_op retry_count w else (result \<noteq> 0, w))"

definition pm_get_presence ::
  "('w, 'd, 'h) externals \<Rightarrow> pm_port_t \<Rightarrow> 'w \<Rightarrow> (bool \<times> 'w) option" where
  "pm_get_presence E port w =
     (case YamlPort.connector (module_device port) of
        None \<Rightarrow> None
      | Some c \<Rightarrow> Some
          (if c = CONNECTOR_SFP_PLUS then
             presence_loop E (subsystem port) (sfpp_mod_present (module_device port)) 2 w
           else if c = CONNECTOR_QSFP_PLUS then
             presence_loop E (subsystem port) (qsfpp_mod_present (module_device port)) 2 w
           else if c = CONNECTOR_QSFP28 then
             presence_loop E (subsystem port) (qsfp28p_mod_present (module_device port)) 2 w
           else (False, w)))"

definition pm_get_presence_sim :: "pm_port_sim_t \<Rightarrow> 'w \<Rightarrow> (bool \<times> 'w) option" where
  "pm_get_presence_sim port w = Some (module_data port \<noteq> None, w)"

section \<open>Reading the pages of a module\<close>

definition pm_read_a0 ::
  "('w, 'd, 'h) externals \<Rightarrow> pm_port_t \<Rightarrow> byte list \<Rightarrow> nat \<Rightarrow> 'w \<Rightarrow> (int \<times> byte list \<times> 'w) option" where
  "pm_read_a0 E port data off w =
     (let device = yaml_find_device E w (subsystem port) (module_eeprom (module_device port)) in
      case i2c_data_read E device (subsystem port) off data w of (rc, bytes, w) \<Rightarrow>
        Some (if rc \<noteq> 0 then -1 else 0, map bytes [0..<length data], w))"

definition pm_read_a0_sim ::
  "pm_port_sim_t \<Rightarrow> byte list \<Rightarrow> nat \<Rightarrow> 'w \<Rightarrow> (int \<times> byte list \<times> 'w) option" where
  "pm_read_a0_sim port data off w =
     (case module_data port of
        None \<Rightarrow> None
      | Some m \<Rightarrow> if length m < length data then None else Some (0, take (length data) m, w))"

text \<open>
  The name of the diagnostics device is built in a buffer of 1024 bytes with \<open>strncpy\<close> and \<open>strncat\<close>:
  a name that leaves no room for what follows overflows the buffer or stays unterminated.
\<close>

definition a2_device_name :: "YamlPort \<Rightarrow> string option" where
  "a2_device_name y =
     (case YamlPort.connector y of
        None \<Rightarrow> None
      | Some c \<Rightarrow>
          if c = CONNECTOR_SFP_PLUS then
            (if length (module_eeprom y) + length ''_dom'' < MAX_DEVICE_NAME_LEN
             then Some (module_eeprom y @ ''_dom'') else None)
          else (if length (module_eeprom y) < MAX_DEVICE_NAME_LEN then Some (module_eeprom y) else None))"

definition pm_read_a2 ::
  "('w, 'd, 'h) externals \<Rightarrow> pm_port_t \<Rightarrow> byte list \<Rightarrow> 'w \<Rightarrow> (int \<times> byte list \<times> 'w) option" where
  "pm_read_a2 E port a2_data w = do {
     a2_name \<leftarrow> a2_device_name (module_device port);
     let device = yaml_find_device E w (subsystem port) a2_name;
     (case i2c_data_read E device (subsystem port) 0 a2_data w of (rc, bytes, w) \<Rightarrow>
        Some (if rc \<noteq> 0 then -1 else 0, map bytes [0..<length a2_data], w)) }"

definition pm_read_a2_sim :: "pm_port_sim_t \<Rightarrow> byte list \<Rightarrow> 'w \<Rightarrow> (int \<times> byte list \<times> 'w) option" where
  "pm_read_a2_sim port a2_data w = Some (-1, a2_data, w)"

section \<open>Reset\<close>

definition pm_reset ::
  "('w, 'd, 'h) externals \<Rightarrow> 'z pm_port_t_scheme \<Rightarrow> clear_reset_t \<Rightarrow> 'w \<Rightarrow> 'w option" where
  "pm_reset E port clear w =
     (case YamlPort.connector (module_device port) of
        None \<Rightarrow> None
      | Some c \<Rightarrow>
          (let reg_op =
             (if c = CONNECTOR_QSFP_PLUS then qsfpp_reset (module_device port)
              else if c = CONNECTOR_QSFP28 then qsfp28p_reset (module_device port)
              else None)
           in if reg_op = None then Some w
              else (let data = (if clear = CLEAR_RESET then 0 else 0xff);
                        (rc, w) = i2c_reg_write E (subsystem port) reg_op data w
                    in Some w)))"

definition pm_clear_reset :: "('w, 'd, 'h) externals \<Rightarrow> 'z pm_port_t_scheme \<Rightarrow> 'w \<Rightarrow> 'w option" where
  "pm_clear_reset E port w = pm_reset E port CLEAR_RESET w"

definition pm_reset_port :: "('w, 'd, 'h) externals \<Rightarrow> 'z pm_port_t_scheme \<Rightarrow> 'w \<Rightarrow> 'w option" where
  "pm_reset_port E port w = do {
     w \<leftarrow> pm_reset E port SET_RESET w;
     pm_clear_reset E port w }"

section \<open>Enabling and disabling\<close>

text \<open>The loop over the lanes: a 1 disables the transmitter of a lane.\<close>

fun subport_loop :: "bool list \<Rightarrow> nat \<Rightarrow> byte \<Rightarrow> byte" where
  "subport_loop [] idx data = data"
| "subport_loop (enabled # rest) idx data =
     subport_loop rest (idx + 1) (if \<not> enabled then or data (push_bit idx 1) else data)"

definition qsfp_disable_bits :: "'z pm_port_t_scheme \<Rightarrow> byte" where
  "qsfp_disable_bits port =
     (if split port then subport_loop (take MAX_SPLIT_COUNT (hw_enable_subport port)) 0 0
      else if \<not> hw_enable port then 0x0f else 0x00)"

definition pm_configure_qsfp :: "('w, 'd, 'h) externals \<Rightarrow> pm_port_t \<Rightarrow> 'w \<Rightarrow> 'w" where
  "pm_configure_qsfp E port w =
     (if \<not> present port then w
      else if \<not> optical port then w
      else
        (let data = qsfp_disable_bits port;
             device = yaml_find_device E w (subsystem port) (module_eeprom (module_device port));
             (rc, w) = i2c_data_write E device (subsystem port) QSFP_DISABLE_OFFSET [data] w
         in w))"

definition pm_configure_qsfp_sim :: "pm_port_sim_t \<Rightarrow> pm_port_sim_t" where
  "pm_configure_qsfp_sim port = port\<lparr>port_enable := qsfp_disable_bits port\<rparr>"

definition pm_configure_port ::
  "('w, 'd, 'h) externals \<Rightarrow> pm_port_t \<Rightarrow> 'w \<Rightarrow> (pm_port_t \<times> 'w) option" where
  "pm_configure_port E port w =
     (case YamlPort.connector (module_device port) of
        None \<Rightarrow> None
      | Some c \<Rightarrow>
          if c = CONNECTOR_QSFP_PLUS \<or> c = CONNECTOR_QSFP28 then Some (port, pm_configure_qsfp E port w)
          else do {
            let reg_op = sfpp_tx_disable (module_device port);
            data \<leftarrow> (if hw_enable port then Some 0 else map_option bit_mask reg_op);
            let (rc, w) = i2c_reg_write E (subsystem port) reg_op data w;
            Some (port, w) })"

definition pm_configure_port_sim :: "pm_port_sim_t \<Rightarrow> 'w \<Rightarrow> (pm_port_sim_t \<times> 'w) option" where
  "pm_configure_port_sim port w =
     (case YamlPort.connector (module_device port) of
        None \<Rightarrow> None
      | Some c \<Rightarrow>
          if c = CONNECTOR_QSFP_PLUS \<or> c = CONNECTOR_QSFP28 then Some (pm_configure_qsfp_sim port, w)
          else Some (port\<lparr>port_enable := if hw_enable port then 1 else 0\<rparr>, w))"

section \<open>The two builds\<close>

record ('w, 'z) build =
  get_presence :: "'z pm_port_t_scheme \<Rightarrow> 'w \<Rightarrow> (bool \<times> 'w) option"
  read_a0 :: "'z pm_port_t_scheme \<Rightarrow> byte list \<Rightarrow> nat \<Rightarrow> 'w \<Rightarrow> (int \<times> byte list \<times> 'w) option"
  read_a2 :: "'z pm_port_t_scheme \<Rightarrow> byte list \<Rightarrow> 'w \<Rightarrow> (int \<times> byte list \<times> 'w) option"
  configure_port :: "'z pm_port_t_scheme \<Rightarrow> 'w \<Rightarrow> ('z pm_port_t_scheme \<times> 'w) option"
  configure_checks_null :: bool
  zero_fields :: 'z

type_synonym sim_fields = "\<lparr>module_data :: byte list option, port_enable :: byte\<rparr>"

definition hw_build :: "('w, 'd, 'h) externals \<Rightarrow> ('w, unit) build" where
  "hw_build E = \<lparr>get_presence = pm_get_presence E, read_a0 = pm_read_a0 E, read_a2 = pm_read_a2 E,
     configure_port = pm_configure_port E, configure_checks_null = True, zero_fields = ()\<rparr>"

definition sim_build :: "('w, sim_fields) build" where
  "sim_build = \<lparr>get_presence = pm_get_presence_sim, read_a0 = pm_read_a0_sim, read_a2 = pm_read_a2_sim,
     configure_port = pm_configure_port_sim, configure_checks_null = False, zero_fields = \<lparr>module_data = None, port_enable = 0\<rparr>\<rparr>"

text \<open>A call of \<open>pm_configure_port\<close> on a pointer: only the hardware build returns at once for NULL.\<close>

definition configure_at ::
  "('w, 'z) build \<Rightarrow> nat \<Rightarrow> ('w, 'h, 'z) pmd_state \<Rightarrow> ('w, 'h, 'z) pmd_state option" where
  "configure_at B a st =
     (if a = 0 \<and> configure_checks_null B then Some st else on_port (configure_port B) a st)"

section \<open>Reading the state of a module\<close>

definition serial_id_offset :: "string \<Rightarrow> nat option" where
  "serial_id_offset c =
     (if c = CONNECTOR_SFP_PLUS then Some SFP_SERIAL_ID_OFFSET
      else if c = CONNECTOR_QSFP_PLUS \<or> c = CONNECTOR_QSFP28 then Some QSFP_SERIAL_ID_OFFSET
      else None)"

text \<open>From the label \<open>retry_read_a2\<close> to the end.\<close>

fun read_a2_from ::
  "('w, 'z) build \<Rightarrow> nat \<Rightarrow> 'z pm_port_t_scheme \<Rightarrow> byte list \<Rightarrow> 'w \<Rightarrow> (int \<times> 'z pm_port_t_scheme \<times> 'w) option" where
  "read_a2_from B 0 port a2_data w = do {
     (rc, a2_data, w) \<leftarrow> read_a2 B port a2_data w;
     let a2_data = (if rc \<noteq> 0 then replicate (length a2_data) 0xff else a2_data);
     let port = pm_set_a2 a2_data port;
     Some (0, port\<lparr>a2_read_requested := False\<rparr>, w) }"
| "read_a2_from B (Suc retry_count) port a2_data w = do {
     (rc, a2_data, w) \<leftarrow> read_a2 B port a2_data w;
     (if rc \<noteq> 0 then read_a2_from B retry_count port a2_data w
      else do {
        let port = pm_set_a2 a2_data port;
        Some (0, port\<lparr>a2_read_requested := False\<rparr>, w) }) }"

text \<open>The parse step of a page that has been read, up to the test of \<open>a2_read_requested\<close>.\<close>

definition parse_module ::
  "('w, 'd, 'h) externals \<Rightarrow> byte list \<Rightarrow> 'z pm_port_t_scheme \<Rightarrow> 'z pm_port_t_scheme option" where
  "parse_module E a0_page port =
     (case pm_parse (string_literal_tail E) a0_page port of (rc, a0_page, port) \<Rightarrow>
        if rc = 0 then set_a2_read_request a0_page (port\<lparr>present := True, retry := False\<rparr>)
        else Some (port\<lparr>retry := True\<rparr>))"

definition withdraw_module ::
  "ovs_connector \<Rightarrow> ovs_connector_status \<Rightarrow> 'z pm_port_t_scheme \<Rightarrow> 'z pm_port_t_scheme" where
  "withdraw_module conn stat port = (
     let port = SET_STATIC_STRING ovs_module_info.connector_update conn port;
         port = SET_STATIC_STRING connector_status_update stat port
     in port)"

text \<open>
  From the label \<open>retry_read\<close>. The source disables two branches by \<open>&& false\<close> and the diagnostics
  part by \<open>|| true\<close>; the checksum test between reading and parsing is commented out. \<open>c_false\<close> and
  \<open>c_true\<close> are these literals.
\<close>

definition c_false :: bool where "c_false = False"
definition c_true :: bool where "c_true = True"

fun read_module_from ::
  "('w, 'd, 'h) externals \<Rightarrow> ('w, 'z) build \<Rightarrow> nat \<Rightarrow> nat \<Rightarrow> byte list \<Rightarrow> 'z pm_port_t_scheme \<Rightarrow> 'w \<Rightarrow>
   (int \<times> 'z pm_port_t_scheme \<times> 'w) option" where
  "read_module_from E B off retry_count a0_page port w = do {
     (is_present, w) \<leftarrow> get_presence B port w;
     (if \<not> is_present \<and> c_false then
        (if present port \<or> ovs_module_info.connector (ovs_module_columns port) = None then
           Some (0, withdraw_module CONNECTOR_ABSENT CONNECTOR_STATUS_UNRECOGNIZED
                      (pm_delete_all_data (port\<lparr>present := False\<rparr>)), w)
         else Some (0, port, w))
      else if \<not> present port \<or> retry port then do {
        (rc, a0_page, w) \<leftarrow> read_a0 B port a0_page off w;
        (if rc \<noteq> 0 \<and> c_false then
           (if retry_count \<noteq> 0 then do {
              w \<leftarrow> pm_reset_port E port w;
              read_module_from E B off (retry_count - 1) a0_page port w }
            else
              Some (-1, withdraw_module CONNECTOR_UNKNOWN CONNECTOR_STATUS_UNRECOGNIZED
                          ((pm_delete_all_data port)\<lparr>present := True, retry := True\<rparr>), w))
         else do {
           port \<leftarrow> parse_module E a0_page port;
           (if \<not> a2_read_requested port \<or> c_true then Some (0, port, w)
            else read_a2_from B retry_count port (replicate 128 0) w) }) }
      else if \<not> a2_read_requested port \<or> c_true then Some (0, port, w)
      else read_a2_from B retry_count port (replicate 128 0) w) }"

declare read_module_from.simps [simp del]

definition pm_read_module_state ::
  "('w, 'd, 'h) externals \<Rightarrow> ('w, 'z) build \<Rightarrow> 'z pm_port_t_scheme \<Rightarrow> 'w \<Rightarrow>
   (int \<times> 'z pm_port_t_scheme \<times> 'w) option" where
  "pm_read_module_state E B port w =
     (case YamlPort.connector (module_device port) of
        None \<Rightarrow> None
      | Some c \<Rightarrow>
          (case serial_id_offset c of
             None \<Rightarrow> Some (-1, port, w)
           | Some off \<Rightarrow> read_module_from E B off 2 (replicate 128 0) port w))"

definition pm_read_port_state ::
  "('w, 'd, 'h) externals \<Rightarrow> ('w, 'z) build \<Rightarrow> 'z pm_port_t_scheme \<Rightarrow> 'w \<Rightarrow> ('z pm_port_t_scheme \<times> 'w) option" where
  "pm_read_port_state E B port w = do {
     (rc, port, w) \<leftarrow> pm_read_module_state E B port w;
     Some (port, w) }"

section \<open>All ports\<close>

definition pm_read_state ::
  "('w, 'd, 'h) externals \<Rightarrow> ('w, 'z) build \<Rightarrow> ('w, 'h, 'z) pmd_state \<Rightarrow> ('w, 'h, 'z) pmd_state option" where
  "pm_read_state E B st =
     for_each (\<lambda>node st. if snd node = 0 then Some st else on_port (pm_read_port_state E B) (snd node) st)
       (shash_nodes E (ovs_intfs st)) st"

definition pm_set_enabled ::
  "('w, 'd, 'h) externals \<Rightarrow> ('w, 'z) build \<Rightarrow> ('w, 'h, 'z) pmd_state \<Rightarrow> ('w, 'h, 'z) pmd_state option" where
  "pm_set_enabled E B st =
     for_each (\<lambda>node st. configure_at B (snd node) st) (shash_nodes E (ovs_intfs st)) st"

section \<open>The simulation commands\<close>

text \<open>
  \<open>files name\<close> is the content of a file, or \<open>None\<close> when it cannot be opened. The commands return their
  result code and the text of the reply.
\<close>

definition pmd_sim_insert ::
  "('w, 'd, 'h) externals \<Rightarrow> (string \<Rightarrow> byte list option) \<Rightarrow> string \<Rightarrow> string \<Rightarrow>
   ('w, 'h, sim_fields) pmd_state \<Rightarrow>
   (int \<times> string \<times> ('w, 'h, sim_fields) pmd_state) option" where
  "pmd_sim_insert E files intf file st =
     (case shash_find E (ovs_intfs st) intf of
        None \<Rightarrow> Some (-1, ''No such interface'', st)
      | Some node \<Rightarrow> do {
          st \<leftarrow> on_port (\<lambda>port w. Some (port\<lparr>module_data := None\<rparr>, w)) (snd node) st;
          (case files file of
             None \<Rightarrow> Some (-1, ''Can't open file'', st)
           | Some content \<Rightarrow>
               if length content < 128 then Some (-1, ''Unable to read data'', st)
               else do {
                 st \<leftarrow> on_port (\<lambda>port w. Some (port\<lparr>module_data := Some (take 128 content)\<rparr>, w)) (snd node) st;
                 Some (0, ''Pluggable module inserted'', st) }) })"

definition pmd_sim_remove ::
  "('w, 'd, 'h) externals \<Rightarrow> string \<Rightarrow>
   ('w, 'h, sim_fields) pmd_state \<Rightarrow>
   (int \<times> string \<times> ('w, 'h, sim_fields) pmd_state) option" where
  "pmd_sim_remove E intf st =
     (case shash_find E (ovs_intfs st) intf of
        None \<Rightarrow> Some (-1, ''No such interface'', st)
      | Some node \<Rightarrow> do {
          port \<leftarrow> ports st (snd node);
          (if module_data port = None then Some (-1, ''Pluggable module not present'', st)
           else do {
             st \<leftarrow> on_port (\<lambda>port w. Some (port\<lparr>module_data := None\<rparr>, w)) (snd node) st;
             Some (0, ''Pluggable module removed'', st) }) })"

section \<open>Lemmas: reading a module\<close>

lemma configure_at_pos: "0 < a \<Longrightarrow> configure_at B a st = on_port (configure_port B) a st"
  by (simp add: configure_at_def)

lemmas c_literals = c_false_def c_true_def

lemma read_module_from_eq:
  "read_module_from E B off n page port w = do {
     (is_present, w) \<leftarrow> get_presence B port w;
     (if \<not> present port \<or> retry port then do {
        (rc, page, w) \<leftarrow> read_a0 B port page off w;
        port \<leftarrow> parse_module E page port;
        Some (0, port, w) }
      else Some (0, port, w)) }"
  by (subst read_module_from.simps) (simp add: c_literals cong: if_cong)

lemma set_a2_read_request_frame:
  assumes "set_a2_read_request page port = Some port'"
  shows "\<exists>b. port' = port\<lparr>a2_read_requested := b\<rparr>"
proof -
  have "\<exists>b. port = port\<lparr>a2_read_requested := b\<rparr>" by (rule exI [of _ "a2_read_requested port"]) simp
  with assms show ?thesis
    by (auto simp: set_a2_read_request_def Let_def split: option.splits if_splits)
qed

lemma parse_module_frame:
  assumes "parse_module E page port = Some port'" "length page = 128"
  shows "port_config port' = port_config port" "port_ok port \<Longrightarrow> port_ok port'"
proof -
  obtain rc page1 port1 where parse: "pm_parse (string_literal_tail E) page port = (rc, page1, port1)"
    by (rule prod_cases3)
  then obtain p r a where port': "port' = port1\<lparr>present := p, retry := r, a2_read_requested := a\<rparr>"
  proof (cases "rc = 0")
    case True
    with assms(1) parse obtain b where "port' = port1\<lparr>present := True, retry := False, a2_read_requested := b\<rparr>"
      by (auto simp: parse_module_def dest: set_a2_read_request_frame)
    then show ?thesis by (rule that)
  next
    case False
    with assms(1) parse have "port' = port1\<lparr>retry := True\<rparr>" by (simp add: parse_module_def)
    then have "port' = port1\<lparr>present := present port1, retry := True, a2_read_requested := a2_read_requested port1\<rparr>"
      by simp
    then show ?thesis by (rule that)
  qed
  then show "port_config port' = port_config port"
    using pm_parse_frame(1) [OF parse assms(2)] by (simp add: frame_simps)
  show "port_ok port'" if "port_ok port"
    using pm_parse_port_ok [OF parse assms(2) that] by (simp add: port' port_ok_def)
qed

lemma parse_module_defined:
  assumes "YamlPort.connector (module_device port) \<noteq> None" "length page = 128"
  shows "\<exists>port'. parse_module E page port = Some port'"
proof -
  obtain rc page1 port1 where parse: "pm_parse (string_literal_tail E) page port = (rc, page1, port1)"
    by (rule prod_cases3)
  have "module_device port1 = module_device port"
    using pm_parse_frame(1) [OF parse assms(2)] by (rule port_config_eqD)
  then show ?thesis
    using assms(1) by (auto simp: parse_module_def parse set_a2_read_request_def)
qed

section \<open>The contract of a build\<close>

text \<open>
  What the configuration code and the main loop rely on: configuring a port touches at most the
  simulation fields, it is defined for a port the daemon can drive, and a page that is read has the
  length of the buffer. A build is total when every page can be read; the hardware build is.
\<close>

locale build_contract =
  fixes B :: "('w, 'z) build"
  assumes configure_keeps:
      "configure_port B port w = Some (port', w') \<Longrightarrow> pm_port_t.truncate port' = pm_port_t.truncate port"
    and configure_defined: "device_ready (module_device port) \<Longrightarrow> configure_port B port w \<noteq> None"
    and presence_defined: "YamlPort.connector (module_device port) \<noteq> None \<Longrightarrow> get_presence B port w \<noteq> None"
    and read_a0_length: "read_a0 B port buf off w = Some (rc, buf', w') \<Longrightarrow> length buf' = length buf"
begin

lemma read_state_frame:
  assumes "pm_read_port_state E B port w = Some (port', w')"
  shows "port_config port' = port_config port" "port_ok port \<Longrightarrow> port_ok port'"
proof -
  have "port_config port' = port_config port \<and> (port_ok port \<longrightarrow> port_ok port')"
    using assms read_a0_length parse_module_frame [of E _ port port']
    by (auto simp: pm_read_port_state_def pm_read_module_state_def read_module_from_eq bind_eq_Some_conv
        split: option.splits if_splits)
  then show "port_config port' = port_config port" "port_ok port \<Longrightarrow> port_ok port'" by simp_all
qed

end

locale total_build = build_contract B
  for B :: "('w, 'z) build" +
  assumes read_a0_defined: "read_a0 B port buf off w \<noteq> None"
begin

lemma read_state_defined:
  assumes "YamlPort.connector (module_device port) \<noteq> None"
  shows "\<exists>port' w'. pm_read_port_state E B port w = Some (port', w')"
proof -
  obtain c where conn: "YamlPort.connector (module_device port) = Some c"
    using assms by blast
  obtain b w1 where presence: "get_presence B port w = Some (b, w1)"
    using presence_defined [of port w] conn by auto
  have "\<exists>port' w'. read_module_from E B off 2 (replicate 128 0) port w = Some (0, port', w')" for off
  proof (cases "\<not> present port \<or> retry port")
    case True
    obtain rc page w2 where page: "read_a0 B port (replicate 128 0) off w1 = Some (rc, page, w2)"
      using read_a0_defined by (metis option.collapse prod_cases3)
    then have "length page = 128" using read_a0_length by fastforce
    with conn obtain port' where "parse_module E page port = Some port'"
      using parse_module_defined [of port page E] by auto
    with True presence page show ?thesis by (simp add: read_module_from_eq)
  qed (simp add: read_module_from_eq presence)
  then have "\<exists>port' w'. read_module_from E B off 2 (replicate 128 0) port w \<bind> (\<lambda>(rc, port, w). Some (port, w)) =
      Some (port', w')" for off
    by (metis bind.bind_lunit case_prod_conv)
  with conn show ?thesis
    by (auto simp: pm_read_port_state_def pm_read_module_state_def split: option.splits)
qed

end

lemma configure_hw_defined: "device_ready (module_device port) \<Longrightarrow> pm_configure_port E port w \<noteq> None"
  by (auto simp: pm_configure_port_def device_ready_def Let_def split: prod.splits)

interpretation hw: total_build "hw_build E" for E :: "('w, 'd, 'h) externals"
proof unfold_locales
  fix port port' :: pm_port_t and w w' :: 'w and buf buf' :: "byte list" and off and rc
  show "pm_port_t.truncate port' = pm_port_t.truncate port"
    if "configure_port (hw_build E) port w = Some (port', w')"
    using that by (auto simp: hw_build_def pm_configure_port_def Let_def bind_eq_Some_conv case_prod_beta
        split: option.splits if_splits)
  show "configure_port (hw_build E) port w \<noteq> None" if "device_ready (module_device port)"
    using configure_hw_defined [OF that] by (simp add: hw_build_def)
  show "get_presence (hw_build E) port w \<noteq> None" if "YamlPort.connector (module_device port) \<noteq> None"
    using that by (auto simp: hw_build_def pm_get_presence_def)
  show "length buf' = length buf" if "read_a0 (hw_build E) port buf off w = Some (rc, buf', w')"
    using that by (auto simp: hw_build_def pm_read_a0_def split: prod.splits)
  show "read_a0 (hw_build E) port buf off w \<noteq> None"
    by (simp add: hw_build_def pm_read_a0_def split: prod.splits)
qed

interpretation sim: build_contract sim_build
proof unfold_locales
  fix port port' :: pm_port_sim_t and w w' :: 'w and buf buf' :: "byte list" and off and rc
  show "pm_port_t.truncate port' = pm_port_t.truncate port"
    if "configure_port sim_build port w = Some (port', w')"
    using that by (auto simp: sim_build_def pm_configure_port_sim_def pm_configure_qsfp_sim_def
        pm_port_t.truncate_def split: option.splits if_splits)
  show "configure_port sim_build port w \<noteq> None" if "device_ready (module_device port)"
    using that by (auto simp: sim_build_def pm_configure_port_sim_def device_ready_def)
  show "get_presence sim_build port w \<noteq> None"
    by (simp add: sim_build_def pm_get_presence_sim_def)
  show "length buf' = length buf" if "read_a0 sim_build port buf off w = Some (rc, buf', w')"
    using that by (auto simp: sim_build_def pm_read_a0_sim_def split: option.splits if_splits)
qed

section \<open>What the module code does\<close>

text \<open>The \<open>i\<close>-th of a series of reads of one register, counted from 0.\<close>

definition nth_read ::
  "('w, 'd, 'h) externals \<Rightarrow> string \<Rightarrow> i2c_bit_op option \<Rightarrow> nat \<Rightarrow> 'w \<Rightarrow> int \<times> 32 word \<times> 'w" where
  "nth_read E sub reg_op i w = i2c_reg_read E sub reg_op (((\<lambda>w. snd (snd (i2c_reg_read E sub reg_op w))) ^^ i) w)"

lemma nth_read_Suc:
  "nth_read E sub reg_op (Suc i) w = nth_read E sub reg_op i (snd (snd (i2c_reg_read E sub reg_op w)))"
  by (simp only: nth_read_def funpow_Suc_right o_apply)

lemma presence_loop_eq:
  "presence_loop E sub reg_op n w =
     (case find (\<lambda>r. fst r = 0) (map (\<lambda>i. nth_read E sub reg_op i w) [0..<Suc n]) of
        None \<Rightarrow> (False, snd (snd (nth_read E sub reg_op n w)))
      | Some (rc, result, w') \<Rightarrow> (result \<noteq> 0, w'))"
proof (induction n arbitrary: w)
  case 0
  then show ?case by (simp add: nth_read_def split: prod.splits)
next
  case (Suc n)
  obtain rc result w1 where r: "i2c_reg_read E sub reg_op w = (rc, result, w1)" by (rule prod_cases3)
  have reads: "map (\<lambda>i. nth_read E sub reg_op i w) [0..<Suc (Suc n)] =
      (rc, result, w1) # map (\<lambda>i. nth_read E sub reg_op i w1) [0..<Suc n]"
    using r by (simp add: map_upt_Suc nth_read_Suc del: upt_Suc) (simp add: nth_read_def)
  have last_read: "nth_read E sub reg_op (Suc n) w = nth_read E sub reg_op n w1"
    by (simp add: nth_read_Suc r)
  show ?case
    unfolding reads last_read by (simp add: r Suc.IH del: upt_Suc)
qed

text \<open>
  C28. The presence register is read at most three times: the module counts as present when the
  first read that succeeds gives a value other than 0, and as absent when all three fail.
\<close>

theorem pm_get_presence_retries:
  assumes "YamlPort.connector (module_device port) = Some conn"
    and "(conn, reg_op) \<in> {(CONNECTOR_SFP_PLUS, sfpp_mod_present (module_device port)),
           (CONNECTOR_QSFP_PLUS, qsfpp_mod_present (module_device port)),
           (CONNECTOR_QSFP28, qsfp28p_mod_present (module_device port))}"
  shows "\<exists>w'. pm_get_presence E port w = Some
    (\<exists>i<3. (\<forall>j<i. fst (nth_read E (subsystem port) reg_op j w) \<noteq> 0) \<and>
      (\<exists>result w''. nth_read E (subsystem port) reg_op i w = (0, result, w'') \<and> result \<noteq> 0), w')"
proof -
  let ?r = "\<lambda>i. nth_read E (subsystem port) reg_op i w"
  obtain b w' where loop: "presence_loop E (subsystem port) reg_op 2 w = (b, w')" by (rule prod.exhaust)
  have "pm_get_presence E port w = Some (b, w')"
    using assms loop by (auto simp: pm_get_presence_def)
  moreover have "b \<longleftrightarrow> (\<exists>i<3. (\<forall>j<i. fst (?r j) \<noteq> 0) \<and> (\<exists>result w''. ?r i = (0, result, w'') \<and> result \<noteq> 0))"
  proof -
    have three: "(\<exists>i<3::nat. P i) \<longleftrightarrow> P 0 \<or> P 1 \<or> P 2" "[0..<Suc 2] = [0, 1, 2]" for P
      by (auto simp: numeral_eq_Suc less_Suc_eq)
    have two: "(\<forall>j<0::nat. P j) \<longleftrightarrow> True" "(\<forall>j<1::nat. P j) \<longleftrightarrow> P 0" "(\<forall>j<2::nat. P j) \<longleftrightarrow> P 0 \<and> P 1" for P
      by (auto simp: numeral_eq_Suc less_Suc_eq)
    show ?thesis
      using loop unfolding presence_loop_eq three two
      by (cases "?r 0"; cases "?r 1"; cases "?r 2") (auto split: if_splits)
  qed
  ultimately show ?thesis by simp
qed

lemma bit_subport_loop:
  "bit (subport_loop es idx data) i \<longleftrightarrow>
     bit data i \<or> i < 8 \<and> idx \<le> i \<and> i - idx < length es \<and> \<not> es ! (i - idx)"
proof (induction es arbitrary: idx data)
  case (Cons e es)
  show ?case unfolding subport_loop.simps Cons.IH
    by (cases "i = idx") (auto simp: bit_simps nth_Cons' Suc_diff_Suc not_less_eq_eq le_less)
qed simp

lemma disable_all_bits: "bit (0x0f :: byte) i \<longleftrightarrow> i < 4"
proof (cases "i < 8")
  case True
  have "\<forall>i<8. bit (0x0f :: byte) i \<longleftrightarrow> i < 4" unfolding less_8_cases by simp
  with True show ?thesis by simp
next
  case False
  then show ?thesis using bit_imp_le_length [of "0x0f :: byte" i] by auto
qed

text \<open>
  C27. The byte written to a QSFP module disables exactly the lanes that are not enabled: lane by lane
  for a split port, all four together otherwise; the four upper bits are 0.
\<close>

theorem qsfp_disable_bits_lanes:
  assumes "port_ok port"
  shows "bit (qsfp_disable_bits port) i \<longleftrightarrow>
    i < MAX_SPLIT_COUNT \<and> \<not> (if split port then hw_enable_subport port ! i else hw_enable port)"
  using assms
  by (auto simp: qsfp_disable_bits_def bit_subport_loop disable_all_bits port_ok_def MAX_SPLIT_COUNT_def
      simp del: bit_numeral_word_iff)

lemma pm_parse_known_rc:
  assumes "YamlPort.connector (module_device port) = Some conn"
    and "conn \<in> {CONNECTOR_SFP_PLUS, CONNECTOR_QSFP_PLUS, CONNECTOR_QSFP28}"
  shows "fst (pm_parse rodata page port) = 0"
  using assms by (auto simp: pm_parse_def module_type_of_def Let_def)

lemma parse_module_known:
  assumes "YamlPort.connector (module_device port) = Some conn"
    and "conn \<in> {CONNECTOR_SFP_PLUS, CONNECTOR_QSFP_PLUS, CONNECTOR_QSFP28}" "length page = 128"
  obtains port' where "parse_module E page port = Some port'" "present port'" "\<not> retry port'"
    "ovs_module_columns port' = ovs_module_columns (snd (snd (pm_parse (string_literal_tail E) page port)))"
    "optical port' = optical (snd (snd (pm_parse (string_literal_tail E) page port)))"
proof -
  obtain rc page1 port1 where parse: "pm_parse (string_literal_tail E) page port = (rc, page1, port1)"
    by (rule prod_cases3)
  have rc: "rc = 0" using pm_parse_known_rc [OF assms(1,2)] parse by (metis fst_conv)
  obtain port' where port': "parse_module E page port = Some port'"
    using parse_module_defined [of port page E] assms by auto
  then obtain b where "port' = port1\<lparr>present := True, retry := False, a2_read_requested := b\<rparr>"
    using parse rc by (auto simp: parse_module_def dest: set_a2_read_request_frame)
  with port' parse that show ?thesis by simp
qed

text \<open>
  C8. A port that has not been read yet takes whatever the bus delivers: its columns are the parse of the
  128 bytes at the serial id offset of its cage, it becomes present and needs no retry, whether or not
  the presence signal was set, the read succeeded or the checksum is right.
\<close>

theorem hw_detection:
  assumes "YamlPort.connector (module_device port) = Some conn"
    and "conn \<in> {CONNECTOR_SFP_PLUS, CONNECTOR_QSFP_PLUS, CONNECTOR_QSFP28}"
    and "\<not> present port \<or> retry port"
    and "pm_get_presence E port w = Some (detected, w1)"
    and "i2c_data_read E (yaml_find_device E w1 (subsystem port) (module_eeprom (module_device port)))
           (subsystem port) (if conn = CONNECTOR_SFP_PLUS then 0 else 128) (replicate 128 0) w1 = (rc, bytes, w2)"
    and "parsed = snd (snd (pm_parse (string_literal_tail E) (map bytes [0..<128]) port))"
  shows "\<exists>port'. pm_read_module_state E (hw_build E) port w = Some (0, port', w2) \<and>
    present port' \<and> \<not> retry port' \<and> port_config port' = port_config port \<and>
    ovs_module_columns port' = ovs_module_columns parsed \<and> optical port' = optical parsed"
proof -
  have len: "length (map bytes [0..<128]) = 128" by simp
  obtain port' where port': "parse_module E (map bytes [0..<128]) port = Some port'" "present port'" "\<not> retry port'"
    "ovs_module_columns port' = ovs_module_columns parsed" "optical port' = optical parsed"
    unfolding assms(6) by (rule parse_module_known [OF assms(1,2) len])
  have "read_module_from E (hw_build E) (if conn = CONNECTOR_SFP_PLUS then 0 else 128) 2 (replicate 128 0) port w =
      Some (0, port', w2)"
    using assms(3-5) port'(1) by (simp add: read_module_from_eq hw_build_def pm_read_a0_def Let_def)
  then have "pm_read_module_state E (hw_build E) port w = Some (0, port', w2)"
    using assms(1,2)
    by (auto simp: pm_read_module_state_def serial_id_offset_def SFP_SERIAL_ID_OFFSET_def
        QSFP_SERIAL_ID_OFFSET_def split: if_splits)
  with port' parse_module_frame(1) [OF port'(1) len] show ?thesis by blast
qed

text \<open>
  C15. Once a port counts as present it is never looked at again: whatever the presence signal says, the
  port keeps its columns and its marks, so that neither removal nor replacement of a module is noticed.
\<close>

theorem module_state_frozen:
  assumes "YamlPort.connector (module_device port) = Some conn"
    and "conn \<in> {CONNECTOR_SFP_PLUS, CONNECTOR_QSFP_PLUS, CONNECTOR_QSFP28}"
    and "present port" "\<not> retry port"
    and "pm_get_presence E port w = Some (detected, w1)"
  shows "pm_read_module_state E (hw_build E) port w = Some (0, port, w1)"
  using assms
  by (auto simp: pm_read_module_state_def serial_id_offset_def read_module_from_eq hw_build_def)

text \<open>What the bus reads leave alone: \<open>cfg\<close> stands for any part of the world that only writes change.\<close>

definition reads_keep :: "('w, 'd, 'h) externals \<Rightarrow> ('w \<Rightarrow> 'c) \<Rightarrow> bool" where
  "reads_keep E cfg \<longleftrightarrow>
     (\<forall>sub reg_op w. cfg (snd (snd (i2c_reg_read E sub reg_op w))) = cfg w) \<and>
     (\<forall>dev sub off buf w. cfg (snd (snd (i2c_data_read E dev sub off buf w))) = cfg w)"

lemma presence_loop_keeps:
  "reads_keep E cfg \<Longrightarrow> cfg (snd (presence_loop E sub reg_op n w)) = cfg w"
proof (induction n arbitrary: w)
  case 0
  then show ?case by (auto simp: reads_keep_def case_prod_beta)
next
  case (Suc n)
  have "cfg (snd (snd (i2c_reg_read E sub reg_op w))) = cfg w"
    using Suc.prems by (simp add: reads_keep_def)
  with Suc show ?case by (simp add: case_prod_beta)
qed

lemma read_state_keeps:
  assumes "reads_keep E cfg" "pm_read_port_state E (hw_build E) port w = Some (port', w')"
  shows "cfg w' = cfg w"
proof -
  have presence: "cfg w1 = cfg w0" if "pm_get_presence E port w0 = Some (b, w1)" for b w0 w1
    using that presence_loop_keeps [OF assms(1)]
    by (auto simp: pm_get_presence_def split: option.splits if_splits) (metis snd_conv)+
  have a0: "cfg w1 = cfg w0" if "pm_read_a0 E port buf off w0 = Some (rc, page, w1)" for buf off rc page w0 w1
    using that assms(1) by (auto simp: pm_read_a0_def reads_keep_def Let_def case_prod_beta)
  from assms(2) presence a0 show ?thesis
    by (auto simp: pm_read_port_state_def pm_read_module_state_def read_module_from_eq hw_build_def
        bind_eq_Some_conv split: option.splits if_splits)
qed

text \<open>
  C36. Reading a module keeps a port well-formed in both builds: its two numeric columns hold the decimal text of
  the number they read back as, it has one enable switch per lane, and its identity and configuration do not
  change.
\<close>

theorem port_types_kept:
  assumes "port_ok port" "pm_read_port_state E (hw_build E) port w = Some (port', w')"
    and "port_ok sport" "pm_read_port_state E sim_build sport v = Some (sport', v')"
  shows "port_ok port' \<and> port_config port' = port_config port \<and> port_ok sport' \<and> port_config sport' = port_config sport"
  using hw.read_state_frame [OF assms(2)] sim.read_state_frame [OF assms(4)] assms(1,3) by simp

section \<open>The theorems on the sample platform\<close>

theorem pm_get_presence_retries_witness:
  "\<exists>w'. pm_get_presence (sample_platform CONNECTOR_SFP_PLUS) (sample_port CONNECTOR_SFP_PLUS) (0, []) = Some (True, w')"
proof -
  let ?E = "sample_platform CONNECTOR_SFP_PLUS" and ?p = "sample_port CONNECTOR_SFP_PLUS"
  let ?r = "\<lambda>i. nth_read ?E (subsystem ?p) (sfpp_mod_present (module_device ?p)) i (0, [])"
  have "\<forall>j<1. fst (?r j) \<noteq> 0" "?r 1 = (0, 1, (2, []))"
    by (simp_all add: nth_read_def)
  then have "\<exists>i<3. (\<forall>j<i. fst (?r j) \<noteq> 0) \<and> (\<exists>result w''. ?r i = (0, result, w'') \<and> result \<noteq> 0)"
    by (intro exI [of _ 1]) simp
  with pm_get_presence_retries [of ?p CONNECTOR_SFP_PLUS _ ?E "(0, [])"] show ?thesis by simp
qed

theorem qsfp_disable_bits_lanes_witness: "bit (qsfp_disable_bits (sample_port CONNECTOR_QSFP28)) 3"
  using qsfp_disable_bits_lanes [of "sample_port CONNECTOR_QSFP28" 3]
  by (simp add: sample_port_def MAX_SPLIT_COUNT_def port_ok_def zero_module_columns_def)

theorem hw_detection_witness:
  "\<exists>port'. pm_read_module_state (sample_platform CONNECTOR_QSFP28) (hw_build (sample_platform CONNECTOR_QSFP28))
     (sample_port CONNECTOR_QSFP28) (0, []) = Some (0, port', (3, [])) \<and> present port' \<and> \<not> retry port'"
proof -
  let ?E = "sample_platform CONNECTOR_QSFP28" and ?p = "sample_port CONNECTOR_QSFP28"
  have presence: "pm_get_presence ?E ?p (0, []) = Some (True, (2, []))"
    by (simp add: pm_get_presence_def numeral_2_eq_2)
  have page: "i2c_data_read ?E dev sub off buf (2, []) = (0, (!) sample_page, (3, []))" for dev sub off buf
    by simp
  have absent: "\<not> present ?p \<or> retry ?p" by (simp add: sample_port_def)
  show ?thesis
    using hw_detection [of ?p CONNECTOR_QSFP28, OF _ _ absent presence page refl] by auto
qed

theorem module_state_frozen_witness:
  "pm_read_module_state (sample_platform CONNECTOR_SFP_PLUS) (hw_build (sample_platform CONNECTOR_SFP_PLUS))
     ((sample_port CONNECTOR_SFP_PLUS)\<lparr>present := True\<rparr>) (0, []) =
   Some (0, (sample_port CONNECTOR_SFP_PLUS)\<lparr>present := True\<rparr>, (2, []))"
proof -
  let ?E = "sample_platform CONNECTOR_SFP_PLUS" and ?p = "(sample_port CONNECTOR_SFP_PLUS)\<lparr>present := True\<rparr>"
  have "pm_get_presence ?E ?p (0, []) = Some (True, (2, []))"
    by (simp add: pm_get_presence_def numeral_2_eq_2)
  moreover have "\<not> retry ?p" by (simp add: sample_port_def)
  ultimately show ?thesis
    using module_state_frozen [of ?p CONNECTOR_SFP_PLUS ?E "(0, [])"] by simp
qed

definition sample_sim_port :: "byte list option \<Rightarrow> pm_port_sim_t" where
  "sample_sim_port m = pm_port_t.extend (sample_port CONNECTOR_SFP_PLUS) \<lparr>module_data = m, port_enable = 0\<rparr>"

theorem port_types_kept_witness:
  "\<exists>port' w' sport' v'.
     pm_read_port_state (sample_platform CONNECTOR_QSFP28) (hw_build (sample_platform CONNECTOR_QSFP28))
       (sample_port CONNECTOR_QSFP28) (0, []) = Some (port', w') \<and> port_ok port' \<and>
     pm_read_port_state (sample_platform CONNECTOR_QSFP28) sim_build (sample_sim_port (Some sample_page)) (0, []) =
       Some (sport', v') \<and> port_ok sport'"
proof -
  let ?E = "sample_platform CONNECTOR_QSFP28"
  have "YamlPort.connector (module_device (sample_port CONNECTOR_QSFP28)) \<noteq> None" by simp
  then obtain port' w' where hw_run: "pm_read_port_state ?E (hw_build ?E) (sample_port CONNECTOR_QSFP28) (0, []) = Some (port', w')"
    using hw.read_state_defined [of "sample_port CONNECTOR_QSFP28" ?E ?E "(0, [])"] by blast
  have conn: "YamlPort.connector (module_device (sample_sim_port (Some sample_page))) = Some CONNECTOR_SFP_PLUS"
    "module_data (sample_sim_port (Some sample_page)) = Some sample_page" "\<not> present (sample_sim_port (Some sample_page))"
    "port_ok (sample_sim_port (Some sample_page))"
    using sample_port_simps(4) [of CONNECTOR_SFP_PLUS]
    by (simp_all add: sample_sim_port_def pm_port_t.extend_def sample_port_def port_ok_def)
  then obtain p' where "parse_module ?E sample_page (sample_sim_port (Some sample_page)) = Some p'"
    using parse_module_defined [of "sample_sim_port (Some sample_page)" sample_page ?E] by auto
  with conn have sim_run: "pm_read_port_state ?E sim_build (sample_sim_port (Some sample_page)) (0, []) = Some (p', (0, []))"
    by (simp add: pm_read_port_state_def pm_read_module_state_def serial_id_offset_def read_module_from_eq sim_build_def
        pm_get_presence_sim_def pm_read_a0_sim_def)
  from port_types_kept [OF sample_port_simps(4) hw_run conn(4) sim_run] hw_run sim_run show ?thesis by blast
qed

end
