(* ===== verification/Config.thy ===== *)
theory Config
  imports Plug
begin

text \<open>
  \<^verbatim>\<open>src/config.c\<close>: the configuration handle, the search for the description of a port and the reading
  of the YAML files of a subsystem.
\<close>

definition pm_config_init :: "('w, 'd, 'h) externals \<Rightarrow> 'w \<Rightarrow> 'w" where
  "pm_config_init E w = yaml_new_config_handle E w"

function yaml_port_loop ::
  "('w, 'd, 'h) externals \<Rightarrow> 'w \<Rightarrow> string \<Rightarrow> string \<Rightarrow> nat \<Rightarrow> nat \<Rightarrow> YamlPort option" where
  "yaml_port_loop E w sub inst cnt idx =
     (if idx < cnt then
        (let yaml_port = yaml_get_port E w sub idx in
         if YamlPort.name yaml_port = inst then Some yaml_port
         else yaml_port_loop E w sub inst cnt (idx + 1))
      else None)"
  by pat_completeness auto
termination
  by (relation "measure (\<lambda>(E, w, sub, inst, cnt, idx). cnt - idx)") auto

declare yaml_port_loop.simps [simp del]

definition pm_get_yaml_port :: "('w, 'd, 'h) externals \<Rightarrow> 'w \<Rightarrow> string \<Rightarrow> string \<Rightarrow> YamlPort option" where
  "pm_get_yaml_port E w sub inst = yaml_port_loop E w sub inst (yaml_get_port_count E w sub) 0"

definition pm_read_yaml_files :: "('w, 'd, 'h) externals \<Rightarrow> ovsrec_subsystem \<Rightarrow> 'w \<Rightarrow> int \<times> 'w" where
  "pm_read_yaml_files E subsys w =
     (let (rc, w) = yaml_add_subsystem E (subsys_name subsys) (hw_desc_dir subsys) w in
      if rc \<noteq> 0 then (rc, w)
      else let (rc, w) = yaml_parse_devices E (subsys_name subsys) w in
      if rc \<noteq> 0 then (rc, w)
      else let (rc, w) = yaml_parse_ports E (subsys_name subsys) w in
      if rc \<noteq> 0 then (rc, w)
      else (rc, yaml_init_devices E (subsys_name subsys) w))"

section \<open>The search finds the first description of that name\<close>

lemma yaml_port_loop_eq:
  "yaml_port_loop E w sub inst cnt idx =
     find (\<lambda>y. YamlPort.name y = inst) (map (yaml_get_port E w sub) [idx..<cnt])"
proof (induction E w sub inst cnt idx rule: yaml_port_loop.induct)
  case (1 E w sub inst cnt idx)
  then show ?case
    by (subst yaml_port_loop.simps) (auto simp: upt_conv_Cons Let_def)
qed

lemma pm_get_yaml_port_eq:
  "pm_get_yaml_port E w sub inst =
     find (\<lambda>y. YamlPort.name y = inst) (map (yaml_get_port E w sub) [0..<yaml_get_port_count E w sub])"
  by (simp add: pm_get_yaml_port_def yaml_port_loop_eq)

lemma pm_get_yaml_port_ready:
  assumes "yaml_laws E" "pm_get_yaml_port E w sub inst = Some y" "pluggable y"
  shows "device_ready y" "YamlPort.name y = inst"
proof -
  obtain i where "i < yaml_get_port_count E w sub" "y = yaml_get_port E w sub i" "YamlPort.name y = inst"
    using assms(2) by (auto simp: pm_get_yaml_port_eq find_Some_iff)
  with assms(1,3) show "device_ready y" "YamlPort.name y = inst" by (auto simp: yaml_laws_def)
qed

text \<open>
  C37. The search returns the first description of the subsystem with that name, and NULL exactly when none has
  it.
\<close>

theorem pm_get_yaml_port_first:
  "pm_get_yaml_port E w sub inst =
     (if \<exists>i<yaml_get_port_count E w sub. YamlPort.name (yaml_get_port E w sub i) = inst
      then Some (yaml_get_port E w sub (LEAST i. YamlPort.name (yaml_get_port E w sub i) = inst)) else None)"
proof (cases "pm_get_yaml_port E w sub inst")
  case None
  then show ?thesis by (auto simp: pm_get_yaml_port_eq find_None_iff)
next
  case (Some y)
  then obtain i where i: "i < yaml_get_port_count E w sub" "y = yaml_get_port E w sub i" "YamlPort.name y = inst"
    "\<forall>j<i. YamlPort.name (yaml_get_port E w sub j) \<noteq> inst"
    by (auto simp: pm_get_yaml_port_eq find_Some_iff)
  then have "(LEAST i. YamlPort.name (yaml_get_port E w sub i) = inst) = i"
    by (intro Least_equality) (auto simp: not_less [symmetric])
  with Some i show ?thesis by auto
qed

end
