(* ===== verification/Ovsdb_Access.thy ===== *)
theory Ovsdb_Access
  imports Config
begin

text \<open>
  \<^verbatim>\<open>src/ovsdb_access.c\<close>: the daemon's mirror of the interfaces and subsystems of the database, the
  configuration of the ports from it and the publication of the module data into it. Log messages have no
  state in the model.
\<close>

section \<open>Interfaces\<close>

definition ovsdb_if_intf_get_hw_enable :: "('w, 'd, 'h) externals \<Rightarrow> ovsrec_interface \<Rightarrow> bool" where
  "ovsdb_if_intf_get_hw_enable E intf =
     (case hw_intf_config intf (MAP_ENABLE E) of
        None \<Rightarrow> False
      | Some v \<Rightarrow> MAP_ENABLE_TRUE E = v)"

text \<open>The port that \<open>calloc\<close> and the assignments after it make.\<close>

definition new_port ::
  "('w, 'd, 'h) externals \<Rightarrow> ('w, 'z) build \<Rightarrow> ovsrec_interface \<Rightarrow> string \<Rightarrow> YamlPort \<Rightarrow> 'z pm_port_t_scheme" where
  "new_port E B intf sub_name yaml_port =
     \<lparr>port_instance = intf_name intf, uuid = intf_uuid intf, module_device = yaml_port, subsystem = sub_name,
      ovs_module_columns = zero_module_columns, ovs_module_dom_columns = zero_module_dom_columns,
      module_info_changed = False, hw_enable = ovsdb_if_intf_get_hw_enable E intf,
      hw_enable_subport = replicate MAX_SPLIT_COUNT False, present = False, retry = False,
      a2_read_requested = False, split = False, optical = False, \<dots> = zero_fields B\<rparr>"

definition ovsdb_if_intf_create ::
  "('w, 'd, 'h) externals \<Rightarrow> ('w, 'z) build \<Rightarrow> ovsrec_interface \<Rightarrow> string \<Rightarrow>
   ('w, 'h, 'z) pmd_state \<Rightarrow> ('w, 'h, 'z) pmd_state option" where
  "ovsdb_if_intf_create E B intf sub_name st =
     (case pm_get_yaml_port E (world st) sub_name (intf_name intf) of
        None \<Rightarrow> Some st
      | Some yaml_port \<Rightarrow>
          if \<not> pluggable yaml_port then Some st
          else do {
            let a = next_addr st;
            let st = st\<lparr>ports := (ports st)(a \<mapsto> new_port E B intf sub_name yaml_port), next_addr := a + 1\<rparr>;
            let st = st\<lparr>ovs_intfs := shash_add E (ovs_intfs st) (intf_name intf) a\<rparr>;
            st \<leftarrow> on_port (configure_port B) a st;
            on_port (\<lambda>port w. do { w \<leftarrow> pm_clear_reset E port w; Some (port, w) }) a st })"

definition ovsdb_if_intf_modify ::
  "('w, 'd, 'h) externals \<Rightarrow> ('w, 'z) build \<Rightarrow> ovsrec_interface \<Rightarrow> nat \<Rightarrow>
   ('w, 'h, 'z) pmd_state \<Rightarrow> ('w, 'h, 'z) pmd_state option" where
  "ovsdb_if_intf_modify E B intf a st =
     on_port (\<lambda>port w.
       let enable = ovsdb_if_intf_get_hw_enable E intf in
       if hw_enable port \<noteq> enable then configure_port B (port\<lparr>hw_enable := enable\<rparr>) w
       else Some (port, w)) a st"

definition ovsdb_if_intf_configure ::
  "('w, 'd, 'h) externals \<Rightarrow> ('w, 'z) build \<Rightarrow> ovsrec_interface \<Rightarrow>
   ('w, 'h, 'z) pmd_state \<Rightarrow> ('w, 'h, 'z) pmd_state option" where
  "ovsdb_if_intf_configure E B intf st =
     (case shash_find E (ovs_intfs st) (intf_name intf) of
        None \<Rightarrow> Some st
      | Some node \<Rightarrow> configure_at B (snd node) st)"

section \<open>Subsystems\<close>

definition create_missing_intf ::
  "('w, 'd, 'h) externals \<Rightarrow> ('w, 'z) build \<Rightarrow> string \<Rightarrow> ovsrec_interface \<Rightarrow>
   ('w, 'h, 'z) pmd_state \<Rightarrow> ('w, 'h, 'z) pmd_state option" where
  "create_missing_intf E B sub_name intf st =
     (case shash_find E (ovs_intfs st) (intf_name intf) of
        None \<Rightarrow> ovsdb_if_intf_create E B intf sub_name st
      | Some node \<Rightarrow> Some st)"

definition add_subsystem ::
  "('w, 'd, 'h) externals \<Rightarrow> ovsrec_subsystem \<Rightarrow> ('w, 'h, 'z) pmd_state \<Rightarrow> ('w, 'h, 'z) pmd_state" where
  "add_subsystem E ovs_sub st =
     (let a = next_addr st;
          st = st\<lparr>uuids := (uuids st)(a \<mapsto> subsys_uuid ovs_sub), next_addr := a + 1\<rparr>
      in st\<lparr>ovs_subs := shash_add E (ovs_subs st) (subsys_name ovs_sub) a\<rparr>)"

definition ovsdb_if_subsys_process ::
  "('w, 'd, 'h) externals \<Rightarrow> ('w, 'z) build \<Rightarrow> ovsrec_subsystem \<Rightarrow>
   ('w, 'h, 'z) pmd_state \<Rightarrow> ('w, 'h, 'z) pmd_state option" where
  "ovsdb_if_subsys_process E B ovs_sub st =
     (let create_all = for_each (create_missing_intf E B (subsys_name ovs_sub)) (subsys_interfaces ovs_sub) in
      case shash_find E (ovs_subs st) (subsys_name ovs_sub) of
        None \<Rightarrow>
          (let st = add_subsystem E ovs_sub st;
               (rc, w) = pm_read_yaml_files E ovs_sub (world st);
               st = st\<lparr>world := w\<rparr>
           in if rc \<noteq> 0 then Some st else create_all st)
      | Some node \<Rightarrow> create_all st)"

section \<open>Publication\<close>

text \<open>
  The pairs the source adds to \<open>pm_info\<close>, in its order. All other columns, the diagnostics among them,
  are commented out in the source. Two statements between them are live and have no effect on the row: \<^verbatim>\<open>module_dom\<close> is
  pointed at the diagnostics columns of the port, and what is left of the last diagnostics column tests this pointer
  before an empty statement.
\<close>

definition pm_info_of :: "('w, 'd, 'h) externals \<Rightarrow> ovs_module_info \<Rightarrow> (string \<times> string) list" where
  "pm_info_of E m =
     (case ovs_module_info.connector m of None \<Rightarrow> [] | Some c \<Rightarrow> [(''connector'', connector_string E c)]) @
     (case connector_status m of None \<Rightarrow> [] | Some c \<Rightarrow> [(''connector_status'', connector_status_string E c)]) @
     (case supported_speeds m of None \<Rightarrow> [] | Some s \<Rightarrow> [(''supported_speeds'', s)]) @
     (case max_speed m of None \<Rightarrow> [] | Some s \<Rightarrow> [(''max_speed'', s)])"

definition update_intf ::
  "('w, 'd, 'h) externals \<Rightarrow> ovsdb_idl \<Rightarrow> string \<times> nat \<Rightarrow>
   db_write list \<times> ('w, 'h, 'z) pmd_state \<Rightarrow> (db_write list \<times> ('w, 'h, 'z) pmd_state) option" where
  "update_intf E idl node = (\<lambda>(txn, st).
     if snd node = 0 then Some (txn, st)
     else do {
       port \<leftarrow> ports st (snd node);
       (case ovsrec_interface_get_for_uuid idl (uuid port) of
          None \<Rightarrow> Some (txn, st)
        | Some intf \<Rightarrow>
            if \<not> module_info_changed port then Some (txn, st)
            else Some (txn @ [Set_pm_info (intf_uuid intf) (pm_info_of E (ovs_module_columns port))],
                   st\<lparr>ports := (ports st)(snd node \<mapsto> port\<lparr>module_info_changed := False\<rparr>)\<rparr>)) })"

definition NAME_IN_DAEMON_TABLE :: string where "NAME_IN_DAEMON_TABLE = ''ops-pmd''"

definition set_cur_hw :: "ovsdb_idl \<Rightarrow> db_write list \<times> ('w, 'h, 'z) pmd_state \<Rightarrow> db_write list \<times> ('w, 'h, 'z) pmd_state" where
  "set_cur_hw idl = (\<lambda>(txn, st).
     if \<not> cur_hw_set st then
       (case find (\<lambda>d. daemon_name d = NAME_IN_DAEMON_TABLE) (idl_daemons idl) of
          None \<Rightarrow> (txn, st)
        | Some d \<Rightarrow> (txn @ [Set_cur_hw (daemon_name d) 1], st\<lparr>cur_hw_set := True\<rparr>))
     else (txn, st))"

definition pm_ovsdb_update ::
  "('w, 'd, 'h) externals \<Rightarrow> ovsdb_idl \<Rightarrow> ('w, 'h, 'z) pmd_state \<Rightarrow> ('w, 'h, 'z) pmd_state option" where
  "pm_ovsdb_update E idl st = do {
     r \<leftarrow> for_each (update_intf E idl) (shash_nodes E (ovs_intfs st)) ([], st);
     let (txn, st) = set_cur_hw idl r;
     Some (st\<lparr>committed := committed st @ [txn]\<rparr>) }"

section \<open>Reconfiguration\<close>

text \<open>\<open>pm_delete_all_data\<close> releases the column texts; the block is gone afterwards.\<close>

definition pmd_free_pm_port :: "nat \<Rightarrow> ('w, 'h, 'z) pmd_state \<Rightarrow> ('w, 'h, 'z) pmd_state option" where
  "pmd_free_pm_port a st = do {
     port \<leftarrow> ports st a;
     let port = pm_delete_all_data port;
     Some (st\<lparr>ports := (ports st)(a := None)\<rparr>) }"

definition remove_deleted_intf ::
  "('w, 'd, 'h) externals \<Rightarrow> ovsdb_idl \<Rightarrow> string \<times> nat \<Rightarrow>
   ('w, 'h, 'z) pmd_state \<Rightarrow> ('w, 'h, 'z) pmd_state option" where
  "remove_deleted_intf E idl node st = do {
     port \<leftarrow> ports st (snd node);
     (case ovsrec_interface_get_for_uuid idl (uuid port) of
        Some intf \<Rightarrow> Some st
      | None \<Rightarrow> do {
          delete_node \<leftarrow> shash_find E (ovs_intfs st) (port_instance port);
          let st = st\<lparr>ovs_intfs := shash_delete E (ovs_intfs st) delete_node\<rparr>;
          pmd_free_pm_port (snd delete_node) st }) }"

definition remove_deleted_subsys ::
  "('w, 'd, 'h) externals \<Rightarrow> ovsdb_idl \<Rightarrow> string \<times> nat \<Rightarrow>
   ('w, 'h, 'z) pmd_state \<Rightarrow> ('w, 'h, 'z) pmd_state option" where
  "remove_deleted_subsys E idl node st = do {
     u \<leftarrow> uuids st (snd node);
     (case ovsrec_subsystem_get_for_uuid idl u of
        Some sub \<Rightarrow> Some st
      | None \<Rightarrow> do {
          delete_node \<leftarrow> shash_find E (ovs_subs st) (fst node);
          let st = st\<lparr>ovs_subs := shash_delete E (ovs_subs st) delete_node\<rparr>;
          Some (st\<lparr>uuids := (uuids st)(snd node := None)\<rparr>) }) }"

definition modify_intf ::
  "('w, 'd, 'h) externals \<Rightarrow> ('w, 'z) build \<Rightarrow> ovsrec_interface \<Rightarrow>
   ('w, 'h, 'z) pmd_state \<Rightarrow> ('w, 'h, 'z) pmd_state option" where
  "modify_intf E B intf st =
     (case shash_find E (ovs_intfs st) (intf_name intf) of
        None \<Rightarrow> Some st
      | Some node \<Rightarrow> ovsdb_if_intf_modify E B intf (snd node) st)"

definition pmd_reconfigure ::
  "('w, 'd, 'h) externals \<Rightarrow> ('w, 'z) build \<Rightarrow> ovsdb_idl \<Rightarrow>
   ('w, 'h, 'z) pmd_state \<Rightarrow> ('w, 'h, 'z) pmd_state option" where
  "pmd_reconfigure E B idl st =
     (if idl_get_seqno idl = idl_seqno st then Some st
      else do {
        let st = st\<lparr>idl_seqno := idl_get_seqno idl\<rparr>;
        st \<leftarrow> for_each (remove_deleted_intf E idl) (shash_nodes E (ovs_intfs st)) st;
        st \<leftarrow> for_each (remove_deleted_subsys E idl) (shash_nodes E (ovs_subs st)) st;
        st \<leftarrow> for_each (ovsdb_if_subsys_process E B) (idl_subsystems idl) st;
        for_each (modify_intf E B) (idl_interfaces idl) st })"

section \<open>Start\<close>

definition pmd_configure ::
  "('w, 'd, 'h) externals \<Rightarrow> ('w, 'z) build \<Rightarrow> ovsdb_idl \<Rightarrow>
   ('w, 'h, 'z) pmd_state \<Rightarrow> ('w, 'h, 'z) pmd_state option" where
  "pmd_configure E B idl st = do {
     st \<leftarrow> for_each (ovsdb_if_subsys_process E B) (idl_subsystems idl) st;
     for_each (ovsdb_if_intf_configure E B) (idl_interfaces idl) st }"

definition pm_daemon_subscribe :: "('w, 'h, 'z) pmd_state \<Rightarrow> ('w, 'h, 'z) pmd_state" where
  "pm_daemon_subscribe st = st\<lparr>idl_calls := idl_calls st @
     [Idl_add_table ''daemon'', Idl_add_column ''daemon'' ''name'', Idl_add_column ''daemon'' ''cur_hw'',
      Idl_omit_alert ''daemon'' ''cur_hw'']\<rparr>"

definition pm_intf_subscribe :: "('w, 'd, 'h) externals \<Rightarrow> ('w, 'h, 'z) pmd_state \<Rightarrow> ('w, 'h, 'z) pmd_state" where
  "pm_intf_subscribe E st =
     (let st = st\<lparr>ovs_intfs := shash_init E\<rparr>
      in st\<lparr>idl_calls := idl_calls st @
          [Idl_add_table ''interface'', Idl_add_column ''interface'' ''name'', Idl_add_column ''interface'' ''pm_info'',
           Idl_omit_alert ''interface'' ''pm_info'', Idl_add_column ''interface'' ''hw_intf_config'']\<rparr>)"

definition pm_subsystem_subscribe :: "('w, 'd, 'h) externals \<Rightarrow> ('w, 'h, 'z) pmd_state \<Rightarrow> ('w, 'h, 'z) pmd_state" where
  "pm_subsystem_subscribe E st =
     (let st = st\<lparr>ovs_subs := shash_init E\<rparr>
      in st\<lparr>idl_calls := idl_calls st @
          [Idl_add_table ''subsystem'', Idl_add_column ''subsystem'' ''name'',
           Idl_add_column ''subsystem'' ''hw_desc_dir'', Idl_add_column ''subsystem'' ''interfaces'']\<rparr>)"

definition pm_ovsdb_if_init ::
  "('w, 'd, 'h) externals \<Rightarrow> ('w, 'z) build \<Rightarrow> ovsdb_idl \<Rightarrow>
   ('w, 'h, 'z) pmd_state \<Rightarrow> ('w, 'h, 'z) pmd_state option" where
  "pm_ovsdb_if_init E B idl st = (
     let st = st\<lparr>idl_calls := []\<rparr>;
         st = st\<lparr>idl_seqno := idl_get_seqno idl\<rparr>;
         st = st\<lparr>idl_calls := idl_calls st @ [Idl_set_lock ''ops_pmd'', Idl_verify_write_only]\<rparr>;
         st = pm_subsystem_subscribe E st;
         st = pm_intf_subscribe E st;
         st = pm_daemon_subscribe st
     in pmd_configure E B idl st)"

section \<open>Debug output\<close>

definition dump_column :: "string \<Rightarrow> string option \<Rightarrow> string" where
  "dump_column label v = (case v of None \<Rightarrow> '''' | Some s \<Rightarrow> ''    '' @ label @ '' = '' @ s @ ''\<newline>'')"

definition pm_interface_dump :: "('w, 'd, 'h) externals \<Rightarrow> 'z pm_port_t_scheme \<Rightarrow> string" where
  "pm_interface_dump E port = (
     let m = ovs_module_columns port in
     ''Pluggable info for Interface '' @ port_instance port @ '':\<newline>'' @
     dump_column ''cable_length          '' (cable_length m) @
     dump_column ''cable_technology      '' (map_option (cable_technology_string E) (cable_technology m)) @
     dump_column ''connector             '' (map_option (connector_string E) (ovs_module_info.connector m)) @
     dump_column ''connector_status      '' (map_option (connector_status_string E) (connector_status m)) @
     dump_column ''supported_speeds      '' (supported_speeds m) @
     dump_column ''max_speed             '' (max_speed m) @
     dump_column ''power_mode            '' (power_mode m) @
     dump_column ''vendor_name           '' (ovs_module_info.vendor_name m) @
     dump_column ''vendor_oui            '' (ovs_module_info.vendor_oui m) @
     dump_column ''vendor_part_number    '' (ovs_module_info.vendor_part_number m) @
     dump_column ''vendor_revision       '' (ovs_module_info.vendor_revision m) @
     dump_column ''vendor_serial_number  '' (ovs_module_info.vendor_serial_number m))"

definition dump_node ::
  "('w, 'd, 'h) externals \<Rightarrow> ('w, 'h, 'z) pmd_state \<Rightarrow> string \<times> nat \<Rightarrow> string \<Rightarrow> string option" where
  "dump_node E st node ds =
     (if snd node = 0 then Some ds
      else do { port \<leftarrow> ports st (snd node); Some (ds @ pm_interface_dump E port) })"

definition pm_interfaces_dump ::
  "('w, 'd, 'h) externals \<Rightarrow> string list \<Rightarrow> ('w, 'h, 'z) pmd_state \<Rightarrow> string option" where
  "pm_interfaces_dump E argv st =
     (if length argv > 2 then
        (case shash_find E (ovs_intfs st) (argv ! 2) of
           None \<Rightarrow> Some ''''
         | Some node \<Rightarrow> dump_node E st node '''')
      else for_each (dump_node E st) (shash_nodes E (ovs_intfs st))
             ''================ Interfaces ================\<newline>'')"

definition pm_debug_dump ::
  "('w, 'd, 'h) externals \<Rightarrow> string list \<Rightarrow> ('w, 'h, 'z) pmd_state \<Rightarrow> string option" where
  "pm_debug_dump E argv st =
     (if length argv > 1 then
        (if argv ! 1 = ''interface'' then pm_interfaces_dump E argv st else Some '''')
      else pm_interfaces_dump E [] st)"

end
