(* ===== verification/Ovsdb_State.thy ===== *)
theory Ovsdb_State
  imports Ovsdb_Access
begin

text \<open>
  The invariant of the daemon's tables and heap, the abstract state it allows (the ports by their names),
  and passes over all ports.
\<close>

section \<open>The invariant\<close>

text \<open>
  The two tables have distinct names and distinct data pointers; the heap holds exactly the blocks the
  tables point to, so that no pointer dangles and no block is lost; every port has the property \<open>P\<close> under the name it
  is filed under. In a state that is \<open>state_ok\<close> it is filed under its own name, is pluggable and its description names
  all that is needed to drive it.
\<close>

definition port_good :: "string \<Rightarrow> 'z pm_port_t_scheme \<Rightarrow> bool" where
  "port_good k port \<longleftrightarrow>
     port_instance port = k \<and> pluggable (module_device port) \<and> device_ready (module_device port) \<and> port_ok port"

definition state_with ::
  "(string \<Rightarrow> 'z pm_port_t_scheme \<Rightarrow> bool) \<Rightarrow> ('w, 'd, 'h) externals \<Rightarrow> ('w, 'h, 'z) pmd_state \<Rightarrow> bool" where
  "state_with P E st \<longleftrightarrow>
     table_ok E (ovs_intfs st) \<and> table_ok E (ovs_subs st) \<and> 0 < next_addr st \<and>
     dom (ports st) = ran (table E (ovs_intfs st)) \<and> dom (uuids st) = ran (table E (ovs_subs st)) \<and>
     (\<forall>k a. table E (ovs_intfs st) k = Some a \<longrightarrow>
        0 < a \<and> a < next_addr st \<and> (\<exists>port. ports st a = Some port \<and> P k port)) \<and>
     (\<forall>k a. table E (ovs_subs st) k = Some a \<longrightarrow> 0 < a \<and> a < next_addr st)"

abbreviation state_ok :: "('w, 'd, 'h) externals \<Rightarrow> ('w, 'h, 'z) pmd_state \<Rightarrow> bool" where
  "state_ok \<equiv> state_with port_good"

text \<open>The abstract state: the ports by their names.\<close>

definition port_of :: "('w, 'd, 'h) externals \<Rightarrow> ('w, 'h, 'z) pmd_state \<Rightarrow> string \<rightharpoonup> 'z pm_port_t_scheme" where
  "port_of E st k = (case table E (ovs_intfs st) k of None \<Rightarrow> None | Some a \<Rightarrow> ports st a)"

lemma state_ok_port:
  assumes "state_with P E st" "table E (ovs_intfs st) k = Some a"
  obtains port where "ports st a = Some port" "port_of E st k = Some port" "P k port"
    "0 < a" "a < next_addr st"
proof -
  have "0 < a \<and> a < next_addr st \<and> (\<exists>port. ports st a = Some port \<and> P k port)"
    using assms unfolding state_with_def by blast
  with assms(2) that show ?thesis by (auto simp: port_of_def)
qed

lemma port_of_None: "state_with P E st \<Longrightarrow> port_of E st k = None \<longleftrightarrow> table E (ovs_intfs st) k = None"
  by (cases "table E (ovs_intfs st) k") (auto simp: port_of_def elim: state_ok_port)

lemma dom_port_of: "state_with P E st \<Longrightarrow> dom (port_of E st) = dom (table E (ovs_intfs st))"
  by (simp add: dom_def port_of_None)

lemma port_of_SomeD:
  assumes "state_with P E st" "port_of E st k = Some port"
  obtains a where "table E (ovs_intfs st) k = Some a" "ports st a = Some port" "P k port" "0 < a"
proof (cases "table E (ovs_intfs st) k")
  case (Some a)
  with assms(1) obtain port' where "ports st a = Some port'" "port_of E st k = Some port'" "P k port'" "0 < a"
    by (rule state_ok_port)
  with Some assms(2) that show ?thesis by simp
qed (use assms(2) in \<open>simp add: port_of_def\<close>)

lemma port_of_cong:
  assumes "ovs_intfs st' = ovs_intfs st" "ports st' = ports st"
  shows "port_of E st' = port_of E st"
  unfolding port_of_def assms ..

lemma truncate_eqD:
  assumes "pm_port_t.truncate p = pm_port_t.truncate q"
  shows "port_instance p = port_instance q" "uuid p = uuid q" "module_device p = module_device q"
    "subsystem p = subsystem q" "ovs_module_columns p = ovs_module_columns q"
    "ovs_module_dom_columns p = ovs_module_dom_columns q" "module_info_changed p = module_info_changed q"
    "hw_enable p = hw_enable q" "hw_enable_subport p = hw_enable_subport q" "present p = present q"
    "retry p = retry q" "a2_read_requested p = a2_read_requested q" "split p = split q" "optical p = optical q"
  using assms by (simp_all add: pm_port_t.truncate_def)

lemma port_good_truncate:
  assumes "pm_port_t.truncate p = pm_port_t.truncate q"
  shows "port_good k p = port_good k q"
  unfolding port_good_def port_ok_def truncate_eqD [OF assms] ..

section \<open>Loops with an invariant over what is left\<close>

lemma for_each_suffix:
  assumes "I xs st" "\<And>x xs st. I (x # xs) st \<Longrightarrow> \<exists>st'. f x st = Some st' \<and> I xs st'"
  shows "\<exists>st'. for_each f xs st = Some st' \<and> I [] st'"
  using assms(1)
proof (induction xs arbitrary: st)
  case (Cons x xs)
  then obtain st1 where "f x st = Some st1" "I xs st1" using assms(2) by blast
  with Cons.IH [of st1] show ?case by simp
qed simp

section \<open>Changing one port\<close>

lemma put_port_state:
  assumes ok: "state_with P E st" and a: "table E (ovs_intfs st) k = Some a" and good: "P k p'"
  shows "state_with P E (st\<lparr>ports := (ports st)(a \<mapsto> p'), world := w'\<rparr>)"
    and "port_of E (st\<lparr>ports := (ports st)(a \<mapsto> p'), world := w'\<rparr>) = (port_of E st)(k \<mapsto> p')"
proof -
  have tab: "table_ok E (ovs_intfs st)" using ok by (simp add: state_with_def)
  have only: "k' = k" if "table E (ovs_intfs st) k' = Some a" for k'
    using table_inj [OF tab that a] .
  have "a \<in> dom (ports st)" using ok a by (auto simp: state_with_def intro: ranI)
  then have "insert a (dom (ports st)) = dom (ports st)" by blast
  moreover have "0 < b \<and> b < next_addr st \<and> (\<exists>port. ((ports st)(a \<mapsto> p')) b = Some port \<and> P k' port)"
    if "table E (ovs_intfs st) k' = Some b" for k' b
    by (rule state_ok_port [OF ok that]) (use only [of k'] good that in \<open>cases "b = a"; auto\<close>)
  ultimately show "state_with P E (st\<lparr>ports := (ports st)(a \<mapsto> p'), world := w'\<rparr>)"
    using ok by (simp add: state_with_def)
  show "port_of E (st\<lparr>ports := (ports st)(a \<mapsto> p'), world := w'\<rparr>) = (port_of E st)(k \<mapsto> p')"
  proof
    fix k'
    show "port_of E (st\<lparr>ports := (ports st)(a \<mapsto> p'), world := w'\<rparr>) k' = ((port_of E st)(k \<mapsto> p')) k'"
    proof (cases "k' = k")
      case False
      then have "table E (ovs_intfs st) k' \<noteq> Some a" using only by blast
      with False show ?thesis by (simp add: port_of_def split: option.splits)
    qed (simp add: port_of_def a)
  qed
qed

lemma on_port_state:
  assumes "state_with P E st" "table E (ovs_intfs st) k = Some a" "port_of E st k = Some p"
    and "f p (world st) = Some (p', w')" "P k p'"
  obtains st' where "on_port f a st = Some st'" "state_with P E st'" "port_of E st' = (port_of E st)(k \<mapsto> p')"
    "ovs_intfs st' = ovs_intfs st" "idl_seqno st' = idl_seqno st" "world st' = w'"
    "ovs_subs st' = ovs_subs st" "committed st' = committed st" "uuids st' = uuids st"
proof -
  have "ports st a = Some p" using assms(2,3) by (simp add: port_of_def)
  then have "on_port f a st = Some (st\<lparr>ports := (ports st)(a \<mapsto> p'), world := w'\<rparr>)"
    using assms(4) by (simp add: on_port_def)
  then show ?thesis
    by (rule that) (simp_all add: put_port_state [OF assms(1,2,5)])
qed

section \<open>Loops over all ports\<close>

text \<open>
  A pass over the table that changes each port on its own, by a step that is defined and keeps the
  property of the ports: the state stays sound, every port \<open>p\<close> becomes some \<open>p'\<close> with \<open>R p p'\<close>, and nothing but the ports
  and the world changes.
\<close>

definition same_frame :: "('w, 'h, 'z) pmd_state \<Rightarrow> ('w, 'h, 'z) pmd_state \<Rightarrow> bool" where
  "same_frame st st' \<longleftrightarrow>
     ovs_intfs st' = ovs_intfs st \<and> ovs_subs st' = ovs_subs st \<and> uuids st' = uuids st \<and>
     idl_seqno st' = idl_seqno st \<and> committed st' = committed st"

lemma nodes_table:
  "state_with P E st \<Longrightarrow> node \<in> set (shash_nodes E (ovs_intfs st)) \<Longrightarrow> table E (ovs_intfs st) (fst node) = Some (snd node)"
  by (cases node) (simp add: state_with_def table_nodes)

lemma distinct_names: "state_with P E st \<Longrightarrow> distinct (map fst (shash_nodes E (ovs_intfs st)))"
  by (simp add: state_with_def table_ok_def)

lemma each_port_pass:
  fixes E :: "('w, 'd, 'h) externals" and st :: "('w, 'h, 'z) pmd_state"
  assumes ok: "state_with P E st"
    and step: "\<And>k port w. P k port \<Longrightarrow> port_of E st k = Some port \<Longrightarrow>
      \<exists>port' w'. f port w = Some (port', w') \<and> P k port' \<and> R port port'"
    and node: "\<And>node st. 0 < snd node \<Longrightarrow> g node st = on_port f (snd node) st"
  obtains st' where "for_each g (shash_nodes E (ovs_intfs st)) st = Some st'" "state_with P E st'" "same_frame st st'"
    "\<And>k. rel_option R (port_of E st k) (port_of E st' k)"
proof -
  let ?nodes = "shash_nodes E (ovs_intfs st)"
  define I where "I xs st' \<longleftrightarrow> state_with P E st' \<and> same_frame st st' \<and> distinct (map fst xs) \<and> set xs \<subseteq> set ?nodes \<and>
      (\<forall>k. if k \<in> fst ` set xs then port_of E st' k = port_of E st k
           else rel_option R (port_of E st k) (port_of E st' k))"
    for xs and st' :: "('w, 'h, 'z) pmd_state"
  have "\<exists>st'. for_each g ?nodes st = Some st' \<and> I [] st'"
  proof (rule for_each_suffix [where I = I])
    have "port_of E st k = None" if "k \<notin> fst ` set ?nodes" for k
      using ok that by (auto simp: port_of_None table_def map_of_eq_None_iff)
    then show "I ?nodes st"
      using ok by (auto simp: I_def same_frame_def distinct_names)
  next
    fix node xs st1 assume I: "I (node # xs) st1"
    obtain k a where n: "node = (k, a)" by (cases node)
    have ok1: "state_with P E st1" and frame: "same_frame st st1" using I by (simp_all add: I_def)
    have "table E (ovs_intfs st1) k = Some a"
      using I nodes_table [OF ok, of node] by (simp add: I_def same_frame_def n)
    then obtain port where port: "port_of E st1 k = Some port" "P k port" "0 < a"
      using ok1 by (elim state_ok_port)
    have old: "port_of E st1 k = port_of E st k" using I by (simp add: I_def n)
    obtain port' w' where f: "f port (world st1) = Some (port', w')" "P k port'" "R port port'"
      using step [OF port(2), of "world st1"] port(1) old by auto
    obtain st2 where st2: "on_port f a st1 = Some st2" "state_with P E st2" "port_of E st2 = (port_of E st1)(k \<mapsto> port')"
      "same_frame st1 st2"
      by (rule on_port_state [where f = f, OF ok1 \<open>table E (ovs_intfs st1) k = Some a\<close> port(1) f(1,2)])
        (auto simp: same_frame_def)
    have "I xs st2"
      using I st2 frame f(3) port(1) old by (auto simp: I_def n same_frame_def)
    then show "\<exists>st'. g node st1 = Some st' \<and> I xs st'"
      using st2(1) node [of node st1] port(3) n by auto
  qed
  with that show ?thesis by (auto simp: I_def)
qed

context build_contract
begin

lemma configure_good:
  assumes "port_good k port"
  obtains port' w' where "configure_port B port w = Some (port', w')" "port_good k port'"
    "pm_port_t.truncate port' = pm_port_t.truncate port"
proof -
  have "configure_port B port w \<noteq> None"
    using assms by (intro configure_defined) (simp add: port_good_def)
  then obtain port' w' where c: "configure_port B port w = Some (port', w')" by auto
  then have "pm_port_t.truncate port' = pm_port_t.truncate port" by (rule configure_keeps)
  with c assms that port_good_truncate show ?thesis by blast
qed

lemma set_enabled_ok:
  assumes "state_ok E st"
  obtains st' where "pm_set_enabled E B st = Some st'" "state_ok E st'" "same_frame st st'"
    "\<And>k. rel_option (\<lambda>p p'. pm_port_t.truncate p' = pm_port_t.truncate p) (port_of E st k) (port_of E st' k)"
proof -
  have "\<exists>port' w'. configure_port B port w = Some (port', w') \<and> port_good k port' \<and>
      pm_port_t.truncate port' = pm_port_t.truncate port" if "port_good k port" for k port w
    using configure_good [OF that] by metis
  from each_port_pass [where f = "configure_port B" and R = "\<lambda>p p'. pm_port_t.truncate p' = pm_port_t.truncate p" and
      g = "\<lambda>node. configure_at B (snd node)", OF assms this configure_at_pos]
  obtain st' where "for_each (\<lambda>node. configure_at B (snd node)) (shash_nodes E (ovs_intfs st)) st = Some st'"
    "state_ok E st'" "same_frame st st'"
    "\<And>k. rel_option (\<lambda>p p'. pm_port_t.truncate p' = pm_port_t.truncate p) (port_of E st k) (port_of E st' k)"
    by blast
  then show ?thesis by (intro that) (simp_all add: pm_set_enabled_def)
qed

end

context total_build
begin

lemma read_port_good:
  assumes "port_good k port"
  obtains port' w' where "pm_read_port_state E B port w = Some (port', w')" "port_good k port'"
    "port_config port' = port_config port"
proof -
  obtain port' w' where r: "pm_read_port_state E B port w = Some (port', w')"
    using assms read_state_defined [of port E w] by (auto simp: port_good_def device_ready_def)
  have config: "port_config port' = port_config port" by (rule read_state_frame(1) [OF r])
  have "port_ok port'" using assms by (intro read_state_frame(2) [OF r]) (simp add: port_good_def)
  then have "port_good k port'"
    using assms port_config_eqD [OF config] by (simp add: port_good_def)
  with r config that show ?thesis by blast
qed

lemma read_all_ok:
  assumes "state_ok E st"
  obtains st' where "pm_read_state E B st = Some st'" "state_ok E st'" "same_frame st st'"
    "\<And>k. rel_option (\<lambda>p p'. port_config p' = port_config p) (port_of E st k) (port_of E st' k)"
proof -
  let ?g = "\<lambda>node st. if snd node = 0 then Some st else on_port (pm_read_port_state E B) (snd node) st"
  have "\<exists>port' w'. pm_read_port_state E B port w = Some (port', w') \<and> port_good k port' \<and>
      port_config port' = port_config port" if "port_good k port" for k port w
    using read_port_good [OF that] by metis
  from each_port_pass [where f = "pm_read_port_state E B" and
      R = "\<lambda>p p'. port_config p' = port_config p" and g = ?g, OF assms this]
  obtain st' where "for_each ?g (shash_nodes E (ovs_intfs st)) st = Some st'" "state_ok E st'" "same_frame st st'"
    "\<And>k. rel_option (\<lambda>p p'. port_config p' = port_config p) (port_of E st k) (port_of E st' k)"
    by auto
  then show ?thesis by (intro that) (simp_all add: pm_read_state_def)
qed

end

section \<open>The state that is configured first\<close>

definition registrations :: "idl_call list" where
  "registrations =
     [Idl_set_lock ''ops_pmd'', Idl_verify_write_only,
      Idl_add_table ''subsystem'', Idl_add_column ''subsystem'' ''name'',
      Idl_add_column ''subsystem'' ''hw_desc_dir'', Idl_add_column ''subsystem'' ''interfaces'',
      Idl_add_table ''interface'', Idl_add_column ''interface'' ''name'', Idl_add_column ''interface'' ''pm_info'',
      Idl_omit_alert ''interface'' ''pm_info'', Idl_add_column ''interface'' ''hw_intf_config'',
      Idl_add_table ''daemon'', Idl_add_column ''daemon'' ''name'', Idl_add_column ''daemon'' ''cur_hw'',
      Idl_omit_alert ''daemon'' ''cur_hw'']"

definition opened ::
  "('w, 'd, 'h) externals \<Rightarrow> ovsdb_idl \<Rightarrow> ('w, 'h, 'z) pmd_state \<Rightarrow> ('w, 'h, 'z) pmd_state" where
  "opened E idl st =
     st\<lparr>idl_seqno := idl_get_seqno idl, ovs_subs := shash_init E, ovs_intfs := shash_init E, idl_calls := registrations\<rparr>"

lemma init_opened: "pm_ovsdb_if_init E B idl st = pmd_configure E B idl (opened E idl st)"
  by (simp add: pm_ovsdb_if_init_def pm_subsystem_subscribe_def pm_intf_subscribe_def pm_daemon_subscribe_def
      opened_def registrations_def Let_def)

section \<open>The two outcomes of creating a port\<close>

definition with_new_port ::
  "('w, 'd, 'h) externals \<Rightarrow> ('w, 'z) build \<Rightarrow> ovsrec_interface \<Rightarrow> string \<Rightarrow> YamlPort \<Rightarrow>
   ('w, 'h, 'z) pmd_state \<Rightarrow> ('w, 'h, 'z) pmd_state" where
  "with_new_port E B intf sub y st =
     st\<lparr>ports := (ports st)(next_addr st \<mapsto> new_port E B intf sub y), next_addr := next_addr st + 1,
       ovs_intfs := shash_add E (ovs_intfs st) (intf_name intf) (next_addr st)\<rparr>"

lemma with_new_port_simps [simp]:
  "ports (with_new_port E B intf sub y st) = (ports st)(next_addr st \<mapsto> new_port E B intf sub y)"
  "ovs_intfs (with_new_port E B intf sub y st) = shash_add E (ovs_intfs st) (intf_name intf) (next_addr st)"
  "cur_hw_set (with_new_port E B intf sub y st) = cur_hw_set st"
  "world (with_new_port E B intf sub y st) = world st"
  by (simp_all add: with_new_port_def)

lemma create_cases:
  assumes "ovsdb_if_intf_create E B intf sub st = Some st'"
  obtains
    (none) "\<nexists>y. pm_get_yaml_port E (world st) sub (intf_name intf) = Some y \<and> pluggable y" "st' = st"
  | (made) y st1 where "pm_get_yaml_port E (world st) sub (intf_name intf) = Some y" "pluggable y"
      "on_port (configure_port B) (next_addr st) (with_new_port E B intf sub y st) = Some st1"
      "on_port (\<lambda>port w. do { w \<leftarrow> pm_clear_reset E port w; Some (port, w) }) (next_addr st) st1 = Some st'"
proof (cases "\<exists>y. pm_get_yaml_port E (world st) sub (intf_name intf) = Some y \<and> pluggable y")
  case False
  with assms none show ?thesis by (auto simp: ovsdb_if_intf_create_def split: option.splits)
next
  case True
  with assms made show ?thesis
    by (auto simp: ovsdb_if_intf_create_def with_new_port_def Let_def bind_eq_Some_conv)
qed

section \<open>A sample state\<close>

text \<open>A state of the sample platform with one port that has not been scanned.\<close>

definition sample_state :: "string \<Rightarrow> bool \<Rightarrow> (sample_world, (string \<times> nat) list, unit) pmd_state" where
  "sample_state conn changed =
     \<lparr>ovs_intfs = [(''1'', 1)], ovs_subs = [(''base'', 2)],
      ports = [1 \<mapsto> (sample_port conn)\<lparr>module_device := sample_drivable conn, module_info_changed := changed\<rparr>],
      uuids = [2 \<mapsto> 2], next_addr = 3, idl_seqno = 1, cur_hw_set = False, world = (0, []), committed = [], idl_calls = []\<rparr>"

lemma sample_state_simps:
  "state_ok (sample_externals ys rc) (sample_state conn changed)"
  "port_of (sample_externals ys rc) (sample_state conn changed) ''1'' =
     Some ((sample_port conn)\<lparr>module_device := sample_drivable conn, module_info_changed := changed\<rparr>)"
  "idl_seqno (sample_state conn changed) = 1" "world (sample_state conn changed) = (0, [])"
  "table (sample_externals ys rc) (ovs_intfs (sample_state conn changed)) = [''1'' \<mapsto> 1]"
  "committed (sample_state conn changed) = []" "ovs_intfs (sample_state conn changed) = [(''1'', 1)]"
  "cur_hw_set (sample_state conn changed) = False"
proof -
  have "port_ok (sample_port conn)" by simp
  then show "state_ok (sample_externals ys rc) (sample_state conn changed)"
    by (simp add: state_with_def sample_state_def table_def table_ok_def port_good_def port_ok_def)
      (simp add: sample_port_def)
qed (simp_all add: sample_state_def port_of_def table_def)

end
