(* ===== verification/Ovsdb_Reconfigure.thy ===== *)
theory Ovsdb_Reconfigure
  imports Ovsdb_State
begin

text \<open>
  What \<^verbatim>\<open>pmd_reconfigure\<close> and the start-up configuration of \<^verbatim>\<open>src/ovsdb_access.c\<close> do to the ports: rows that are
  gone, subsystems and ports that are new, and enable switches that changed.
\<close>

section \<open>Removing interfaces and subsystems\<close>

definition live :: "ovsdb_idl \<Rightarrow> 'z pm_port_t_scheme \<Rightarrow> bool" where
  "live idl port \<longleftrightarrow> uuid port \<in> intf_uuid ` set (idl_interfaces idl)"

lemma interface_get_None: "ovsrec_interface_get_for_uuid idl (uuid port) = None \<longleftrightarrow> \<not> live idl port"
  by (force simp: ovsrec_interface_get_for_uuid_def live_def find_None_iff)

lemma ran_remove: "(\<And>k'. m k' = Some a \<Longrightarrow> k' = k) \<Longrightarrow> m k = Some a \<Longrightarrow> ran (m(k := None)) = ran m - {a}"
  unfolding ran_def set_eq_iff mem_Collect_eq Diff_iff singleton_iff fun_upd_apply
  by (metis option.distinct(1) option.inject)

lemma delete_port_state:
  assumes laws: "shash_laws E" and ok: "state_with P E st" and a: "table E (ovs_intfs st) k = Some a"
    and st': "st' = st\<lparr>ovs_intfs := shash_delete E (ovs_intfs st) (k, a), ports := (ports st)(a := None)\<rparr>"
  shows "state_with P E st'" "port_of E st' = (port_of E st)(k := None)"
    "table E (ovs_intfs st') = (table E (ovs_intfs st))(k := None)"
proof -
  have tab: "table_ok E (ovs_intfs st)" using ok by (simp add: state_with_def)
  note del = shash_delete_table [OF laws tab a]
  have only: "k' = k" if "table E (ovs_intfs st) k' = Some a" for k'
    using table_inj [OF tab that a] .
  have "dom ((ports st)(a := None)) = ran ((table E (ovs_intfs st))(k := None))"
    using ok ran_remove [of "table E (ovs_intfs st)" a k, OF only a] by (simp add: state_with_def)
  moreover have "0 < b \<and> b < next_addr st \<and> (\<exists>port. ((ports st)(a := None)) b = Some port \<and> P k' port)"
    if "((table E (ovs_intfs st))(k := None)) k' = Some b" for k' b
  proof -
    have k': "table E (ovs_intfs st) k' = Some b" "k' \<noteq> k" using that by (auto split: if_splits)
    then have "b \<noteq> a" using only by blast
    then show ?thesis by - (rule state_ok_port [OF ok k'(1)], simp)
  qed
  ultimately show "state_with P E st'"
    using ok del by (simp add: state_with_def st')
  show "table E (ovs_intfs st') = (table E (ovs_intfs st))(k := None)" using del by (simp add: st')
  show "port_of E st' = (port_of E st)(k := None)"
  proof
    fix k'
    show "port_of E st' k' = ((port_of E st)(k := None)) k'"
    proof (cases "k' = k")
      case False
      then have "table E (ovs_intfs st) k' \<noteq> Some a" using only by blast
      with False show ?thesis by (simp add: port_of_def st' del split: option.splits)
    qed (simp add: port_of_def st' del)
  qed
qed

lemma remove_intf_step:
  assumes laws: "shash_laws E" and filed: "\<And>k port. P k port \<Longrightarrow> port_instance port = k"
    and ok: "state_with P E st" and a: "table E (ovs_intfs st) k = Some a"
  obtains port st' where "port_of E st k = Some port" "remove_deleted_intf E idl (k, a) st = Some st'" "state_with P E st'"
    "port_of E st' = (if live idl port then port_of E st else (port_of E st)(k := None))"
    "table E (ovs_intfs st') = (if live idl port then table E (ovs_intfs st) else (table E (ovs_intfs st))(k := None))"
    "ovs_subs st' = ovs_subs st" "uuids st' = uuids st" "idl_seqno st' = idl_seqno st"
    "world st' = world st" "committed st' = committed st"
proof -
  obtain port where port: "ports st a = Some port" "port_of E st k = Some port" "P k port"
    using ok a by (rule state_ok_port)
  show ?thesis
  proof (cases "live idl port")
    case True
    then obtain intf where "ovsrec_interface_get_for_uuid idl (uuid port) = Some intf"
      using interface_get_None by (metis option.exhaust)
    with True port ok show ?thesis
      by (intro that [of port st]) (simp_all add: remove_deleted_intf_def)
  next
    case False
    define st' where "st' = st\<lparr>ovs_intfs := shash_delete E (ovs_intfs st) (k, a), ports := (ports st)(a := None)\<rparr>"
    have "shash_find E (ovs_intfs st) (port_instance port) = Some (k, a)"
      using laws ok a port(3) by (simp add: shash_find_table state_with_def filed)
    then have "remove_deleted_intf E idl (k, a) st = Some st'"
      using False port(1) interface_get_None [of idl port]
      by (simp add: remove_deleted_intf_def pmd_free_pm_port_def st'_def)
    with False port(2) delete_port_state [OF laws ok a st'_def] show ?thesis
      by (intro that [of port st']) (simp_all add: st'_def)
  qed
qed

lemma remove_intfs_ok:
  fixes E :: "('w, 'd, 'h) externals" and st :: "('w, 'h, 'z) pmd_state"
  assumes laws: "shash_laws E" and filed: "\<And>k port. P k port \<Longrightarrow> port_instance port = k"
    and ok: "state_with P E st"
  obtains st' where "for_each (remove_deleted_intf E idl) (shash_nodes E (ovs_intfs st)) st = Some st'" "state_with P E st'"
    "\<And>k. port_of E st' k = Option.bind (port_of E st k) (\<lambda>p. if live idl p then Some p else None)"
    "ovs_subs st' = ovs_subs st" "uuids st' = uuids st" "idl_seqno st' = idl_seqno st"
    "world st' = world st" "committed st' = committed st"
proof -
  let ?nodes = "shash_nodes E (ovs_intfs st)"
  define kept where "kept k = Option.bind (port_of E st k) (\<lambda>p. if live idl p then Some p else None)" for k
  define I where "I xs st' \<longleftrightarrow> state_with P E st' \<and> distinct (map fst xs) \<and>
      (\<forall>k a. (k, a) \<in> set xs \<longrightarrow> table E (ovs_intfs st') k = Some a) \<and>
      (\<forall>k. port_of E st' k = (if k \<in> fst ` set xs then port_of E st k else kept k)) \<and>
      ovs_subs st' = ovs_subs st \<and> uuids st' = uuids st \<and> idl_seqno st' = idl_seqno st \<and>
      world st' = world st \<and> committed st' = committed st"
    for xs and st' :: "('w, 'h, 'z) pmd_state"
  have "\<exists>st'. for_each (remove_deleted_intf E idl) ?nodes st = Some st' \<and> I [] st'"
  proof (rule for_each_suffix [where I = I])
    have "port_of E st k = None" if "k \<notin> fst ` set ?nodes" for k
      using ok that by (auto simp: port_of_None table_def map_of_eq_None_iff)
    moreover have "table E (ovs_intfs st) k = Some a" if "(k, a) \<in> set ?nodes" for k a
      using nodes_table [OF ok that] by simp
    ultimately show "I ?nodes st"
      using ok by (auto simp: I_def distinct_names kept_def)
  next
    fix node xs st1 assume I: "I (node # xs) st1"
    obtain k a where n: "node = (k, a)" by (cases node)
    have ok1: "state_with P E st1" and tab: "table E (ovs_intfs st1) k = Some a" using I by (simp_all add: I_def n)
    obtain port st2 where st2: "port_of E st1 k = Some port" "remove_deleted_intf E idl (k, a) st1 = Some st2" "state_with P E st2"
      "port_of E st2 = (if live idl port then port_of E st1 else (port_of E st1)(k := None))"
      "table E (ovs_intfs st2) = (if live idl port then table E (ovs_intfs st1) else (table E (ovs_intfs st1))(k := None))"
      "ovs_subs st2 = ovs_subs st1" "uuids st2 = uuids st1" "idl_seqno st2 = idl_seqno st1"
      "world st2 = world st1" "committed st2 = committed st1"
      using laws filed ok1 tab by (rule remove_intf_step [where idl = idl and P = P])
    have old: "port_of E st k = Some port" using I st2(1) by (simp add: I_def n)
    have new: "k \<notin> fst ` set xs" using I by (simp add: I_def n)
    have "table E (ovs_intfs st2) k' = Some b" if "(k', b) \<in> set xs" for k' b
    proof -
      have "k' \<noteq> k" using new that by force
      with I that show ?thesis by (simp add: I_def st2(5))
    qed
    moreover have "port_of E st2 k' = (if k' \<in> fst ` set xs then port_of E st k' else kept k')" for k'
      using I new old by (auto simp: I_def n st2(4) kept_def)
    ultimately have "I xs st2" using I st2 by (simp add: I_def)
    then show "\<exists>st'. remove_deleted_intf E idl node st1 = Some st' \<and> I xs st'" using st2(2) n by simp
  qed
  with that show ?thesis by (auto simp: I_def kept_def)
qed

lemma remove_sub_step:
  assumes laws: "shash_laws E" and ok: "state_with P E st" and a: "table E (ovs_subs st) k = Some a"
  obtains st' where "remove_deleted_subsys E idl (k, a) st = Some st'" "state_with P E st'"
    "table E (ovs_subs st') = table E (ovs_subs st) \<or> table E (ovs_subs st') = (table E (ovs_subs st))(k := None)"
    "ovs_intfs st' = ovs_intfs st" "ports st' = ports st" "idl_seqno st' = idl_seqno st"
    "world st' = world st" "committed st' = committed st"
proof -
  have tab: "table_ok E (ovs_subs st)" using ok by (simp add: state_with_def)
  have "a \<in> dom (uuids st)" using ok a by (auto simp: state_with_def intro: ranI)
  then obtain u where u: "uuids st a = Some u" by blast
  show ?thesis
  proof (cases "ovsrec_subsystem_get_for_uuid idl u")
    case (Some sub)
    with u ok show ?thesis by (intro that [of st]) (simp_all add: remove_deleted_subsys_def)
  next
    case None
    define st' where "st' = st\<lparr>ovs_subs := shash_delete E (ovs_subs st) (k, a), uuids := (uuids st)(a := None)\<rparr>"
    note del = shash_delete_table [OF laws tab a]
    have only: "k' = k" if "table E (ovs_subs st) k' = Some a" for k'
      using table_inj [OF tab that a] .
    have "remove_deleted_subsys E idl (k, a) st = Some st'"
      using None u a laws tab by (simp add: remove_deleted_subsys_def shash_find_table st'_def)
    moreover have "dom ((uuids st)(a := None)) = ran ((table E (ovs_subs st))(k := None))"
      using ok ran_remove [of "table E (ovs_subs st)" a k, OF only a] by (simp add: state_with_def)
    then have "state_with P E st'"
      using ok del unfolding state_with_def st'_def by (simp split: if_splits)
    ultimately show ?thesis using del by (intro that [of st']) (simp_all add: st'_def)
  qed
qed

lemma remove_subs_ok:
  fixes E :: "('w, 'd, 'h) externals" and st :: "('w, 'h, 'z) pmd_state"
  assumes laws: "shash_laws E" and ok: "state_with P E st"
  obtains st' where "for_each (remove_deleted_subsys E idl) (shash_nodes E (ovs_subs st)) st = Some st'" "state_with P E st'"
    "port_of E st' = port_of E st" "idl_seqno st' = idl_seqno st" "world st' = world st" "committed st' = committed st"
proof -
  define I where "I xs st' \<longleftrightarrow> state_with P E st' \<and> distinct (map fst xs) \<and>
      (\<forall>k a. (k, a) \<in> set xs \<longrightarrow> table E (ovs_subs st') k = Some a) \<and>
      ovs_intfs st' = ovs_intfs st \<and> ports st' = ports st \<and> idl_seqno st' = idl_seqno st \<and>
      world st' = world st \<and> committed st' = committed st"
    for xs and st' :: "('w, 'h, 'z) pmd_state"
  have "\<exists>st'. for_each (remove_deleted_subsys E idl) (shash_nodes E (ovs_subs st)) st = Some st' \<and> I [] st'"
  proof (rule for_each_suffix [where I = I])
    show "I (shash_nodes E (ovs_subs st)) st"
      using ok table_nodes [of E "ovs_subs st"] by (simp add: I_def) (simp add: state_with_def table_ok_def)
  next
    fix node xs st1 assume I: "I (node # xs) st1"
    obtain k a where n: "node = (k, a)" by (cases node)
    have ok1: "state_with P E st1" and tab: "table E (ovs_subs st1) k = Some a" using I by (simp_all add: I_def n)
    obtain st2 where st2: "remove_deleted_subsys E idl (k, a) st1 = Some st2" "state_with P E st2"
      "table E (ovs_subs st2) = table E (ovs_subs st1) \<or> table E (ovs_subs st2) = (table E (ovs_subs st1))(k := None)"
      "ovs_intfs st2 = ovs_intfs st1" "ports st2 = ports st1" "idl_seqno st2 = idl_seqno st1"
      "world st2 = world st1" "committed st2 = committed st1"
      using laws ok1 tab by (rule remove_sub_step [where idl = idl])
    have "table E (ovs_subs st2) k' = Some b" if "(k', b) \<in> set xs" for k' b
    proof -
      have "k' \<noteq> k" using I that by (force simp: I_def n)
      with I that st2(3) show ?thesis by (auto simp: I_def)
    qed
    with I st2 have "I xs st2" by (simp add: I_def)
    then show "\<exists>st'. remove_deleted_subsys E idl node st1 = Some st' \<and> I xs st'" using st2(1) n by simp
  qed
  with that port_of_cong show ?thesis unfolding I_def by metis
qed

section \<open>Creating and modifying ports\<close>

text \<open>
  \<open>grown rows st st'\<close>: every port of \<open>st\<close> is still there unchanged, and a port that is new in \<open>st'\<close>
  was made from one of the rows, with its name, identity and enable switch, and has no module data.
\<close>

definition made_from :: "('w, 'd, 'h) externals \<Rightarrow> ovsrec_interface \<Rightarrow> 'z pm_port_t_scheme \<Rightarrow> bool" where
  "made_from E intf port \<longleftrightarrow>
     port_instance port = intf_name intf \<and> uuid port = intf_uuid intf \<and>
     hw_enable port = ovsdb_if_intf_get_hw_enable E intf \<and> \<not> present port \<and>
     ovs_module_columns port = zero_module_columns"

definition grown ::
  "('w, 'd, 'h) externals \<Rightarrow> ovsrec_interface set \<Rightarrow> ('w, 'h, 'z) pmd_state \<Rightarrow> ('w, 'h, 'z) pmd_state \<Rightarrow> bool" where
  "grown E rows st st' \<longleftrightarrow>
     (\<forall>k. port_of E st' k = port_of E st k \<or>
        port_of E st k = None \<and> (\<exists>intf \<in> rows. \<exists>port. port_of E st' k = Some port \<and> made_from E intf port)) \<and>
     idl_seqno st' = idl_seqno st \<and> committed st' = committed st"

lemma grown_refl: "grown E rows st st"
  by (simp add: grown_def)

lemma grown_trans:
  assumes "grown E rows st1 st2" "grown E rows st2 st3"
  shows "grown E rows st1 st3"
  unfolding grown_def
proof (intro conjI allI)
  fix k
  show "port_of E st3 k = port_of E st1 k \<or>
      port_of E st1 k = None \<and> (\<exists>intf \<in> rows. \<exists>port. port_of E st3 k = Some port \<and> made_from E intf port)"
    using assms unfolding grown_def by metis
qed (use assms in \<open>simp_all add: grown_def\<close>)

lemma add_port_state:
  assumes laws: "shash_laws E" and ok: "state_with P E st" and new: "table E (ovs_intfs st) k = None"
    and good: "P k port"
    and st': "st' = st\<lparr>ports := (ports st)(next_addr st \<mapsto> port), next_addr := next_addr st + 1,
      ovs_intfs := shash_add E (ovs_intfs st) k (next_addr st)\<rparr>"
  shows "state_with P E st'" "port_of E st' = (port_of E st)(k \<mapsto> port)"
    "table E (ovs_intfs st') = (table E (ovs_intfs st))(k \<mapsto> next_addr st)"
proof -
  let ?a = "next_addr st"
  have tab: "table_ok E (ovs_intfs st)" using ok by (simp add: state_with_def)
  have below: "a < ?a" if "table E (ovs_intfs st) k' = Some a" for k' a
    using ok that by (rule state_ok_port)
  then have "?a \<notin> ran (table E (ovs_intfs st))" by (force simp: ran_def)
  note add = shash_add_table [OF laws tab new this]
  have "ran ((table E (ovs_intfs st))(k \<mapsto> ?a)) = insert ?a (ran (table E (ovs_intfs st)))"
    using new by (rule ran_map_upd)
  then have dom: "dom ((ports st)(?a \<mapsto> port)) = ran ((table E (ovs_intfs st))(k \<mapsto> ?a))"
    using ok by (simp add: state_with_def)
  moreover have "0 < b \<and> b < ?a + 1 \<and> (\<exists>p. ((ports st)(?a \<mapsto> port)) b = Some p \<and> P k' p)"
    if b: "((table E (ovs_intfs st))(k \<mapsto> ?a)) k' = Some b" for k' b
  proof (cases "k' = k")
    case True
    with b good ok show ?thesis by (simp add: state_with_def)
  next
    case False
    with b have "table E (ovs_intfs st) k' = Some b" by simp
    then show ?thesis by - (rule state_ok_port [OF ok], assumption, auto)
  qed
  moreover have "0 < b \<and> b < ?a + 1" if "table E (ovs_subs st) k' = Some b" for k' b
    using ok that unfolding state_with_def by (metis less_SucI Suc_eq_plus1)
  ultimately show "state_with P E st'"
    using ok add by (simp add: state_with_def st')
  show "table E (ovs_intfs st') = (table E (ovs_intfs st))(k \<mapsto> ?a)" using add by (simp add: st')
  show "port_of E st' = (port_of E st)(k \<mapsto> port)"
  proof
    fix k'
    show "port_of E st' k' = ((port_of E st)(k \<mapsto> port)) k'"
    proof (cases "k' = k")
      case False
      then show ?thesis
        using below [of k'] by (auto simp: port_of_def st' add split: option.splits)
    qed (simp add: port_of_def st' add)
  qed
qed

lemma add_subsystem_ok:
  assumes laws: "shash_laws E" and ok: "state_with P E st" and new: "table E (ovs_subs st) (subsys_name sub) = None"
  shows "state_with P E ((add_subsystem E sub st)\<lparr>world := w\<rparr>)"
    "port_of E ((add_subsystem E sub st)\<lparr>world := w\<rparr>) = port_of E st"
    "table E (ovs_subs (add_subsystem E sub st)) (subsys_name sub) \<noteq> None"
proof -
  let ?a = "next_addr st" and ?k = "subsys_name sub"
  have tab: "table_ok E (ovs_subs st)" using ok by (simp add: state_with_def)
  have below: "b < ?a" if "table E (ovs_subs st) k = Some b" for k b
    using ok that unfolding state_with_def by blast
  then have "?a \<notin> ran (table E (ovs_subs st))" by (force simp: ran_def)
  note add = shash_add_table [OF laws tab new this]
  have "ran ((table E (ovs_subs st))(?k \<mapsto> ?a)) = insert ?a (ran (table E (ovs_subs st)))"
    using new by (rule ran_map_upd)
  then have "dom ((uuids st)(?a \<mapsto> u)) = ran ((table E (ovs_subs st))(?k \<mapsto> ?a))" for u
    using ok by (simp add: state_with_def)
  moreover have "0 < b \<and> b < Suc ?a \<and> (\<exists>p. ports st b = Some p \<and> P k p)"
    if "table E (ovs_intfs st) k = Some b" for k b
    by (rule state_ok_port [OF ok that]) simp
  moreover have "0 < b \<and> b < Suc ?a" if "((table E (ovs_subs st))(?k \<mapsto> ?a)) k = Some b" for k b
    using ok that unfolding state_with_def by (metis fun_upd_apply less_SucI lessI option.inject)
  ultimately show "state_with P E ((add_subsystem E sub st)\<lparr>world := w\<rparr>)"
    using ok add by (simp add: state_with_def add_subsystem_def Let_def)
  show "port_of E ((add_subsystem E sub st)\<lparr>world := w\<rparr>) = port_of E st"
    by (rule port_of_cong) (simp_all add: add_subsystem_def Let_def)
  show "table E (ovs_subs (add_subsystem E sub st)) ?k \<noteq> None"
    using add by (simp add: add_subsystem_def Let_def)
qed

lemma new_port_good:
  assumes "yaml_laws E" "pm_get_yaml_port E w sub (intf_name intf) = Some y" "pluggable y"
  shows "port_good (intf_name intf) (new_port E B intf sub y)" "made_from E intf (new_port E B intf sub y)"
  using assms pm_get_yaml_port_ready [OF assms]
  by (simp_all add: port_good_def new_port_def port_ok_def zero_module_columns_def made_from_def)

lemma made_from_truncate:
  assumes "pm_port_t.truncate p = pm_port_t.truncate q"
  shows "made_from E intf p = made_from E intf q"
  unfolding made_from_def truncate_eqD [OF assms] ..

lemma pm_clear_reset_defined:
  assumes "port_good k port"
  shows "\<exists>w'. pm_clear_reset E port w = Some w'"
proof -
  obtain c where "YamlPort.connector (module_device port) = Some c"
    using assms by (auto simp: port_good_def device_ready_def)
  then show ?thesis by (simp add: pm_clear_reset_def pm_reset_def Let_def case_prod_beta)
qed

context build_contract
begin

lemma create_ok:
  assumes laws: "shash_laws E" "yaml_laws E" and ok: "state_ok E st"
    and new: "table E (ovs_intfs st) (intf_name intf) = None"
  obtains st' where "ovsdb_if_intf_create E B intf sub st = Some st'" "state_ok E st'" "grown E {intf} st st'"
proof (cases "\<exists>y. pm_get_yaml_port E (world st) sub (intf_name intf) = Some y \<and> pluggable y")
  case False
  then have "ovsdb_if_intf_create E B intf sub st = Some st"
    by (auto simp: ovsdb_if_intf_create_def split: option.splits)
  with ok grown_refl that show ?thesis by blast
next
  case True
  let ?k = "intf_name intf" and ?a = "next_addr st"
  obtain y where y: "pm_get_yaml_port E (world st) sub ?k = Some y" "pluggable y" using True by blast
  let ?p = "new_port E B intf sub y"
  define st1 where "st1 = st\<lparr>ports := (ports st)(?a \<mapsto> ?p), next_addr := ?a + 1,
      ovs_intfs := shash_add E (ovs_intfs st) ?k ?a\<rparr>"
  note good = new_port_good [OF laws(2) y, where B = B]
  note st1 = add_port_state [OF laws(1) ok new good(1) st1_def]
  have a1: "table E (ovs_intfs st1) ?k = Some ?a" "port_of E st1 ?k = Some ?p" using st1 by simp_all
  obtain p' w' where conf: "configure_port B ?p (world st1) = Some (p', w')" "port_good ?k p'"
    "pm_port_t.truncate p' = pm_port_t.truncate ?p"
    using good(1) by (rule configure_good)
  obtain st2 where st2: "on_port (configure_port B) ?a st1 = Some st2" "state_ok E st2"
    "port_of E st2 = (port_of E st1)(?k \<mapsto> p')" "ovs_intfs st2 = ovs_intfs st1" "idl_seqno st2 = idl_seqno st1"
    "committed st2 = committed st1"
    using st1(1) a1 conf(1,2) by (rule on_port_state)
  obtain w2 where reset: "pm_clear_reset E p' (world st2) = Some w2"
    using pm_clear_reset_defined [OF conf(2), of E "world st2"] by auto
  have a2: "table E (ovs_intfs st2) ?k = Some ?a" "port_of E st2 ?k = Some p'" using a1 st2 by simp_all
  obtain st3 where st3: "on_port (\<lambda>port w. do { w \<leftarrow> pm_clear_reset E port w; Some (port, w) }) ?a st2 = Some st3"
    "state_ok E st3" "port_of E st3 = (port_of E st2)(?k \<mapsto> p')" "idl_seqno st3 = idl_seqno st2"
    "committed st3 = committed st2"
    by (rule on_port_state [OF st2(2) a2, where f = "\<lambda>port w. do { w \<leftarrow> pm_clear_reset E port w; Some (port, w) }"
          and p' = p' and w' = w2]) (use reset conf(2) in simp_all)
  have "ovsdb_if_intf_create E B intf sub st = Some st3"
    using y st2(1) st3(1) by (simp add: ovsdb_if_intf_create_def st1_def)
  moreover have "grown E {intf} st st3"
  proof -
    have "port_of E st ?k = None" using new ok by (simp add: port_of_None)
    moreover have "made_from E intf p'" using good(2) made_from_truncate [OF conf(3), of E intf] by simp
    ultimately show ?thesis using st1(2) st2 st3 by (auto simp: grown_def st1_def)
  qed
  ultimately show ?thesis using st3(2) that by blast
qed

lemma create_missing_ok:
  assumes laws: "shash_laws E" "yaml_laws E" and ok: "state_ok E st"
  obtains st' where "create_missing_intf E B sub intf st = Some st'" "state_ok E st'" "grown E {intf} st st'"
proof (cases "table E (ovs_intfs st) (intf_name intf)")
  case None
  then have "shash_find E (ovs_intfs st) (intf_name intf) = None"
    using laws(1) by (simp add: shash_find_None)
  then have "create_missing_intf E B sub intf st = ovsdb_if_intf_create E B intf sub st"
    by (simp add: create_missing_intf_def)
  with create_ok [OF laws ok None] that show ?thesis by metis
next
  case (Some a)
  then have "create_missing_intf E B sub intf st = Some st"
    using laws(1) ok by (simp add: create_missing_intf_def shash_find_table state_with_def)
  with ok grown_refl that show ?thesis by blast
qed

lemma grown_mono: "grown E rows st st' \<Longrightarrow> rows \<subseteq> rows' \<Longrightarrow> grown E rows' st st'"
  unfolding grown_def by blast

lemma create_all_ok:
  assumes laws: "shash_laws E" "yaml_laws E" and ok: "state_ok E st"
  obtains st' where "for_each (create_missing_intf E B sub) intfs st = Some st'" "state_ok E st'"
    "grown E (set intfs) st st'"
proof -
  have "\<exists>st'. for_each (create_missing_intf E B sub) intfs st = Some st' \<and> state_ok E st' \<and> grown E (set intfs) st st'"
  proof (rule for_each_invariant)
    fix intf st1 assume intf: "intf \<in> set intfs" and st1: "state_ok E st1 \<and> grown E (set intfs) st st1"
    obtain st2 where "create_missing_intf E B sub intf st1 = Some st2" "state_ok E st2" "grown E {intf} st1 st2"
      using laws conjunct1 [OF st1] by (rule create_missing_ok)
    moreover from this intf have "grown E (set intfs) st1 st2" by (auto intro: grown_mono)
    ultimately show "\<exists>st'. create_missing_intf E B sub intf st1 = Some st' \<and> state_ok E st' \<and> grown E (set intfs) st st'"
      using st1 grown_trans by blast
  qed (use ok grown_refl in blast)
  with that show ?thesis by blast
qed

lemma subsys_process_ok:
  assumes laws: "shash_laws E" "yaml_laws E" and ok: "state_ok E st"
  obtains st' where "ovsdb_if_subsys_process E B sub st = Some st'" "state_ok E st'"
    "grown E (set (subsys_interfaces sub)) st st'"
proof (cases "table E (ovs_subs st) (subsys_name sub)")
  case None
  obtain rc w where yaml: "pm_read_yaml_files E sub (world (add_subsystem E sub st)) = (rc, w)" by (rule prod.exhaust)
  define st1 where "st1 = (add_subsystem E sub st)\<lparr>world := w\<rparr>"
  have st1: "state_ok E st1" "port_of E st1 = port_of E st"
    using add_subsystem_ok(1,2) [OF laws(1) ok None, of w] by (simp_all add: st1_def)
  have "idl_seqno st1 = idl_seqno st" "committed st1 = committed st"
    by (simp_all add: st1_def add_subsystem_def Let_def)
  with st1 have grown: "grown E rows st st1" for rows by (simp add: grown_def)
  have "shash_find E (ovs_subs st) (subsys_name sub) = None"
    using laws(1) None by (simp add: shash_find_None)
  then have eq: "ovsdb_if_subsys_process E B sub st =
      (if rc \<noteq> 0 then Some st1 else for_each (create_missing_intf E B (subsys_name sub)) (subsys_interfaces sub) st1)"
    using yaml by (simp add: ovsdb_if_subsys_process_def Let_def st1_def)
  obtain st2 where "for_each (create_missing_intf E B (subsys_name sub)) (subsys_interfaces sub) st1 = Some st2"
    "state_ok E st2" "grown E (set (subsys_interfaces sub)) st1 st2"
    using laws st1(1) by (rule create_all_ok)
  with eq st1 grown grown_trans [OF grown] that show ?thesis by (cases "rc = 0") auto
next
  case (Some a)
  then have "shash_find E (ovs_subs st) (subsys_name sub) = Some (subsys_name sub, a)"
    using laws(1) ok by (simp add: shash_find_table state_with_def)
  then have "ovsdb_if_subsys_process E B sub st =
      for_each (create_missing_intf E B (subsys_name sub)) (subsys_interfaces sub) st"
    by (simp add: ovsdb_if_subsys_process_def Let_def)
  with create_all_ok [OF laws ok] that show ?thesis by metis
qed

end

text \<open>
  What the database server guarantees of a replica: interface names are unique, and the interfaces of a
  subsystem are rows of the interface table.
\<close>

definition idl_laws :: "ovsdb_idl \<Rightarrow> bool" where
  "idl_laws idl \<longleftrightarrow> distinct (map intf_name (idl_interfaces idl)) \<and>
     (\<forall>sub \<in> set (idl_subsystems idl). set (subsys_interfaces sub) \<subseteq> set (idl_interfaces idl))"

text \<open>\<open>switched E intf p p'\<close>: \<open>p'\<close> is \<open>p\<close> with the enable switch of the row, up to simulation fields.\<close>

definition switched :: "('w, 'd, 'h) externals \<Rightarrow> ovsrec_interface \<Rightarrow> 'z pm_port_t_scheme \<Rightarrow> 'z pm_port_t_scheme \<Rightarrow> bool" where
  "switched E intf p p' \<longleftrightarrow>
     pm_port_t.truncate p' = pm_port_t.truncate (p\<lparr>hw_enable := ovsdb_if_intf_get_hw_enable E intf\<rparr>)"

lemma switchedD:
  assumes "switched E intf p p'"
  shows "hw_enable p' = ovsdb_if_intf_get_hw_enable E intf" "uuid p' = uuid p"
    "pm_port_t.truncate p' = pm_port_t.truncate (p\<lparr>hw_enable := hw_enable p'\<rparr>)"
  using assms truncate_eqD(2,8) [OF assms [unfolded switched_def]] by (simp_all add: switched_def)

lemma switched_refl:
  assumes "hw_enable p = ovsdb_if_intf_get_hw_enable E intf"
  shows "switched E intf p p"
  unfolding switched_def assms [symmetric] by simp

context build_contract
begin

lemma modify_ok:
  assumes laws: "shash_laws E" and ok: "state_ok E st"
  obtains st' where "modify_intf E B intf st = Some st'" "state_ok E st'"
    "\<And>k. k \<noteq> intf_name intf \<Longrightarrow> port_of E st' k = port_of E st k"
    "rel_option (switched E intf) (port_of E st (intf_name intf)) (port_of E st' (intf_name intf))"
    "idl_seqno st' = idl_seqno st" "committed st' = committed st"
proof (cases "table E (ovs_intfs st) (intf_name intf)")
  case None
  then have "shash_find E (ovs_intfs st) (intf_name intf) = None" using laws by (simp add: shash_find_None)
  moreover have "port_of E st (intf_name intf) = None" using ok None by (simp add: port_of_None)
  ultimately show ?thesis using ok by (intro that [of st]) (simp_all add: modify_intf_def)
next
  case (Some a)
  let ?k = "intf_name intf" and ?e = "ovsdb_if_intf_get_hw_enable E intf"
  let ?f = "\<lambda>port w. let enable = ?e in
      if hw_enable port \<noteq> enable then configure_port B (port\<lparr>hw_enable := enable\<rparr>) w else Some (port, w)"
  obtain p where p: "port_of E st ?k = Some p" "port_good ?k p" using ok Some by (rule state_ok_port)
  have "port_good ?k (p\<lparr>hw_enable := ?e\<rparr>)" using p(2) by (simp add: port_good_def port_ok_def)
  then obtain q w1 where "configure_port B (p\<lparr>hw_enable := ?e\<rparr>) (world st) = Some (q, w1)" "port_good ?k q"
    "pm_port_t.truncate q = pm_port_t.truncate (p\<lparr>hw_enable := ?e\<rparr>)"
    by (rule configure_good)
  then obtain p' w' where p': "?f p (world st) = Some (p', w')" "port_good ?k p'" "switched E intf p p'"
    using p(2) switched_refl [of p E intf] by (cases "hw_enable p = ?e") (auto simp: switched_def Let_def)
  obtain st' where st': "on_port ?f a st = Some st'" "state_ok E st'" "port_of E st' = (port_of E st)(?k \<mapsto> p')"
    "idl_seqno st' = idl_seqno st" "committed st' = committed st"
    by (rule on_port_state [where f = ?f, OF ok Some p(1) p'(1,2)]) blast
  have "modify_intf E B intf st = Some st'"
    using laws ok Some st'(1)
    by (simp add: modify_intf_def shash_find_table state_with_def ovsdb_if_intf_modify_def)
  with st' p(1) p'(3) that show ?thesis by simp
qed

lemma modify_all_ok:
  fixes st :: "('w, 'h, 'z) pmd_state"
  assumes laws: "shash_laws E" and ok: "state_ok E st"
  obtains st' where "for_each (modify_intf E B) intfs st = Some st'" "state_ok E st'"
    "idl_seqno st' = idl_seqno st" "committed st' = committed st"
    "\<And>k. k \<notin> intf_name ` set intfs \<Longrightarrow> port_of E st' k = port_of E st k"
    "\<And>intf. distinct (map intf_name intfs) \<Longrightarrow> intf \<in> set intfs \<Longrightarrow>
       rel_option (switched E intf) (port_of E st (intf_name intf)) (port_of E st' (intf_name intf))"
  using assms(2)
proof (induction intfs arbitrary: st thesis)
  case Nil
  from Nil.prems(1) [of st] Nil.prems(2) show ?case by simp
next
  case (Cons intf intfs)
  obtain st1 where st1: "modify_intf E B intf st = Some st1" "state_ok E st1"
    "\<And>k. k \<noteq> intf_name intf \<Longrightarrow> port_of E st1 k = port_of E st k"
    "rel_option (switched E intf) (port_of E st (intf_name intf)) (port_of E st1 (intf_name intf))"
    "idl_seqno st1 = idl_seqno st" "committed st1 = committed st"
    using laws Cons.prems(2) by (rule modify_ok [where intf = intf]) blast
  obtain st2 where st2: "for_each (modify_intf E B) intfs st1 = Some st2" "state_ok E st2"
    "idl_seqno st2 = idl_seqno st1" "committed st2 = committed st1"
    "\<And>k. k \<notin> intf_name ` set intfs \<Longrightarrow> port_of E st2 k = port_of E st1 k"
    "\<And>i. distinct (map intf_name intfs) \<Longrightarrow> i \<in> set intfs \<Longrightarrow>
       rel_option (switched E i) (port_of E st1 (intf_name i)) (port_of E st2 (intf_name i))"
    using Cons.IH [OF _ st1(2)] by blast
  show ?case
  proof (rule Cons.prems(1) [of st2])
    show "for_each (modify_intf E B) (intf # intfs) st = Some st2" using st1(1) st2(1) by simp
    show "port_of E st2 k = port_of E st k" if "k \<notin> intf_name ` set (intf # intfs)" for k
      using that st1(3) [of k] st2(5) [of k] by simp
    fix i assume dist: "distinct (map intf_name (intf # intfs))" and i: "i \<in> set (intf # intfs)"
    show "rel_option (switched E i) (port_of E st (intf_name i)) (port_of E st2 (intf_name i))"
    proof (cases "i = intf")
      case True
      then show ?thesis using dist st1(4) st2(5) [of "intf_name intf"] by simp
    next
      case False
      with i have i': "i \<in> set intfs" by simp
      then have "intf_name i \<noteq> intf_name intf" using dist by (metis distinct.simps(2) imageI list.map(2) set_map)
      with i' dist st1(3) [of "intf_name i"] st2(6) [of i] show ?thesis by simp
    qed
  qed (use st1 st2 in simp_all)
qed

lemma process_all_ok:
  assumes laws: "shash_laws E" "yaml_laws E" and ok: "state_ok E st"
  obtains st' where "for_each (ovsdb_if_subsys_process E B) subs st = Some st'" "state_ok E st'"
    "grown E (\<Union>sub \<in> set subs. set (subsys_interfaces sub)) st st'"
proof -
  let ?rows = "\<Union>sub \<in> set subs. set (subsys_interfaces sub)"
  have "\<exists>st'. for_each (ovsdb_if_subsys_process E B) subs st = Some st' \<and> state_ok E st' \<and> grown E ?rows st st'"
  proof (rule for_each_invariant)
    fix sub st1 assume sub: "sub \<in> set subs" and st1: "state_ok E st1 \<and> grown E ?rows st st1"
    obtain st2 where st2: "ovsdb_if_subsys_process E B sub st1 = Some st2" "state_ok E st2"
      "grown E (set (subsys_interfaces sub)) st1 st2"
      using laws conjunct1 [OF st1] by (rule subsys_process_ok)
    have "grown E ?rows st1 st2" using st2(3) by (rule grown_mono) (use sub in blast)
    with st1 st2 grown_trans show "\<exists>st'. ovsdb_if_subsys_process E B sub st1 = Some st' \<and> state_ok E st' \<and> grown E ?rows st st'"
      by blast
  qed (use ok grown_refl in blast)
  with that show ?thesis by blast
qed

end

text \<open>
  The relation between the ports and the database after a reconfiguration: only ports of existing rows
  are left, each has the enable switch of its row, a port whose row still exists has kept everything
  but that switch, and every other port is new: it carries the name and the identity of a row and has no module data.
\<close>

definition mirrors ::
  "('w, 'd, 'h) externals \<Rightarrow> ovsdb_idl \<Rightarrow> (string \<rightharpoonup> 'z pm_port_t_scheme) \<Rightarrow> (string \<rightharpoonup> 'z pm_port_t_scheme) \<Rightarrow> bool" where
  "mirrors E idl old new \<longleftrightarrow>
     (\<forall>k p. new k = Some p \<longrightarrow> live idl p) \<and>
     (\<forall>intf \<in> set (idl_interfaces idl). \<forall>p. new (intf_name intf) = Some p \<longrightarrow>
        hw_enable p = ovsdb_if_intf_get_hw_enable E intf) \<and>
     (\<forall>k p. old k = Some p \<longrightarrow> live idl p \<longrightarrow>
        (\<exists>p'. new k = Some p' \<and> pm_port_t.truncate p' = pm_port_t.truncate (p\<lparr>hw_enable := hw_enable p'\<rparr>))) \<and>
     (\<forall>k p. new k = Some p \<longrightarrow> (\<forall>q. old k = Some q \<longrightarrow> \<not> live idl q) \<longrightarrow>
        (\<exists>intf \<in> set (idl_interfaces idl). port_instance p = intf_name intf \<and> uuid p = intf_uuid intf) \<and>
        \<not> present p \<and> ovs_module_columns p = zero_module_columns)"

lemma mirrors_chain:
  assumes idl: "idl_laws idl"
    and kept: "\<And>k. m1 k = Option.bind (m0 k) (\<lambda>p. if live idl p then Some p else None)"
    and grow: "\<And>k. m2 k = m1 k \<or> m1 k = None \<and> (\<exists>intf \<in> set (idl_interfaces idl). \<exists>p. m2 k = Some p \<and> made_from E intf p)"
    and other: "\<And>k. k \<notin> intf_name ` set (idl_interfaces idl) \<Longrightarrow> m3 k = m2 k"
    and switch: "\<And>intf. intf \<in> set (idl_interfaces idl) \<Longrightarrow>
      rel_option (switched E intf) (m2 (intf_name intf)) (m3 (intf_name intf))"
  shows "mirrors E idl m0 m3"
proof -
  have step3: "m3 k = m2 k \<or> (\<exists>intf p q. m2 k = Some p \<and> m3 k = Some q \<and> switched E intf p q)" for k
  proof (cases "k \<in> intf_name ` set (idl_interfaces idl)")
    case True
    then obtain intf where "intf \<in> set (idl_interfaces idl)" "k = intf_name intf" by blast
    with switch [of intf] show ?thesis by (auto simp: option_rel_Some1 elim: option.rel_cases)
  qed (use other in blast)
  have live2: "live idl p" if "m2 k = Some p" for k p
    using that grow [of k] kept [of k]
    by (cases "m0 k") (auto simp: live_def made_from_def split: if_splits)
  have "live idl p" if "m3 k = Some p" for k p
    using that step3 [of k] live2 [of k] switchedD(2) by (force simp: live_def)
  moreover have "hw_enable p = ovsdb_if_intf_get_hw_enable E intf"
    if "intf \<in> set (idl_interfaces idl)" "m3 (intf_name intf) = Some p" for intf p
    using switch [OF that(1)] that(2) switchedD(1) by (force simp: option_rel_Some2)
  moreover have "\<exists>p'. m3 k = Some p' \<and> pm_port_t.truncate p' = pm_port_t.truncate (p\<lparr>hw_enable := hw_enable p'\<rparr>)"
    if "m0 k = Some p" "live idl p" for k p
  proof -
    have "m2 k = Some p" using that kept [of k] grow [of k] by auto
    with step3 [of k] switchedD(3) show ?thesis by force
  qed
  moreover have "(\<exists>intf \<in> set (idl_interfaces idl). port_instance p = intf_name intf \<and> uuid p = intf_uuid intf) \<and>
      \<not> present p \<and> ovs_module_columns p = zero_module_columns"
    if p: "m3 k = Some p" and fresh: "\<forall>q. m0 k = Some q \<longrightarrow> \<not> live idl q" for k p
  proof -
    have "m1 k = None" using kept [of k] fresh by (cases "m0 k") auto
    moreover obtain p2 b where p2: "m2 k = Some p2" "pm_port_t.truncate p = pm_port_t.truncate (p2\<lparr>hw_enable := b\<rparr>)"
    proof (cases "m3 k = m2 k")
      case True
      with p that [of p "hw_enable p"] show ?thesis by simp
    next
      case False
      with step3 [of k] p that show ?thesis by (auto simp: switched_def)
    qed
    ultimately obtain intf where "intf \<in> set (idl_interfaces idl)" "made_from E intf p2" using grow [of k] by auto
    with truncate_eqD(1,2,5,10) [OF p2(2)] show ?thesis by (auto simp: made_from_def)
  qed
  ultimately show ?thesis by (simp add: mirrors_def)
qed

context build_contract
begin

lemma reconfigure_ok:
  assumes laws: "shash_laws E" "yaml_laws E" and ok: "state_ok E st"
  obtains st' where "pmd_reconfigure E B idl st = Some st'" "state_ok E st'" "idl_seqno st' = idl_get_seqno idl"
    "committed st' = committed st"
    "idl_get_seqno idl \<noteq> idl_seqno st \<Longrightarrow> idl_laws idl \<Longrightarrow> mirrors E idl (port_of E st) (port_of E st')"
    "idl_get_seqno idl = idl_seqno st \<Longrightarrow> st' = st"
proof (cases "idl_get_seqno idl = idl_seqno st")
  case True
  then show ?thesis by (intro that [of st]) (simp_all add: pmd_reconfigure_def ok)
next
  case False
  define st0 where "st0 = st\<lparr>idl_seqno := idl_get_seqno idl\<rparr>"
  have "port_of E st0 = port_of E st" by (rule port_of_cong) (simp_all add: st0_def)
  moreover have "state_ok E st0" using ok unfolding st0_def state_with_def by simp
  ultimately have st0: "state_ok E st0" "port_of E st0 = port_of E st" by simp_all
  obtain st1 where st1: "for_each (remove_deleted_intf E idl) (shash_nodes E (ovs_intfs st0)) st0 = Some st1" "state_ok E st1"
    "\<And>k. port_of E st1 k = Option.bind (port_of E st0 k) (\<lambda>p. if live idl p then Some p else None)"
    "idl_seqno st1 = idl_seqno st0" "committed st1 = committed st0"
    by (rule remove_intfs_ok [where idl = idl and P = port_good, OF laws(1) _ st0(1)]) (simp_all add: port_good_def)
  obtain st2 where st2: "for_each (remove_deleted_subsys E idl) (shash_nodes E (ovs_subs st1)) st1 = Some st2" "state_ok E st2"
    "port_of E st2 = port_of E st1" "idl_seqno st2 = idl_seqno st1" "committed st2 = committed st1"
    using laws(1) st1(2) by (rule remove_subs_ok [where idl = idl and P = port_good]) blast
  obtain st3 where st3: "for_each (ovsdb_if_subsys_process E B) (idl_subsystems idl) st2 = Some st3" "state_ok E st3"
    "grown E (\<Union>sub \<in> set (idl_subsystems idl). set (subsys_interfaces sub)) st2 st3"
    using laws st2(2) by (rule process_all_ok [where subs = "idl_subsystems idl"]) blast
  obtain st4 where st4: "for_each (modify_intf E B) (idl_interfaces idl) st3 = Some st4" "state_ok E st4"
    "idl_seqno st4 = idl_seqno st3" "committed st4 = committed st3"
    "\<And>k. k \<notin> intf_name ` set (idl_interfaces idl) \<Longrightarrow> port_of E st4 k = port_of E st3 k"
    "\<And>intf. distinct (map intf_name (idl_interfaces idl)) \<Longrightarrow> intf \<in> set (idl_interfaces idl) \<Longrightarrow>
       rel_option (switched E intf) (port_of E st3 (intf_name intf)) (port_of E st4 (intf_name intf))"
    using laws(1) st3(2) by (rule modify_all_ok [where intfs = "idl_interfaces idl"]) blast
  have "pmd_reconfigure E B idl st = Some st4"
    using False st1(1) st2(1) st3(1) st4(1) by (simp add: pmd_reconfigure_def Let_def st0_def)
  moreover have "mirrors E idl (port_of E st) (port_of E st4)" if idl: "idl_laws idl"
  proof (rule mirrors_chain [OF idl])
    show "port_of E st1 k = Option.bind (port_of E st k) (\<lambda>p. if live idl p then Some p else None)" for k
      using st1(3) st0(2) by simp
    have rows: "(\<Union>sub \<in> set (idl_subsystems idl). set (subsys_interfaces sub)) \<subseteq> set (idl_interfaces idl)"
      using idl by (auto simp: idl_laws_def)
    show "port_of E st3 k = port_of E st1 k \<or> port_of E st1 k = None \<and>
        (\<exists>intf \<in> set (idl_interfaces idl). \<exists>p. port_of E st3 k = Some p \<and> made_from E intf p)" for k
      using grown_mono [OF st3(3) rows] st2(3) unfolding grown_def by metis
  qed (use st4 idl in \<open>simp_all add: idl_laws_def\<close>)
  ultimately show ?thesis
    using that [of st4] st4 st3(3) st2 st1 False by (simp add: grown_def st0_def)
qed

end

section \<open>The start\<close>

context build_contract
begin

lemma intf_configure_ok:
  assumes laws: "shash_laws E" and ok: "state_ok E st"
  obtains st' where "ovsdb_if_intf_configure E B intf st = Some st'" "state_ok E st'"
proof (cases "table E (ovs_intfs st) (intf_name intf)")
  case None
  then have "shash_find E (ovs_intfs st) (intf_name intf) = None" using laws by (simp add: shash_find_None)
  with ok show ?thesis by (intro that [of st]) (simp_all add: ovsdb_if_intf_configure_def)
next
  case (Some a)
  let ?k = "intf_name intf"
  obtain p where p: "port_of E st ?k = Some p" "port_good ?k p" "0 < a" using ok Some by (rule state_ok_port)
  obtain p' w' where "configure_port B p (world st) = Some (p', w')" "port_good ?k p'"
    using p(2) by (rule configure_good)
  then obtain st' where "on_port (configure_port B) a st = Some st'" "state_ok E st'"
    using on_port_state [where f = "configure_port B", OF ok Some p(1)] by metis
  then show ?thesis
    using laws ok Some p(3)
    by (intro that [of st']) (simp_all add: ovsdb_if_intf_configure_def configure_at_pos shash_find_table state_with_def)
qed

lemma init_ok:
  assumes laws: "shash_laws E" "yaml_laws E"
    and st: "ports st = Map.empty" "uuids st = Map.empty" "0 < next_addr st"
  obtains st' where "pm_ovsdb_if_init E B idl st = Some st'" "state_ok E st'"
proof -
  define st0 where "st0 = opened E idl st"
  have "state_ok E st0" using laws(1) st by (simp add: state_with_def st0_def opened_def)
  with laws obtain st1 where st1: "for_each (ovsdb_if_subsys_process E B) (idl_subsystems idl) st0 = Some st1" "state_ok E st1"
    by (rule process_all_ok [where subs = "idl_subsystems idl"]) blast
  have "\<exists>st'. for_each (ovsdb_if_intf_configure E B) (idl_interfaces idl) st1 = Some st' \<and> state_ok E st'"
    by (rule for_each_invariant [where I = "state_ok E", OF st1(2)]) (metis intf_configure_ok [OF laws(1)])
  then obtain st2 where "for_each (ovsdb_if_intf_configure E B) (idl_interfaces idl) st1 = Some st2" "state_ok E st2"
    by blast
  with st1(1) show ?thesis
    by (intro that [of st2]) (simp_all add: init_opened pmd_configure_def st0_def)
qed

end

section \<open>What a reconfiguration does\<close>

text \<open>
  C4. After the database has changed, one reconfiguration makes the daemon's ports mirror it: ports
  whose row is gone are removed and their memory released, the enable switch of every remaining port is
  that of its row, and a port whose row still exists keeps its identity and its module data. The
  pointer structure stays sound.
\<close>

theorem reconfigure_mirrors:
  assumes "shash_laws E" "yaml_laws E" "idl_laws idl" "state_ok E st" "idl_get_seqno idl \<noteq> idl_seqno st"
  shows "\<exists>st'. pmd_reconfigure E (hw_build E) idl st = Some st' \<and> state_ok E st' \<and>
    idl_seqno st' = idl_get_seqno idl \<and> mirrors E idl (port_of E st) (port_of E st')"
proof -
  obtain st' where "pmd_reconfigure E (hw_build E) idl st = Some st'" "state_ok E st'"
    "idl_seqno st' = idl_get_seqno idl"
    "idl_get_seqno idl \<noteq> idl_seqno st \<Longrightarrow> idl_laws idl \<Longrightarrow> mirrors E idl (port_of E st) (port_of E st')"
    using assms(1,2,4) by (rule hw.reconfigure_ok [where idl = idl]) blast
  with assms(3,5) show ?thesis by blast
qed

section \<open>Recorded subsystems\<close>

text \<open>
  A subsystem is recorded under its name with the identity \<open>u\<close>, at the address \<open>a\<close>. It stays recorded as long as a row
  of that identity exists.
\<close>

definition recorded_at :: "('w, 'd, 'h) externals \<Rightarrow> string \<Rightarrow> 128 word \<Rightarrow> nat \<Rightarrow> ('w, 'h, 'z) pmd_state \<Rightarrow> bool" where
  "recorded_at E k u a st \<longleftrightarrow>
     table_ok E (ovs_subs st) \<and> (\<forall>k' b. table E (ovs_subs st) k' = Some b \<longrightarrow> b < next_addr st) \<and>
     table E (ovs_subs st) k = Some a \<and> uuids st a = Some u"

definition recorded :: "('w, 'd, 'h) externals \<Rightarrow> string \<Rightarrow> 128 word \<Rightarrow> ('w, 'h, 'z) pmd_state \<Rightarrow> bool" where
  "recorded E k u st \<longleftrightarrow> (\<exists>a. recorded_at E k u a st)"

lemma for_each_keeps:
  assumes "for_each f xs st = Some st'" "I st" "\<And>x s t. x \<in> set xs \<Longrightarrow> f x s = Some t \<Longrightarrow> I s \<Longrightarrow> I t"
  shows "I st'"
  using assms by (induction xs arbitrary: st) (auto simp: bind_eq_Some_conv)

text \<open>Most operations leave the subsystems alone.\<close>

definition subs_frame :: "('w, 'h, 'z) pmd_state \<Rightarrow> ('w, 'h, 'z) pmd_state \<Rightarrow> bool" where
  "subs_frame st st' \<longleftrightarrow> ovs_subs st' = ovs_subs st \<and> uuids st' = uuids st \<and> next_addr st \<le> next_addr st'"

lemma recorded_frame: "subs_frame st st' \<Longrightarrow> recorded_at E k u a st \<Longrightarrow> recorded_at E k u a st'"
  by (fastforce simp: subs_frame_def recorded_at_def)

lemma on_port_subs: "on_port f b st = Some st' \<Longrightarrow> subs_frame st st'"
  by (auto simp: on_port_def subs_frame_def bind_eq_Some_conv)

lemma create_subs:
  assumes "create_missing_intf E B sub intf st = Some st'"
  shows "subs_frame st st'"
proof (cases "st' = st")
  case False
  then have "ovsdb_if_intf_create E B intf sub st = Some st'"
    using assms by (auto simp: create_missing_intf_def split: option.splits)
  then show ?thesis
    by (cases rule: create_cases)
      (auto simp: with_new_port_def subs_frame_def dest!: on_port_subs)
qed (simp add: subs_frame_def)

lemma recorded_process:
  assumes laws: "shash_laws E" and "ovsdb_if_subsys_process E B sub st = Some st'" and rec: "recorded_at E k u a st"
  shows "recorded_at E k u a st'"
proof -
  have create: "recorded_at E k u a t"
    if "for_each (create_missing_intf E B (subsys_name sub)) (subsys_interfaces sub) s = Some t" "recorded_at E k u a s" for s t
    using that by (rule for_each_keeps) (blast intro: recorded_frame create_subs)
  show ?thesis
  proof (cases "shash_find E (ovs_subs st) (subsys_name sub)")
    case None
    then have new: "table E (ovs_subs st) (subsys_name sub) = None" using laws by (simp add: shash_find_None)
    have "next_addr st \<notin> ran (table E (ovs_subs st))" using rec by (force simp: recorded_at_def ran_def)
    note add = shash_add_table [OF laws _ new this]
    have "recorded_at E k u a ((add_subsystem E sub st)\<lparr>world := w\<rparr>)" for w
      using rec new add by (auto simp: recorded_at_def add_subsystem_def Let_def less_Suc_eq)
    with None assms(2) create show ?thesis
      by (auto simp: ovsdb_if_subsys_process_def Let_def case_prod_beta split: if_splits)
  next
    case (Some node)
    with assms(2) create rec show ?thesis by (simp add: ovsdb_if_subsys_process_def Let_def)
  qed
qed

lemma recorded_remove:
  assumes laws: "shash_laws E" and row: "ovsrec_subsystem_get_for_uuid idl u \<noteq> None"
    and node: "(k', b) \<in> set (shash_nodes E h)" and h: "table_ok E h" "table E h k = Some a"
    and step: "remove_deleted_subsys E idl (k', b) s = Some t" and rec: "recorded_at E k u a s"
  shows "recorded_at E k u a t"
proof (cases "t = s")
  case False
  then obtain v n where v: "uuids s b = Some v" "ovsrec_subsystem_get_for_uuid idl v = None"
    "shash_find E (ovs_subs s) k' = Some n"
    "t = s\<lparr>ovs_subs := shash_delete E (ovs_subs s) n, uuids := (uuids s)(b := None)\<rparr>"
    using step by (auto simp: remove_deleted_subsys_def bind_eq_Some_conv split: option.splits)
  have tab: "table_ok E (ovs_subs s)" using rec by (simp add: recorded_at_def)
  have "b \<noteq> a" using v(1,2) row rec by (auto simp: recorded_at_def)
  moreover have "table E h k' = Some b" using node h(1) by (simp add: table_nodes)
  ultimately have "k' \<noteq> k" using h(2) by auto
  obtain c where c: "n = (k', c)" "table E (ovs_subs s) k' = Some c"
    using v(3) laws tab by (auto simp: shash_find_table)
  with \<open>b \<noteq> a\<close> \<open>k' \<noteq> k\<close> rec shash_delete_table [OF laws tab c(2)] show ?thesis
    by (auto simp: v(4) recorded_at_def split: if_splits)
qed (use rec in simp)

lemma recorded_reconfigure:
  assumes laws: "shash_laws E" and row: "ovsrec_subsystem_get_for_uuid idl u \<noteq> None"
    and run: "pmd_reconfigure E B idl st = Some st'" and rec: "recorded E k u st"
  shows "recorded E k u st'"
proof (cases "idl_get_seqno idl = idl_seqno st")
  case False
  then obtain st1 st2 st3 where
    loops: "for_each (remove_deleted_intf E idl) (shash_nodes E (ovs_intfs st)) (st\<lparr>idl_seqno := idl_get_seqno idl\<rparr>) = Some st1"
    "for_each (remove_deleted_subsys E idl) (shash_nodes E (ovs_subs st1)) st1 = Some st2"
    "for_each (ovsdb_if_subsys_process E B) (idl_subsystems idl) st2 = Some st3"
    "for_each (modify_intf E B) (idl_interfaces idl) st3 = Some st'"
    using run by (auto simp: pmd_reconfigure_def bind_eq_Some_conv)
  obtain a where "recorded_at E k u a (st\<lparr>idl_seqno := idl_get_seqno idl\<rparr>)"
    using rec by (auto simp: recorded_def recorded_at_def)
  with loops(1) have st1: "recorded_at E k u a st1"
    by (rule for_each_keeps)
      (rule recorded_frame, auto simp: remove_deleted_intf_def pmd_free_pm_port_def subs_frame_def bind_eq_Some_conv split: option.splits)
  with loops(2) have "recorded_at E k u a st2"
  proof (rule for_each_keeps)
    fix node s t assume "node \<in> set (shash_nodes E (ovs_subs st1))" "remove_deleted_subsys E idl node s = Some t"
      "recorded_at E k u a s"
    moreover have "table_ok E (ovs_subs st1)" "table E (ovs_subs st1) k = Some a" using st1 by (simp_all add: recorded_at_def)
    ultimately show "recorded_at E k u a t"
      using recorded_remove [OF laws row, of "fst node" "snd node" "ovs_subs st1" k a s t] by simp
  qed
  with loops(3) have "recorded_at E k u a st3"
    by (rule for_each_keeps) (rule recorded_process [OF laws])
  with loops(4) have "recorded_at E k u a st'"
    by (rule for_each_keeps)
      (rule recorded_frame, auto simp: modify_intf_def ovsdb_if_intf_modify_def subs_frame_def split: option.splits
        dest: on_port_subs [unfolded subs_frame_def])
  then show ?thesis by (auto simp: recorded_def)
qed (use run rec in \<open>simp add: pmd_reconfigure_def\<close>)

text \<open>
  C26. When the description files of a subsystem cannot be read, the daemon goes on: the subsystem is
  recorded all the same and no port is created. From then on its files are not read again as long as its row exists: it stays
  recorded through every reconfiguration on a replica that still has the row, and processing a recorded subsystem only
  creates the missing ports from the descriptions there are. (When the row is deleted and added again it is a new subsystem.)
\<close>

theorem yaml_failure_sticky:
  fixes E :: "('w, 'd, 'h) externals" and st :: "('w, 'h, 'z) pmd_state"
  assumes "shash_laws E" "state_ok E st" "table E (ovs_subs st) (subsys_name sub) = None"
    and "fst (pm_read_yaml_files E sub (world st)) \<noteq> 0"
  shows "(\<exists>st'. ovsdb_if_subsys_process E B sub st = Some st' \<and> port_of E st' = port_of E st \<and>
      recorded E (subsys_name sub) (subsys_uuid sub) st') \<and>
    (\<forall>idl st1 st2. recorded E (subsys_name sub) (subsys_uuid sub) st1 \<longrightarrow>
       ovsrec_subsystem_get_for_uuid idl (subsys_uuid sub) \<noteq> None \<longrightarrow> pmd_reconfigure E B idl st1 = Some st2 \<longrightarrow>
       recorded E (subsys_name sub) (subsys_uuid sub) st2) \<and>
    (\<forall>sub' st1. recorded E (subsys_name sub) (subsys_uuid sub) st1 \<longrightarrow> subsys_name sub' = subsys_name sub \<longrightarrow>
       ovsdb_if_subsys_process E B sub' st1 =
         for_each (create_missing_intf E B (subsys_name sub)) (subsys_interfaces sub') st1)"
proof (intro conjI allI impI)
  obtain rc w where yaml: "pm_read_yaml_files E sub (world st) = (rc, w)" by (rule prod.exhaust)
  have world: "world (add_subsystem E sub st) = world st" by (simp add: add_subsystem_def Let_def)
  let ?st = "(add_subsystem E sub st)\<lparr>world := w\<rparr>"
  note added = add_subsystem_ok [OF assms(1-3)]
  have "shash_find E (ovs_subs st) (subsys_name sub) = None"
    using assms(1,3) by (simp add: shash_find_None)
  then have "ovsdb_if_subsys_process E B sub st = Some ?st"
    using assms(4) yaml world by (simp add: ovsdb_if_subsys_process_def Let_def)
  moreover have "recorded_at E (subsys_name sub) (subsys_uuid sub) (next_addr st) ?st"
  proof -
    have below: "b < next_addr st" if "table E (ovs_subs st) k = Some b" for k b
      using assms(2) that unfolding state_with_def by blast
    then have "next_addr st \<notin> ran (table E (ovs_subs st))" by (force simp: ran_def)
    note add = shash_add_table [OF assms(1) _ assms(3) this]
    have "table_ok E (ovs_subs st)" using assms(2) by (simp add: state_with_def)
    with add below show ?thesis by (auto simp: recorded_at_def add_subsystem_def Let_def less_Suc_eq)
  qed
  ultimately show "\<exists>st'. ovsdb_if_subsys_process E B sub st = Some st' \<and> port_of E st' = port_of E st \<and>
      recorded E (subsys_name sub) (subsys_uuid sub) st'"
    using added(2) by (auto simp: recorded_def)
next
  fix sub' :: ovsrec_subsystem and st1 :: "('w, 'h, 'z) pmd_state" assume "recorded E (subsys_name sub) (subsys_uuid sub) st1" "subsys_name sub' = subsys_name sub"
  then have "\<exists>node. shash_find E (ovs_subs st1) (subsys_name sub') = Some node"
    using shash_find_None [OF assms(1), of "ovs_subs st1" "subsys_name sub'"] by (auto simp: recorded_def recorded_at_def)
  with \<open>subsys_name sub' = subsys_name sub\<close> show "ovsdb_if_subsys_process E B sub' st1 =
      for_each (create_missing_intf E B (subsys_name sub)) (subsys_interfaces sub') st1"
    by (auto simp: ovsdb_if_subsys_process_def Let_def)
qed (use recorded_reconfigure [OF assms(1)] in blast)

section \<open>The theorems on the sample platform\<close>

lemma sample_idl_simps [simp]:
  "idl_laws (sample_idl seqno enabled)" "idl_get_seqno (sample_idl seqno enabled) = seqno"
  "has_lock (sample_idl seqno enabled)" "\<not> lock_contended (sample_idl seqno enabled)"
  "idl_interfaces (sample_idl seqno enabled) = [sample_interface enabled]"
  "idl_daemons (sample_idl seqno enabled) = [\<lparr>daemon_name = ''ops-pmd''\<rparr>]"
  by (simp_all add: idl_laws_def sample_idl_def sample_subsystem_def)

theorem reconfigure_mirrors_witness:
  "\<exists>st' p. pmd_reconfigure (sample_platform CONNECTOR_SFP_PLUS) (hw_build (sample_platform CONNECTOR_SFP_PLUS))
     (sample_idl 2 True) (sample_state CONNECTOR_SFP_PLUS False) = Some st' \<and>
   port_of (sample_platform CONNECTOR_SFP_PLUS) st' ''1'' = Some p \<and> hw_enable p \<and> uuid p = 1"
proof -
  let ?E = "sample_platform CONNECTOR_SFP_PLUS" and ?st = "sample_state CONNECTOR_SFP_PLUS False"
  let ?p = "(sample_port CONNECTOR_SFP_PLUS)\<lparr>module_device := sample_drivable CONNECTOR_SFP_PLUS, module_info_changed := False\<rparr>"
  have "idl_get_seqno (sample_idl 2 True) \<noteq> idl_seqno ?st" by (simp add: sample_state_simps)
  from reconfigure_mirrors [OF sample_laws sample_idl_simps(1) sample_state_simps(1) this]
  obtain st' where st': "pmd_reconfigure ?E (hw_build ?E) (sample_idl 2 True) ?st = Some st'"
    "mirrors ?E (sample_idl 2 True) (port_of ?E ?st) (port_of ?E st')" by blast
  have id: "uuid ?p = 1" "live (sample_idl 2 True) ?p"
    by (simp_all add: live_def sample_interface_def sample_port_def)
  with st'(2) sample_state_simps(2) [of "[sample_drivable CONNECTOR_SFP_PLUS]" 0 CONNECTOR_SFP_PLUS False]
  obtain p where p: "port_of ?E st' ''1'' = Some p"
    "pm_port_t.truncate p = pm_port_t.truncate (?p\<lparr>hw_enable := hw_enable p\<rparr>)"
    unfolding mirrors_def by blast
  moreover have "uuid p = 1" using truncate_eqD(2) [OF p(2)] id(1) by simp
  moreover have "hw_enable p"
    using st'(2) p(1) by (auto simp: mirrors_def sample_interface_def ovsdb_if_intf_get_hw_enable_def)
  ultimately show ?thesis using st'(1) by blast
qed

theorem yaml_failure_sticky_witness:
  "\<exists>st'. ovsdb_if_subsys_process (sample_externals [] (-1)) (hw_build (sample_externals [] (-1)))
     ((sample_subsystem True)\<lparr>subsys_name := ''other''\<rparr>) (sample_state CONNECTOR_SFP_PLUS False) = Some st' \<and>
     port_of (sample_externals [] (-1)) st' = port_of (sample_externals [] (-1)) (sample_state CONNECTOR_SFP_PLUS False) \<and>
     recorded (sample_externals [] (-1)) ''other'' 2 st'"
proof -
  let ?E = "sample_externals [] (-1)" and ?sub = "(sample_subsystem True)\<lparr>subsys_name := ''other''\<rparr>"
  have "table ?E (ovs_subs (sample_state CONNECTOR_SFP_PLUS False)) (subsys_name ?sub) = None"
    by (simp add: sample_state_def table_def)
  moreover have "fst (pm_read_yaml_files ?E ?sub w) \<noteq> 0" for w by (simp add: pm_read_yaml_files_def)
  ultimately have "\<exists>st'. ovsdb_if_subsys_process ?E (hw_build ?E) ?sub (sample_state CONNECTOR_SFP_PLUS False) = Some st' \<and>
      port_of ?E st' = port_of ?E (sample_state CONNECTOR_SFP_PLUS False) \<and> recorded ?E (subsys_name ?sub) (subsys_uuid ?sub) st'"
    using conjunct1 [OF yaml_failure_sticky [OF sample_laws(1) sample_state_simps(1), where B = "hw_build ?E"]] by blast
  then show ?thesis by (simp add: sample_subsystem_def)
qed

end
