(* ===== verification/Port_Creation.thy ===== *)
theory Port_Creation
  imports Ovsdb_Reconfigure
begin

text \<open>
  Which ports exist: a subsystem whose description files can be read gets exactly the ports of its interface
  rows that the files describe as pluggable. \<^verbatim>\<open>ovsdb_if_subsys_process\<close> and \<^verbatim>\<open>ovsdb_if_intf_create\<close> of
  \<^verbatim>\<open>src/ovsdb_access.c\<close> with \<^verbatim>\<open>pm_get_yaml_port\<close> of \<^verbatim>\<open>src/config.c\<close>.
\<close>

text \<open>The parsed port descriptions of a world, and that bus writes do not change them.\<close>

definition yaml_view :: "('w, 'd, 'h) externals \<Rightarrow> 'w \<Rightarrow> (string \<Rightarrow> nat) \<times> (string \<Rightarrow> nat \<Rightarrow> YamlPort)" where
  "yaml_view E w = (yaml_get_port_count E w, yaml_get_port E w)"

definition writes_keep_yaml :: "('w, 'd, 'h) externals \<Rightarrow> bool" where
  "writes_keep_yaml E \<longleftrightarrow>
     (\<forall>sub reg_op data w. yaml_view E (snd (i2c_reg_write E sub reg_op data w)) = yaml_view E w) \<and>
     (\<forall>dev sub off buf w. yaml_view E (snd (i2c_data_write E dev sub off buf w)) = yaml_view E w)"

definition described :: "('w, 'd, 'h) externals \<Rightarrow> 'w \<Rightarrow> string \<Rightarrow> string \<Rightarrow> bool" where
  "described E w sub k \<longleftrightarrow> (\<exists>y. pm_get_yaml_port E w sub k = Some y \<and> pluggable y)"

lemma described_cong: "yaml_view E w' = yaml_view E w \<Longrightarrow> described E w' = described E w"
  by (intro ext) (simp add: described_def pm_get_yaml_port_eq yaml_view_def)

lemma configure_keeps_yaml:
  assumes "writes_keep_yaml E" "pm_configure_port E port w = Some (port', w')"
  shows "yaml_view E w' = yaml_view E w"
  using assms
  by (auto simp: pm_configure_port_def pm_configure_qsfp_def writes_keep_yaml_def Let_def case_prod_beta
      bind_eq_Some_conv split: option.splits if_splits)

lemma clear_reset_keeps_yaml:
  assumes "writes_keep_yaml E" "pm_clear_reset E port w = Some w'"
  shows "yaml_view E w' = yaml_view E w"
  using assms
  by (auto simp: pm_clear_reset_def pm_reset_def writes_keep_yaml_def Let_def case_prod_beta
      split: option.splits if_splits)

lemma on_port_keeps_yaml:
  assumes "on_port f a st = Some st'"
    and "\<And>p w p' w'. f p w = Some (p', w') \<Longrightarrow> yaml_view E w' = yaml_view E w"
  shows "yaml_view E (world st') = yaml_view E (world st) \<and> ovs_intfs st' = ovs_intfs st"
  using assms by (auto simp: on_port_def bind_eq_Some_conv)

lemma create_effect:
  assumes keep: "writes_keep_yaml E" and run: "ovsdb_if_intf_create E (hw_build E) intf sub st = Some st'"
  shows "yaml_view E (world st') = yaml_view E (world st) \<and>
    ovs_intfs st' = (if described E (world st) sub (intf_name intf)
       then shash_add E (ovs_intfs st) (intf_name intf) (next_addr st) else ovs_intfs st)"
  using run
proof (cases rule: create_cases)
  case none
  then show ?thesis by (auto simp: described_def)
next
  case (made y st1)
  have "yaml_view E (world st1) = yaml_view E (world (with_new_port E (hw_build E) intf sub y st)) \<and>
      ovs_intfs st1 = ovs_intfs (with_new_port E (hw_build E) intf sub y st)"
    by (rule on_port_keeps_yaml [OF made(3)]) (auto simp: hw_build_def dest: configure_keeps_yaml [OF keep])
  moreover have "yaml_view E (world st') = yaml_view E (world st1) \<and> ovs_intfs st' = ovs_intfs st1"
    by (rule on_port_keeps_yaml [OF made(4)]) (auto simp: bind_eq_Some_conv dest: clear_reset_keeps_yaml [OF keep])
  moreover have "described E (world st) sub (intf_name intf)" using made(1,2) by (auto simp: described_def)
  ultimately show ?thesis by simp
qed

lemma names_add: "shash_laws E \<Longrightarrow> dom (table E (shash_add E h k d)) = insert k (dom (table E h))"
proof -
  assume "shash_laws E"
  then have "mset (shash_nodes E (shash_add E h k d)) = mset ((k, d) # shash_nodes E h)"
    by (simp add: shash_laws_def)
  then have "set (shash_nodes E (shash_add E h k d)) = insert (k, d) (set (shash_nodes E h))"
    by (metis list.simps(15) set_mset_mset)
  then show ?thesis by (simp add: table_def dom_map_of_conv_image_fst)
qed

lemma create_missing_names:
  assumes laws: "shash_laws E" "yaml_laws E" "writes_keep_yaml E" and ok: "state_ok E st"
  obtains st' where "create_missing_intf E (hw_build E) sub intf st = Some st'" "state_ok E st'"
    "yaml_view E (world st') = yaml_view E (world st)"
    "dom (port_of E st') = dom (port_of E st) \<union> {k. k = intf_name intf \<and> described E (world st) sub k}"
proof -
  let ?k = "intf_name intf"
  obtain st' where st': "create_missing_intf E (hw_build E) sub intf st = Some st'" "state_ok E st'"
    using laws(1,2) ok by (rule hw.create_missing_ok)
  show ?thesis
  proof (cases "table E (ovs_intfs st) ?k")
    case None
    then have "ovsdb_if_intf_create E (hw_build E) intf sub st = Some st'"
      using st'(1) laws(1) by (simp add: create_missing_intf_def shash_find_None [THEN iffD2])
    from create_effect [OF laws(3) this] show ?thesis
      using st' ok laws(1) by (intro that [of st']) (auto simp: dom_port_of names_add)
  next
    case (Some a)
    then have "st' = st"
      using st'(1) laws(1) ok by (simp add: create_missing_intf_def shash_find_table state_with_def)
    moreover have "?k \<in> dom (port_of E st)" using Some ok by (auto simp: dom_port_of)
    ultimately show ?thesis using st' by (intro that [of st']) auto
  qed
qed

lemma create_all_names:
  assumes laws: "shash_laws E" "yaml_laws E" "writes_keep_yaml E" and ok: "state_ok E st"
  shows "\<exists>st'. for_each (create_missing_intf E (hw_build E) sub) intfs st = Some st' \<and> state_ok E st' \<and>
    dom (port_of E st') = dom (port_of E st) \<union> {k \<in> intf_name ` set intfs. described E (world st) sub k}"
  using ok
proof (induction intfs arbitrary: st)
  case (Cons intf intfs)
  obtain st1 where st1: "create_missing_intf E (hw_build E) sub intf st = Some st1" "state_ok E st1"
    "yaml_view E (world st1) = yaml_view E (world st)"
    "dom (port_of E st1) = dom (port_of E st) \<union> {k. k = intf_name intf \<and> described E (world st) sub k}"
    using laws Cons.prems by (rule create_missing_names)
  from Cons.IH [OF st1(2)] obtain st' where
    "for_each (create_missing_intf E (hw_build E) sub) intfs st1 = Some st'" "state_ok E st'"
    "dom (port_of E st') = dom (port_of E st1) \<union> {k \<in> intf_name ` set intfs. described E (world st1) sub k}" by blast
  then show ?case using st1 described_cong [OF st1(3)] by (intro exI [of _ st']) auto
qed simp

section \<open>What a new subsystem gets\<close>

text \<open>
  C5. When a subsystem appears and its description files are read, the daemon has a port afterwards for
  exactly the interface rows of the subsystem that are described as pluggable, beside the ports it had. Bus
  writes are assumed not to change the parsed descriptions.
\<close>

theorem subsystem_ports:
  assumes "shash_laws E" "yaml_laws E" "writes_keep_yaml E" "state_ok E st"
    and "table E (ovs_subs st) (subsys_name sub) = None" "pm_read_yaml_files E sub (world st) = (0, w')"
  shows "\<exists>st'. ovsdb_if_subsys_process E (hw_build E) sub st = Some st' \<and> state_ok E st' \<and>
    dom (port_of E st') = dom (port_of E st) \<union>
      {k \<in> intf_name ` set (subsys_interfaces sub). described E w' (subsys_name sub) k}"
proof -
  let ?st1 = "(add_subsystem E sub st)\<lparr>world := w'\<rparr>"
  note st1 = add_subsystem_ok(1,2) [OF assms(1,4,5), of w']
  have "world (add_subsystem E sub st) = world st" by (simp add: add_subsystem_def Let_def)
  then have "ovsdb_if_subsys_process E (hw_build E) sub st =
      for_each (create_missing_intf E (hw_build E) (subsys_name sub)) (subsys_interfaces sub) ?st1"
    using assms(1,5,6) by (simp add: ovsdb_if_subsys_process_def Let_def shash_find_None [THEN iffD2])
  moreover have "world ?st1 = w'" by simp
  ultimately show ?thesis
    using create_all_names [OF assms(1-3) st1(1), of "subsys_name sub" "subsys_interfaces sub"] st1(2) by simp
qed

theorem subsystem_ports_witness:
  "\<exists>st'. ovsdb_if_subsys_process (sample_platform CONNECTOR_QSFP28) (hw_build (sample_platform CONNECTOR_QSFP28))
     (sample_subsystem True) ((sample_state CONNECTOR_QSFP28 False)\<lparr>ovs_intfs := [], ovs_subs := [], ports := Map.empty,
       uuids := Map.empty\<rparr>) = Some st' \<and>
     dom (port_of (sample_platform CONNECTOR_QSFP28) st') = {''1''}"
proof -
  let ?E = "sample_platform CONNECTOR_QSFP28"
  let ?st = "(sample_state CONNECTOR_QSFP28 False)\<lparr>ovs_intfs := [], ovs_subs := [], ports := Map.empty, uuids := Map.empty\<rparr>"
  have ok: "state_ok ?E ?st" and new: "table ?E (ovs_subs ?st) (subsys_name (sample_subsystem True)) = None"
    by (simp_all add: state_with_def table_def table_ok_def sample_state_def)
  have keep: "writes_keep_yaml ?E" by (simp add: writes_keep_yaml_def yaml_view_def)
  have yaml: "pm_read_yaml_files ?E (sample_subsystem True) (world ?st) = (0, world ?st)"
    by (simp add: pm_read_yaml_files_def)
  have empty: "dom (port_of ?E ?st) = {}" by (simp add: dom_def port_of_def table_def)
  have names: "{k \<in> intf_name ` set (subsys_interfaces (sample_subsystem True)).
      described ?E (world ?st) (subsys_name (sample_subsystem True)) k} = {''1''}"
    by (auto simp: described_def pm_get_yaml_port_eq sample_subsystem_def sample_interface_def)
  from subsystem_ports [OF sample_laws keep ok new yaml] show ?thesis
    unfolding empty names by (elim exE conjE) (rule exI, rule conjI, assumption, simp only: Un_empty_left)
qed

end
