(* ===== verification/A2_Devices.thy ===== *)
theory A2_Devices
  imports Port_Creation
begin

text \<open>
  \<^verbatim>\<open>pm_create_a2_devices\<close> of \<^verbatim>\<open>src/config.c\<close>, which adds to the description of a subsystem a device for the diagnostics
  page of every SFP+ port. Its only call, in \<^verbatim>\<open>pm_read_yaml_files\<close>, is commented out. The theorem shows that it does what
  \<^verbatim>\<open>pm_read_a2\<close> of \<^verbatim>\<open>src/plug.c\<close> relies on: the device is found under the name that function asks for.
\<close>

section \<open>The function\<close>

text \<open>
  The fields of \<open>YamlDevice\<close> the source uses; the initialisation commands \<open>pre\<close> and \<open>post\<close> are passed on as they
  are. \<open>sfpp\<close> is the constant \<open>SFPP\<close> of \<^verbatim>\<open>config-yaml.h\<close>, whose text is not part of this repository, and
  \<open>yaml_add_device\<close> a function of that library.
\<close>

record 'o YamlDevice =
  dev_name :: string
  bus :: string
  dev_type :: string
  address :: nat
  pre :: 'o
  post :: 'o

definition PM_SFP_A2_I2C_ADDRESS :: nat where "PM_SFP_A2_I2C_ADDRESS = 0x51"

text \<open>\<open>strncpy\<close> and \<open>strncat\<close> into a block of \<open>name_len\<close> bytes; a text that does not fit overflows the block.\<close>

definition a2_new_name :: "string \<Rightarrow> string option" where
  "a2_new_name old =
     (let name_len = length old + 5
      in if length old < name_len \<and> length old + length ''_dom'' < name_len then Some (old @ ''_dom'') else None)"

definition create_a2_device ::
  "('w, 'o YamlDevice, 'h) externals \<Rightarrow> string \<Rightarrow>
   (string \<Rightarrow> string \<Rightarrow> 'o YamlDevice \<Rightarrow> 'w \<Rightarrow> int \<times> 'w) \<Rightarrow> string \<times> nat \<Rightarrow>
   ('w, 'h, 'z) pmd_state \<Rightarrow> ('w, 'h, 'z) pmd_state option" where
  "create_a2_device E sfpp yaml_add_device node st = do {
     port \<leftarrow> ports st (snd node);
     yaml_port \<leftarrow> pm_get_yaml_port E (world st) (subsystem port) (port_instance port);
     (if \<not> pluggable yaml_port then Some st
      else do {
        conn \<leftarrow> YamlPort.connector yaml_port;
        (if conn \<noteq> sfpp then Some st
         else
           (case yaml_find_device E (world st) (subsystem port) (module_eeprom yaml_port) of
              None \<Rightarrow> Some st
            | Some a0_device \<Rightarrow> do {
                new_name \<leftarrow> a2_new_name (dev_name a0_device);
                let a2_device = \<lparr>dev_name = new_name, bus = bus a0_device, dev_type = dev_type a0_device,
                  address = PM_SFP_A2_I2C_ADDRESS, pre = pre a0_device, post = post a0_device\<rparr>;
                let (rc, w) = yaml_add_device (subsystem port) new_name a2_device (world st);
                Some (st\<lparr>world := w\<rparr>) })) }) }"

definition pm_create_a2_devices ::
  "('w, 'o YamlDevice, 'h) externals \<Rightarrow> string \<Rightarrow>
   (string \<Rightarrow> string \<Rightarrow> 'o YamlDevice \<Rightarrow> 'w \<Rightarrow> int \<times> 'w) \<Rightarrow>
   ('w, 'h, 'z) pmd_state \<Rightarrow> ('w, 'h, 'z) pmd_state option" where
  "pm_create_a2_devices E sfpp yaml_add_device st =
     for_each (create_a2_device E sfpp yaml_add_device) (shash_nodes E (ovs_intfs st)) st"

section \<open>What it relies on\<close>

text \<open>
  The device list of the library: a device is found under its own name; a device that was added (result 0) is found, one that
  was refused is not added; and neither changes any other device or any port description.
\<close>

definition device_laws ::
  "('w, 'o YamlDevice, 'h) externals \<Rightarrow> (string \<Rightarrow> string \<Rightarrow> 'o YamlDevice \<Rightarrow> 'w \<Rightarrow> int \<times> 'w) \<Rightarrow> bool" where
  "device_laws E add \<longleftrightarrow>
     (\<forall>w sub n d. yaml_find_device E w sub n = Some d \<longrightarrow> dev_name d = n) \<and>
     (\<forall>w sub n d. dev_name d = n \<longrightarrow>
        yaml_view E (snd (add sub n d w)) = yaml_view E w \<and>
        (\<forall>sub' n'. yaml_find_device E (snd (add sub n d w)) sub' n' =
           (if fst (add sub n d w) = 0 \<and> sub' = sub \<and> n' = n then Some d else yaml_find_device E w sub' n')))"

text \<open>The ports are those of the description files, and no module memory is named like a diagnostics device.\<close>

definition ports_described :: "('w, 'd, 'h) externals \<Rightarrow> ('w, 'h, 'z) pmd_state \<Rightarrow> bool" where
  "ports_described E st \<longleftrightarrow>
     (\<forall>k p. port_of E st k = Some p \<longrightarrow>
        pm_get_yaml_port E (world st) (subsystem p) (port_instance p) = Some (module_device p) \<and>
        (\<forall>k' p'. port_of E st k' = Some p' \<longrightarrow>
           module_eeprom (module_device p) \<noteq> module_eeprom (module_device p') @ ''_dom''))"

definition a2_device_of :: "'o YamlDevice \<Rightarrow> 'o YamlDevice" where
  "a2_device_of d = d\<lparr>dev_name := dev_name d @ ''_dom'', address := 0x51\<rparr>"

text \<open>What one port gets: the device, unless the library refused to add it.\<close>

definition a2_refused ::
  "('w, 'o YamlDevice, 'h) externals \<Rightarrow> (string \<Rightarrow> string \<Rightarrow> 'o YamlDevice \<Rightarrow> 'w \<Rightarrow> int \<times> 'w) \<Rightarrow> 'w \<Rightarrow>
   string \<Rightarrow> 'o YamlDevice \<Rightarrow> bool" where
  "a2_refused E add w0 sub d \<longleftrightarrow>
     (\<exists>w. yaml_view E w = yaml_view E w0 \<and> fst (add sub (dev_name (a2_device_of d)) (a2_device_of d) w) \<noteq> 0)"

definition has_a2_device ::
  "('w, 'o YamlDevice, 'h) externals \<Rightarrow> string \<Rightarrow> (string \<Rightarrow> string \<Rightarrow> 'o YamlDevice \<Rightarrow> 'w \<Rightarrow> int \<times> 'w) \<Rightarrow>
   'w \<Rightarrow> 'w \<Rightarrow> 'z pm_port_t_scheme \<Rightarrow> bool" where
  "has_a2_device E sfpp add w0 w p \<longleftrightarrow>
     (YamlPort.connector (module_device p) = Some sfpp \<longrightarrow>
        (\<forall>d. yaml_find_device E w0 (subsystem p) (module_eeprom (module_device p)) = Some d \<longrightarrow>
           yaml_find_device E w (subsystem p) (module_eeprom (module_device p) @ ''_dom'') = Some (a2_device_of d) \<or>
           a2_refused E add w0 (subsystem p) d))"

lemma a2_new_name_fits [simp]: "a2_new_name old = Some (old @ ''_dom'')"
  by (simp add: a2_new_name_def)

lemma yaml_port_cong: "yaml_view E w' = yaml_view E w \<Longrightarrow> pm_get_yaml_port E w' = pm_get_yaml_port E w"
  by (intro ext) (simp add: pm_get_yaml_port_eq yaml_view_def)

section \<open>One port\<close>

lemma create_a2_step:
  assumes laws: "device_laws E add" and p: "ports st (snd node) = Some p"
    and y: "pm_get_yaml_port E (world st) (subsystem p) (port_instance p) = Some (module_device p)"
    and good: "pluggable (module_device p)" "YamlPort.connector (module_device p) \<noteq> None"
  obtains w where "create_a2_device E sfpp add node st = Some (st\<lparr>world := w\<rparr>)"
    "yaml_view E w = yaml_view E (world st)"
    "\<And>sub n. (\<And>d. YamlPort.connector (module_device p) = Some sfpp \<Longrightarrow>
         yaml_find_device E (world st) (subsystem p) (module_eeprom (module_device p)) = Some d \<Longrightarrow>
         \<not> (sub = subsystem p \<and> n = module_eeprom (module_device p) @ ''_dom'')) \<Longrightarrow>
       yaml_find_device E w sub n = yaml_find_device E (world st) sub n"
    "has_a2_device E sfpp add (world st) w p"
proof -
  obtain c where c: "YamlPort.connector (module_device p) = Some c" using good(2) by auto
  let ?dev = "yaml_find_device E (world st) (subsystem p) (module_eeprom (module_device p))"
  show ?thesis
  proof (cases "c = sfpp \<and> ?dev \<noteq> None")
    case False
    then have "create_a2_device E sfpp add node st = Some (st\<lparr>world := world st\<rparr>)"
      using p y good c by (auto simp: create_a2_device_def)
    then show ?thesis
      by (rule that) (use False c in \<open>auto simp: has_a2_device_def\<close>)
  next
    case True
    then obtain d where d: "?dev = Some d" by auto
    let ?n = "dev_name d @ ''_dom''"
    have eeprom: "dev_name d = module_eeprom (module_device p)" using laws d unfolding device_laws_def by blast
    have a2: "dev_name (a2_device_of d) = ?n" by (simp add: a2_device_of_def)
    obtain rc w where add: "add (subsystem p) ?n (a2_device_of d) (world st) = (rc, w)" by (rule prod.exhaust)
    with laws a2 have w: "yaml_view E w = yaml_view E (world st)"
      "\<And>sub n. yaml_find_device E w sub n =
         (if rc = 0 \<and> sub = subsystem p \<and> n = ?n then Some (a2_device_of d) else yaml_find_device E (world st) sub n)"
      unfolding device_laws_def by (metis fst_conv snd_conv)+
    have "\<lparr>dev_name = ?n, bus = bus d, dev_type = dev_type d, address = PM_SFP_A2_I2C_ADDRESS, pre = pre d, post = post d\<rparr> =
        a2_device_of d"
      by (simp add: a2_device_of_def PM_SFP_A2_I2C_ADDRESS_def)
    then have "create_a2_device E sfpp add node st = Some (st\<lparr>world := w\<rparr>)"
      using p y good c True d add by (simp add: create_a2_device_def)
    moreover have "rc = 0 \<or> a2_refused E add (world st) (subsystem p) d"
      using add a2 unfolding a2_refused_def by (metis fst_conv)
    ultimately show ?thesis
      by (intro that [of w]) (use w True c d eeprom in \<open>auto simp: has_a2_device_def\<close>)
  qed
qed

section \<open>All ports\<close>

text \<open>What the loop has done when the nodes \<open>xs\<close> are left: only the device list has changed.\<close>

definition a2_progress ::
  "('w, 'o YamlDevice, 'h) externals \<Rightarrow> string \<Rightarrow> (string \<Rightarrow> string \<Rightarrow> 'o YamlDevice \<Rightarrow> 'w \<Rightarrow> int \<times> 'w) \<Rightarrow>
   ('w, 'h, 'z) pmd_state \<Rightarrow> (string \<times> nat) list \<Rightarrow>
   ('w, 'h, 'z) pmd_state \<Rightarrow> bool" where
  "a2_progress E sfpp add st xs st1 \<longleftrightarrow>
     st1 = st\<lparr>world := world st1\<rparr> \<and> yaml_view E (world st1) = yaml_view E (world st) \<and>
     set xs \<subseteq> set (shash_nodes E (ovs_intfs st)) \<and>
     (\<forall>sub n. (\<forall>k p. port_of E st k = Some p \<longrightarrow> n \<noteq> module_eeprom (module_device p) @ ''_dom'') \<longrightarrow>
        yaml_find_device E (world st1) sub n = yaml_find_device E (world st) sub n) \<and>
     (\<forall>k p. port_of E st k = Some p \<longrightarrow> k \<notin> fst ` set xs \<longrightarrow> has_a2_device E sfpp add (world st) (world st1) p)"

text \<open>
  The next device keeps the progress: it can only replace a device of the same name, which was made from the same module
  memory.
\<close>

lemma a2_progress_next:
  assumes I: "a2_progress E sfpp add st ((k, a) # xs) st1" and desc: "ports_described E st" and p: "port_of E st k = Some p"
    and view: "yaml_view E w = yaml_view E (world st1)"
    and frame: "\<And>sub n. (\<And>d. YamlPort.connector (module_device p) = Some sfpp \<Longrightarrow>
         yaml_find_device E (world st1) (subsystem p) (module_eeprom (module_device p)) = Some d \<Longrightarrow>
         \<not> (sub = subsystem p \<and> n = module_eeprom (module_device p) @ ''_dom'')) \<Longrightarrow>
       yaml_find_device E w sub n = yaml_find_device E (world st1) sub n"
    and made: "has_a2_device E sfpp add (world st1) w p"
  shows "a2_progress E sfpp add st xs (st1\<lparr>world := w\<rparr>)"
proof -
  let ?e = "\<lambda>p. module_eeprom (module_device p)"
  have "yaml_find_device E (world st1) (subsystem p) (?e p) = yaml_find_device E (world st) (subsystem p) (?e p)"
    using I desc p unfolding a2_progress_def ports_described_def by blast
  moreover have view0: "yaml_view E (world st1) = yaml_view E (world st)" using I by (simp add: a2_progress_def)
  ultimately have done_p: "has_a2_device E sfpp add (world st) w p" using made by (simp add: has_a2_device_def a2_refused_def)
  have done_q: "has_a2_device E sfpp add (world st) w q"
    if q: "port_of E st j = Some q" "has_a2_device E sfpp add (world st) (world st1) q" for j q
  proof (cases "subsystem q = subsystem p \<and> ?e q @ ''_dom'' = ?e p @ ''_dom'' \<and>
      YamlPort.connector (module_device p) = Some sfpp")
    case True
    then show ?thesis using done_p by (simp add: has_a2_device_def)
  next
    case False
    then have "yaml_find_device E w (subsystem q) (?e q @ ''_dom'') =
        yaml_find_device E (world st1) (subsystem q) (?e q @ ''_dom'')"
      by (intro frame) auto
    then show ?thesis using q(2) by (simp add: has_a2_device_def)
  qed
  have "yaml_find_device E w sub m = yaml_find_device E (world st) sub m"
    if "\<forall>j q. port_of E st j = Some q \<longrightarrow> m \<noteq> ?e q @ ''_dom''" for sub m
    using that p I frame [of sub m] unfolding a2_progress_def by metis
  moreover have "has_a2_device E sfpp add (world st) w q" if "port_of E st j = Some q" "j \<notin> fst ` set xs" for j q
    using that done_p done_q I p unfolding a2_progress_def by (cases "j = k") auto
  moreover have "st1\<lparr>world := w\<rparr> = st\<lparr>world := w\<rparr>"
    using I unfolding a2_progress_def by (metis pmd_state.update_convs(8) pmd_state.surjective)
  ultimately show ?thesis using I view unfolding a2_progress_def by simp
qed

lemma a2_progress_step:
  assumes laws: "device_laws E add" and ok: "state_ok E st" and desc: "ports_described E st"
    and I: "a2_progress E sfpp add st (node # xs) st1"
  shows "\<exists>st2. create_a2_device E sfpp add node st1 = Some st2 \<and> a2_progress E sfpp add st xs st2"
proof -
  obtain k a where n: "node = (k, a)" by (cases node)
  have "node \<in> set (shash_nodes E (ovs_intfs st))" using I by (simp add: a2_progress_def)
  then have tab: "table E (ovs_intfs st) k = Some a" using ok n by (simp add: table_nodes state_with_def)
  then obtain p where p: "ports st a = Some p" "port_of E st k = Some p" "port_good k p"
    using ok by (rule_tac state_ok_port)
  have st1: "st1 = st\<lparr>world := world st1\<rparr>" and view: "yaml_view E (world st1) = yaml_view E (world st)"
    using I unfolding a2_progress_def by blast+
  have "ports st1 (snd node) = Some p"
    using st1 p(1) n by (metis pmd_state.select_convs(3) pmd_state.surjective pmd_state.update_convs(8) snd_conv)
  moreover have "pm_get_yaml_port E (world st1) (subsystem p) (port_instance p) = Some (module_device p)"
    using desc p(2) unfolding yaml_port_cong [OF view] ports_described_def by blast
  moreover have "pluggable (module_device p)" "YamlPort.connector (module_device p) \<noteq> None"
    using p(3) by (auto simp: port_good_def device_ready_def)
  ultimately show ?thesis
    by (rule create_a2_step [OF laws]) (use a2_progress_next [OF I [unfolded n] desc p(2)] in blast)
qed

text \<open>
  C21. Run on the ports of the description files, \<open>pm_create_a2_devices\<close> returns, changes nothing but the
  device list, and there only names made from a module memory's name with \<open>_dom\<close> appended. For every port with the connector
  \<open>SFPP\<close> whose module memory is a known device, that name afterwards finds a device at address 0x51 on the bus of the module
  memory, with its type and its commands, unless \<open>yaml_add_device\<close> refused the device, which the code only logs. If
  \<open>SFPP\<close> is the text that \<^verbatim>\<open>src/plug.c\<close> compares with, it is the name \<open>pm_read_a2\<close> asks for, when it fits the buffer of that
  function. The hypotheses are the contract of the device list, a sound state, and ports that are those of the description
  files, none with a module memory named like the diagnostics device of another.
\<close>

theorem a2_devices_created:
  assumes "device_laws E add" "state_ok E st" "ports_described E st"
  shows "\<exists>w. pm_create_a2_devices E sfpp add st = Some (st\<lparr>world := w\<rparr>) \<and>
    pm_get_yaml_port E w = pm_get_yaml_port E (world st) \<and>
    (\<forall>sub n. (\<forall>k p. port_of E st k = Some p \<longrightarrow> n \<noteq> module_eeprom (module_device p) @ ''_dom'') \<longrightarrow>
       yaml_find_device E w sub n = yaml_find_device E (world st) sub n) \<and>
    (\<forall>k p d. port_of E st k = Some p \<longrightarrow> YamlPort.connector (module_device p) = Some sfpp \<longrightarrow>
       yaml_find_device E (world st) (subsystem p) (module_eeprom (module_device p)) = Some d \<longrightarrow>
       (let a2_name = module_eeprom (module_device p) @ ''_dom''; a2 = d\<lparr>dev_name := a2_name, address := 0x51\<rparr> in
         (yaml_find_device E w (subsystem p) a2_name = Some a2 \<or>
          (\<exists>w'. yaml_view E w' = yaml_view E (world st) \<and> fst (add (subsystem p) a2_name a2 w') \<noteq> 0)) \<and>
         (sfpp = CONNECTOR_SFP_PLUS \<longrightarrow> length a2_name < MAX_DEVICE_NAME_LEN \<longrightarrow>
            a2_device_name (module_device p) = Some a2_name)))"
proof -
  let ?nodes = "shash_nodes E (ovs_intfs st)"
  have "port_of E st k = None" if "k \<notin> fst ` set ?nodes" for k
    using assms(2) that by (auto simp: port_of_None table_def map_of_eq_None_iff)
  then have "a2_progress E sfpp add st ?nodes st" by (auto simp: a2_progress_def)
  then have "\<exists>st'. for_each (create_a2_device E sfpp add) ?nodes st = Some st' \<and> a2_progress E sfpp add st [] st'"
    by (rule for_each_suffix) (rule a2_progress_step [OF assms])
  then obtain st' where st': "pm_create_a2_devices E sfpp add st = Some st'" "a2_progress E sfpp add st [] st'"
    unfolding pm_create_a2_devices_def by blast
  show ?thesis
  proof (intro exI [of _ "world st'"] conjI allI impI)
    show "pm_create_a2_devices E sfpp add st = Some (st\<lparr>world := world st'\<rparr>)"
      using st' unfolding a2_progress_def by metis
    show "pm_get_yaml_port E (world st') = pm_get_yaml_port E (world st)"
      using st'(2) unfolding a2_progress_def by (blast intro: yaml_port_cong)
  next
    fix sub n assume "\<forall>k p. port_of E st k = Some p \<longrightarrow> n \<noteq> module_eeprom (module_device p) @ ''_dom''"
    then show "yaml_find_device E (world st') sub n = yaml_find_device E (world st) sub n"
      using st'(2) unfolding a2_progress_def by blast
  next
    fix k p d
    assume p: "port_of E st k = Some p" "YamlPort.connector (module_device p) = Some sfpp"
      "yaml_find_device E (world st) (subsystem p) (module_eeprom (module_device p)) = Some d"
    then have "has_a2_device E sfpp add (world st) (world st') p" using st'(2) unfolding a2_progress_def by simp
    moreover have "dev_name d = module_eeprom (module_device p)"
      using assms(1) p(3) unfolding device_laws_def by blast
    ultimately show "let a2_name = module_eeprom (module_device p) @ ''_dom''; a2 = d\<lparr>dev_name := a2_name, address := 0x51\<rparr> in
        (yaml_find_device E (world st') (subsystem p) a2_name = Some a2 \<or>
         (\<exists>w'. yaml_view E w' = yaml_view E (world st) \<and> fst (add (subsystem p) a2_name a2 w') \<noteq> 0)) \<and>
        (sfpp = CONNECTOR_SFP_PLUS \<longrightarrow> length a2_name < MAX_DEVICE_NAME_LEN \<longrightarrow>
           a2_device_name (module_device p) = Some a2_name)"
      using p by (auto simp: Let_def has_a2_device_def a2_refused_def a2_device_name_def a2_device_of_def)
  qed
qed

section \<open>A concrete device list\<close>

text \<open>A platform whose world is the list of its devices, with one SFP+ port.\<close>

definition device_externals ::
  "YamlPort \<Rightarrow> (string \<times> string \<rightharpoonup> unit YamlDevice, unit YamlDevice, (string \<times> nat) list) externals" where
  "device_externals y = \<lparr>
     yaml_new_config_handle = (\<lambda>w. w),
     yaml_get_port_count = (\<lambda>w sub. 1),
     yaml_get_port = (\<lambda>w sub i. y),
     yaml_find_device = (\<lambda>w sub n. map_option (dev_name_update (\<lambda>_. n)) (w (sub, n))),
     yaml_add_subsystem = (\<lambda>sub dir w. (0, w)),
     yaml_parse_devices = (\<lambda>sub w. (0, w)),
     yaml_parse_ports = (\<lambda>sub w. (0, w)),
     yaml_init_devices = (\<lambda>sub w. w),
     i2c_reg_read = (\<lambda>sub reg_op w. (0, 1, w)),
     i2c_reg_write = (\<lambda>sub reg_op data w. (0, w)),
     i2c_data_read = (\<lambda>dev sub off buf w. (0, \<lambda>i. 0, w)),
     i2c_data_write = (\<lambda>dev sub off buf w. (0, w)),
     shash_init = [],
     shash_find = (\<lambda>h k. find (\<lambda>node. fst node = k) h),
     shash_add = (\<lambda>h k d. (k, d) # h),
     shash_delete = (\<lambda>h node. remove1 node h),
     shash_nodes = (\<lambda>h. h),
     string_literal_tail = (\<lambda>s i. 0),
     MAP_ENABLE = ''enable'',
     MAP_ENABLE_TRUE = ''true'',
     connector_string = (\<lambda>c. ''other''),
     connector_status_string = (\<lambda>c. ''other''),
     cable_technology_string = (\<lambda>c. ''other'')\<rparr>"

definition add_to_list ::
  "string \<Rightarrow> string \<Rightarrow> unit YamlDevice \<Rightarrow> (string \<times> string \<rightharpoonup> unit YamlDevice) \<Rightarrow>
   int \<times> (string \<times> string \<rightharpoonup> unit YamlDevice)" where
  "add_to_list sub n d w = (0, w((sub, n) \<mapsto> d))"

lemma device_externals_laws: "device_laws (device_externals y) add_to_list"
  by (auto simp: device_laws_def device_externals_def add_to_list_def yaml_view_def)

definition sample_a0_device :: "unit YamlDevice" where
  "sample_a0_device = \<lparr>dev_name = ''eeprom_1'', bus = ''i2c-1'', dev_type = ''eeprom'', address = 0x50, pre = (), post = ()\<rparr>"

definition device_state ::
  "(string \<times> string \<rightharpoonup> unit YamlDevice, (string \<times> nat) list, unit) pmd_state" where
  "device_state =
     \<lparr>ovs_intfs = [(''1'', 1)], ovs_subs = [],
      ports = [1 \<mapsto> (sample_port CONNECTOR_SFP_PLUS)\<lparr>module_device := sample_drivable CONNECTOR_SFP_PLUS\<rparr>],
      uuids = Map.empty, next_addr = 2, idl_seqno = 1, cur_hw_set = False,
      world = [(''base'', ''eeprom_1'') \<mapsto> sample_a0_device], committed = [], idl_calls = []\<rparr>"

lemma device_state_ok:
  "state_ok (device_externals y) device_state"
  "port_of (device_externals y) device_state = [''1'' \<mapsto>
     (sample_port CONNECTOR_SFP_PLUS)\<lparr>module_device := sample_drivable CONNECTOR_SFP_PLUS\<rparr>]"
proof -
  have tab: "table (device_externals y) h = map_of h" "table_ok (device_externals y) h \<longleftrightarrow>
      distinct (map fst h) \<and> distinct (map snd h)" for h
    by (simp_all add: table_def table_ok_def device_externals_def)
  have "port_ok (sample_port CONNECTOR_SFP_PLUS)" by simp
  then show "state_ok (device_externals y) device_state"
    by (simp add: state_with_def device_state_def tab port_good_def port_ok_def) (simp add: sample_port_def)
  show "port_of (device_externals y) device_state = [''1'' \<mapsto>
     (sample_port CONNECTOR_SFP_PLUS)\<lparr>module_device := sample_drivable CONNECTOR_SFP_PLUS\<rparr>]"
    by (intro ext) (simp add: port_of_def device_state_def tab)
qed

theorem a2_devices_created_witness:
  "\<exists>w. pm_create_a2_devices (device_externals (sample_drivable CONNECTOR_SFP_PLUS)) CONNECTOR_SFP_PLUS add_to_list device_state =
       Some (device_state\<lparr>world := w\<rparr>) \<and>
     yaml_find_device (device_externals (sample_drivable CONNECTOR_SFP_PLUS)) w ''base'' ''eeprom_1_dom'' =
       Some \<lparr>dev_name = ''eeprom_1_dom'', bus = ''i2c-1'', dev_type = ''eeprom'', address = 0x51, pre = (), post = ()\<rparr>"
proof -
  let ?y = "sample_drivable CONNECTOR_SFP_PLUS" let ?E = "device_externals ?y"
  let ?p = "(sample_port CONNECTOR_SFP_PLUS)\<lparr>module_device := ?y\<rparr>"
  have p: "port_of ?E device_state ''1'' = Some ?p" by (simp add: device_state_ok)
  have eeprom: "module_eeprom ?y = ''eeprom_1''" "subsystem ?p = ''base''"
    by (simp_all add: sample_drivable_def sample_device_def sample_port_def)
  have desc: "ports_described ?E device_state"
    by (simp add: ports_described_def device_state_ok eeprom pm_get_yaml_port_eq)
      (simp add: device_externals_def sample_port_def)
  have a0: "yaml_find_device ?E (world device_state) (subsystem ?p) (module_eeprom (module_device ?p)) = Some sample_a0_device"
    by (simp add: eeprom) (simp add: device_externals_def device_state_def sample_a0_device_def eeprom)
  have add: "fst (add_to_list sub n d w) = 0" for sub n d w by (simp add: add_to_list_def)
  from a2_devices_created [where sfpp = CONNECTOR_SFP_PLUS, OF device_externals_laws device_state_ok(1) desc] obtain w where
    w: "pm_create_a2_devices ?E CONNECTOR_SFP_PLUS add_to_list device_state = Some (device_state\<lparr>world := w\<rparr>)"
    and found: "\<forall>k p d. port_of ?E device_state k = Some p \<longrightarrow>
       YamlPort.connector (module_device p) = Some CONNECTOR_SFP_PLUS \<longrightarrow>
       yaml_find_device ?E (world device_state) (subsystem p) (module_eeprom (module_device p)) = Some d \<longrightarrow>
       yaml_find_device ?E w (subsystem p) (module_eeprom (module_device p) @ ''_dom'') =
         Some (d\<lparr>dev_name := module_eeprom (module_device p) @ ''_dom'', address := 0x51\<rparr>)"
    unfolding Let_def add by blast
  have "YamlPort.connector (module_device ?p) = Some CONNECTOR_SFP_PLUS" by simp
  from found [rule_format, OF p this a0]
  have "yaml_find_device ?E w ''base'' ''eeprom_1_dom'' = Some (sample_a0_device\<lparr>dev_name := ''eeprom_1_dom'', address := 0x51\<rparr>)"
    using eeprom by simp
  with w show ?thesis unfolding sample_a0_device_def by auto
qed

end
