(* ===== verification/Ovsdb_Frame.thy ===== *)
theory Ovsdb_Frame
  imports Ovsdb_Reconfigure
begin

text \<open>
  What the configuration code and the scan never touch: the \<open>cur_hw\<close> mark, the transactions and the registrations
  with the replica; and what the daemon registers when it starts (the subscribe functions of
  \<^verbatim>\<open>src/ovsdb_access.c\<close>).
\<close>

section \<open>The globals that are left alone\<close>

definition other_globals :: "('w, 'h, 'z) pmd_state \<Rightarrow> bool \<times> db_write list list \<times> idl_call list" where
  "other_globals st = (cur_hw_set st, committed st, idl_calls st)"

lemma other_globals_updates [simp]:
  "other_globals (st\<lparr>ports := ps\<rparr>) = other_globals st" "other_globals (st\<lparr>world := w\<rparr>) = other_globals st"
  "other_globals (st\<lparr>uuids := us\<rparr>) = other_globals st" "other_globals (st\<lparr>ovs_subs := h\<rparr>) = other_globals st"
  "other_globals (st\<lparr>ovs_intfs := h\<rparr>) = other_globals st" "other_globals (st\<lparr>idl_seqno := n\<rparr>) = other_globals st"
  "other_globals (st\<lparr>next_addr := a\<rparr>) = other_globals st"
  by (simp_all add: other_globals_def)

lemma on_port_other_globals: "on_port f a st = Some st' \<Longrightarrow> other_globals st' = other_globals st"
  by (auto simp: on_port_def bind_eq_Some_conv)

lemma for_each_other_globals:
  assumes "for_each f xs st = Some st'" "\<And>x s t. f x s = Some t \<Longrightarrow> other_globals t = other_globals s"
  shows "other_globals st' = other_globals st"
  by (rule for_each_rel [OF assms(1), where R = "\<lambda>s t. other_globals t = other_globals s"]) (use assms(2) in auto)

lemma create_other_globals:
  assumes "create_missing_intf E B sub intf st = Some st'"
  shows "other_globals st' = other_globals st"
proof (cases "st' = st")
  case False
  then have "ovsdb_if_intf_create E B intf sub st = Some st'"
    using assms by (auto simp: create_missing_intf_def split: option.splits)
  then show ?thesis
    by (cases rule: create_cases) (auto simp: with_new_port_def dest!: on_port_other_globals)
qed simp

lemma process_other_globals:
  assumes "ovsdb_if_subsys_process E B sub st = Some st'"
  shows "other_globals st' = other_globals st"
proof -
  have added: "other_globals ((add_subsystem E sub st)\<lparr>world := w\<rparr>) = other_globals st" for w
    by (simp add: add_subsystem_def Let_def)
  show ?thesis
    using assms added for_each_other_globals [OF _ create_other_globals]
    by (fastforce simp: ovsdb_if_subsys_process_def Let_def case_prod_beta split: option.splits if_splits)
qed

lemma reconfigure_other_globals:
  assumes "pmd_reconfigure E B idl st = Some st'"
  shows "other_globals st' = other_globals st"
proof (cases "idl_get_seqno idl = idl_seqno st")
  case False
  then obtain st1 st2 st3 where
    loops: "for_each (remove_deleted_intf E idl) (shash_nodes E (ovs_intfs st)) (st\<lparr>idl_seqno := idl_get_seqno idl\<rparr>) = Some st1"
    "for_each (remove_deleted_subsys E idl) (shash_nodes E (ovs_subs st1)) st1 = Some st2"
    "for_each (ovsdb_if_subsys_process E B) (idl_subsystems idl) st2 = Some st3"
    "for_each (modify_intf E B) (idl_interfaces idl) st3 = Some st'"
    using assms by (auto simp: pmd_reconfigure_def bind_eq_Some_conv)
  have "other_globals st1 = other_globals (st\<lparr>idl_seqno := idl_get_seqno idl\<rparr>)"
    by (rule for_each_other_globals [OF loops(1)])
      (auto simp: remove_deleted_intf_def pmd_free_pm_port_def bind_eq_Some_conv split: option.split_asm)
  moreover have "other_globals st2 = other_globals st1"
    by (rule for_each_other_globals [OF loops(2)])
      (auto simp: remove_deleted_subsys_def bind_eq_Some_conv split: option.split_asm)
  moreover have "other_globals st3 = other_globals st2"
    by (rule for_each_other_globals [OF loops(3) process_other_globals])
  moreover have "other_globals st' = other_globals st3"
    by (rule for_each_other_globals [OF loops(4)])
      (auto simp: modify_intf_def ovsdb_if_intf_modify_def split: option.split_asm dest: on_port_other_globals)
  ultimately show ?thesis by simp
qed (use assms in \<open>simp add: pmd_reconfigure_def\<close>)

lemma read_state_other_globals: "pm_read_state E B st = Some st' \<Longrightarrow> other_globals st' = other_globals st"
  unfolding pm_read_state_def
  by (erule for_each_other_globals) (auto split: if_splits dest: on_port_other_globals)

lemma configure_other_globals:
  assumes "pmd_configure E B idl st = Some st'"
  shows "other_globals st' = other_globals st"
proof -
  obtain st1 where loops: "for_each (ovsdb_if_subsys_process E B) (idl_subsystems idl) st = Some st1"
    "for_each (ovsdb_if_intf_configure E B) (idl_interfaces idl) st1 = Some st'"
    using assms by (auto simp: pmd_configure_def bind_eq_Some_conv)
  have "other_globals st1 = other_globals st"
    by (rule for_each_other_globals [OF loops(1) process_other_globals])
  moreover have "other_globals st' = other_globals st1"
    by (rule for_each_other_globals [OF loops(2)])
      (auto simp: ovsdb_if_intf_configure_def configure_at_def split: option.split_asm if_split_asm
        dest: on_port_other_globals)
  ultimately show ?thesis by simp
qed

section \<open>What is registered with the replica\<close>

text \<open>
  The order the replica needs: a column belongs to a table added before it, and only a column added before can be
  exempted from waking the client (adding it again would undo that).
\<close>

fun calls_ordered :: "idl_call set \<Rightarrow> idl_call list \<Rightarrow> bool" where
  "calls_ordered seen [] \<longleftrightarrow> True"
| "calls_ordered seen (c # cs) \<longleftrightarrow>
     (case c of
        Idl_add_column t col \<Rightarrow> Idl_add_table t \<in> seen \<and> Idl_omit_alert t col \<notin> seen
      | Idl_omit_alert t col \<Rightarrow> Idl_add_column t col \<in> seen
      | _ \<Rightarrow> True) \<and> calls_ordered (insert c seen) cs"

fun written_column :: "db_write \<Rightarrow> string \<times> string" where
  "written_column (Set_pm_info u info) = (''interface'', ''pm_info'')"
| "written_column (Set_cur_hw d v) = (''daemon'', ''cur_hw'')"

text \<open>
  What a client can rely on to be told: a replica holds the rows of the tables that were added, and in them the columns that
  were added; a change of a column whose alert is omitted does not give the replica a new revision. \<open>noticed calls db\<close> is the
  database \<open>db\<close> as far as a client with the registrations \<open>calls\<close> is shown it and told of its changes: all other columns
  are empty, and there is no lock if none was requested. The identity of a row is always there.
\<close>

definition alerted :: "idl_call list \<Rightarrow> string \<Rightarrow> string \<Rightarrow> 'a \<Rightarrow> 'a \<Rightarrow> 'a" where
  "alerted calls t c none v =
     (if Idl_add_column t c \<in> set calls \<and> Idl_omit_alert t c \<notin> set calls then v else none)"

definition rows_of :: "idl_call list \<Rightarrow> string \<Rightarrow> ('r \<Rightarrow> 'r) \<Rightarrow> 'r list \<Rightarrow> 'r list" where
  "rows_of calls t f rows = (if Idl_add_table t \<in> set calls then map f rows else [])"

definition noticed_interface :: "idl_call list \<Rightarrow> ovsrec_interface \<Rightarrow> ovsrec_interface" where
  "noticed_interface calls r =
     \<lparr>intf_name = alerted calls ''interface'' ''name'' [] (intf_name r), intf_uuid = intf_uuid r,
      hw_intf_config = alerted calls ''interface'' ''hw_intf_config'' Map.empty (hw_intf_config r)\<rparr>"

definition noticed_subsystem :: "idl_call list \<Rightarrow> ovsrec_subsystem \<Rightarrow> ovsrec_subsystem" where
  "noticed_subsystem calls r =
     \<lparr>subsys_name = alerted calls ''subsystem'' ''name'' [] (subsys_name r), subsys_uuid = subsys_uuid r,
      hw_desc_dir = alerted calls ''subsystem'' ''hw_desc_dir'' [] (hw_desc_dir r),
      subsys_interfaces = alerted calls ''subsystem'' ''interfaces'' []
        (rows_of calls ''interface'' (noticed_interface calls) (subsys_interfaces r))\<rparr>"

definition noticed :: "idl_call list \<Rightarrow> ovsdb_idl \<Rightarrow> ovsdb_idl" where
  "noticed calls db =
     db\<lparr>lock_contended := lock_contended db \<and> (\<exists>l. Idl_set_lock l \<in> set calls),
        has_lock := has_lock db \<and> (\<exists>l. Idl_set_lock l \<in> set calls),
        idl_subsystems := rows_of calls ''subsystem'' (noticed_subsystem calls) (idl_subsystems db),
        idl_interfaces := rows_of calls ''interface'' (noticed_interface calls) (idl_interfaces db),
        idl_daemons := rows_of calls ''daemon'' (\<lambda>r. \<lparr>daemon_name = alerted calls ''daemon'' ''name'' [] (daemon_name r)\<rparr>)
          (idl_daemons db)\<rparr>"

lemma noticed_all: "noticed registrations db = db"
proof -
  have tables: "rows_of registrations ''interface'' id xs = xs" "rows_of registrations ''subsystem'' id ys = ys" for xs ys
    by (simp_all add: rows_of_def registrations_def)
  have intf: "noticed_interface registrations = id"
    by (simp add: fun_eq_iff noticed_interface_def alerted_def registrations_def)
  have sub: "noticed_subsystem registrations = id"
    unfolding fun_eq_iff noticed_subsystem_def intf tables by (simp add: alerted_def registrations_def)
  have daemons: "rows_of registrations ''daemon'' (\<lambda>r. \<lparr>daemon_name = alerted registrations ''daemon'' ''name'' [] (daemon_name r)\<rparr>) zs = zs" for zs
    by (simp add: rows_of_def alerted_def registrations_def map_idI)
  have "\<exists>l. Idl_set_lock l \<in> set registrations" by (simp add: registrations_def)
  then show ?thesis by (simp add: noticed_def intf sub tables daemons)
qed

text \<open>
  C7. The daemon is shown, and told of every change of, everything it reads: after the start the
  database as far as it is noticed under the daemon's registrations is the whole database, with every column of the rows
  that the reconfiguration and the publication take from it. So an iteration decides as if it saw the database itself. Every
  column a transaction can write is registered with its alert off, as the write-only check of the replica demands, and no
  other column is. The calls come in the order the replica needs, and the lock is requested first.
\<close>

theorem registrations_complete:
  assumes "pm_ovsdb_if_init E B idl st = Some st'"
  shows "noticed (idl_calls st') db = db \<and>
    {(t, c). Idl_omit_alert t c \<in> set (idl_calls st')} = range written_column \<and>
    calls_ordered {} (idl_calls st') \<and> Idl_set_lock ''ops_pmd'' = hd (idl_calls st') \<and>
    Idl_verify_write_only \<in> set (idl_calls st')"
proof -
  have "other_globals st' = other_globals (opened E idl st)"
    using assms unfolding init_opened by (rule configure_other_globals)
  then have calls: "idl_calls st' = registrations" by (simp add: other_globals_def opened_def)
  have "range written_column = {(''interface'', ''pm_info''), (''daemon'', ''cur_hw'')}"
  proof
    have "written_column x \<in> {(''interface'', ''pm_info''), (''daemon'', ''cur_hw'')}" for x by (cases x) simp_all
    then show "range written_column \<subseteq> {(''interface'', ''pm_info''), (''daemon'', ''cur_hw'')}" by blast
    show "{(''interface'', ''pm_info''), (''daemon'', ''cur_hw'')} \<subseteq> range written_column"
      using rangeI [of written_column "Set_pm_info 0 []"] rangeI [of written_column "Set_cur_hw [] 0"] by simp
  qed
  moreover have "{(t, c). Idl_omit_alert t c \<in> set registrations} = {(''interface'', ''pm_info''), (''daemon'', ''cur_hw'')}"
    by (auto simp: registrations_def)
  moreover have "calls_ordered {} registrations" "Idl_set_lock ''ops_pmd'' = hd registrations"
    "Idl_verify_write_only \<in> set registrations" by (simp_all add: registrations_def)
  ultimately show ?thesis by (simp add: calls noticed_all)
qed

theorem registrations_complete_witness:
  "\<exists>st'. pm_ovsdb_if_init (sample_platform CONNECTOR_SFP_PLUS) (hw_build (sample_platform CONNECTOR_SFP_PLUS))
     (sample_idl 1 True) ((sample_state CONNECTOR_SFP_PLUS False)\<lparr>ports := Map.empty, uuids := Map.empty\<rparr>) = Some st' \<and>
     Idl_verify_write_only \<in> set (idl_calls st')"
proof -
  let ?st = "(sample_state CONNECTOR_SFP_PLUS False)\<lparr>ports := Map.empty, uuids := Map.empty\<rparr>"
  have "ports ?st = Map.empty" "uuids ?st = Map.empty" "0 < next_addr ?st" by (simp_all add: sample_state_def)
  then obtain st' where "pm_ovsdb_if_init (sample_platform CONNECTOR_SFP_PLUS) (hw_build (sample_platform CONNECTOR_SFP_PLUS))
      (sample_idl 1 True) ?st = Some st'"
    by (rule hw.init_ok [OF sample_laws])
  with registrations_complete [OF this] show ?thesis by blast
qed

end
