(* ===== verification/Ovsdb_Publish.thy ===== *)
theory Ovsdb_Publish
  imports Ovsdb_Frame
begin

text \<open>
  What \<^verbatim>\<open>pm_ovsdb_update\<close> and the debug command of \<^verbatim>\<open>src/ovsdb_access.c\<close> publish.
\<close>

section \<open>Publishing\<close>

text \<open>What one port contributes to a transaction, and the port afterwards.\<close>

definition published :: "('w, 'd, 'h) externals \<Rightarrow> ovsdb_idl \<Rightarrow> 'z pm_port_t_scheme option \<Rightarrow> db_write list" where
  "published E idl p = (case p of
     None \<Rightarrow> []
   | Some port \<Rightarrow>
       if live idl port \<and> module_info_changed port
       then [Set_pm_info (uuid port) (pm_info_of E (ovs_module_columns port))] else [])"

definition acknowledged :: "ovsdb_idl \<Rightarrow> 'z pm_port_t_scheme \<Rightarrow> 'z pm_port_t_scheme" where
  "acknowledged idl port = (if live idl port then port\<lparr>module_info_changed := False\<rparr> else port)"

lemma acknowledged_good: "port_good k port \<Longrightarrow> port_good k (acknowledged idl port)"
  by (simp add: acknowledged_def port_good_def port_ok_def)

lemma published_in_txn:
  assumes "table E h k = Some a" "m k = Some p" "module_info_changed p" "live idl p"
  shows "Set_pm_info (uuid p) (pm_info_of E (ovs_module_columns p)) \<in>
    set (concat (map (\<lambda>(k, a). published E idl (m k)) (shash_nodes E h)))"
proof -
  have "published E idl (m k) = [Set_pm_info (uuid p) (pm_info_of E (ovs_module_columns p))]"
    using assms(2-4) by (simp add: published_def)
  moreover have "(k, a) \<in> set (shash_nodes E h)" using assms(1) by (simp add: table_def map_of_SomeD)
  ultimately show ?thesis by force
qed

lemma put_port_ports:
  assumes "state_with P E st" "table E (ovs_intfs st) k = Some a" "P k p'"
  shows "state_with P E (st\<lparr>ports := (ports st)(a \<mapsto> p')\<rparr>)"
    and "port_of E (st\<lparr>ports := (ports st)(a \<mapsto> p')\<rparr>) = (port_of E st)(k \<mapsto> p')"
  using put_port_state [OF assms, of "world st"] by simp_all

lemma update_intf_step:
  assumes unmarked: "\<forall>k port. P k port \<longrightarrow> P k (port\<lparr>module_info_changed := False\<rparr>)"
    and ok: "state_with P E st" and a: "table E (ovs_intfs st) k = Some a"
  obtains port st' where "port_of E st k = Some port"
    "update_intf E idl (k, a) (txn, st) = Some (txn @ published E idl (Some port), st')" "state_with P E st'"
    "port_of E st' = (port_of E st)(k \<mapsto> acknowledged idl port)"
    "same_frame st st'" "cur_hw_set st' = cur_hw_set st" "world st' = world st"
proof -
  obtain port where port: "ports st a = Some port" "port_of E st k = Some port" "P k port" "0 < a"
    using ok a by (rule state_ok_port)
  have same: "(port_of E st)(k \<mapsto> port) = port_of E st" using port(2) by (simp add: fun_upd_idem)
  show ?thesis
  proof (cases "ovsrec_interface_get_for_uuid idl (uuid port)")
    case None
    then have "\<not> live idl port" using interface_get_None by blast
    with None port ok same show ?thesis
      by (intro that [of port st]) (simp_all add: update_intf_def published_def acknowledged_def same_frame_def)
  next
    case (Some intf)
    then have "live idl port" using interface_get_None by (metis option.distinct(1))
    have intf: "intf_uuid intf = uuid port"
      using Some by (auto simp: ovsrec_interface_get_for_uuid_def find_Some_iff)
    show ?thesis
    proof (cases "module_info_changed port")
      case True
      let ?p = "port\<lparr>module_info_changed := False\<rparr>"
      let ?st = "st\<lparr>ports := (ports st)(a \<mapsto> ?p)\<rparr>"
      have "P k ?p" using port(3) unmarked by blast
      note put = put_port_ports [OF ok a this]
      show ?thesis
        using Some True port intf \<open>live idl port\<close> put
        by (intro that [of port ?st])
          (simp_all add: update_intf_def published_def acknowledged_def same_frame_def)
    next
      case False
      then have "acknowledged idl port = port" by (simp add: acknowledged_def)
      with Some False port ok same show ?thesis
        by (intro that [of port st]) (simp_all add: update_intf_def published_def same_frame_def)
    qed
  qed
qed

lemma update_all_ok:
  fixes E :: "('w, 'd, 'h) externals" and st :: "('w, 'h, 'z) pmd_state"
  assumes unmarked: "\<forall>k port. P k port \<longrightarrow> P k (port\<lparr>module_info_changed := False\<rparr>)"
    and ok: "state_with P E st"
  obtains st' where
    "for_each (update_intf E idl) (shash_nodes E (ovs_intfs st)) ([], st) =
       Some (concat (map (\<lambda>(k, a). published E idl (port_of E st k)) (shash_nodes E (ovs_intfs st))), st')"
    "state_with P E st'" "\<And>k. port_of E st' k = map_option (acknowledged idl) (port_of E st k)"
    "same_frame st st'" "cur_hw_set st' = cur_hw_set st" "world st' = world st"
proof -
  let ?nodes = "shash_nodes E (ovs_intfs st)"
  let ?pub = "\<lambda>(k, a :: nat). published E idl (port_of E st k)"
  define I where "I xs = (\<lambda>(txn, st'). state_with P E st' \<and> same_frame st st' \<and> cur_hw_set st' = cur_hw_set st \<and>
      world st' = world st \<and> distinct (map fst xs) \<and> set xs \<subseteq> set ?nodes \<and>
      txn @ concat (map ?pub xs) = concat (map ?pub ?nodes) \<and>
      (\<forall>k. port_of E st' k = (if k \<in> fst ` set xs then port_of E st k else map_option (acknowledged idl) (port_of E st k))))"
    for xs :: "(string \<times> nat) list"
  have "\<exists>r. for_each (update_intf E idl) ?nodes ([], st) = Some r \<and> I [] r"
  proof (rule for_each_suffix [where I = I])
    have "port_of E st k = None" if "k \<notin> fst ` set ?nodes" for k
      using ok that by (auto simp: port_of_None table_def map_of_eq_None_iff)
    then show "I ?nodes ([], st)"
      using ok by (auto simp: I_def same_frame_def distinct_names)
  next
    fix node xs and r :: "db_write list \<times> ('w, 'h, 'z) pmd_state" assume I: "I (node # xs) r"
    obtain k a where n: "node = (k, a)" by (cases node)
    obtain txn st1 where r: "r = (txn, st1)" by (cases r)
    have ok1: "state_with P E st1" using I by (simp add: I_def r)
    have "table E (ovs_intfs st1) k = Some a"
      using I nodes_table [OF ok, of node] by (simp add: I_def same_frame_def n r)
    then obtain port st2 where st2: "port_of E st1 k = Some port"
      "update_intf E idl (k, a) (txn, st1) = Some (txn @ published E idl (Some port), st2)" "state_with P E st2"
      "port_of E st2 = (port_of E st1)(k \<mapsto> acknowledged idl port)"
      "same_frame st1 st2" "cur_hw_set st2 = cur_hw_set st1" "world st2 = world st1"
      by (rule update_intf_step [OF unmarked ok1, where idl = idl and txn = txn]) blast
    have old: "port_of E st k = Some port" using I st2(1) by (simp add: I_def n r)
    have "I xs (txn @ published E idl (Some port), st2)"
      using I st2 old by (auto simp: I_def n r same_frame_def)
    then show "\<exists>r'. update_intf E idl node r = Some r' \<and> I xs r'" using st2(2) n r by auto
  qed
  then obtain txn st' where "for_each (update_intf E idl) ?nodes ([], st) = Some (txn, st')" "I [] (txn, st')" by auto
  with that show ?thesis by (auto simp: I_def)
qed

definition cur_hw_write :: "ovsdb_idl \<Rightarrow> ('w, 'h, 'z) pmd_state \<Rightarrow> db_write list" where
  "cur_hw_write idl st =
     (if \<not> cur_hw_set st \<and> NAME_IN_DAEMON_TABLE \<in> daemon_name ` set (idl_daemons idl)
      then [Set_cur_hw NAME_IN_DAEMON_TABLE 1] else [])"

lemma set_cur_hw_eq:
  "set_cur_hw idl (txn, st) =
     (txn @ cur_hw_write idl st,
      if cur_hw_write idl st = [] then st else st\<lparr>cur_hw_set := True\<rparr>)"
  by (force simp: set_cur_hw_def cur_hw_write_def find_None_iff find_Some_iff image_iff in_set_conv_nth
      split: option.splits)

lemma update_with:
  fixes E :: "('w, 'd, 'h) externals" and st :: "('w, 'h, 'z) pmd_state"
  assumes unmarked: "\<forall>k port. P k port \<longrightarrow> P k (port\<lparr>module_info_changed := False\<rparr>)"
    and ok: "state_with P E st"
  obtains st' where "pm_ovsdb_update E idl st = Some st'" "state_with P E st'"
    "\<And>k. port_of E st' k = map_option (acknowledged idl) (port_of E st k)"
    "committed st' = committed st @
       [concat (map (\<lambda>(k, a). published E idl (port_of E st k)) (shash_nodes E (ovs_intfs st))) @ cur_hw_write idl st]"
    "ovs_intfs st' = ovs_intfs st" "world st' = world st" "idl_seqno st' = idl_seqno st"
    "cur_hw_set st' \<longleftrightarrow> cur_hw_set st \<or> cur_hw_write idl st \<noteq> []"
proof -
  let ?txn = "concat (map (\<lambda>(k, a). published E idl (port_of E st k)) (shash_nodes E (ovs_intfs st)))"
  obtain st1 where st1: "for_each (update_intf E idl) (shash_nodes E (ovs_intfs st)) ([], st) = Some (?txn, st1)"
    "state_with P E st1" "\<And>k. port_of E st1 k = map_option (acknowledged idl) (port_of E st k)"
    "same_frame st st1" "cur_hw_set st1 = cur_hw_set st" "world st1 = world st"
    by (rule update_all_ok [OF unmarked ok, where idl = idl]) blast
  have cur_write: "cur_hw_write idl st1 = cur_hw_write idl st" by (simp add: cur_hw_write_def st1(5))
  define st2 where "st2 = (if cur_hw_write idl st = [] then st1 else st1\<lparr>cur_hw_set := True\<rparr>)
      \<lparr>committed := committed st1 @ [?txn @ cur_hw_write idl st]\<rparr>"
  have run: "pm_ovsdb_update E idl st = Some st2"
    using st1(1) cur_write by (simp add: pm_ovsdb_update_def set_cur_hw_eq st2_def)
  have st2: "ovs_intfs st2 = ovs_intfs st1" "ports st2 = ports st1" "ovs_subs st2 = ovs_subs st1"
    "uuids st2 = uuids st1" "next_addr st2 = next_addr st1" "world st2 = world st1" "idl_seqno st2 = idl_seqno st1"
    "committed st2 = committed st1 @ [?txn @ cur_hw_write idl st]"
    "cur_hw_set st2 \<longleftrightarrow> cur_hw_set st \<or> cur_hw_write idl st \<noteq> []"
    by (simp_all add: st2_def st1(5))
  have "state_with P E st2" using st1(2) by (simp add: state_with_def st2(1-5))
  moreover have "port_of E st2 = port_of E st1" using st2(1,2) by (rule port_of_cong)
  ultimately show ?thesis
    using that [OF run] st1(3,4,6) st2 by (simp add: same_frame_def)
qed

lemma unmarked_good: "\<forall>k port. port_good k port \<longrightarrow> port_good k (port\<lparr>module_info_changed := False\<rparr>)"
  by (simp add: port_good_def port_ok_def)

lemmas update_ok = update_with [OF unmarked_good]

section \<open>The debug command\<close>

lemma dump_ok:
  assumes laws: "shash_laws E" and ok: "state_with P E st"
  shows "\<exists>ds. pm_debug_dump E argv st = Some ds"
proof -
  have node: "\<exists>ds'. dump_node E st node ds = Some ds'" if "table E (ovs_intfs st) (fst node) = Some (snd node)" for node ds
    by (rule state_ok_port [OF ok that]) (simp add: dump_node_def)
  have "\<exists>ds'. for_each (dump_node E st) (shash_nodes E (ovs_intfs st)) ds = Some ds' \<and> True" for ds
    by (rule for_each_invariant) (use node nodes_table [OF ok] in simp_all)
  moreover have "\<exists>ds'. (case shash_find E (ovs_intfs st) k of None \<Rightarrow> Some '''' | Some n \<Rightarrow> dump_node E st n '''') = Some ds'" for k
    using laws ok node [of "(k, _)"] by (auto simp: shash_find_table state_with_def split: option.splits)
  ultimately show ?thesis
    by (auto simp: pm_debug_dump_def pm_interfaces_dump_def)
qed

section \<open>What is published\<close>

text \<open>
  C6. One transaction publishes exactly the ports that changed and whose row exists, with the pairs of
  \<open>pm_info_of\<close>, in the order of the table, and \<open>cur_hw\<close> at most once in the daemon's life; afterwards the
  published ports count as unchanged.
\<close>

theorem update_publishes:
  assumes "state_ok E st"
  shows "\<exists>st'. pm_ovsdb_update E idl st = Some st' \<and> state_ok E st' \<and>
    committed st' = committed st @
      [concat (map (\<lambda>(k, a). published E idl (port_of E st k)) (shash_nodes E (ovs_intfs st))) @ cur_hw_write idl st] \<and>
    (\<forall>k. port_of E st' k = map_option (acknowledged idl) (port_of E st k)) \<and> world st' = world st \<and>
    (cur_hw_write idl st \<noteq> [] \<longrightarrow> cur_hw_set st' \<and> cur_hw_write idl st' = [])"
proof -
  obtain st' where st': "pm_ovsdb_update E idl st = Some st'" "state_ok E st'"
    "\<And>k. port_of E st' k = map_option (acknowledged idl) (port_of E st k)"
    "committed st' = committed st @
       [concat (map (\<lambda>(k, a). published E idl (port_of E st k)) (shash_nodes E (ovs_intfs st))) @ cur_hw_write idl st]"
    "world st' = world st" "cur_hw_set st' \<longleftrightarrow> cur_hw_set st \<or> cur_hw_write idl st \<noteq> []"
    using assms by (rule update_ok [where idl = idl]) blast
  then have "cur_hw_write idl st \<noteq> [] \<longrightarrow> cur_hw_set st' \<and> cur_hw_write idl st' = []"
    by (simp add: cur_hw_write_def)
  with st' show ?thesis by blast
qed

text \<open>
  C22. The debug command prints, for a named interface, the text of its port or nothing when there is none, and
  without arguments the texts of all ports in table order below the heading; it never follows a dangling pointer.
\<close>

theorem debug_dump_all:
  assumes "shash_laws E" "state_ok E st"
  shows "pm_debug_dump E [cmd, ''interface'', k] st =
      Some (case port_of E st k of None \<Rightarrow> '''' | Some p \<Rightarrow> pm_interface_dump E p) \<and>
    pm_debug_dump E [cmd] st =
      Some (''================ Interfaces ================\<newline>'' @
        concat (map (\<lambda>(k, a). pm_interface_dump E (the (port_of E st k))) (shash_nodes E (ovs_intfs st))))"
proof
  have node: "dump_node E st node ds = Some (ds @ pm_interface_dump E (the (port_of E st (fst node))))"
    if "table E (ovs_intfs st) (fst node) = Some (snd node)" for node ds
    by (rule state_ok_port [OF assms(2) that]) (simp add: dump_node_def)
  show "pm_debug_dump E [cmd, ''interface'', k] st =
      Some (case port_of E st k of None \<Rightarrow> '''' | Some p \<Rightarrow> pm_interface_dump E p)"
  proof (cases "table E (ovs_intfs st) k")
    case None
    then have "port_of E st k = None" "shash_find E (ovs_intfs st) k = None"
      using assms by (simp_all add: port_of_None shash_find_None)
    then show ?thesis by (simp add: pm_debug_dump_def pm_interfaces_dump_def numeral_2_eq_2)
  next
    case (Some a)
    then have "shash_find E (ovs_intfs st) k = Some (k, a)"
      using assms by (simp add: shash_find_table state_with_def)
    moreover obtain p where "port_of E st k = Some p" using assms(2) Some by (rule state_ok_port)
    ultimately show ?thesis using node [of "(k, a)" "''''"] Some
      by (auto simp: pm_debug_dump_def pm_interfaces_dump_def numeral_2_eq_2)
  qed
  have "for_each (dump_node E st) nodes ds =
      Some (ds @ concat (map (\<lambda>(k, a). pm_interface_dump E (the (port_of E st k))) nodes))"
    if "set nodes \<subseteq> set (shash_nodes E (ovs_intfs st))" for nodes ds
    using that
  proof (induction nodes arbitrary: ds)
    case (Cons n nodes)
    then show ?case using node [OF nodes_table [OF assms(2)], of n ds] by (simp add: case_prod_beta)
  qed simp
  from this [OF subset_refl] show "pm_debug_dump E [cmd] st = Some (''================ Interfaces ================\<newline>'' @
      concat (map (\<lambda>(k, a). pm_interface_dump E (the (port_of E st k))) (shash_nodes E (ovs_intfs st))))"
    by (simp add: pm_debug_dump_def pm_interfaces_dump_def del: append_Cons)
qed

section \<open>The theorems on the sample platform\<close>

theorem update_publishes_witness:
  "\<exists>st'. pm_ovsdb_update (sample_platform CONNECTOR_SFP_PLUS) (sample_idl 1 True) (sample_state CONNECTOR_SFP_PLUS True) = Some st' \<and>
     committed st' = [[Set_pm_info 1 [], Set_cur_hw ''ops-pmd'' 1]]"
proof -
  let ?E = "sample_platform CONNECTOR_SFP_PLUS"
  let ?p = "(sample_port CONNECTOR_SFP_PLUS)\<lparr>module_device := sample_drivable CONNECTOR_SFP_PLUS, module_info_changed := True\<rparr>"
  have "uuid ?p = 1" "ovs_module_columns ?p = zero_module_columns" by (simp_all add: sample_port_def)
  then have "published ?E (sample_idl 1 True) (Some ?p) = [Set_pm_info 1 []]"
    by (simp add: published_def live_def sample_interface_def pm_info_of_def zero_module_columns_def)
  moreover have "cur_hw_write (sample_idl 1 True) (sample_state CONNECTOR_SFP_PLUS True) = [Set_cur_hw ''ops-pmd'' 1]"
    by (simp add: cur_hw_write_def sample_state_simps NAME_IN_DAEMON_TABLE_def)
  ultimately show ?thesis
    using update_publishes [OF sample_state_simps(1) [of "[sample_drivable CONNECTOR_SFP_PLUS]" 0 CONNECTOR_SFP_PLUS True],
        of "sample_idl 1 True"]
    by (auto simp: sample_state_simps)
qed

theorem debug_dump_all_witness:
  "pm_debug_dump (sample_platform CONNECTOR_SFP_PLUS) [''ops-pmd/dump'', ''interface'', ''1''] (sample_state CONNECTOR_SFP_PLUS False) =
     Some ''Pluggable info for Interface 1:\<newline>'' \<and>
   pm_debug_dump (sample_platform CONNECTOR_SFP_PLUS) [''ops-pmd/dump'', ''interface'', ''2''] (sample_state CONNECTOR_SFP_PLUS False) = Some ''''"
proof -
  let ?E = "sample_platform CONNECTOR_SFP_PLUS" and ?st = "sample_state CONNECTOR_SFP_PLUS False"
  have "port_of ?E ?st ''2'' = None" by (simp add: port_of_def table_def sample_state_simps(7))
  with debug_dump_all [OF sample_laws(1) sample_state_simps(1) [of "[sample_drivable CONNECTOR_SFP_PLUS]" 0 CONNECTOR_SFP_PLUS False],
      of "''ops-pmd/dump''" "''1''"]
    debug_dump_all [OF sample_laws(1) sample_state_simps(1) [of "[sample_drivable CONNECTOR_SFP_PLUS]" 0 CONNECTOR_SFP_PLUS False],
      of "''ops-pmd/dump''" "''2''"]
  show ?thesis
    by (simp add: sample_state_simps pm_interface_dump_def sample_port_def zero_module_columns_def dump_column_def)
qed

end
