(* ===== verification/Pmd_Main.thy ===== *)
theory Pmd_Main
  imports Ovsdb_Publish
begin

text \<open>
  \<^verbatim>\<open>src/pmd.c\<close>: initialisation, one iteration of the daemon, the control commands and the main loop.
  The argument \<open>idl\<close> of an iteration is the database replica after \<open>ovsdb_idl_run\<close>. The main loop is a function of
  what its iterations meet: the replica, and the control commands served after it. It ends at the top of the loop, stopped,
  or crashed by a NULL or freed pointer or a full buffer. The same loop as a step relation serves the simulation build, whose
  commands change the state. How long an iteration waits for the commit, the control server or the timer is not modelled: an
  iteration that never returns has no place in the list. The options and the way to the loop are modelled in \<open>Pmd_Start\<close>.
\<close>

section \<open>Initialisation and one iteration\<close>

definition pmd_init ::
  "('w, 'd, 'h) externals \<Rightarrow> ('w, 'z) build \<Rightarrow> ovsdb_idl \<Rightarrow>
   ('w, 'h, 'z) pmd_state \<Rightarrow> ('w, 'h, 'z) pmd_state option" where
  "pmd_init E B idl st = pm_ovsdb_if_init E B idl (st\<lparr>world := pm_config_init E (world st)\<rparr>)"

definition pmd_run ::
  "('w, 'd, 'h) externals \<Rightarrow> ('w, 'z) build \<Rightarrow> ovsdb_idl \<Rightarrow>
   ('w, 'h, 'z) pmd_state \<Rightarrow> ('w, 'h, 'z) pmd_state option" where
  "pmd_run E B idl st =
     (if lock_contended idl then Some st
      else if \<not> has_lock idl then Some st
      else do {
        st \<leftarrow> pmd_reconfigure E B idl st;
        st \<leftarrow> pm_read_state E B st;
        pm_ovsdb_update E idl st })"

definition pmd_exit :: "('w, 'h, 'z) pmd_state \<Rightarrow> ('w, 'h, 'z) pmd_state" where
  "pmd_exit st = st\<lparr>idl_calls := idl_calls st @ [Idl_destroy]\<rparr>"

section \<open>Control commands\<close>

datatype reply = Reply "string option" | Reply_error string | No_reply

definition pmd_unixctl_sim ::
  "('w, 'd, 'h) externals \<Rightarrow> (string \<Rightarrow> byte list option) \<Rightarrow> string list \<Rightarrow>
   ('w, 'h, sim_fields) pmd_state \<Rightarrow> (reply \<times> ('w, 'h, sim_fields) pmd_state) option" where
  "pmd_unixctl_sim E files argv st =
     (let answer = (\<lambda>(rc, ds, st). Some (if rc < 0 then Reply_error ds else Reply (Some ds), st)) in
      if length argv = 4 \<and> argv ! 2 = ''insert'' then
        pmd_sim_insert E files (argv ! 1) (argv ! 3) st \<bind> answer
      else if length argv = 3 \<and> argv ! 2 = ''remove'' then
        pmd_sim_remove E (argv ! 1) st \<bind> answer
      else Some (No_reply, st))"

definition pmd_unixctl_dump ::
  "('w, 'd, 'h) externals \<Rightarrow> string list \<Rightarrow> ('w, 'h, 'z) pmd_state \<Rightarrow> reply option" where
  "pmd_unixctl_dump E argv st = map_option (\<lambda>ds. Reply (Some ds)) (pm_debug_dump E argv st)"

definition ops_pmd_exit :: "bool \<Rightarrow> bool \<times> reply" where
  "ops_pmd_exit exiting = (True, Reply None)"

section \<open>The main loop\<close>

datatype ('w, 'h, 'z) place =
    Top "('w, 'h, 'z) pmd_state"
  | Serving bool "('w, 'h, 'z) pmd_state"
  | Stopped "('w, 'h, 'z) pmd_state"
  | Crashed

inductive main_step ::
  "('w, 'd, 'h) externals \<Rightarrow> ('w, 'z) build \<Rightarrow> ('w, 'h, 'z) place \<Rightarrow> ('w, 'h, 'z) place \<Rightarrow> bool"
  for E :: "('w, 'd, 'h) externals" and B :: "('w, 'z) build" where
  run: "pmd_run E B idl st = Some st' \<Longrightarrow> main_step E B (Top st) (Serving False st')"
| run_crash: "pmd_run E B idl st = None \<Longrightarrow> main_step E B (Top st) Crashed"
| dump: "pmd_unixctl_dump E argv st = Some r \<Longrightarrow> main_step E B (Serving exiting st) (Serving exiting st)"
| dump_crash: "pmd_unixctl_dump E argv st = None \<Longrightarrow> main_step E B (Serving exiting st) Crashed"
| exit: "ops_pmd_exit exiting = (exiting', r) \<Longrightarrow> main_step E B (Serving exiting st) (Serving exiting' st)"
| loop: "main_step E B (Serving False st) (Top st)"
| leave: "main_step E B (Serving True st) (Stopped (pmd_exit st))"

inductive_cases main_step_TopE: "main_step E B (Top st) p"
inductive_cases main_step_ServingE: "main_step E B (Serving exiting st) p"
inductive_simps main_step_final: "main_step E B (Stopped st) p" "main_step E B Crashed p"

text \<open>The zeroed globals of the program.\<close>

definition zero_state :: "'h \<Rightarrow> 'w \<Rightarrow> ('w, 'h, 'z) pmd_state" where
  "zero_state h w = \<lparr>ovs_intfs = h, ovs_subs = h, ports = Map.empty, uuids = Map.empty, next_addr = 1,
     idl_seqno = 0, cur_hw_set = False, world = w, committed = [], idl_calls = []\<rparr>"

text \<open>
  The loop of \<open>main\<close> of the hardware build, with the flag \<open>exiting\<close> and the replies sent so far. Each element of the list
  is one iteration: the replica that \<open>pmd_run\<close> finds and the requests that \<open>unixctl_server_run\<close> then serves. At the
  end of the list the loop is at its top.
\<close>

datatype request = Dump "string list" | Exit

fun serve ::
  "('w, 'd, 'h) externals \<Rightarrow> ('w, 'h, 'z) pmd_state \<Rightarrow> request \<Rightarrow> bool \<times> reply list \<Rightarrow> (bool \<times> reply list) option" where
  "serve E st (Dump argv) (exiting, replies) = do {
     r \<leftarrow> pmd_unixctl_dump E argv st;
     Some (exiting, replies @ [r]) }"
| "serve E st Exit (exiting, replies) =
     (let (exiting, r) = ops_pmd_exit exiting in Some (exiting, replies @ [r]))"

fun main_loop ::
  "('w, 'd, 'h) externals \<Rightarrow> ('w, 'z) build \<Rightarrow> (ovsdb_idl \<times> request list) list \<Rightarrow>
   bool \<times> reply list \<Rightarrow> ('w, 'h, 'z) pmd_state \<Rightarrow> ('w, 'h, 'z) place \<times> reply list" where
  "main_loop E B inputs (exiting, replies) st =
     (if exiting then (Stopped (pmd_exit st), replies)
      else
        (case inputs of
           [] \<Rightarrow> (Top st, replies)
         | (idl, reqs) # inputs \<Rightarrow>
             (case pmd_run E B idl st of
                None \<Rightarrow> (Crashed, replies)
              | Some st \<Rightarrow>
                  (case for_each (serve E st) reqs (exiting, replies) of
                     None \<Rightarrow> (Crashed, replies)
                   | Some served \<Rightarrow> main_loop E B inputs served st))))"

declare main_loop.simps [simp del]

text \<open>The daemon from its initialisation on.\<close>

definition session ::
  "('w, 'd, 'h) externals \<Rightarrow> ('w, 'z) build \<Rightarrow> ovsdb_idl \<Rightarrow> 'h \<Rightarrow> 'w \<Rightarrow> (ovsdb_idl \<times> request list) list \<Rightarrow>
   ('w, 'h, 'z) place \<times> reply list" where
  "session E B idl h w inputs =
     (case pmd_init E B idl (zero_state h w) of
        None \<Rightarrow> (Crashed, [])
      | Some st \<Rightarrow> main_loop E B inputs (False, []) st)"

section \<open>Lemmas: one iteration\<close>

lemma pmd_exit_keeps [simp]:
  "state_ok E (pmd_exit st) = state_ok E st" "port_of E (pmd_exit st) = port_of E st" "ports (pmd_exit st) = ports st"
  "committed (pmd_exit st) = committed st" "idl_seqno (pmd_exit st) = idl_seqno st" "cur_hw_set (pmd_exit st) = cur_hw_set st"
  by (simp_all add: state_with_def port_of_def fun_eq_iff pmd_exit_def split: option.split)

context total_build
begin

lemma run_ok:
  assumes laws: "shash_laws E" "yaml_laws E" and ok: "state_ok E st"
  obtains st' where "pmd_run E B idl st = Some st'" "state_ok E st'"
proof (cases "lock_contended idl \<or> \<not> has_lock idl")
  case True
  with ok show ?thesis by (intro that [of st]) (auto simp: pmd_run_def)
next
  case False
  obtain st1 where st1: "pmd_reconfigure E B idl st = Some st1" "state_ok E st1"
    using laws ok by (rule reconfigure_ok [where idl = idl])
  obtain st2 where st2: "pm_read_state E B st1 = Some st2" "state_ok E st2"
    using st1(2) by (rule read_all_ok)
  obtain st3 where "pm_ovsdb_update E idl st2 = Some st3" "state_ok E st3"
    using st2(2) by (rule update_ok [where idl = idl])
  with False st1 st2 that show ?thesis by (simp add: pmd_run_def)
qed

end

section \<open>Lemmas: the main loop\<close>

lemma main_loop_exiting [simp]: "main_loop E B inputs (True, rs) st = (Stopped (pmd_exit st), rs)"
  by (simp add: main_loop.simps)

lemma main_loop_Nil [simp]: "main_loop E B [] (False, rs) st = (Top st, rs)"
  by (simp add: main_loop.simps)

lemma main_loop_Cons:
  "main_loop E B ((idl, reqs) # inputs) (False, rs) st =
     (case pmd_run E B idl st of
        None \<Rightarrow> (Crashed, rs)
      | Some st \<Rightarrow>
          (case for_each (serve E st) reqs (False, rs) of
             None \<Rightarrow> (Crashed, rs)
           | Some served \<Rightarrow> main_loop E B inputs served st))"
  by (simp add: main_loop.simps [of E B "_ # _"])

text \<open>Every request gets its reply, in order; the flag tells whether one of them was \<open>exit\<close>.\<close>

definition answers :: "('w, 'd, 'h) externals \<Rightarrow> ('w, 'h, 'z) pmd_state \<Rightarrow> request list \<Rightarrow> reply list \<Rightarrow> bool" where
  "answers E st reqs rs \<longleftrightarrow>
     list_all2 (\<lambda>req r. case req of Exit \<Rightarrow> r = Reply None | Dump argv \<Rightarrow> pmd_unixctl_dump E argv st = Some r) reqs rs"

lemma serve_all:
  assumes "shash_laws E" "state_with P E st"
  obtains rs' where "for_each (serve E st) reqs (exiting, rs) = Some (exiting \<or> Exit \<in> set reqs, rs @ rs')" "answers E st reqs rs'"
proof -
  have "\<exists>rs'. for_each (serve E st) reqs (exiting, rs) = Some (exiting \<or> Exit \<in> set reqs, rs @ rs') \<and> answers E st reqs rs'"
  proof (induction reqs arbitrary: exiting rs)
    case Nil
    then show ?case by (simp add: answers_def)
  next
    case (Cons req reqs)
    obtain r where r: "serve E st req (exiting, rs) = Some (exiting \<or> req = Exit, rs @ [r])"
      "answers E st [req] [r]"
    proof (cases req)
      case (Dump argv)
      then show ?thesis
        using dump_ok [OF assms, of argv] that by (auto simp: answers_def pmd_unixctl_dump_def)
    next
      case Exit
      then show ?thesis using that [of "Reply None"] by (simp add: answers_def ops_pmd_exit_def)
    qed
    obtain rs' where "for_each (serve E st) reqs (exiting \<or> req = Exit, rs @ [r]) =
        Some ((exiting \<or> req = Exit) \<or> Exit \<in> set reqs, (rs @ [r]) @ rs')" "answers E st reqs rs'"
      using Cons.IH by blast
    with r show ?case by (intro exI [of _ "r # rs'"]) (auto simp: answers_def)
  qed
  with that show ?thesis by blast
qed

text \<open>The function runs along the step relation.\<close>

lemma serve_steps:
  assumes "for_each (serve E st) reqs (exiting, rs) = Some (exiting', rs')"
  shows "(main_step E B)\<^sup>*\<^sup>* (Serving exiting st) (Serving exiting' st)"
  using assms
proof (induction reqs arbitrary: exiting rs)
  case (Cons req reqs)
  obtain x rs1 where one: "serve E st req (exiting, rs) = Some (x, rs1)"
    "for_each (serve E st) reqs (x, rs1) = Some (exiting', rs')"
    using Cons.prems by (auto simp: bind_eq_Some_conv)
  have "main_step E B (Serving exiting st) (Serving x st)"
    using one(1) by (cases req) (auto simp: bind_eq_Some_conv ops_pmd_exit_def intro: main_step.dump main_step.exit)
  then show ?case using Cons.IH [OF one(2)] by (rule converse_rtranclp_into_rtranclp)
qed simp

lemma serve_crash_steps:
  assumes "for_each (serve E st) reqs (exiting, rs) = None"
  shows "(main_step E B)\<^sup>*\<^sup>* (Serving exiting st) Crashed"
  using assms
proof (induction reqs arbitrary: exiting rs)
  case (Cons req reqs)
  show ?case
  proof (cases "serve E st req (exiting, rs)")
    case None
    then have "main_step E B (Serving exiting st) Crashed"
      by (cases req) (auto simp: bind_eq_None_conv ops_pmd_exit_def intro: main_step.dump_crash)
    then show ?thesis by blast
  next
    case (Some y)
    obtain x rs1 where y: "y = (x, rs1)" by (cases y)
    have "(main_step E B)\<^sup>*\<^sup>* (Serving exiting st) (Serving x st)"
      using serve_steps [of E st "[req]" exiting rs x rs1] Some y by simp
    with Cons.IH [of x rs1] Cons.prems Some y show ?thesis by simp
  qed
qed simp

lemma main_loop_steps: "(main_step E B)\<^sup>*\<^sup>* (Top st) (fst (main_loop E B inputs (False, rs) st))"
proof (induction inputs arbitrary: rs st)
  case (Cons input inputs)
  obtain idl reqs where input: "input = (idl, reqs)" by (cases input)
  show ?case
  proof (cases "pmd_run E B idl st")
    case None
    then have "main_step E B (Top st) Crashed" by (rule main_step.run_crash)
    with None show ?thesis by (simp add: input main_loop_Cons r_into_rtranclp)
  next
    case (Some st1)
    then have run: "main_step E B (Top st) (Serving False st1)" by (rule main_step.run)
    show ?thesis
    proof (cases "for_each (serve E st1) reqs (False, rs)")
      case None
      with Some run serve_crash_steps [OF None] show ?thesis
        by (simp add: input main_loop_Cons converse_rtranclp_into_rtranclp)
    next
      case served: (Some y)
      obtain x rs1 where y: "y = (x, rs1)" by (cases y)
      have steps: "(main_step E B)\<^sup>*\<^sup>* (Top st) (Serving x st1)"
        using run serve_steps [of E st1 reqs False rs x rs1] served y by (simp add: converse_rtranclp_into_rtranclp)
      show ?thesis
      proof (cases x)
        case True
        with steps have "(main_step E B)\<^sup>*\<^sup>* (Top st) (Stopped (pmd_exit st1))"
          by (auto intro: rtranclp.rtrancl_into_rtrancl main_step.leave)
        with True Some served y show ?thesis by (simp add: input main_loop_Cons)
      next
        case False
        with steps have "(main_step E B)\<^sup>*\<^sup>* (Top st) (Top st1)"
          by (auto intro: rtranclp.rtrancl_into_rtrancl main_step.loop)
        with False Some served y Cons.IH [where st = st1 and rs = rs1] show ?thesis
          by (simp add: input main_loop_Cons)
      qed
    qed
  qed
qed simp

text \<open>The iterations that are carried out: up to the first one in which \<open>exit\<close> is served.\<close>

fun carried_out :: "(ovsdb_idl \<times> request list) list \<Rightarrow> (ovsdb_idl \<times> request list) list" where
  "carried_out [] = []"
| "carried_out (i # inputs) = (if Exit \<in> set (snd i) then [i] else i # carried_out inputs)"

section \<open>Lemmas: what a scan leaves behind\<close>

text \<open>A port is settled when a scan does not look at its module any more.\<close>

definition settled :: "'z pm_port_t_scheme \<Rightarrow> bool" where
  "settled port \<longleftrightarrow>
     (\<exists>c. YamlPort.connector (module_device port) = Some c \<and>
        (c \<in> {CONNECTOR_SFP_PLUS, CONNECTOR_QSFP_PLUS, CONNECTOR_QSFP28} \<longrightarrow> present port \<and> \<not> retry port))"

lemma settled_acknowledged: "settled port \<Longrightarrow> settled (acknowledged idl port)"
  by (simp add: settled_def acknowledged_def)

lemma serial_id_offset_known:
  "serial_id_offset c \<noteq> None \<longleftrightarrow> c \<in> {CONNECTOR_SFP_PLUS, CONNECTOR_QSFP_PLUS, CONNECTOR_QSFP28}"
  by (auto simp: serial_id_offset_def)

text \<open>
  The change mark: no macro takes it back, and every classification sets it.
\<close>

lemma changed_mono:
  "module_info_changed (SET_STATIC_STRING cupd c p)"
  "module_info_changed (set_supported_speeds args p)"
  "module_info_changed (SET_BINARY supd bytes p)"
  "module_info_changed p \<Longrightarrow> module_info_changed (SET_STRING sget supd s p)"
  "module_info_changed p \<Longrightarrow> module_info_changed (SET_INT_STRING sget supd n p)"
  "module_info_changed p \<Longrightarrow> module_info_changed (DELETE cget dupd p)"
  "module_info_changed p \<Longrightarrow> module_info_changed (DELETE_FREE cget dupd p)"
  by (simp_all add: macro_defs set_supported_speeds_def)

lemma changed_report: "module_info_changed (report_module opt conn stat speed port)"
  by (simp add: report_module_def Let_def changed_mono)

lemma changed_vendor:
  "module_info_changed port \<Longrightarrow> module_info_changed (pm_parse_sfp_vendor rodata page port)"
  "module_info_changed port \<Longrightarrow> module_info_changed (pm_parse_qsfp_plus_vendor q port)"
  by (simp_all add: pm_parse_sfp_vendor_def pm_parse_qsfp_plus_vendor_def Let_def changed_mono)

lemma changed_parse:
  assumes "pluggable (module_device port)" "YamlPort.connector (module_device port) = Some conn"
    and "conn \<in> {CONNECTOR_SFP_PLUS, CONNECTOR_QSFP_PLUS, CONNECTOR_QSFP28}" "length page = 128"
  shows "module_info_changed (snd (snd (pm_parse rodata page port)))"
proof -
  obtain rc page' port' where "pm_parse rodata page port = (rc, page', port')" by (rule prod_cases3)
  moreover have "module_info_changed port'"
    using calculation assms(4)
  proof (cases rule: pm_parse_cases)
    case sfp
    then show ?thesis by (simp add: changed_vendor changed_report)
  next
    case (qsfp c cls)
    then show ?thesis by (cases cls) (simp add: changed_vendor changed_report report_def)
  next
    case unknown
    then show ?thesis by (simp add: changed_mono)
  qed (use assms in auto)
  ultimately show ?thesis by simp
qed

text \<open>What a scan does to one port of the hardware build.\<close>

definition scanned :: "('w, 'd, 'h) externals \<Rightarrow> pm_port_t \<Rightarrow> pm_port_t \<Rightarrow> bool" where
  "scanned E p p' \<longleftrightarrow>
     port_config p' = port_config p \<and> settled p' \<and> (settled p \<longrightarrow> p' = p) \<and>
     (\<not> settled p \<longrightarrow> module_info_changed p' \<and>
        (\<exists>page. length page = 128 \<and> ovs_module_columns p' = ovs_module_columns (snd (snd (pm_parse (string_literal_tail E) page p)))))"

lemma parse_module_changed:
  assumes "parse_module E page port = Some port'"
  shows "module_info_changed port' = module_info_changed (snd (snd (pm_parse (string_literal_tail E) page port)))"
proof -
  obtain rc page1 port1 where parse: "pm_parse (string_literal_tail E) page port = (rc, page1, port1)"
    by (rule prod_cases3)
  with assms show ?thesis
    by (auto simp: parse_module_def split: if_splits dest: set_a2_read_request_frame)
qed

lemma scan_hw:
  assumes "port_good k p"
  shows "\<exists>p' w'. pm_read_port_state E (hw_build E) p w = Some (p', w') \<and> port_good k p' \<and> scanned E p p'"
proof -
  obtain p' w' where r: "pm_read_port_state E (hw_build E) p w = Some (p', w')" "port_good k p'"
    "port_config p' = port_config p"
    using assms by (rule hw.read_port_good) blast
  obtain c where c: "YamlPort.connector (module_device p) = Some c" and pl: "pluggable (module_device p)"
    using assms by (auto simp: port_good_def device_ready_def)
  have dev: "module_device p' = module_device p" using r(3) by (rule port_config_eqD)
  have "scanned E p p'"
  proof (cases "serial_id_offset c")
    case None
    then have "c \<notin> {CONNECTOR_SFP_PLUS, CONNECTOR_QSFP_PLUS, CONNECTOR_QSFP28}" using serial_id_offset_known by blast
    moreover have "p' = p" using None c r(1) by (simp add: pm_read_port_state_def pm_read_module_state_def)
    ultimately show ?thesis using c by (simp add: scanned_def settled_def)
  next
    case (Some off)
    then have known: "c \<in> {CONNECTOR_SFP_PLUS, CONNECTOR_QSFP_PLUS, CONNECTOR_QSFP28}" using serial_id_offset_known by blast
    show ?thesis
    proof (cases "present p \<and> \<not> retry p")
      case True
      then have "p' = p"
        using Some c r(1)
        by (auto simp: pm_read_port_state_def pm_read_module_state_def read_module_from_eq bind_eq_Some_conv)
      with True c show ?thesis by (simp add: scanned_def settled_def)
    next
      case False
      then obtain rc page w1 w2 where page: "read_a0 (hw_build E) p (replicate 128 0) off w1 = Some (rc, page, w2)"
        "parse_module E page p = Some p'"
        using Some c r(1)
        by (auto simp: pm_read_port_state_def pm_read_module_state_def read_module_from_eq bind_eq_Some_conv)
      have len: "length page = 128" using hw.read_a0_length [OF page(1)] by simp
      from parse_module_known [OF c known len, of E] page(2)
      have "present p'" "\<not> retry p'"
        "ovs_module_columns p' = ovs_module_columns (snd (snd (pm_parse (string_literal_tail E) page p)))" by auto
      moreover have "module_info_changed p'"
        using parse_module_changed [OF page(2)] changed_parse [OF pl c known len] by simp
      moreover have "\<not> settled p" using False c known by (simp add: settled_def)
      ultimately show ?thesis using r(3) c dev len by (auto simp: scanned_def settled_def)
    qed
  qed
  with r show ?thesis by blast
qed

lemma scan_all_hw:
  assumes "state_ok E st"
  obtains st' where "pm_read_state E (hw_build E) st = Some st'" "state_ok E st'" "same_frame st st'"
    "\<And>k. rel_option (scanned E) (port_of E st k) (port_of E st' k)"
proof -
  let ?g = "\<lambda>node st. if snd node = 0 then Some st else on_port (pm_read_port_state E (hw_build E)) (snd node) st"
  from each_port_pass [where f = "pm_read_port_state E (hw_build E)" and R = "scanned E" and g = ?g, OF assms scan_hw]
  obtain st' where "for_each ?g (shash_nodes E (ovs_intfs st)) st = Some st'" "state_ok E st'" "same_frame st st'"
    "\<And>k. rel_option (scanned E) (port_of E st k) (port_of E st' k)" by auto
  then show ?thesis by (intro that) (simp_all add: pm_read_state_def)
qed

lemma scan_keeps:
  assumes "reads_keep E cfg" "pm_read_state E (hw_build E) st = Some st'"
  shows "cfg (world st') = cfg (world st)"
  using assms(2) unfolding pm_read_state_def
proof (rule for_each_rel [where R = "\<lambda>s t. cfg (world t) = cfg (world s)"])
  fix node and s t :: "('a, 'c, unit) pmd_state"
  assume "(if snd node = 0 then Some s else on_port (pm_read_port_state E (hw_build E)) (snd node) s) = Some t"
  then show "cfg (world t) = cfg (world s)"
    using read_state_keeps [OF assms(1)]
    by (auto simp: on_port_def bind_eq_Some_conv split: if_splits)
qed simp_all

section \<open>Lemmas: an iteration without a database change\<close>

lemma run_unchanged_hw:
  fixes st :: "('w, 'h, unit) pmd_state"
  assumes ok: "state_ok E st" and lock: "has_lock idl" "\<not> lock_contended idl"
    and seqno: "idl_get_seqno idl = idl_seqno st" and run: "pmd_run E (hw_build E) idl st = Some st'"
  obtains st1 where "pm_read_state E (hw_build E) st = Some st1" "state_ok E st1" "same_frame st st1"
    "\<And>k. rel_option (scanned E) (port_of E st k) (port_of E st1 k)"
    "pm_ovsdb_update E idl st1 = Some st'" "state_ok E st'"
    "\<And>k. port_of E st' k = map_option (acknowledged idl) (port_of E st1 k)"
    "committed st' = committed st @
       [concat (map (\<lambda>(k, a). published E idl (port_of E st1 k)) (shash_nodes E (ovs_intfs st))) @ cur_hw_write idl st1]"
    "world st' = world st1" "ovs_intfs st' = ovs_intfs st" "idl_seqno st' = idl_seqno st"
    "cur_hw_set st' \<longleftrightarrow> cur_hw_set st1 \<or> cur_hw_write idl st1 \<noteq> []"
proof -
  obtain st1 where st1: "pm_read_state E (hw_build E) st = Some st1" "state_ok E st1" "same_frame st st1"
    "\<And>k. rel_option (scanned E) (port_of E st k) (port_of E st1 k)"
    using ok by (rule scan_all_hw) blast
  obtain st2 where st2: "pm_ovsdb_update E idl st1 = Some st2" "state_ok E st2"
    "\<And>k. port_of E st2 k = map_option (acknowledged idl) (port_of E st1 k)"
    "committed st2 = committed st1 @
       [concat (map (\<lambda>(k, a). published E idl (port_of E st1 k)) (shash_nodes E (ovs_intfs st1))) @ cur_hw_write idl st1]"
    "ovs_intfs st2 = ovs_intfs st1" "world st2 = world st1" "idl_seqno st2 = idl_seqno st1"
    "cur_hw_set st2 \<longleftrightarrow> cur_hw_set st1 \<or> cur_hw_write idl st1 \<noteq> []"
    using st1(2) by (rule update_ok [where idl = idl]) blast
  have "pmd_run E (hw_build E) idl st = Some st2"
    using lock seqno st1(1) st2(1) by (simp add: pmd_run_def pmd_reconfigure_def)
  with run have "st' = st2" by simp
  with st1 st2 show ?thesis by (intro that [of st1]) (simp_all add: same_frame_def)
qed

lemma settled_after_run:
  assumes laws: "shash_laws E" "yaml_laws E" and ok: "state_ok E st" and lock: "has_lock idl" "\<not> lock_contended idl"
    and run: "pmd_run E (hw_build E) idl st = Some st'"
  shows "state_ok E st'" "idl_seqno st' = idl_get_seqno idl" "cur_hw_write idl st' = []"
    "\<And>k p. port_of E st' k = Some p \<Longrightarrow> settled p \<and> published E idl (Some p) = [] \<and> acknowledged idl p = p"
proof -
  obtain st1 where st1: "pmd_reconfigure E (hw_build E) idl st = Some st1" "state_ok E st1" "idl_seqno st1 = idl_get_seqno idl"
    using laws ok by (rule hw.reconfigure_ok [where idl = idl]) blast
  have "pmd_run E (hw_build E) idl st1 = Some st'"
    using run lock st1 by (simp add: pmd_run_def pmd_reconfigure_def)
  with st1 lock obtain st2 where st2: "\<And>k. rel_option (scanned E) (port_of E st1 k) (port_of E st2 k)"
    "state_ok E st'" "\<And>k. port_of E st' k = map_option (acknowledged idl) (port_of E st2 k)"
    "idl_seqno st' = idl_seqno st1" "cur_hw_set st' \<longleftrightarrow> cur_hw_set st2 \<or> cur_hw_write idl st2 \<noteq> []"
    by (metis run_unchanged_hw)
  then show "state_ok E st'" "idl_seqno st' = idl_get_seqno idl" using st1(3) by simp_all
  show "cur_hw_write idl st' = []" using st2(5) by (auto simp: cur_hw_write_def)
  fix k p assume "port_of E st' k = Some p"
  then obtain q where q: "port_of E st2 k = Some q" "p = acknowledged idl q" using st2(3) [of k] by auto
  then have "settled q" using st2(1) [of k] by (auto simp: option_rel_Some2 scanned_def)
  with q(2) show "settled p \<and> published E idl (Some p) = [] \<and> acknowledged idl p = p"
    by (auto simp: settled_acknowledged acknowledged_def published_def live_def settled_def)
qed

lemma concat_published_Nil:
  "(\<And>k. published E idl (m k) = []) \<Longrightarrow> concat (map (\<lambda>(k, a). published E idl (m k)) nodes) = []"
  by (auto simp: concat_eq_Nil_conv)

section \<open>What the daemon does\<close>

text \<open>
  C9. The daemon comes to rest: a second iteration on the same database replica leaves every port as it is
  and commits an empty transaction, whatever the hardware answers in between.
\<close>

theorem second_run_silent:
  assumes "shash_laws E" "yaml_laws E" "state_ok E st" "has_lock idl" "\<not> lock_contended idl"
    and "pmd_run E (hw_build E) idl st = Some st1"
  shows "\<exists>st2. pmd_run E (hw_build E) idl st1 = Some st2 \<and> port_of E st2 = port_of E st1 \<and>
    committed st2 = committed st1 @ [[]]"
proof -
  note rest = settled_after_run [OF assms]
  obtain st2 where run: "pmd_run E (hw_build E) idl st1 = Some st2"
    using assms(1,2) rest(1) by (rule hw.run_ok [where idl = idl]) blast
  obtain st' where st': "same_frame st1 st'" "\<And>k. rel_option (scanned E) (port_of E st1 k) (port_of E st' k)"
    "\<And>k. port_of E st2 k = map_option (acknowledged idl) (port_of E st' k)"
    "committed st2 = committed st1 @
       [concat (map (\<lambda>(k, a). published E idl (port_of E st' k)) (shash_nodes E (ovs_intfs st1))) @ cur_hw_write idl st']"
    "pm_read_state E (hw_build E) st1 = Some st'"
    using rest(1) assms(4,5) rest(2) [symmetric] run by (rule run_unchanged_hw) blast
  have same: "port_of E st' = port_of E st1"
  proof
    fix k show "port_of E st' k = port_of E st1 k"
      using st'(2) [of k] rest(4) [of k] by (cases "port_of E st1 k") (auto simp: option_rel_Some1 scanned_def)
  qed
  have "published E idl (port_of E st1 k) = []" for k
    using rest(4) [of k] by (cases "port_of E st1 k") (auto simp: published_def)
  moreover have "cur_hw_write idl st' = []"
  proof -
    have "cur_hw_set st' = cur_hw_set st1"
      by (rule for_each_rel [OF st'(5) [unfolded pm_read_state_def], where R = "\<lambda>s t. cur_hw_set t = cur_hw_set s"])
        (auto simp: on_port_def bind_eq_Some_conv split: if_splits)
    then show ?thesis using rest(3) by (simp add: cur_hw_write_def)
  qed
  moreover have "port_of E st2 = port_of E st1"
  proof
    fix k show "port_of E st2 k = port_of E st1 k"
      using st'(3) [of k] rest(4) [of k] same by (cases "port_of E st1 k") auto
  qed
  ultimately show ?thesis using run st'(4) same concat_published_Nil [of E idl "port_of E st1"] by simp
qed

text \<open>
  C18. Without a database change an iteration only reads: nothing that only bus writes can change is changed,
  and no port loses its configuration. In particular the enable state of a QSFP module that is
  detected in such an iteration is not written to it.
\<close>

theorem quiet_run:
  assumes "reads_keep E cfg" "state_ok E st" "has_lock idl" "\<not> lock_contended idl"
    and "idl_get_seqno idl = idl_seqno st" and "pmd_run E (hw_build E) idl st = Some st'"
  shows "cfg (world st') = cfg (world st) \<and>
    (\<forall>k. rel_option (\<lambda>p p'. port_config p' = port_config p) (port_of E st k) (port_of E st' k))"
proof -
  obtain st1 where st1: "pm_read_state E (hw_build E) st = Some st1"
    "\<And>k. rel_option (scanned E) (port_of E st k) (port_of E st1 k)"
    "\<And>k. port_of E st' k = map_option (acknowledged idl) (port_of E st1 k)" "world st' = world st1"
    using assms(2-6) by (rule run_unchanged_hw) blast
  have ack: "port_config (acknowledged idl p) = port_config p" for p :: pm_port_t
    by (simp add: acknowledged_def frame_simps)
  have "rel_option (\<lambda>p p'. port_config p' = port_config p) (port_of E st k) (port_of E st' k)" for k
    using st1(2) [of k] st1(3) [of k] ack
    by (cases "port_of E st k"; cases "port_of E st1 k") (auto simp: scanned_def)
  moreover have "cfg (world st') = cfg (world st)" using scan_keeps [OF assms(1) st1(1)] st1(4) by simp
  ultimately show ?thesis by blast
qed

text \<open>
  C14. An SFP+ port that has not been scanned yet is published in the next iteration as a supported 10GBASE-SR
  module, whatever is plugged in.
\<close>

theorem sfp_published:
  assumes "state_ok E st" "has_lock idl" "\<not> lock_contended idl" "idl_get_seqno idl = idl_seqno st"
    and "port_of E st k = Some p" "YamlPort.connector (module_device p) = Some CONNECTOR_SFP_PLUS"
    and "\<not> present p" "live idl p"
    and "pmd_run E (hw_build E) idl st = Some st'"
  shows "Set_pm_info (uuid p)
      [(''connector'', connector_string E CONNECTOR_SFP_SR),
       (''connector_status'', connector_status_string E CONNECTOR_STATUS_SUPPORTED),
       (''supported_speeds'', ''10000''), (''max_speed'', ''10000'')] \<in> set (last (committed st'))"
proof -
  obtain st1 where st1: "\<And>k. rel_option (scanned E) (port_of E st k) (port_of E st1 k)"
    "committed st' = committed st @
       [concat (map (\<lambda>(k, a). published E idl (port_of E st1 k)) (shash_nodes E (ovs_intfs st))) @ cur_hw_write idl st1]"
    using assms(1-4,9) by (rule run_unchanged_hw) blast
  obtain p' where p': "port_of E st1 k = Some p'" "scanned E p p'"
    using st1(1) [of k] assms(5) by (auto simp: option_rel_Some1)
  obtain a where a: "table E (ovs_intfs st) k = Some a" "port_good k p"
    using assms(1,5) by (rule port_of_SomeD)
  have "\<not> settled p" using assms(6,7) by (simp add: settled_def)
  then obtain page where page: "length page = 128" "module_info_changed p'"
    "ovs_module_columns p' = ovs_module_columns (snd (snd (pm_parse (string_literal_tail E) page p)))"
    using p'(2) by (auto simp: scanned_def)
  have pl: "pluggable (module_device p)" "port_ok p" using a(2) by (simp_all add: port_good_def)
  have "fmt_d 10000 = ''10000''" by (simp add: fmt_d_def text_eval)
  moreover have "int_text (max_speed (ovs_module_columns p)) 10000 = fmt_d 10000"
    using pl(2) by (simp add: port_ok_def int_text_ok)
  ultimately have info: "pm_info_of E (ovs_module_columns p') =
      [(''connector'', connector_string E CONNECTOR_SFP_SR),
       (''connector_status'', connector_status_string E CONNECTOR_STATUS_SUPPORTED),
       (''supported_speeds'', ''10000''), (''max_speed'', ''10000'')]"
    unfolding page(3) pm_parse_sfp_eq [OF pl(1) assms(6) page(1)]
    by (simp add: column_simps pm_info_of_def)
  have uuid: "uuid p' = uuid p" using p'(2) by (auto simp: scanned_def dest: port_config_eqD(2))
  then have "live idl p'" using assms(8) by (simp add: live_def)
  from published_in_txn [where m = "port_of E st1", OF a(1) p'(1) page(2) this] show ?thesis
    unfolding st1(2) info uuid by simp
qed

text \<open>
  C19. The exit command ends the main loop, and nothing else does. While no iteration serves it the loop comes back
  to its top. The first iteration that serves it is carried out to its end, with the requests that are served after it; then
  the loop is left and the database replica is released, whatever further iterations would have met. Every request gets one
  reply, in order: the exit command an empty one, the debug command its text. The hypotheses are those under which an
  iteration returns: a sound state, the contract of the hash table, description files that name what the daemon drives. How
  long an iteration waits for the commit or the timer is not modelled.
\<close>

theorem exit_stops:
  assumes "shash_laws E" "yaml_laws E" "state_ok E st"
    and "\<forall>i \<in> set quiet. Exit \<notin> set (snd i)" "Exit \<in> set reqs"
  shows "\<exists>st1 rs1 st2 rs2. main_loop E (hw_build E) quiet (False, rs) st = (Top st1, rs @ rs1) \<and>
    length rs1 = (\<Sum>i \<leftarrow> quiet. length (snd i)) \<and>
    pmd_run E (hw_build E) idl st1 = Some st2 \<and> answers E st2 reqs rs2 \<and>
    main_loop E (hw_build E) (quiet @ (idl, reqs) # rest) (False, rs) st =
      (Stopped (st2\<lparr>idl_calls := idl_calls st2 @ [Idl_destroy]\<rparr>), rs @ rs1 @ rs2)"
  using assms(3,4)
proof (induction quiet arbitrary: st rs)
  case Nil
  obtain st2 where st2: "pmd_run E (hw_build E) idl st = Some st2" "state_ok E st2"
    using assms(1,2) Nil.prems(1) by (rule hw.run_ok [where idl = idl])
  obtain rs2 where "for_each (serve E st2) reqs (False, rs) = Some (False \<or> Exit \<in> set reqs, rs @ rs2)" "answers E st2 reqs rs2"
    using assms(1) st2(2) by (rule serve_all)
  with st2 assms(5) show ?case 
    by (intro exI [of _ st] exI [of _ "[]"] exI [of _ st2] exI [of _ rs2]) (simp add: main_loop_Cons pmd_exit_def)
next
  case (Cons input quiet)
  obtain idl' reqs' where input: "input = (idl', reqs')" by (cases input)
  have "Exit \<notin> set reqs'" using Cons.prems(2) by (simp add: input)
  obtain st' where st': "pmd_run E (hw_build E) idl' st = Some st'" "state_ok E st'"
    using assms(1,2) Cons.prems(1) by (rule hw.run_ok [where idl = idl'])
  obtain rs' where rs': "for_each (serve E st') reqs' (False, rs) = Some (False \<or> Exit \<in> set reqs', rs @ rs')" "answers E st' reqs' rs'"
    using assms(1) st'(2) by (rule serve_all)
  have "length rs' = length reqs'" using rs'(2) by (simp add: answers_def list_all2_lengthD)
  moreover obtain st1 rs1 st2 rs2 where "main_loop E (hw_build E) quiet (False, rs @ rs') st' = (Top st1, (rs @ rs') @ rs1)"
    "length rs1 = (\<Sum>i \<leftarrow> quiet. length (snd i))" "pmd_run E (hw_build E) idl st1 = Some st2" "answers E st2 reqs rs2"
    "main_loop E (hw_build E) (quiet @ (idl, reqs) # rest) (False, rs @ rs') st' =
      (Stopped (st2\<lparr>idl_calls := idl_calls st2 @ [Idl_destroy]\<rparr>), (rs @ rs') @ rs1 @ rs2)"
    using Cons.IH [OF st'(2), of "rs @ rs'"] Cons.prems(2) by auto
  ultimately show ?case
    using st'(1) rs'(1) \<open>Exit \<notin> set reqs'\<close>
    by (intro exI [of _ st1] exI [of _ "rs' @ rs1"] exI [of _ st2] exI [of _ rs2]) (simp add: input main_loop_Cons)
qed

section \<open>The theorems on the sample platform\<close>

abbreviation sfp_platform :: "(sample_world, unit, (string \<times> nat) list) externals" where
  "sfp_platform \<equiv> sample_platform CONNECTOR_SFP_PLUS"

lemma sample_init:
  "\<exists>st. pmd_init sfp_platform (hw_build sfp_platform) (sample_idl 1 True) (zero_state [] (0, [])) = Some st \<and>
     state_ok sfp_platform st"
proof -
  let ?st0 = "(zero_state [] (0, []) :: (sample_world, (string \<times> nat) list, unit) pmd_state)\<lparr>world := (0, [])\<rparr>"
  have "ports ?st0 = Map.empty" "uuids ?st0 = Map.empty" "0 < next_addr ?st0"
    by (simp_all add: zero_state_def)
  then obtain st where "pm_ovsdb_if_init sfp_platform (hw_build sfp_platform) (sample_idl 1 True) ?st0 = Some st"
    "state_ok sfp_platform st"
    by (rule hw.init_ok [OF sample_laws])
  then show ?thesis by (simp add: pmd_init_def pm_config_init_def zero_state_def)
qed

lemma sample_run:
  obtains st1 where "pmd_run sfp_platform (hw_build sfp_platform) (sample_idl seqno enabled) (sample_state CONNECTOR_SFP_PLUS False) = Some st1"
  by (rule hw.run_ok [OF sample_laws sample_state_simps(1)])

theorem exit_stops_witness:
  "\<exists>st1 r. main_loop sfp_platform (hw_build sfp_platform) [(sample_idl 1 True, []), (sample_idl 1 True, [Exit, Dump []]), (sample_idl 2 True, [])]
     (False, []) (sample_state CONNECTOR_SFP_PLUS False) = (Stopped st1, [Reply None, r]) \<and> last (idl_calls st1) = Idl_destroy"
  using exit_stops [OF sample_laws sample_state_simps(1), where quiet = "[(sample_idl 1 True, [])]" and reqs = "[Exit, Dump []]"
    and rest = "[(sample_idl 2 True, [])]" and rs = "[]" and idl = "sample_idl 1 True"]
  by (fastforce simp: answers_def list_all2_Cons1)

theorem second_run_silent_witness:
  "\<exists>st1 st2. pmd_run sfp_platform (hw_build sfp_platform) (sample_idl 2 True) (sample_state CONNECTOR_SFP_PLUS False) = Some st1 \<and>
     pmd_run sfp_platform (hw_build sfp_platform) (sample_idl 2 True) st1 = Some st2 \<and>
     committed st2 = committed st1 @ [[]]"
proof -
  obtain st1 where "pmd_run sfp_platform (hw_build sfp_platform) (sample_idl 2 True) (sample_state CONNECTOR_SFP_PLUS False) = Some st1"
    by (rule sample_run)
  with second_run_silent [OF sample_laws sample_state_simps(1) sample_idl_simps(3,4) this] show ?thesis by blast
qed

theorem quiet_run_witness:
  "\<exists>st1. pmd_run sfp_platform (hw_build sfp_platform) (sample_idl 1 True) (sample_state CONNECTOR_SFP_PLUS False) = Some st1 \<and>
     snd (world st1) = []"
proof -
  obtain st1 where run: "pmd_run sfp_platform (hw_build sfp_platform) (sample_idl 1 True) (sample_state CONNECTOR_SFP_PLUS False) = Some st1"
    by (rule sample_run)
  have "reads_keep sfp_platform snd" by (simp add: reads_keep_def case_prod_beta)
  from quiet_run [OF this sample_state_simps(1) sample_idl_simps(3,4) _ run] run show ?thesis
    by (auto simp: sample_state_simps)
qed

theorem sfp_published_witness:
  "\<exists>st1. pmd_run sfp_platform (hw_build sfp_platform) (sample_idl 1 True) (sample_state CONNECTOR_SFP_PLUS False) = Some st1 \<and>
     Set_pm_info 1 [(''connector'', ''SFP_SR''), (''connector_status'', ''supported''),
       (''supported_speeds'', ''10000''), (''max_speed'', ''10000'')] \<in> set (last (committed st1))"
proof -
  let ?p = "(sample_port CONNECTOR_SFP_PLUS)\<lparr>module_device := sample_drivable CONNECTOR_SFP_PLUS, module_info_changed := False\<rparr>"
  obtain st1 where run: "pmd_run sfp_platform (hw_build sfp_platform) (sample_idl 1 True) (sample_state CONNECTOR_SFP_PLUS False) = Some st1"
    by (rule sample_run)
  have p: "uuid ?p = 1" "\<not> present ?p" "live (sample_idl 1 True) ?p"
    by (simp_all add: live_def sample_interface_def sample_port_def)
  from sfp_published [OF sample_state_simps(1) sample_idl_simps(3,4) _ sample_state_simps(2) _ p(2,3) run] run p(1)
  show ?thesis by (auto simp: sample_state_simps)
qed

end
