(* ===== verification/Crash_Causes.thy ===== *)
theory Crash_Causes
  imports Pmd_Main
begin

text \<open>
  What can crash the hardware build. The configuration code reads two pointers of a port description without a test, the
  connector type and the transmit-disable signal (\<^verbatim>\<open>pm_configure_port\<close> in \<^verbatim>\<open>src/plug.c\<close>). Nothing is assumed of the
  description files here: the theory shows that a run crashes on these two pointers or not at all, and that the tables and
  the heap are sound as long as it has not crashed.
\<close>

section \<open>Ports that can be configured\<close>

text \<open>
  \<open>configurable y on\<close>: configuring a port with the description \<open>y\<close> and the enable switch \<open>on\<close> follows no NULL
  pointer. A disabled port that is not a QSFP port needs its transmit-disable signal.
\<close>

definition configurable :: "YamlPort \<Rightarrow> bool \<Rightarrow> bool" where
  "configurable y on \<longleftrightarrow>
     (case YamlPort.connector y of
        None \<Rightarrow> False
      | Some c \<Rightarrow> c \<in> {CONNECTOR_QSFP_PLUS, CONNECTOR_QSFP28} \<or> on \<or> sfpp_tx_disable y \<noteq> None)"

lemma configurable_connector: "configurable y on \<Longrightarrow> YamlPort.connector y \<noteq> None"
  by (auto simp: configurable_def split: option.splits)

lemma configure_None_iff:
  "configure_port (hw_build E) port w = None \<longleftrightarrow> \<not> configurable (module_device port) (hw_enable port)"
  by (auto simp: hw_build_def pm_configure_port_def configurable_def Let_def bind_eq_None_conv case_prod_beta
      split: option.splits)

lemma device_ready_configurable: "device_ready y \<longleftrightarrow> (\<forall>on. configurable y on)"
  by (auto simp: device_ready_def configurable_def split: option.splits)

text \<open>
  A port that has been configured, with a description the library delivered under its name; the rows of a replica, and
  a row that asks for what its description does not provide.
\<close>

definition described :: "('w, 'd, 'h) externals \<Rightarrow> string \<Rightarrow> YamlPort \<Rightarrow> bool" where
  "described E inst y \<longleftrightarrow> pluggable y \<and> (\<exists>w sub. pm_get_yaml_port E w sub inst = Some y)"

definition port_filed :: "('w, 'd, 'h) externals \<Rightarrow> string \<Rightarrow> pm_port_t \<Rightarrow> bool" where
  "port_filed E k port \<longleftrightarrow>
     port_instance port = k \<and> described E k (module_device port) \<and>
     configurable (module_device port) (hw_enable port) \<and> port_ok port"

abbreviation heap_sound :: "('w, 'd, 'h) externals \<Rightarrow> ('w, 'h, unit) pmd_state \<Rightarrow> bool" where
  "heap_sound E \<equiv> state_with (port_filed E) E"

definition idl_rows :: "ovsdb_idl \<Rightarrow> ovsrec_interface set" where
  "idl_rows idl = set (idl_interfaces idl) \<union> (\<Union>sub \<in> set (idl_subsystems idl). set (subsys_interfaces sub))"

definition faulty_row :: "('w, 'd, 'h) externals \<Rightarrow> ovsrec_interface \<Rightarrow> bool" where
  "faulty_row E intf \<longleftrightarrow>
     (\<exists>y. described E (intf_name intf) y \<and> \<not> configurable y (ovsdb_if_intf_get_hw_enable E intf))"

lemma port_filed_name: "port_filed E k port \<Longrightarrow> port_instance port = k"
  by (simp add: port_filed_def)

lemma port_filed_truncate:
  assumes "pm_port_t.truncate p = pm_port_t.truncate q"
  shows "port_filed E k p = port_filed E k q"
  unfolding port_filed_def port_ok_def truncate_eqD [OF assms] ..

lemma port_filed_unmarked: "\<forall>k port. port_filed E k port \<longrightarrow> port_filed E k (port\<lparr>module_info_changed := False\<rparr>)"
  by (simp add: port_filed_def port_ok_def)

section \<open>Operations that crash only for a cause\<close>

text \<open>\<open>sound_or C Q r\<close>: the operation gave a result with \<open>Q\<close>, or it crashed and there is the cause \<open>C\<close>.\<close>

definition sound_or :: "bool \<Rightarrow> ('s \<Rightarrow> bool) \<Rightarrow> 's option \<Rightarrow> bool" where
  "sound_or C Q r = (case r of None \<Rightarrow> C | Some s \<Rightarrow> Q s)"

lemma sound_or_simps [simp]: "sound_or C Q (Some s) = Q s" "sound_or C Q None = C"
  by (simp_all add: sound_or_def)

lemma sound_or_mono: "sound_or C Q r \<Longrightarrow> (C \<Longrightarrow> C') \<Longrightarrow> (\<And>s. Q s \<Longrightarrow> Q' s) \<Longrightarrow> sound_or C' Q' r"
  by (cases r) simp_all

lemma sound_or_bind: "sound_or C Q r \<Longrightarrow> (\<And>s. Q s \<Longrightarrow> sound_or C Q' (f s)) \<Longrightarrow> sound_or C Q' (r \<bind> f)"
  by (cases r) simp_all

lemma sound_or_loop:
  assumes "I st" "\<And>x s. x \<in> set xs \<Longrightarrow> I s \<Longrightarrow> sound_or C I (f x s)"
  shows "sound_or C I (for_each f xs st)"
  using assms
proof (induction xs arbitrary: st)
  case (Cons x xs)
  have "sound_or C I (f x st)" using Cons.prems by simp
  then show ?case 
    using Cons.IH Cons.prems(2) by (simp only: for_each.simps) (rule sound_or_bind [where Q = I], auto)
qed simp

lemma new_port_filed:
  assumes "pm_get_yaml_port E w sub (intf_name intf) = Some y" "pluggable y"
    and "configurable y (ovsdb_if_intf_get_hw_enable E intf)"
  shows "port_filed E (intf_name intf) (new_port E (hw_build E) intf sub y)"
  using assms by (auto simp: port_filed_def described_def new_port_def port_ok_def zero_module_columns_def)

text \<open>Creating a port: when it crashes, and the state it leaves otherwise.\<close>

lemma create_crash_iff:
  "ovsdb_if_intf_create E (hw_build E) intf sub st = None \<longleftrightarrow>
     (\<exists>y. pm_get_yaml_port E (world st) sub (intf_name intf) = Some y \<and> pluggable y \<and>
        \<not> configurable y (ovsdb_if_intf_get_hw_enable E intf))"
proof (cases "\<exists>y. pm_get_yaml_port E (world st) sub (intf_name intf) = Some y \<and> pluggable y")
  case False
  then show ?thesis by (auto simp: ovsdb_if_intf_create_def split: option.splits)
next
  case True
  then obtain y where y: "pm_get_yaml_port E (world st) sub (intf_name intf) = Some y" "pluggable y" by blast
  let ?p = "new_port E (hw_build E) intf sub y"
  have p: "module_device ?p = y" "hw_enable ?p = ovsdb_if_intf_get_hw_enable E intf" by (simp_all add: new_port_def)
  show ?thesis
  proof (cases "configure_port (hw_build E) ?p (world st)")
    case None
    then show ?thesis
      using y configure_None_iff [of E ?p "world st"] p
      by (auto simp: ovsdb_if_intf_create_def on_port_def Let_def)
  next
    case (Some r)
    obtain p' w' where r: "r = (p', w')" by (cases r)
    have ok: "configurable y (ovsdb_if_intf_get_hw_enable E intf)" using Some configure_None_iff [of E ?p "world st"] p by simp
    have "module_device p' = y"
      using truncate_eqD(3) [OF hw.configure_keeps [OF Some [unfolded r]]] p(1) by simp
    then have "\<exists>w''. pm_clear_reset E p' w' = Some w''"
      using configurable_connector [OF ok] by (auto simp: pm_clear_reset_def pm_reset_def Let_def case_prod_beta)
    then show ?thesis using y Some r ok by (auto simp: ovsdb_if_intf_create_def on_port_def Let_def)
  qed
qed

lemma create_filed:
  assumes laws: "shash_laws E" and ok: "heap_sound E st" and new: "table E (ovs_intfs st) (intf_name intf) = None"
  shows "sound_or (faulty_row E intf) (heap_sound E) (ovsdb_if_intf_create E (hw_build E) intf sub st)"
proof (cases "ovsdb_if_intf_create E (hw_build E) intf sub st")
  case None
  then show ?thesis unfolding create_crash_iff by (auto simp: faulty_row_def described_def None)
next
  case (Some st')
  then show ?thesis
  proof (cases rule: create_cases)
    case none
    then show ?thesis using ok Some by simp
  next
    case (made y st1)
    let ?k = "intf_name intf" and ?p = "new_port E (hw_build E) intf sub y"
    have "configurable y (ovsdb_if_intf_get_hw_enable E intf)"
      using Some made(1,2) create_crash_iff [of E intf sub st] by auto
    then have filed: "port_filed E ?k ?p" by (rule new_port_filed [OF made(1,2)])
    note st0 = add_port_state [OF laws ok new filed with_new_port_def]
    let ?st0 = "with_new_port E (hw_build E) intf sub y st"
    have at: "table E (ovs_intfs ?st0) ?k = Some (next_addr st)" "port_of E ?st0 ?k = Some ?p" using st0 by simp_all
    obtain p' w' where conf: "configure_port (hw_build E) ?p (world ?st0) = Some (p', w')"
      using made(3) by (auto simp: on_port_def bind_eq_Some_conv)
    have "port_filed E ?k p'" using filed by (simp add: port_filed_truncate [OF hw.configure_keeps [OF conf]])
    then obtain st2 where st2: "on_port (configure_port (hw_build E)) (next_addr st) ?st0 = Some st2" "heap_sound E st2"
      "port_of E st2 = (port_of E ?st0)(?k \<mapsto> p')" "ovs_intfs st2 = ovs_intfs ?st0"
      using on_port_state [where f = "configure_port (hw_build E)", OF st0(1) at conf] by metis
    have at2: "table E (ovs_intfs st2) ?k = Some (next_addr st)" "port_of E st2 ?k = Some p'" using at st2 by simp_all
    have "st2 = st1" using made(3) st2(1) by simp
    obtain w2 where reset: "pm_clear_reset E p' (world st2) = Some w2"
      using made(4) at2 unfolding \<open>st2 = st1\<close> by (auto simp: on_port_def port_of_def bind_eq_Some_conv)
    have "heap_sound E st'"
      using on_port_state [where f = "\<lambda>port w. do { w \<leftarrow> pm_clear_reset E port w; Some (port, w) }" and p' = p' and w' = w2,
          OF st2(2) at2] reset \<open>port_filed E ?k p'\<close> made(4) unfolding \<open>st2 = st1\<close> by force
    with Some show ?thesis by simp
  qed
qed

lemma create_missing_filed:
  assumes "shash_laws E" "heap_sound E st"
  shows "sound_or (faulty_row E intf) (heap_sound E) (create_missing_intf E (hw_build E) sub intf st)"
proof (cases "table E (ovs_intfs st) (intf_name intf)")
  case None
  then have "shash_find E (ovs_intfs st) (intf_name intf) = None" using assms(1) by (simp add: shash_find_None)
  with create_filed [OF assms None] show ?thesis by (simp add: create_missing_intf_def)
next
  case (Some a)
  with assms show ?thesis by (simp add: create_missing_intf_def shash_find_table state_with_def)
qed

lemma process_filed:
  assumes laws: "shash_laws E" and ok: "heap_sound E st"
  shows "sound_or (\<exists>intf \<in> set (subsys_interfaces sub). faulty_row E intf) (heap_sound E)
    (ovsdb_if_subsys_process E (hw_build E) sub st)"
proof -
  have create: "sound_or (\<exists>intf \<in> set (subsys_interfaces sub). faulty_row E intf) (heap_sound E)
      (for_each (create_missing_intf E (hw_build E) (subsys_name sub)) (subsys_interfaces sub) s)" if "heap_sound E s" for s
    using that by (rule sound_or_loop) (rule sound_or_mono, rule create_missing_filed [OF laws], auto)
  show ?thesis
  proof (cases "shash_find E (ovs_subs st) (subsys_name sub)")
    case None
    then have "table E (ovs_subs st) (subsys_name sub) = None" using laws by (simp add: shash_find_None)
    then have "heap_sound E ((add_subsystem E sub st)\<lparr>world := w\<rparr>)" for w by (rule add_subsystem_ok(1) [OF laws ok])
    with None create show ?thesis by (simp add: ovsdb_if_subsys_process_def Let_def case_prod_beta)
  next
    case (Some node)
    with ok create show ?thesis by (simp add: ovsdb_if_subsys_process_def Let_def)
  qed
qed

lemma modify_filed:
  assumes laws: "shash_laws E" and ok: "heap_sound E st"
  shows "sound_or (faulty_row E intf) (heap_sound E) (modify_intf E (hw_build E) intf st)"
proof (cases "table E (ovs_intfs st) (intf_name intf)")
  case None
  then have "shash_find E (ovs_intfs st) (intf_name intf) = None" using laws by (simp add: shash_find_None)
  with ok show ?thesis by (simp add: modify_intf_def)
next
  case (Some a)
  let ?k = "intf_name intf" and ?e = "ovsdb_if_intf_get_hw_enable E intf"
  let ?f = "\<lambda>port w. let enable = ?e in
      if hw_enable port \<noteq> enable then configure_port (hw_build E) (port\<lparr>hw_enable := enable\<rparr>) w else Some (port, w)"
  have modify: "modify_intf E (hw_build E) intf st = on_port ?f a st"
    using laws ok Some by (simp add: modify_intf_def shash_find_table state_with_def ovsdb_if_intf_modify_def)
  obtain p where p: "ports st a = Some p" "port_of E st ?k = Some p" "port_filed E ?k p" using ok Some by (rule state_ok_port)
  show ?thesis
  proof (cases "?f p (world st)")
    case None
    then have "\<not> configurable (module_device p) ?e"
      using configure_None_iff [of E "p\<lparr>hw_enable := ?e\<rparr>"] by (auto simp: Let_def split: if_splits)
    then have "faulty_row E intf" using p(3) by (auto simp: faulty_row_def port_filed_def)
    with None p(1) show ?thesis by (simp add: modify on_port_def)
  next
    case (Some r)
    obtain p' w' where r: "r = (p', w')" by (cases r)
    have "port_filed E ?k p'"
    proof (cases "hw_enable p = ?e")
      case True
      then show ?thesis using p(3) Some r by simp
    next
      case False
      then have c: "configure_port (hw_build E) (p\<lparr>hw_enable := ?e\<rparr>) (world st) = Some (p', w')" using Some r by simp
      then have "configurable (module_device p) ?e" using configure_None_iff [of E "p\<lparr>hw_enable := ?e\<rparr>" "world st"] by simp
      then have "port_filed E ?k (p\<lparr>hw_enable := ?e\<rparr>)" using p(3) by (simp add: port_filed_def port_ok_def)
      then show ?thesis by (simp add: port_filed_truncate [OF hw.configure_keeps [OF c]])
    qed
    then obtain st' where "on_port ?f a st = Some st'" "heap_sound E st'"
      using on_port_state [where f = ?f, OF ok \<open>table E (ovs_intfs st) ?k = Some a\<close> p(2)] Some r by blast
    then show ?thesis by (simp add: modify)
  qed
qed

lemma intf_configure_filed:
  assumes laws: "shash_laws E" and ok: "heap_sound E st"
  shows "\<exists>st'. ovsdb_if_intf_configure E (hw_build E) intf st = Some st' \<and> heap_sound E st'"
proof (cases "table E (ovs_intfs st) (intf_name intf)")
  case None
  then have "shash_find E (ovs_intfs st) (intf_name intf) = None" using laws by (simp add: shash_find_None)
  with ok show ?thesis by (simp add: ovsdb_if_intf_configure_def)
next
  case (Some a)
  let ?k = "intf_name intf"
  obtain p where p: "port_of E st ?k = Some p" "port_filed E ?k p" "0 < a" using ok Some by (rule state_ok_port)
  obtain p' w' where c: "configure_port (hw_build E) p (world st) = Some (p', w')"
    using p(2) configure_None_iff [of E p "world st"] by (cases "configure_port (hw_build E) p (world st)") (auto simp: port_filed_def)
  have "port_filed E ?k p'" using p(2) by (simp add: port_filed_truncate [OF hw.configure_keeps [OF c]])
  then obtain st' where "on_port (configure_port (hw_build E)) a st = Some st'" "heap_sound E st'"
    using on_port_state [where f = "configure_port (hw_build E)", OF ok Some p(1) c] by metis
  then show ?thesis
    using laws ok Some p(3)
    by (simp add: ovsdb_if_intf_configure_def configure_at_pos shash_find_table state_with_def)
qed

section \<open>An iteration and the start\<close>

lemma reconfigure_filed:
  assumes laws: "shash_laws E" and ok: "heap_sound E st"
  shows "sound_or (\<exists>intf \<in> idl_rows idl. faulty_row E intf) (heap_sound E) (pmd_reconfigure E (hw_build E) idl st)"
proof (cases "idl_get_seqno idl = idl_seqno st")
  case True
  then show ?thesis by (simp add: pmd_reconfigure_def ok)
next
  case False
  let ?C = "\<exists>intf \<in> idl_rows idl. faulty_row E intf"
  define st0 where "st0 = st\<lparr>idl_seqno := idl_get_seqno idl\<rparr>"
  have st0: "heap_sound E st0" using ok unfolding st0_def state_with_def by simp
  obtain st1 where st1: "for_each (remove_deleted_intf E idl) (shash_nodes E (ovs_intfs st0)) st0 = Some st1" "heap_sound E st1"
    by (rule remove_intfs_ok [where idl = idl and P = "port_filed E", OF laws port_filed_name st0]) assumption
  obtain st2 where st2: "for_each (remove_deleted_subsys E idl) (shash_nodes E (ovs_subs st1)) st1 = Some st2" "heap_sound E st2"
    using laws st1(2) by (rule remove_subs_ok [where idl = idl and P = "port_filed E"])
  have "sound_or ?C (heap_sound E) (for_each (ovsdb_if_subsys_process E (hw_build E)) (idl_subsystems idl) st2)"
    using st2(2) by (rule sound_or_loop) (rule sound_or_mono, rule process_filed [OF laws], auto simp: idl_rows_def)
  then have "sound_or ?C (heap_sound E) (do {
      st \<leftarrow> for_each (ovsdb_if_subsys_process E (hw_build E)) (idl_subsystems idl) st2;
      for_each (modify_intf E (hw_build E)) (idl_interfaces idl) st })"
  proof (rule sound_or_bind)
    fix s assume "heap_sound E s"
    then show "sound_or ?C (heap_sound E) (for_each (modify_intf E (hw_build E)) (idl_interfaces idl) s)"
      by (rule sound_or_loop) (rule sound_or_mono, rule modify_filed [OF laws], auto simp: idl_rows_def)
  qed
  then show ?thesis using False st1(1) st2(1) by (simp add: pmd_reconfigure_def Let_def st0_def)
qed

lemma scan_filed:
  assumes ok: "heap_sound E st"
  shows "\<exists>st'. pm_read_state E (hw_build E) st = Some st' \<and> heap_sound E st'"
proof -
  let ?g = "\<lambda>node st. if snd node = 0 then Some st else on_port (pm_read_port_state E (hw_build E)) (snd node) st"
  have "\<exists>p' w'. pm_read_port_state E (hw_build E) p w = Some (p', w') \<and> port_filed E k p' \<and> True"
    if "port_filed E k p" for k p w
  proof -
    obtain p' w' where r: "pm_read_port_state E (hw_build E) p w = Some (p', w')"
      using hw.read_state_defined [of p E E w] configurable_connector \<open>port_filed E k p\<close> by (auto simp: port_filed_def)
    have config: "port_config p' = port_config p" by (rule hw.read_state_frame(1) [OF r])
    have "port_ok p'" using that by (intro hw.read_state_frame(2) [OF r]) (simp add: port_filed_def)
    then have "port_filed E k p'" using that port_config_eqD [OF config] by (simp add: port_filed_def)
    with r show ?thesis by blast
  qed
  from each_port_pass [where f = "pm_read_port_state E (hw_build E)" and R = "\<lambda>p p'. True" and g = ?g, OF ok this]
  obtain st' where "for_each ?g (shash_nodes E (ovs_intfs st)) st = Some st'" "heap_sound E st'" by auto
  then show ?thesis by (simp add: pm_read_state_def)
qed

lemma run_filed:
  assumes laws: "shash_laws E" and ok: "heap_sound E st"
  shows "sound_or (\<exists>intf \<in> idl_rows idl. faulty_row E intf) (heap_sound E) (pmd_run E (hw_build E) idl st)"
proof (cases "lock_contended idl \<or> \<not> has_lock idl")
  case True
  with ok show ?thesis by (auto simp: pmd_run_def)
next
  case False
  have rest: "sound_or C (heap_sound E) (do { s \<leftarrow> pm_read_state E (hw_build E) s; pm_ovsdb_update E idl s })"
    if "heap_sound E s" for s C
  proof -
    obtain s1 where s1: "pm_read_state E (hw_build E) s = Some s1" "heap_sound E s1" using scan_filed [OF \<open>heap_sound E s\<close>] by blast
    obtain s2 where "pm_ovsdb_update E idl s1 = Some s2" "heap_sound E s2"
      by (rule update_with [OF port_filed_unmarked s1(2), where idl = idl])
    with s1 show ?thesis by simp
  qed
  have "pmd_run E (hw_build E) idl st = do {
      s \<leftarrow> pmd_reconfigure E (hw_build E) idl st;
      s \<leftarrow> pm_read_state E (hw_build E) s;
      pm_ovsdb_update E idl s }"
    using False by (simp add: pmd_run_def)
  with sound_or_bind [OF reconfigure_filed [OF laws ok] rest] show ?thesis by simp
qed

lemma init_filed:
  fixes E :: "('w, 'd, 'h) externals"
  assumes laws: "shash_laws E"
  shows "sound_or (\<exists>intf \<in> idl_rows idl. faulty_row E intf) (heap_sound E) (pmd_init E (hw_build E) idl (zero_state h w))"
proof -
  let ?C = "\<exists>intf \<in> idl_rows idl. faulty_row E intf"
  define st0 :: "('w, 'h, unit) pmd_state" where "st0 = opened E idl ((zero_state h w)\<lparr>world := pm_config_init E w\<rparr>)"
  have "heap_sound E st0" using laws by (simp add: state_with_def st0_def opened_def zero_state_def)
  then have "sound_or ?C (heap_sound E) (for_each (ovsdb_if_subsys_process E (hw_build E)) (idl_subsystems idl) st0)"
    by (rule sound_or_loop) (rule sound_or_mono, rule process_filed [OF laws], auto simp: idl_rows_def)
  then have "sound_or ?C (heap_sound E) (do {
      st \<leftarrow> for_each (ovsdb_if_subsys_process E (hw_build E)) (idl_subsystems idl) st0;
      for_each (ovsdb_if_intf_configure E (hw_build E)) (idl_interfaces idl) st })"
  proof (rule sound_or_bind)
    fix s assume "heap_sound E s"
    then show "sound_or ?C (heap_sound E) (for_each (ovsdb_if_intf_configure E (hw_build E)) (idl_interfaces idl) s)"
      by (rule sound_or_loop) (metis intf_configure_filed [OF laws] sound_or_simps(1))
  qed
  then show ?thesis by (simp add: pmd_init_def init_opened pmd_configure_def st0_def zero_state_def)
qed

definition place_filed :: "('w, 'd, 'h) externals \<Rightarrow> bool \<Rightarrow> ('w, 'h, unit) place \<Rightarrow> bool" where
  "place_filed E C p =
     (case p of Top st \<Rightarrow> heap_sound E st | Stopped st \<Rightarrow> heap_sound E st | Serving x st \<Rightarrow> False | Crashed \<Rightarrow> C)"

lemma heap_sound_exit [simp]: "heap_sound E (pmd_exit st) = heap_sound E st"
  by (simp add: state_with_def pmd_exit_def)

lemma loop_filed:
  assumes laws: "shash_laws E" and ok: "heap_sound E st"
  shows "place_filed E (\<exists>idl \<in> fst ` set inputs. \<exists>intf \<in> idl_rows idl. faulty_row E intf)
    (fst (main_loop E (hw_build E) inputs (x, rs) st))"
  using ok
proof (induction inputs arbitrary: x rs st)
  case Nil
  then show ?case by (cases x) (simp_all add: place_filed_def)
next
  case (Cons input inputs)
  obtain idl reqs where input: "input = (idl, reqs)" by (cases input)
  note run = run_filed [OF laws Cons.prems, of idl]
  show ?case
  proof (cases x)
    case True
    then show ?thesis using Cons.prems by (simp add: place_filed_def)
  next
    case False
    show ?thesis
    proof (cases "pmd_run E (hw_build E) idl st")
      case None
      then show ?thesis using run False by (auto simp: input main_loop_Cons place_filed_def)
    next
      case (Some st1)
      then have st1: "heap_sound E st1" using run by simp
      obtain rs1 where "for_each (serve E st1) reqs (False, rs) = Some (False \<or> Exit \<in> set reqs, rs @ rs1)"
        using laws st1 by (rule serve_all)
      with Some False Cons.IH [OF st1, of "Exit \<in> set reqs" "rs @ rs1"] show ?thesis
        by (auto simp: input main_loop_Cons place_filed_def split: place.splits)
    qed
  qed
qed

section \<open>What crashes the daemon\<close>

text \<open>
  C1. Whatever the description files hold, whatever the database, the bus and the control commands deliver: the
  hardware build follows a NULL or freed pointer only when an interface row it is given, at the start or in one of its
  iterations, names a pluggable port whose description has no connector type, or one that is not a QSFP port, has no
  transmit-disable signal and is disabled by the row. As long as it has not crashed its tables and its heap fit together: no
  pointer dangles, no block is lost, every port is filed under its own name. The cause is real: creating the port of such a
  row crashes, and creating any other port does not. The only hypothesis is the contract of the hash table. Descriptions are
  values here; what the libraries do with a NULL argument and reads past a string literal are not part of the claim.
\<close>

theorem crash_causes:
  assumes "shash_laws E"
  shows "(case fst (session E (hw_build E) idl h w inputs) of
      Top st \<Rightarrow> heap_sound E st
    | Stopped st \<Rightarrow> heap_sound E st
    | Serving exiting st \<Rightarrow> False
    | Crashed \<Rightarrow> \<exists>idl' \<in> insert idl (fst ` set inputs). \<exists>intf \<in> idl_rows idl'. \<exists>y w' sub.
        pm_get_yaml_port E w' sub (intf_name intf) = Some y \<and> pluggable y \<and>
        \<not> configurable y (ovsdb_if_intf_get_hw_enable E intf)) \<and>
    (ovsdb_if_intf_create E (hw_build E) intf sub st = None \<longleftrightarrow>
       (\<exists>y. pm_get_yaml_port E (world st) sub (intf_name intf) = Some y \<and> pluggable y \<and>
          \<not> configurable y (ovsdb_if_intf_get_hw_enable E intf)))"
proof -
  let ?C = "\<exists>idl' \<in> insert idl (fst ` set inputs). \<exists>intf \<in> idl_rows idl'. faulty_row E intf"
  have place: "place_filed E ?C (fst (session E (hw_build E) idl h w inputs))"
  proof (cases "pmd_init E (hw_build E) idl (zero_state h w)")
    case None
    then show ?thesis using init_filed [OF assms, of idl h w] by (simp add: session_def place_filed_def)
  next
    case (Some st)
    then have "heap_sound E st" using init_filed [OF assms, of idl h w] by simp
    from loop_filed [OF assms this, of inputs False "[]"] Some show ?thesis
      by (auto simp: session_def place_filed_def split: place.splits)
  qed
  have fault: "faulty_row E = (\<lambda>i. \<exists>y w' sub. pm_get_yaml_port E w' sub (intf_name i) = Some y \<and> pluggable y \<and>
      \<not> configurable y (ovsdb_if_intf_get_hw_enable E i))"
    by (auto simp: fun_eq_iff faulty_row_def described_def)
  show ?thesis using place create_crash_iff unfolding place_filed_def fault by (rule conjI)
qed

text \<open>Description files that name what the daemon drives give no cause.\<close>

lemma yaml_laws_no_fault: "yaml_laws E \<Longrightarrow> \<not> faulty_row E intf"
  using pm_get_yaml_port_ready(1) by (fastforce simp: faulty_row_def described_def device_ready_configurable)

section \<open>The theorem on sample platforms\<close>

theorem crash_causes_witness:
  "\<exists>st. fst (session sfp_platform (hw_build sfp_platform) (sample_idl 1 True) [] (0, []) [(sample_idl 2 False, [Exit])]) \<in> {Top st, Stopped st} \<and>
     heap_sound sfp_platform st"
proof -
  let ?p = "fst (session sfp_platform (hw_build sfp_platform) (sample_idl 1 True) [] (0, []) [(sample_idl 2 False, [Exit])])"
  have sound: "configurable y on" if "pm_get_yaml_port sfp_platform w sub k = Some y" "pluggable y" for w sub k y on
    using pm_get_yaml_port_ready(1) [OF sample_laws(2) that] by (simp add: device_ready_configurable)
  note cause = conjunct1 [OF crash_causes [where E = sfp_platform, OF sample_laws(1), where idl = "sample_idl 1 True" and h = "[]" and w = "(0, [])"
      and inputs = "[(sample_idl 2 False, [Exit])]"]]
  show ?thesis
  proof (cases ?p)
    case Crashed
    show ?thesis using cause unfolding Crashed place.case by (meson sound)
  qed (use cause in auto)
qed

end
