(* ===== verification/Pmd_Start.thy ===== *)
theory Pmd_Start
  imports Crash_Causes
begin

text \<open>
  The rest of \<^verbatim>\<open>src/pmd.c\<close>: the options, the usage text, the registration of the control commands, \<open>main\<close> up to its
  loop, and what the loop waits for. \<open>getopt_long\<close>, the option macros of the logging and daemon libraries and the
  control server are parameters. Setting the program name, ignoring signals and forking into the background are not
  modelled.
\<close>

section \<open>Options\<close>

text \<open>
  An entry of the option table, what a handler macro does with an option (it has no such case, it goes on, or it ends the
  program with a status), and what the libraries provide. \<open>'g\<close> is the state of \<open>getopt_long\<close> with the
  argument vector it permutes, \<open>'e\<close> the settings of the libraries.
\<close>

datatype has_arg = no_argument | required_argument | optional_argument

record long_option =
  long_name :: string
  has_arg :: has_arg
  opt_val :: int

datatype 'e handled = No_case | Handled 'e | Handler_exit int

record ('g, 'e) option_env =
  getopt_long :: "string \<Rightarrow> long_option list \<Rightarrow> 'g \<Rightarrow> int \<times> string option \<times> 'g"
  argv_from_optind :: "'g \<Rightarrow> string list"
  long_options_to_short_options :: "long_option list \<Rightarrow> string"
  DAEMON_LONG_OPTIONS :: "long_option list"
  VLOG_LONG_OPTIONS :: "long_option list"
  VLOG_OPTION_HANDLERS :: "int \<Rightarrow> string option \<Rightarrow> 'e \<Rightarrow> 'e handled"
  DAEMON_OPTION_HANDLERS :: "int \<Rightarrow> string option \<Rightarrow> 'e \<Rightarrow> 'e handled"
  ovs_rundir :: string
  program_name :: string
  daemon_usage :: string
  vlog_usage :: string

definition EXIT_SUCCESS :: int where "EXIT_SUCCESS = 0"
definition EXIT_FAILURE :: int where "EXIT_FAILURE = 1"
definition UCHAR_MAX :: int where "UCHAR_MAX = 255"

definition program_version :: string where "program_version = ''0.02''"

definition OPT_UNIXCTL :: int where "OPT_UNIXCTL = UCHAR_MAX + 1"

definition long_options :: "('g, 'e) option_env \<Rightarrow> long_option list" where
  "long_options env =
     [\<lparr>long_name = ''help'', has_arg = no_argument, opt_val = of_char CHR ''h''\<rparr>,
      \<lparr>long_name = ''version'', has_arg = no_argument, opt_val = of_char CHR ''V''\<rparr>,
      \<lparr>long_name = ''unixctl'', has_arg = required_argument, opt_val = OPT_UNIXCTL\<rparr>] @
     DAEMON_LONG_OPTIONS env @ VLOG_LONG_OPTIONS env"

text \<open>How the parser ends: it returns the database socket with the control socket's path, or the program ends.\<close>

datatype 'e parsed = Returned string "string option" 'e | Exited int string | Aborted

definition usage_text :: "('g, 'e) option_env \<Rightarrow> string" where
  "usage_text env =
     program_name env @ '': OpenSwitch pluggable module daemon (pmd)\<newline>'' @
     ''usage: '' @ program_name env @ '' [OPTIONS] [DATABASE]\<newline>'' @
     ''where DATABASE is a socket on which ovsdb-server is listening\<newline>'' @
     ''      (default: '' @ [CHR 0x22] @ ''unix:'' @ ovs_rundir env @ ''/db.sock'' @ [CHR 0x22] @ '').\<newline>'' @
     daemon_usage env @ vlog_usage env @
     ''\<newline>Other options:\<newline>'' @
     ''  --unixctl=SOCKET        override default control socket name\<newline>'' @
     ''  -h, --help              display this help message\<newline>'' @
     ''  -V, --version           display version information\<newline>''"

definition usage :: "('g, 'e) option_env \<Rightarrow> 'e parsed" where
  "usage env = Exited EXIT_SUCCESS (usage_text env)"

definition pmd_print_version :: "('g, 'e) option_env \<Rightarrow> string" where
  "pmd_print_version env = program_name env @ '' version '' @ program_version @ ''\<newline>''"

text \<open>The \<open>switch\<close> over one option: the next path and settings, or the end of the program.\<close>

definition handle_option ::
  "('g, 'e) option_env \<Rightarrow> int \<Rightarrow> string option \<Rightarrow> string option \<times> 'e \<Rightarrow> 'e parsed + string option \<times> 'e" where
  "handle_option env c optarg = (\<lambda>(path, e).
     if c = of_char CHR ''h'' then Inl (usage env)
     else if c = of_char CHR ''V'' then Inl (Exited EXIT_SUCCESS (pmd_print_version env))
     else if c = OPT_UNIXCTL then Inr (optarg, e)
     else (case VLOG_OPTION_HANDLERS env c optarg e of
         Handled e \<Rightarrow> Inr (path, e)
       | Handler_exit rc \<Rightarrow> Inl (Exited rc '''')
       | No_case \<Rightarrow>
           (case DAEMON_OPTION_HANDLERS env c optarg e of
              Handled e \<Rightarrow> Inr (path, e)
            | Handler_exit rc \<Rightarrow> Inl (Exited rc '''')
            | No_case \<Rightarrow> if c = of_char CHR ''?'' then Inl (Exited EXIT_FAILURE '''') else Inl Aborted)))"

text \<open>The loop; \<open>None\<close> is a loop that does not end.\<close>

partial_function (option) option_loop ::
  "('g, 'e) option_env \<Rightarrow> string \<Rightarrow> 'g \<Rightarrow> string option \<times> 'e \<Rightarrow> ('e parsed + 'g \<times> string option \<times> 'e) option" where
  "option_loop env short_options g s =
     (case getopt_long env short_options (long_options env) g of (c, optarg, g) \<Rightarrow>
        if c = -1 then Some (Inr (g, s))
        else (case handle_option env c optarg s of
            Inl r \<Rightarrow> Some (Inl r)
          | Inr s \<Rightarrow> option_loop env short_options g s))"

text \<open>The operands after the loop; \<open>VLOG_FATAL\<close> ends the program with a failure.\<close>

definition take_operands ::
  "('g, 'e) option_env \<Rightarrow> 'g \<Rightarrow> string option \<times> 'e \<Rightarrow> 'e parsed" where
  "take_operands env g = (\<lambda>(path, e).
     (case argv_from_optind env g of
        [] \<Rightarrow> Returned (''unix:'' @ ovs_rundir env @ ''/db.sock'') path e
      | [x] \<Rightarrow> Returned x path e
      | _ \<Rightarrow> Exited EXIT_FAILURE ''''))"

definition parse_options :: "('g, 'e) option_env \<Rightarrow> 'g \<Rightarrow> string option \<Rightarrow> 'e \<Rightarrow> 'e parsed option" where
  "parse_options env g unixctl_path e =
     map_option (\<lambda>r. case r of Inl ending \<Rightarrow> ending | Inr (g, s) \<Rightarrow> take_operands env g s)
       (option_loop env (long_options_to_short_options env (long_options env)) g (unixctl_path, e))"

section \<open>Start and waiting\<close>

text \<open>A registered control command with the numbers of arguments it takes.\<close>

record command =
  cmd_name :: string
  min_args :: nat
  max_args :: nat

definition main_commands :: "command list" where
  "main_commands = [\<lparr>cmd_name = ''exit'', min_args = 0, max_args = 0\<rparr>]"

definition pmd_init_commands :: "bool \<Rightarrow> command list" where
  "pmd_init_commands platform_simulation =
     [\<lparr>cmd_name = ''ops-pmd/dump'', min_args = 0, max_args = 2\<rparr>] @
     (if platform_simulation then [\<lparr>cmd_name = ''ops-pmd/sim'', min_args = 2, max_args = 3\<rparr>] else [])"

text \<open>
  \<open>main\<close> up to its loop. \<open>unixctl_server_create\<close> gives the result for a path, \<open>connect\<close> the replica of the
  database that a remote name leads to.
\<close>

datatype ('w, 'h, 'z, 'e) started =
    Ended int string
  | Abort
  | Running "command list" "('w, 'h, 'z) place" 'e

definition start_daemon ::
  "('w, 'd, 'h) externals \<Rightarrow> ('w, 'z) build \<Rightarrow> bool \<Rightarrow> (string option \<Rightarrow> int) \<Rightarrow> (string \<Rightarrow> ovsdb_idl) \<Rightarrow> 'h \<Rightarrow> 'w \<Rightarrow>
   string \<Rightarrow> string option \<Rightarrow> 'e \<Rightarrow> ('w, 'h, 'z, 'e) started" where
  "start_daemon E B sim unixctl_server_create connect h w remote unixctl_path e =
     (if unixctl_server_create unixctl_path \<noteq> 0 then Ended EXIT_FAILURE ''''
      else
        Running (main_commands @ pmd_init_commands sim)
          (case pmd_init E B (connect remote) (zero_state h w) of None \<Rightarrow> Crashed | Some st \<Rightarrow> Top st) e)"

definition main_start ::
  "('g, 'e) option_env \<Rightarrow> ('w, 'd, 'h) externals \<Rightarrow> ('w, 'z) build \<Rightarrow> bool \<Rightarrow> (string option \<Rightarrow> int) \<Rightarrow>
   (string \<Rightarrow> ovsdb_idl) \<Rightarrow> 'h \<Rightarrow> 'w \<Rightarrow> 'g \<Rightarrow> 'e \<Rightarrow> ('w, 'h, 'z, 'e) started option" where
  "main_start env E B sim unixctl_server_create connect h w g e = do {
     r \<leftarrow> parse_options env g None e;
     Some (case r of
         Exited rc out \<Rightarrow> Ended rc out
       | Aborted \<Rightarrow> Abort
       | Returned remote unixctl_path e \<Rightarrow> start_daemon E B sim unixctl_server_create connect h w remote unixctl_path e) }"

datatype wait_request = Wait_idl | Wait_until int

definition PM_INTERVAL :: int where "PM_INTERVAL = 500"

definition pmd_wait :: "wait_request list" where
  "pmd_wait = [Wait_idl, Wait_until PM_INTERVAL]"

section \<open>What the options mean\<close>

text \<open>
  The contract of \<open>getopt_long\<close>: it comes to the end of the arguments, and an option it reports is one of the table or
  \<open>?\<close>. The handler macros have a case for each option of their own library.
\<close>

definition getopt_laws :: "('g, 'e) option_env \<Rightarrow> ('g \<Rightarrow> nat) \<Rightarrow> bool" where
  "getopt_laws env left \<longleftrightarrow>
     (\<forall>g short c optarg g'. getopt_long env short (long_options env) g = (c, optarg, g') \<longrightarrow> c \<noteq> -1 \<longrightarrow>
        left g' < left g \<and> (c = of_char CHR ''?'' \<or> c \<in> opt_val ` set (long_options env)))"

definition handler_laws :: "('g, 'e) option_env \<Rightarrow> bool" where
  "handler_laws env \<longleftrightarrow>
     (\<forall>o' \<in> set (VLOG_LONG_OPTIONS env). \<forall>optarg e. VLOG_OPTION_HANDLERS env (opt_val o') optarg e \<noteq> No_case) \<and>
     (\<forall>o' \<in> set (DAEMON_LONG_OPTIONS env). \<forall>optarg e. DAEMON_OPTION_HANDLERS env (opt_val o') optarg e \<noteq> No_case)"

text \<open>The options that \<open>getopt_long\<close> reports for a command line, and its state at the end.\<close>

inductive getopt_run ::
  "('g, 'e) option_env \<Rightarrow> string \<Rightarrow> 'g \<Rightarrow> (int \<times> string option) list \<Rightarrow> 'g \<Rightarrow> bool"
  for env :: "('g, 'e) option_env" and short :: string where
  finish: "getopt_long env short (long_options env) g = (-1, optarg, g') \<Longrightarrow> getopt_run env short g [] g'"
| report: "getopt_long env short (long_options env) g = (c, optarg, g') \<Longrightarrow> c \<noteq> -1 \<Longrightarrow>
    getopt_run env short g' items g'' \<Longrightarrow> getopt_run env short g ((c, optarg) # items) g''"

text \<open>
  What the reported options say: the last \<open>--unixctl\<close> wins, and the settings of the libraries are made in the order of
  the options up to the first one that ends the program.
\<close>

definition last_unixctl :: "string option \<Rightarrow> (int \<times> string option) list \<Rightarrow> string option" where
  "last_unixctl path items =
     (case filter (\<lambda>item. fst item = OPT_UNIXCTL) items of [] \<Rightarrow> path | xs \<Rightarrow> snd (last xs))"

primrec settings :: "('g, 'e) option_env \<Rightarrow> (int \<times> string option) list \<Rightarrow> 'e \<Rightarrow> 'e parsed + 'e" where
  "settings env [] e = Inr e"
| "settings env (item # items) e =
     (case handle_option env (fst item) (snd item) (None, e) of
        Inl r \<Rightarrow> Inl r
      | Inr s \<Rightarrow> settings env items (snd s))"

lemma last_unixctl_simps [simp]:
  "last_unixctl path [] = path"
  "last_unixctl path (item # items) =
     last_unixctl (if fst item = OPT_UNIXCTL then snd item else path) items"
  by (auto simp: last_unixctl_def split: list.splits)

text \<open>Only \<open>--unixctl\<close> touches the path, and no option looks at it.\<close>

lemma handle_option_path:
  "handle_option env c optarg (path, e) =
     map_sum id (\<lambda>s. (if c = OPT_UNIXCTL then optarg else path, snd s)) (handle_option env c optarg (None, e))"
  by (auto simp: handle_option_def OPT_UNIXCTL_def UCHAR_MAX_def split: handled.splits)

lemma getopt_run_exists:
  assumes "getopt_laws env left"
  shows "\<exists>items g'. getopt_run env short g items g'"
proof (induction g rule: measure_induct_rule [of left])
  case (less g)
  obtain c optarg g1 where step: "getopt_long env short (long_options env) g = (c, optarg, g1)"
    by (rule prod_cases3)
  show ?case
  proof (cases "c = -1")
    case False
    then have "left g1 < left g" using assms step unfolding getopt_laws_def by blast
    from less [OF this] show ?thesis using getopt_run.report [OF step False] by blast
  next
    case True
    then show ?thesis using step getopt_run.finish by metis
  qed
qed

lemma option_loop_run:
  assumes "getopt_run env short g items g'"
  shows "option_loop env short g (path, e) =
    Some (case settings env items e of Inl r \<Rightarrow> Inl r | Inr e' \<Rightarrow> Inr (g', last_unixctl path items, e'))"
  using assms
proof (induction arbitrary: path e)
  case (finish g optarg g')
  then show ?case by (simp add: option_loop.simps)
next
  case (report g c optarg g' items g'')
  show ?case
  proof (cases "handle_option env c optarg (None, e)")
    case (Inl r)
    then show ?thesis
      using report.hyps by (simp add: option_loop.simps [of env short g] handle_option_path [of env c optarg path])
  next
    case (Inr s)
    then show ?thesis
      using report.hyps report.IH
      by (simp add: option_loop.simps [of env short g] handle_option_path [of env c optarg path] split: sum.split)
  qed
qed

lemma settings_never_abort:
  assumes "getopt_laws env left" "handler_laws env" "getopt_run env short g items g'"
  shows "settings env items e \<noteq> Inl Aborted"
  using assms(3)
proof (induction arbitrary: e)
  case (report g c optarg g' items g'')
  have "c = of_char CHR ''?'' \<or> c \<in> opt_val ` set (long_options env)"
    using report.hyps(1,2) assms(1) unfolding getopt_laws_def by blast
  then consider "c \<in> {of_char CHR ''?'', of_char CHR ''h'', of_char CHR ''V'', OPT_UNIXCTL}"
    | "VLOG_OPTION_HANDLERS env c optarg e \<noteq> No_case" | "DAEMON_OPTION_HANDLERS env c optarg e \<noteq> No_case"
    using assms(2) unfolding long_options_def handler_laws_def by auto
  then have "handle_option env c optarg (None, e) \<noteq> Inl Aborted"
    by cases (auto simp: handle_option_def usage_def split: handled.splits)
  then show ?case using report.IH by (auto split: sum.splits)
qed simp

lemma option_result:
  assumes "getopt_laws env left" "handler_laws env"
  obtains items g' where "getopt_run env (long_options_to_short_options env (long_options env)) g items g'"
    "settings env items e \<noteq> Inl Aborted"
    "parse_options env g None e = Some (case settings env items e of
       Inl r \<Rightarrow> r | Inr e' \<Rightarrow> take_operands env g' (last_unixctl None items, e'))"
proof -
  let ?short = "long_options_to_short_options env (long_options env)"
  obtain items g' where run: "getopt_run env ?short g items g'"
    using getopt_run_exists [OF assms(1)] by blast
  then show ?thesis
    by (rule that) (simp_all add: settings_never_abort [OF assms run] parse_options_def option_loop_run [OF run]
      split: sum.split)
qed

lemma take_operands_returns: "take_operands env g s \<noteq> Aborted"
  by (auto simp: take_operands_def split: list.splits prod.splits)

lemma options_return:
  assumes "getopt_laws env left" "handler_laws env"
  obtains r where "parse_options env g None e = Some r" "r \<noteq> Aborted"
  by (rule option_result [OF assms, of g e]) (auto split: sum.splits simp: take_operands_returns)

text \<open>
  C20. Option parsing always comes to an end, and no command line makes it abort: every option of the table has a
  case. It gives what the options reported by \<open>getopt_long\<close> say: the first one that ends the program decides; when there is
  none, the libraries' settings have been made in order, the control socket is that of the last \<open>--unixctl\<close>, and the
  database is the only operand or, without one, the default socket. More than one operand is an error. The contract of
  \<open>getopt_long\<close> is that it comes to the end of the arguments and reports an option of the table or \<open>?\<close>.
\<close>

theorem options_parsed:
  assumes "getopt_laws env left" "handler_laws env"
  shows "\<exists>items g' r. getopt_run env (long_options_to_short_options env (long_options env)) g items g' \<and>
    parse_options env g None e = Some r \<and> r \<noteq> Aborted \<and>
    (case settings env items e of
       Inl ending \<Rightarrow> r = ending
     | Inr e' \<Rightarrow>
         (case argv_from_optind env g' of
            [] \<Rightarrow> r = Returned (''unix:'' @ ovs_rundir env @ ''/db.sock'') (last_unixctl None items) e'
          | [database] \<Rightarrow> r = Returned database (last_unixctl None items) e'
          | _ \<Rightarrow> r = Exited 1 ''''))"
proof -
  obtain items g' where run: "getopt_run env (long_options_to_short_options env (long_options env)) g items g'"
    "settings env items e \<noteq> Inl Aborted"
    "parse_options env g None e = Some (case settings env items e of
       Inl r \<Rightarrow> r | Inr e' \<Rightarrow> take_operands env g' (last_unixctl None items, e'))"
    using assms by (rule option_result)
  then show ?thesis
    by (intro exI [of _ items] exI [of _ g'])
      (auto simp: take_operands_def EXIT_FAILURE_def split: sum.splits list.splits)
qed

section \<open>From the command line to the loop\<close>

lemma settings_exit: "settings env items e = Inl r \<Longrightarrow> r \<noteq> Aborted \<Longrightarrow> \<exists>rc out. r = Exited rc out"
proof (induction items arbitrary: e)
  case (Cons item items)
  obtain c optarg where item: "item = (c, optarg)" by (cases item)
  show ?case
    using Cons by (auto simp: item handle_option_def usage_def split: sum.splits handled.splits if_splits)
qed simp

text \<open>
  C3. What the program of the hardware build does on any command line, from the options that \<open>getopt_long\<close>
  reports up to the main loop. An option that ends the program ends it with its status and output; more than one operand, or
  a control server that cannot be created at the path of the last \<open>--unixctl\<close>, ends it with status 1; it never aborts. In
  every other case the commands \<open>exit\<close> and \<open>ops-pmd/dump\<close> are registered and the daemon is initialised from the
  replica of the database that is the only operand or, without one, the default socket: it comes to its loop in a sound
  state, or crashes for a row of this replica that asks for what its description does not provide. The hypotheses are the
  contracts of \<open>getopt_long\<close>, of the option macros and of the hash table.
\<close>

theorem main_starts:
  assumes "getopt_laws env left" "handler_laws env" "shash_laws E"
  shows "\<exists>items g' res. getopt_run env (long_options_to_short_options env (long_options env)) g items g' \<and>
    main_start env E (hw_build E) False create connect h w g e = Some res \<and>
    (case settings env items e of
       Inl ending \<Rightarrow> \<exists>rc out. ending = Exited rc out \<and> res = Ended rc out
     | Inr e' \<Rightarrow>
         (let operands = argv_from_optind env g';
              remote = (if operands = [] then ''unix:'' @ ovs_rundir env @ ''/db.sock'' else hd operands)
          in if 1 < length operands \<or> create (last_unixctl None items) \<noteq> 0 then res = Ended 1 ''''
             else \<exists>cmds p. res = Running cmds p e' \<and> map cmd_name cmds = [''exit'', ''ops-pmd/dump''] \<and>
               (case pmd_init E (hw_build E) (connect remote) (zero_state h w) of
                  Some st \<Rightarrow> p = Top st \<and> heap_sound E st
                | None \<Rightarrow> p = Crashed \<and> (\<exists>intf \<in> idl_rows (connect remote). faulty_row E intf))))"
proof -
  obtain items g' where run: "getopt_run env (long_options_to_short_options env (long_options env)) g items g'"
    and never: "settings env items e \<noteq> Inl Aborted"
    and parsed: "parse_options env g None e = Some (case settings env items e of
       Inl r \<Rightarrow> r | Inr e' \<Rightarrow> take_operands env g' (last_unixctl None items, e'))"
    using assms(1,2) by (rule option_result)
  let ?start = "main_start env E (hw_build E) False create connect h w g e"
  show ?thesis
  proof (cases "settings env items e")
    case (Inl ending)
    then obtain rc out where "ending = Exited rc out" using settings_exit [OF Inl] never by auto
    with Inl parsed run show ?thesis
      by (intro exI [of _ items] exI [of _ g'] exI [of _ "Ended rc out"]) (simp add: main_start_def)
  next
    case (Inr e')
    let ?ops = "argv_from_optind env g'"
    define remote where "remote = (if ?ops = [] then ''unix:'' @ ovs_rundir env @ ''/db.sock'' else hd ?ops)"
    let ?init = "pmd_init E (hw_build E) (connect remote) (zero_state h w)"
    have take: "take_operands env g' (path, e') = (if 1 < length ?ops then Exited 1 '''' else Returned remote path e')" for path
      by (simp add: take_operands_def remote_def EXIT_FAILURE_def split: list.splits)
    show ?thesis
    proof (cases "1 < length ?ops \<or> create (last_unixctl None items) \<noteq> 0")
      case True
      then have "?start = Some (Ended 1 '''')"
        using parsed Inr take by (auto simp: main_start_def start_daemon_def EXIT_FAILURE_def)
      with run Inr True show ?thesis
        by (intro exI [of _ items] exI [of _ g'] exI [of _ "Ended 1 ''''"]) (simp add: Let_def)
    next
      case False
      let ?p = "case ?init of None \<Rightarrow> Crashed | Some st \<Rightarrow> Top st"
      let ?res = "Running (main_commands @ pmd_init_commands False) ?p e'"
      have "?start = Some ?res"
        using parsed Inr take False by (simp add: main_start_def start_daemon_def)
      moreover have "case ?init of
          Some st \<Rightarrow> ?p = Top st \<and> heap_sound E st
        | None \<Rightarrow> ?p = Crashed \<and> (\<exists>intf \<in> idl_rows (connect remote). faulty_row E intf)"
        using init_filed [OF assms(3), of "connect remote" h w] by (cases ?init) simp_all
      ultimately show ?thesis
        by (intro exI [of _ items] exI [of _ g'] exI [of _ ?res] conjI run,
            unfold Inr sum.case Let_def remote_def [symmetric] if_not_P [OF False])
          (auto simp: main_commands_def pmd_init_commands_def)
    qed
  qed
qed

section \<open>Waiting\<close>

text \<open>
  The timer takes a point in time, and the source passes an interval: by the contract of \<open>poll_block\<close>, which does not
  block when a requested time has passed, the loop never sleeps once the clock is past half a second.
\<close>

lemma pmd_wait_never_sleeps:
  assumes "\<And>now reqs t. Wait_until t \<in> set reqs \<Longrightarrow> t \<le> now \<Longrightarrow> \<not> poll_blocks now reqs" "500 \<le> now"
  shows "\<not> poll_blocks now pmd_wait"
  by (rule assms(1) [of PM_INTERVAL]) (use assms(2) in \<open>simp_all add: pmd_wait_def PM_INTERVAL_def\<close>)

section \<open>A concrete command line\<close>

text \<open>
  Options that are already split into values and arguments, followed by the operands; the settings are the values of the
  library options so far. The libraries have one option each.
\<close>

definition sample_env :: "((int \<times> string option) list \<times> string list, int list) option_env" where
  "sample_env = \<lparr>
     getopt_long = (\<lambda>short long (items, ops).
       case items of
         [] \<Rightarrow> (-1, None, ([], ops))
       | item # items \<Rightarrow>
           (if fst item \<in> opt_val ` set long then fst item else of_char CHR ''?'', snd item, (items, ops))),
     argv_from_optind = snd,
     long_options_to_short_options = (\<lambda>long. ''hV''),
     DAEMON_LONG_OPTIONS = [\<lparr>long_name = ''detach'', has_arg = no_argument, opt_val = 261\<rparr>],
     VLOG_LONG_OPTIONS = [\<lparr>long_name = ''log-file'', has_arg = optional_argument, opt_val = 257\<rparr>],
     VLOG_OPTION_HANDLERS = (\<lambda>c optarg e. if c = 257 then Handled (e @ [c]) else No_case),
     DAEMON_OPTION_HANDLERS = (\<lambda>c optarg e. if c = 261 then Handled (e @ [c]) else No_case),
     ovs_rundir = ''/var/run'', program_name = ''ops-pmd'', daemon_usage = '''', vlog_usage = ''''\<rparr>"

lemma sample_env_laws: "getopt_laws sample_env (\<lambda>g. length (fst g))" "handler_laws sample_env"
  by (auto simp: getopt_laws_def handler_laws_def sample_env_def split: list.splits if_splits)

text \<open>\<^verbatim>\<open>ops-pmd --unixctl=a --detach --unixctl=b db\<close>\<close>

abbreviation sample_line :: "(int \<times> string option) list \<times> string list" where
  "sample_line \<equiv> ([(256, Some ''a''), (261, None), (256, Some ''b'')], [''db''])"

lemma sample_getopt:
  "getopt_long sample_env short (long_options sample_env) ([], ops) = (-1, None, ([], ops))"
  "c \<in> {256, 261} \<Longrightarrow> getopt_long sample_env short (long_options sample_env) ((c, a) # items, ops) = (c, a, (items, ops))"
  by (auto simp: sample_env_def long_options_def OPT_UNIXCTL_def UCHAR_MAX_def)

lemma sample_getopt_run: "getopt_run sample_env short sample_line items g' \<Longrightarrow> items = fst sample_line \<and> g' = ([], [''db''])"
  by (auto simp: sample_getopt elim!: getopt_run.cases [of _ _ "(_ # _, _)"] getopt_run.cases [of _ _ "([], _)"])

lemma sample_settings:
  "settings sample_env (fst sample_line) [] = Inr [261]" "argv_from_optind sample_env ([], [''db'']) = [''db'']"
  "last_unixctl None (fst sample_line) = Some ''b''"
  by (simp_all add: handle_option_def sample_env_def OPT_UNIXCTL_def UCHAR_MAX_def)

theorem options_parsed_witness:
  "parse_options sample_env sample_line None [] = Some (Returned ''db'' (Some ''b'') [261])"
proof -
  obtain items g' r where r: "getopt_run sample_env (long_options_to_short_options sample_env (long_options sample_env)) sample_line items g'"
    "parse_options sample_env sample_line None [] = Some r"
    "case settings sample_env items [] of
       Inl ending \<Rightarrow> r = ending
     | Inr e' \<Rightarrow>
         (case argv_from_optind sample_env g' of
            [] \<Rightarrow> r = Returned (''unix:'' @ ovs_rundir sample_env @ ''/db.sock'') (last_unixctl None items) e'
          | [database] \<Rightarrow> r = Returned database (last_unixctl None items) e'
          | _ \<Rightarrow> r = Exited 1 '''')"
    using options_parsed [OF sample_env_laws, of sample_line "[]"] by blast
  from sample_getopt_run [OF r(1)] have g': "items = fst sample_line" "g' = ([], [''db''])" by blast+
  have "r = Returned ''db'' (Some ''b'') [261]"
    using r(3) unfolding g' sample_settings by simp
  with r(2) show ?thesis by simp
qed

theorem main_starts_witness:
  "\<exists>cmds p. main_start sample_env sfp_platform (hw_build sfp_platform) False
     (\<lambda>path. if path = Some ''b'' then 0 else 1) (\<lambda>remote. sample_idl 1 True) [] (0, []) sample_line [] =
       Some (Running cmds p [261]) \<and> map cmd_name cmds = [''exit'', ''ops-pmd/dump''] \<and>
     p \<noteq> Crashed"
proof -
  let ?E = "sfp_platform"
  let ?create = "\<lambda>path. if path = Some ''b'' then 0 else 1 :: int"
  let ?connect = "\<lambda>remote. sample_idl 1 True"
  let ?init = "pmd_init ?E (hw_build ?E) (sample_idl 1 True) (zero_state [] (0, []))"
  from main_starts [where E = ?E and create = ?create and connect = ?connect and h = "[]"
      and w = "(0, [])" and g = sample_line and e = "[]", OF sample_env_laws sample_laws(1)]
  obtain items g' res where res:
    "getopt_run sample_env (long_options_to_short_options sample_env (long_options sample_env)) sample_line items g'"
    "main_start sample_env ?E (hw_build ?E) False ?create ?connect [] (0, []) sample_line [] = Some res"
    "case settings sample_env items [] of
       Inl ending \<Rightarrow> \<exists>rc out. ending = Exited rc out \<and> res = Ended rc out
     | Inr e' \<Rightarrow>
         (let operands = argv_from_optind sample_env g';
              remote = (if operands = [] then ''unix:'' @ ovs_rundir sample_env @ ''/db.sock'' else hd operands)
          in if 1 < length operands \<or> ?create (last_unixctl None items) \<noteq> 0 then res = Ended 1 ''''
             else \<exists>cmds p. res = Running cmds p e' \<and> map cmd_name cmds = [''exit'', ''ops-pmd/dump''] \<and>
               (case pmd_init ?E (hw_build ?E) (?connect remote) (zero_state [] (0, [])) of
                  Some st \<Rightarrow> p = Top st \<and> heap_sound ?E st
                | None \<Rightarrow> p = Crashed \<and> (\<exists>intf \<in> idl_rows (?connect remote). faulty_row ?E intf)))"
    by (elim exE conjE) (rule that; assumption)
  from sample_getopt_run [OF res(1)] have g': "items = fst sample_line" "g' = ([], [''db''])" by blast+
  have "\<exists>cmds p. res = Running cmds p [261] \<and> map cmd_name cmds = [''exit'', ''ops-pmd/dump''] \<and>
      (case ?init of
         Some st \<Rightarrow> p = Top st \<and> heap_sound ?E st
       | None \<Rightarrow> p = Crashed \<and> (\<exists>intf \<in> idl_rows (sample_idl 1 True). faulty_row ?E intf))"
    using res(3) unfolding g' sample_settings by simp
  then show ?thesis using res(2) yaml_laws_no_fault [OF sample_laws(2)] by (auto split: option.splits)
qed

end
