(* ===== verification/Pmd_Spec.thy ===== *)
theory Pmd_Spec
  imports Pmd_Main
begin

text \<open>
  An abstract specification of the daemon: the ports by their names, the transactions committed so far, the
  database revision seen and whether \<open>cur_hw\<close> has been written. One abstract step says what an iteration on a given
  replica does, without tables, addresses or a heap; every run of the main loop of the hardware build is shown to be a
  run of the specification on the same replicas.
\<close>

section \<open>The specification\<close>

record pm_spec =
  spec_ports :: "string \<rightharpoonup> pm_port_t"
  spec_log :: "db_write list list"
  spec_seqno :: "32 word"
  spec_cur_hw :: bool

text \<open>
  What one transaction holds: for every port what it publishes, each once and in any order, then \<open>cur_hw\<close> when it
  is due.
\<close>

definition spec_txn ::
  "('w, 'd, 'h) externals \<Rightarrow> ovsdb_idl \<Rightarrow> bool \<Rightarrow> (string \<rightharpoonup> pm_port_t) \<Rightarrow> db_write list \<Rightarrow> bool" where
  "spec_txn E idl cur_hw m txn \<longleftrightarrow>
     (\<exists>pub. txn = pub @ (if \<not> cur_hw \<and> NAME_IN_DAEMON_TABLE \<in> daemon_name ` set (idl_daemons idl)
                       then [Set_cur_hw NAME_IN_DAEMON_TABLE 1] else []) \<and>
        finite (dom m) \<and> mset pub = (\<Sum>k \<in> dom m. mset (published E idl (m k))))"

text \<open>
  One iteration: nothing without the lock; otherwise the ports come to mirror the rows if the revision is new,
  every port is scanned, the changed ports are published and their change marks cleared.
\<close>

inductive spec_step :: "('w, 'd, 'h) externals \<Rightarrow> ovsdb_idl \<Rightarrow> pm_spec \<Rightarrow> pm_spec \<Rightarrow> bool"
  for E :: "('w, 'd, 'h) externals" and idl :: ovsdb_idl where
  idle: "lock_contended idl \<or> \<not> has_lock idl \<Longrightarrow> spec_step E idl s s"
| iterate: "has_lock idl \<Longrightarrow> \<not> lock_contended idl \<Longrightarrow>
    (if idl_get_seqno idl = spec_seqno s then m = spec_ports s else mirrors E idl (spec_ports s) m) \<Longrightarrow>
    (\<And>k. rel_option (scanned E) (m k) (m' k)) \<Longrightarrow>
    spec_txn E idl (spec_cur_hw s) m' txn \<Longrightarrow>
    spec_step E idl s
      \<lparr>spec_ports = (\<lambda>k. map_option (acknowledged idl) (m' k)), spec_log = spec_log s @ [txn],
       spec_seqno = idl_get_seqno idl,
       spec_cur_hw = (spec_cur_hw s \<or> NAME_IN_DAEMON_TABLE \<in> daemon_name ` set (idl_daemons idl))\<rparr>"

text \<open>A run of the specification on a list of replicas.\<close>

inductive spec_run :: "('w, 'd, 'h) externals \<Rightarrow> ovsdb_idl list \<Rightarrow> pm_spec \<Rightarrow> pm_spec \<Rightarrow> bool"
  for E :: "('w, 'd, 'h) externals" where
  no_more: "spec_run E [] s s"
| more: "spec_step E idl s s' \<Longrightarrow> spec_run E idls s' s'' \<Longrightarrow> spec_run E (idl # idls) s s''"

inductive_simps spec_run_simps: "spec_run E [] s s'" "spec_run E (idl # idls) s s'"

definition spec_of :: "('w, 'd, 'h) externals \<Rightarrow> ('w, 'h, unit) pmd_state \<Rightarrow> pm_spec" where
  "spec_of E st = \<lparr>spec_ports = port_of E st, spec_log = committed st, spec_seqno = idl_seqno st, spec_cur_hw = cur_hw_set st\<rparr>"

section \<open>The transaction of a table\<close>

lemma mset_concat_published:
  assumes "distinct (map fst nodes)" "dom m = fst ` set nodes"
  shows "mset (concat (map (\<lambda>(k, a). published E idl (m k)) nodes)) = (\<Sum>k \<in> dom m. mset (published E idl (m k)))"
proof -
  have "mset (concat (map (\<lambda>(k, a). published E idl (m k)) nodes)) =
      sum_list (map (\<lambda>k. mset (published E idl (m k))) (map fst nodes))"
    by (simp add: mset_concat o_def case_prod_beta)
  also have "\<dots> = (\<Sum>k \<in> set (map fst nodes). mset (published E idl (m k)))"
    using assms(1) by (rule sum_list_distinct_conv_sum_set)
  finally show ?thesis using assms(2) by simp
qed

lemma dom_nodes: "state_ok E st \<Longrightarrow> dom (port_of E st) = fst ` set (shash_nodes E (ovs_intfs st))"
  by (simp add: dom_port_of table_def dom_map_of_conv_image_fst)

lemma table_txn:
  assumes "state_ok E st"
  shows "spec_txn E idl (cur_hw_set st) (port_of E st)
    (concat (map (\<lambda>(k, a). published E idl (port_of E st k)) (shash_nodes E (ovs_intfs st))) @ cur_hw_write idl st)"
proof -
  have "mset (concat (map (\<lambda>(k, a). published E idl (port_of E st k)) (shash_nodes E (ovs_intfs st)))) =
      (\<Sum>k \<in> dom (port_of E st). mset (published E idl (port_of E st k)))"
    by (rule mset_concat_published [OF distinct_names dom_nodes]) (rule assms)+
  moreover have "finite (dom (port_of E st))" using dom_nodes [OF assms] by simp
  ultimately show ?thesis unfolding spec_txn_def cur_hw_write_def by blast
qed

section \<open>The refinement\<close>

lemma run_refines:
  assumes laws: "shash_laws E" "yaml_laws E" and ok: "state_ok E st"
    and idl: "idl_laws idl" and run: "pmd_run E (hw_build E) idl st = Some st'"
  shows "spec_step E idl (spec_of E st) (spec_of E st')"
proof (cases "lock_contended idl \<or> \<not> has_lock idl")
  case True
  with run have "st' = st" by (auto simp: pmd_run_def split: if_splits)
  with True show ?thesis by (simp add: spec_step.idle)
next
  case False
  obtain st1 where st1: "pmd_reconfigure E (hw_build E) idl st = Some st1" "state_ok E st1"
    "idl_seqno st1 = idl_get_seqno idl" "committed st1 = committed st"
    "idl_get_seqno idl \<noteq> idl_seqno st \<Longrightarrow> idl_laws idl \<Longrightarrow> mirrors E idl (port_of E st) (port_of E st1)"
    "idl_get_seqno idl = idl_seqno st \<Longrightarrow> st1 = st"
    using laws ok by (rule hw.reconfigure_ok [where idl = idl]) blast
  have run1: "pmd_run E (hw_build E) idl st1 = Some st'"
    using run False st1(1,3) by (simp add: pmd_run_def pmd_reconfigure_def)
  obtain st2 where st2: "pm_read_state E (hw_build E) st1 = Some st2" "state_ok E st2" "same_frame st1 st2"
    "\<And>k. rel_option (scanned E) (port_of E st1 k) (port_of E st2 k)"
    "\<And>k. port_of E st' k = map_option (acknowledged idl) (port_of E st2 k)"
    "committed st' = committed st1 @
       [concat (map (\<lambda>(k, a). published E idl (port_of E st2 k)) (shash_nodes E (ovs_intfs st1))) @ cur_hw_write idl st2]"
    "idl_seqno st' = idl_seqno st1" "cur_hw_set st' \<longleftrightarrow> cur_hw_set st2 \<or> cur_hw_write idl st2 \<noteq> []"
    by (rule run_unchanged_hw [OF st1(2) _ _ st1(3) [symmetric] run1]) (use False in auto)
  have cur: "cur_hw_set st2 = cur_hw_set st"
    using read_state_other_globals [OF st2(1)] reconfigure_other_globals [OF st1(1)] by (simp add: other_globals_def)
  define txn where "txn = concat (map (\<lambda>(k, a). published E idl (port_of E st2 k)) (shash_nodes E (ovs_intfs st1))) @ cur_hw_write idl st2"
  have "ovs_intfs st2 = ovs_intfs st1" using st2(3) by (simp add: same_frame_def)
  then have "spec_txn E idl (cur_hw_set st) (port_of E st2) txn"
    using table_txn [OF st2(2), of idl] unfolding txn_def cur by simp
  then have "spec_step E idl (spec_of E st)
      \<lparr>spec_ports = (\<lambda>k. map_option (acknowledged idl) (port_of E st2 k)), spec_log = spec_log (spec_of E st) @ [txn],
       spec_seqno = idl_get_seqno idl,
       spec_cur_hw = (spec_cur_hw (spec_of E st) \<or> NAME_IN_DAEMON_TABLE \<in> daemon_name ` set (idl_daemons idl))\<rparr>"
    using False idl st1(5,6) st2(4)
    by (intro spec_step.iterate [where m = "port_of E st1"]) (auto simp: spec_of_def)
  moreover have "spec_of E st' = \<lparr>spec_ports = (\<lambda>k. map_option (acknowledged idl) (port_of E st2 k)),
       spec_log = spec_log (spec_of E st) @ [txn], spec_seqno = idl_get_seqno idl,
       spec_cur_hw = (spec_cur_hw (spec_of E st) \<or> NAME_IN_DAEMON_TABLE \<in> daemon_name ` set (idl_daemons idl))\<rparr>"
    using st2(5-8) st1(3,4) cur by (auto simp: spec_of_def txn_def cur_hw_write_def)
  ultimately show ?thesis by simp
qed

text \<open>
  C2. The daemon implements its specification: what the main loop of the hardware build does on a list of
  iterations, each with its replica and its control commands, is a run of \<open>spec_step\<close> on exactly these replicas, up to the
  iteration in which \<open>exit\<close> is served. So on a replica with a new revision the ports come to mirror its rows, on every replica
  with the lock each port is scanned and what changed is published, and nothing happens without the lock. The hypotheses: a
  sound state to start from, the contract of the hash table, description files that name what the daemon drives, and
  replicas with distinct interface names whose subsystems refer to interfaces of the replica.
\<close>

theorem daemon_refines:
  assumes "shash_laws E" "yaml_laws E" "state_ok E st" "\<forall>i \<in> set inputs. idl_laws (fst i)"
  shows "\<exists>st'. fst (main_loop E (hw_build E) inputs (False, rs) st) =
      (if \<exists>i \<in> set inputs. Exit \<in> set (snd i) then Stopped st' else Top st') \<and>
    spec_run E (map fst (carried_out inputs)) (spec_of E st) (spec_of E st')"
  using assms(3,4)
proof (induction inputs arbitrary: st rs)
  case Nil
  then show ?case by (simp add: spec_run_simps)
next
  case (Cons input inputs)
  obtain idl reqs where input: "input = (idl, reqs)" by (cases input)
  obtain st1 where st1: "pmd_run E (hw_build E) idl st = Some st1" "state_ok E st1"
    using assms(1,2) Cons.prems(1) by (rule hw.run_ok [where idl = idl])
  have step: "spec_step E idl (spec_of E st) (spec_of E st1)"
    using assms(1,2) Cons.prems st1(1) by (intro run_refines) (simp_all add: input)
  obtain rs1 where served: "for_each (serve E st1) reqs (False, rs) = Some (False \<or> Exit \<in> set reqs, rs @ rs1)"
    using assms(1) st1(2) by (rule serve_all)
  show ?case
  proof (cases "Exit \<in> set reqs")
    case True
    moreover have "spec_of E (pmd_exit st1) = spec_of E st1" by (simp add: spec_of_def)
    ultimately show ?thesis
      using step st1(1) served by (intro exI [of _ "pmd_exit st1"]) (auto simp: input main_loop_Cons spec_run_simps)
  next
    case False
    obtain st' where st': "fst (main_loop E (hw_build E) inputs (False, rs @ rs1) st1) =
        (if \<exists>i \<in> set inputs. Exit \<in> set (snd i) then Stopped st' else Top st')"
      "spec_run E (map fst (carried_out inputs)) (spec_of E st1) (spec_of E st')"
      using Cons.IH [OF st1(2), of "rs @ rs1"] Cons.prems(2) by auto
    then have "spec_run E (idl # map fst (carried_out inputs)) (spec_of E st) (spec_of E st')"
      using step by (blast intro: spec_run.more)
    with st'(1) False st1(1) served show ?thesis by (intro exI [of _ st']) (simp add: input main_loop_Cons)
  qed
qed

theorem daemon_refines_witness:
  "\<exists>st'. fst (main_loop sfp_platform (hw_build sfp_platform)
       [(sample_idl 2 True, [Dump []]), (sample_idl 2 True, [Exit]), (sample_idl 3 True, [])] (False, [])
       (sample_state CONNECTOR_SFP_PLUS False)) = Stopped st' \<and>
     spec_run sfp_platform [sample_idl 2 True, sample_idl 2 True]
       (spec_of sfp_platform (sample_state CONNECTOR_SFP_PLUS False)) (spec_of sfp_platform st')"
  using daemon_refines [OF sample_laws sample_state_simps(1), where rs = "[]" and
      inputs = "[(sample_idl 2 True, [Dump []]), (sample_idl 2 True, [Exit]), (sample_idl 3 True, [])]"]
  by simp

end
