(* ===== verification/Pmd_Simulation.thy ===== *)
theory Pmd_Simulation
  imports Pmd_Main
begin

text \<open>
  The daemon built for simulation (\<^verbatim>\<open>PLATFORM_SIMULATION\<close>): the insert and remove commands of
  \<^verbatim>\<open>src/plug.c\<close> as further steps of the main loop, what they do to a port, and when an iteration of this
  build follows a NULL pointer.
\<close>

section \<open>The main loop with the simulation commands\<close>

text \<open>The command is registered for two or three arguments, so that \<open>argc\<close> is 3 or 4.\<close>

inductive sim_step ::
  "('w, 'd, 'h) externals \<Rightarrow> (string \<Rightarrow> byte list option) \<Rightarrow>
   ('w, 'h, sim_fields) place \<Rightarrow> ('w, 'h, sim_fields) place \<Rightarrow> bool"
  for E :: "('w, 'd, 'h) externals" and files :: "string \<Rightarrow> byte list option" where
  main: "main_step E sim_build p q \<Longrightarrow> sim_step E files p q"
| sim: "length argv \<in> {3, 4} \<Longrightarrow> pmd_unixctl_sim E files argv st = Some (r, st') \<Longrightarrow>
    sim_step E files (Serving exiting st) (Serving exiting st')"
| sim_crash: "length argv \<in> {3, 4} \<Longrightarrow> pmd_unixctl_sim E files argv st = None \<Longrightarrow>
    sim_step E files (Serving exiting st) Crashed"

text \<open>The page a file delivers, and the states whose inserted pages have the length of a page.\<close>

definition file_page :: "(string \<Rightarrow> byte list option) \<Rightarrow> string \<Rightarrow> byte list option" where
  "file_page files file =
     (case files file of None \<Rightarrow> None | Some c \<Rightarrow> if length c < 128 then None else Some (take 128 c))"

definition page_ok :: "pm_port_sim_t \<Rightarrow> bool" where
  "page_ok p \<longleftrightarrow> (\<forall>page. module_data p = Some page \<longrightarrow> length page = 128)"

definition pages_ok :: "('w, 'h, sim_fields) pmd_state \<Rightarrow> bool" where
  "pages_ok st \<longleftrightarrow> (\<forall>a p. ports st a = Some p \<longrightarrow> page_ok p)"

section \<open>Inserting and removing a module\<close>

lemma port_good_module_data: "port_good k p \<Longrightarrow> port_good k (p\<lparr>module_data := m\<rparr>)"
  by (simp add: port_good_def port_ok_def)

lemma put_module_data:
  assumes ok: "state_ok E st" and a: "table E (ovs_intfs st) k = Some a" and p: "port_of E st k = Some p"
  obtains st' where "on_port (\<lambda>port w. Some (port\<lparr>module_data := m\<rparr>, w)) a st = Some st'" "state_ok E st'"
    "port_of E st' = (port_of E st)(k \<mapsto> p\<lparr>module_data := m\<rparr>)" "ovs_intfs st' = ovs_intfs st"
    "idl_seqno st' = idl_seqno st" "committed st' = committed st"
proof -
  have "port_good k (p\<lparr>module_data := m\<rparr>)"
    using ok p by (auto intro: port_good_module_data elim: port_of_SomeD)
  from on_port_state [where f = "\<lambda>port w. Some (port\<lparr>module_data := m\<rparr>, w)", OF ok a p refl this] that
  show ?thesis by metis
qed

lemma find_node:
  assumes "shash_laws E" "state_ok E st" "table E (ovs_intfs st) k = Some a"
  shows "shash_find E (ovs_intfs st) k = Some (k, a)"
  using assms by (simp add: shash_find_table state_with_def)

lemma insert_effect:
  assumes laws: "shash_laws E" and ok: "state_ok E st" and p: "port_of E st k = Some p"
  obtains st' msg where
    "pmd_sim_insert E files k file st = Some (if file_page files file = None then -1 else 0, msg, st')"
    "state_ok E st'" "port_of E st' = (port_of E st)(k \<mapsto> p\<lparr>module_data := file_page files file\<rparr>)"
    "file_page files file \<noteq> None \<Longrightarrow> msg = ''Pluggable module inserted''"
    "idl_seqno st' = idl_seqno st" "committed st' = committed st"
proof -
  obtain a where a: "table E (ovs_intfs st) k = Some a" using ok p by (rule port_of_SomeD)
  note node = find_node [OF laws ok a]
  obtain st1 where st1: "on_port (\<lambda>port w. Some (port\<lparr>module_data := None\<rparr>, w)) a st = Some st1" "state_ok E st1"
    "port_of E st1 = (port_of E st)(k \<mapsto> p\<lparr>module_data := None\<rparr>)" "ovs_intfs st1 = ovs_intfs st"
    "idl_seqno st1 = idl_seqno st" "committed st1 = committed st"
    using ok a p by (rule put_module_data)
  show ?thesis
  proof (cases "file_page files file")
    case None
    then show ?thesis
      using st1 node
      by (intro that [of "if files file = None then ''Can't open file'' else ''Unable to read data''" st1])
        (auto simp: pmd_sim_insert_def file_page_def split: option.splits if_splits)
  next
    case (Some page)
    have "table E (ovs_intfs st1) k = Some a" "port_of E st1 k = Some (p\<lparr>module_data := None\<rparr>)"
      using a st1(3,4) by simp_all
    then obtain st2 where st2: "on_port (\<lambda>port w. Some (port\<lparr>module_data := Some page\<rparr>, w)) a st1 = Some st2"
      "state_ok E st2" "port_of E st2 = (port_of E st1)(k \<mapsto> p\<lparr>module_data := None\<rparr>\<lparr>module_data := Some page\<rparr>)"
      "idl_seqno st2 = idl_seqno st1" "committed st2 = committed st1"
      by (rule put_module_data [OF st1(2)])
    then show ?thesis
      using Some st1 node
      by (intro that [of "''Pluggable module inserted''" st2])
        (auto simp: pmd_sim_insert_def file_page_def split: option.splits if_splits)
  qed
qed

lemma remove_effect:
  assumes laws: "shash_laws E" and ok: "state_ok E st" and p: "port_of E st k = Some p"
  obtains st' msg where
    "pmd_sim_remove E k st = Some (if module_data p = None then -1 else 0, msg, st')"
    "state_ok E st'" "port_of E st' = (port_of E st)(k \<mapsto> p\<lparr>module_data := None\<rparr>)"
proof -
  obtain a where a: "table E (ovs_intfs st) k = Some a" "ports st a = Some p" using ok p by (rule port_of_SomeD)
  note node = find_node [OF laws ok a(1)]
  show ?thesis
  proof (cases "module_data p")
    case None
    then have "(port_of E st)(k \<mapsto> p\<lparr>module_data := None\<rparr>) = port_of E st"
      using p by (simp add: fun_upd_idem)
    with None ok a node show ?thesis
      by (intro that [of "''Pluggable module not present''" st]) (simp_all add: pmd_sim_remove_def)
  next
    case (Some page)
    obtain st1 where "on_port (\<lambda>port w. Some (port\<lparr>module_data := None\<rparr>, w)) a st = Some st1" "state_ok E st1"
      "port_of E st1 = (port_of E st)(k \<mapsto> p\<lparr>module_data := None\<rparr>)"
      using ok a(1) p by (rule put_module_data)
    with Some a node show ?thesis
      by (intro that [of "''Pluggable module removed''" st1]) (simp_all add: pmd_sim_remove_def)
  qed
qed

section \<open>Scanning without a page\<close>

text \<open>A port whose next scan reads the serial id page.\<close>

definition needs_page :: "'z pm_port_t_scheme \<Rightarrow> bool" where
  "needs_page p \<longleftrightarrow>
     (\<exists>c. YamlPort.connector (module_device p) = Some c \<and>
        c \<in> {CONNECTOR_SFP_PLUS, CONNECTOR_QSFP_PLUS, CONNECTOR_QSFP28}) \<and> (\<not> present p \<or> retry p)"

lemma sim_scan_None:
  assumes "port_good k p" "page_ok p"
  shows "pm_read_port_state E sim_build p w = None \<longleftrightarrow> needs_page p \<and> module_data p = None"
proof -
  obtain c where c: "YamlPort.connector (module_device p) = Some c"
    using assms(1) by (auto simp: port_good_def device_ready_def)
  have parsed: "\<exists>p'. parse_module E page p = Some p'" if "module_data p = Some page" for page
    using parse_module_defined [of p page E] assms(2) that c by (simp add: page_ok_def)
  show ?thesis
  proof (cases "serial_id_offset c")
    case None
    then have "\<not> needs_page p" using c serial_id_offset_known [of c] by (simp add: needs_page_def)
    with None c show ?thesis by (simp add: pm_read_port_state_def pm_read_module_state_def)
  next
    case (Some off)
    then have need: "needs_page p \<longleftrightarrow> \<not> present p \<or> retry p"
      using c serial_id_offset_known [of c] by (simp add: needs_page_def)
    note read = pm_read_port_state_def pm_read_module_state_def read_module_from_eq sim_build_def
      pm_get_presence_sim_def pm_read_a0_sim_def
    show ?thesis
    proof (cases "module_data p")
      case None
      then show ?thesis using c Some unfolding need by (auto simp: read)
    next
      case page: (Some page)
      then obtain p' where "parse_module E page p = Some p'" using parsed by blast
      with page show ?thesis using c Some assms(2) unfolding need by (auto simp: read page_ok_def)
    qed
  qed
qed

lemma for_each_on_port_None:
  assumes "distinct (map snd nodes)" "\<And>node s. node \<in> set nodes \<Longrightarrow> g node s = on_port f (snd node) s"
    and "\<And>node p w. node \<in> set nodes \<Longrightarrow> ports st (snd node) = Some p \<Longrightarrow> f p w = None \<longleftrightarrow> bad p"
    and "\<And>node. node \<in> set nodes \<Longrightarrow> ports st (snd node) \<noteq> None"
  shows "for_each g nodes st = None \<longleftrightarrow> (\<exists>node \<in> set nodes. \<exists>p. ports st (snd node) = Some p \<and> bad p)"
  using assms
proof (induction nodes arbitrary: st)
  case (Cons node nodes)
  obtain p where p: "ports st (snd node) = Some p" using Cons.prems(4) [of node] by auto
  have g: "g node st = on_port f (snd node) st" using Cons.prems(2) by simp
  have other: "snd n \<noteq> snd node" if "n \<in> set nodes" for n using Cons.prems(1) that by (auto simp: image_iff)
  show ?case
  proof (cases "f p (world st)")
    case None
    then have "bad p" using Cons.prems(3) [of node p "world st"] p by simp
    then show ?thesis using None p by (auto simp: g on_port_def)
  next
    case (Some r)
    obtain p' w' where r: "r = (p', w')" by (cases r)
    let ?st = "st\<lparr>ports := (ports st)(snd node \<mapsto> p'), world := w'\<rparr>"
    have same: "ports ?st (snd n) = ports st (snd n)" if "n \<in> set nodes" for n using other [OF that] by simp
    have "\<not> bad p" using Some Cons.prems(3) [of node p "world st"] p by simp
    moreover have "g node st = Some ?st" using Some p r by (simp add: g on_port_def)
    moreover have "for_each g nodes ?st = None \<longleftrightarrow> (\<exists>n \<in> set nodes. \<exists>p. ports ?st (snd n) = Some p \<and> bad p)"
    proof (rule Cons.IH)
      fix n p w assume "n \<in> set nodes" "ports ?st (snd n) = Some p"
      then show "f p w = None \<longleftrightarrow> bad p" using Cons.prems(3) [of n p w] same by simp
    qed (use Cons.prems(1,2,4) same in simp_all)
    ultimately show ?thesis using p same by auto
  qed
qed simp

lemma module_data_more: "pm_port_t.more p = pm_port_t.more q \<Longrightarrow> module_data p = module_data q"
  by (cases p, cases q) simp

text \<open>The scan of all ports, and what it leaves.\<close>

lemma sim_scan_all:
  fixes st :: "('w, 'h, sim_fields) pmd_state"
  assumes ok: "state_ok E st" and pages: "pages_ok st"
  shows "pm_read_state E sim_build st = None \<longleftrightarrow> (\<exists>k p. port_of E st k = Some p \<and> needs_page p \<and> module_data p = None)"
proof -
  let ?nodes = "shash_nodes E (ovs_intfs st)"
  let ?bad = "\<lambda>p. needs_page p \<and> module_data p = None"
  have node: "port_of E st (fst n) = ports st (snd n) \<and> 0 < snd n \<and> (\<exists>p. ports st (snd n) = Some p \<and> port_good (fst n) p)"
    if "n \<in> set ?nodes" for n
    by (rule state_ok_port [OF ok nodes_table [OF ok that]]) simp
  have "distinct (map snd ?nodes)" using ok by (simp add: state_with_def table_ok_def)
  then have "pm_read_state E sim_build st = None \<longleftrightarrow> (\<exists>n \<in> set ?nodes. \<exists>p. ports st (snd n) = Some p \<and> ?bad p)"
    unfolding pm_read_state_def
  proof (rule for_each_on_port_None [where f = "pm_read_port_state E sim_build"])
    fix n p w assume "n \<in> set ?nodes" "ports st (snd n) = Some p"
    with node [of n] pages show "pm_read_port_state E sim_build p w = None \<longleftrightarrow> ?bad p"
      by (intro sim_scan_None [of "fst n"]) (auto simp: pages_ok_def)
  qed (use node in force)+
  moreover have "(\<exists>n \<in> set ?nodes. \<exists>p. ports st (snd n) = Some p \<and> ?bad p) \<longleftrightarrow>
      (\<exists>k p. port_of E st k = Some p \<and> ?bad p)"
  proof
    assume "\<exists>k p. port_of E st k = Some p \<and> ?bad p"
    then obtain k p where p: "port_of E st k = Some p" "?bad p" by blast
    from ok p(1) obtain a where "table E (ovs_intfs st) k = Some a" "ports st a = Some p" by (rule port_of_SomeD)
    then have "(k, a) \<in> set ?nodes" "ports st (snd (k, a)) = Some p" by (simp_all add: table_def map_of_SomeD)
    with p(2) show "\<exists>n \<in> set ?nodes. \<exists>p. ports st (snd n) = Some p \<and> ?bad p" by blast
  qed (use node in metis)
  ultimately show ?thesis by simp
qed

section \<open>The pages stay whole\<close>

lemma pages_on_port:
  assumes "on_port f a st = Some st'" "pages_ok st"
    and "\<And>p w p' w'. f p w = Some (p', w') \<Longrightarrow> page_ok p \<Longrightarrow> page_ok p'"
  shows "pages_ok st'"
proof -
  obtain p p' w' where p: "ports st a = Some p" "f p (world st) = Some (p', w')"
    "st' = st\<lparr>ports := (ports st)(a \<mapsto> p'), world := w'\<rparr>"
    using assms(1) by (auto simp: on_port_def bind_eq_Some_conv)
  then have "page_ok p'" using assms(2,3) by (auto simp: pages_ok_def)
  with p(3) assms(2) show ?thesis by (simp add: pages_ok_def)
qed

lemma pages_for_each:
  assumes "for_each f xs st = Some st'" "pages_ok st"
    and "\<And>x s t. f x s = Some t \<Longrightarrow> pages_ok s \<Longrightarrow> pages_ok t"
  shows "pages_ok st'"
  using assms(2) for_each_rel [where R = "\<lambda>s t. pages_ok s \<longrightarrow> pages_ok t", OF assms(1)] assms(3) by blast

lemma pages_cong: "ports st' = ports st \<Longrightarrow> pages_ok st' = pages_ok st"
  by (simp add: pages_ok_def)

lemma page_ok_more: "pm_port_t.more p = pm_port_t.more q \<Longrightarrow> page_ok p = page_ok q"
  using module_data_more [of p q] by (simp add: page_ok_def)

lemma page_ok_updates [simp]:
  "page_ok (p\<lparr>hw_enable := b\<rparr>) = page_ok p" "page_ok (p\<lparr>module_info_changed := b\<rparr>) = page_ok p"
  "page_ok (p\<lparr>module_data := None\<rparr>)" "page_ok (p\<lparr>port_enable := e\<rparr>) = page_ok p"
  "page_ok (new_port E sim_build intf sub y)"
  by (simp_all add: page_ok_def new_port_def sim_build_def)

lemma page_ok_configure: "configure_port sim_build p w = Some (p', w') \<Longrightarrow> page_ok p \<Longrightarrow> page_ok p'"
  by (auto simp: sim_build_def pm_configure_port_sim_def pm_configure_qsfp_sim_def split: option.splits if_splits)

lemma page_ok_read: "pm_read_port_state E sim_build p w = Some (p', w') \<Longrightarrow> page_ok p \<Longrightarrow> page_ok p'"
  using sim.read_state_frame(1) port_config_eqD(8) page_ok_more by metis

lemma pages_create:
  assumes "ovsdb_if_intf_create E sim_build intf sub st = Some st'" "pages_ok st"
  shows "pages_ok st'"
  using assms(1)
proof (cases rule: create_cases)
  case (made y st1)
  have "pages_ok (with_new_port E sim_build intf sub y st)" using assms(2) by (simp add: pages_ok_def)
  with made(3,4) show ?thesis
    by (elim pages_on_port) (auto intro: page_ok_configure simp: bind_eq_Some_conv)
qed (use assms(2) in simp)

lemma pages_process:
  assumes "ovsdb_if_subsys_process E sim_build sub st = Some st'" "pages_ok st"
  shows "pages_ok st'"
proof -
  have create: "pages_ok t" if "create_missing_intf E sim_build k intf s = Some t" "pages_ok s" for k intf s t
    using that pages_create by (auto simp: create_missing_intf_def split: option.splits)
  have added: "pages_ok ((add_subsystem E sub st)\<lparr>world := w\<rparr>)" for w
    using assms(2) by (simp add: add_subsystem_def pages_ok_def Let_def)
  show ?thesis
    using assms added create
    by (auto simp: ovsdb_if_subsys_process_def Let_def case_prod_beta split: option.splits if_splits
        elim!: pages_for_each)
qed

lemma pages_reconfigure:
  assumes "pmd_reconfigure E sim_build idl st = Some st'" "pages_ok st"
  shows "pages_ok st'"
proof -
  have intf: "pages_ok t" if "remove_deleted_intf E idl node s = Some t" "pages_ok s" for node s t
    using that by (auto simp: remove_deleted_intf_def pmd_free_pm_port_def pages_ok_def bind_eq_Some_conv
        split: option.splits if_splits)
  have sub: "pages_ok t" if "remove_deleted_subsys E idl node s = Some t" "pages_ok s" for node s t
    using that by (auto simp: remove_deleted_subsys_def pages_ok_def bind_eq_Some_conv split: option.splits)
  have modify: "pages_ok t" if "modify_intf E sim_build intf s = Some t" "pages_ok s" for intf s t
    using that page_ok_configure [of "_\<lparr>hw_enable := _\<rparr>"]
    by (fastforce simp: modify_intf_def ovsdb_if_intf_modify_def Let_def split: option.splits if_splits
        elim!: pages_on_port)
  show ?thesis
  proof (cases "idl_get_seqno idl = idl_seqno st")
    case False
    then obtain st1 st2 st3 where
      loops: "for_each (remove_deleted_intf E idl) (shash_nodes E (ovs_intfs st)) (st\<lparr>idl_seqno := idl_get_seqno idl\<rparr>) = Some st1"
      "for_each (remove_deleted_subsys E idl) (shash_nodes E (ovs_subs st1)) st1 = Some st2"
      "for_each (ovsdb_if_subsys_process E sim_build) (idl_subsystems idl) st2 = Some st3"
      "for_each (modify_intf E sim_build) (idl_interfaces idl) st3 = Some st'"
      using assms(1) by (auto simp: pmd_reconfigure_def bind_eq_Some_conv)
    have "pages_ok (st\<lparr>idl_seqno := idl_get_seqno idl\<rparr>)" using assms(2) by (simp add: pages_ok_def)
    then have "pages_ok st1" by (rule pages_for_each [OF loops(1)]) (rule intf)
    then have "pages_ok st2" by (rule pages_for_each [OF loops(2)]) (rule sub)
    then have "pages_ok st3" by (rule pages_for_each [OF loops(3)]) (rule pages_process)
    then show ?thesis by (rule pages_for_each [OF loops(4)]) (rule modify)
  qed (use assms in \<open>simp add: pmd_reconfigure_def\<close>)
qed

lemma pages_read_state: "pm_read_state E sim_build st = Some st' \<Longrightarrow> pages_ok st \<Longrightarrow> pages_ok st'"
  unfolding pm_read_state_def
  by (erule pages_for_each) (auto split: if_splits elim!: pages_on_port dest: page_ok_read)

lemma pages_update:
  fixes st :: "('w, 'h, sim_fields) pmd_state"
  assumes "pm_ovsdb_update E idl st = Some st'" "pages_ok st"
  shows "pages_ok st'"
proof -
  obtain txn st1 where loop: "for_each (update_intf E idl) (shash_nodes E (ovs_intfs st)) ([], st) = Some (txn, st1)"
    "ports st' = ports st1"
    using assms(1) by (auto simp: pm_ovsdb_update_def set_cur_hw_def bind_eq_Some_conv Let_def split: if_splits option.splits)
  have "pages_ok (snd ([] :: db_write list, st)) \<longrightarrow> pages_ok (snd (txn, st1))"
  proof (rule for_each_rel [where R = "\<lambda>r s. pages_ok (snd r) \<longrightarrow> pages_ok (snd s)", OF loop(1)])
    fix node and r t :: "db_write list \<times> ('w, 'h, sim_fields) pmd_state" assume "update_intf E idl node r = Some t"
    then consider "t = r" | port txn where "ports (snd r) (snd node) = Some port"
        "t = (txn, (snd r)\<lparr>ports := (ports (snd r))(snd node \<mapsto> port\<lparr>module_info_changed := False\<rparr>)\<rparr>)"
      unfolding update_intf_def case_prod_beta
      by (cases "ports (snd r) (snd node)"; cases "ovsrec_interface_get_for_uuid idl (uuid (the (ports (snd r) (snd node))))")
        (auto split: if_splits)
    then show "pages_ok (snd r) \<longrightarrow> pages_ok (snd t)" by cases (auto simp: pages_ok_def)
  qed simp_all
  with assms(2) loop(2) show ?thesis by (simp add: pages_ok_def)
qed

lemma pages_init:
  assumes "pmd_init E sim_build idl (zero_state h w) = Some st"
  shows "pages_ok st"
proof -
  let ?st0 = "opened E idl ((zero_state h w)\<lparr>world := pm_config_init E w\<rparr>)"
  have configure: "pages_ok t" if "ovsdb_if_intf_configure E sim_build intf s = Some t" "pages_ok s" for intf s t
    using that by (auto simp: ovsdb_if_intf_configure_def configure_at_def split: option.splits if_splits elim!: pages_on_port dest: page_ok_configure)
  have "pages_ok ?st0" by (simp add: pages_ok_def zero_state_def opened_def)
  moreover obtain st1 where "for_each (ovsdb_if_subsys_process E sim_build) (idl_subsystems idl) ?st0 = Some st1"
    "for_each (ovsdb_if_intf_configure E sim_build) (idl_interfaces idl) st1 = Some st"
    using assms by (auto simp: pmd_init_def init_opened pmd_configure_def bind_eq_Some_conv zero_state_def)
  ultimately show ?thesis using pages_for_each pages_process configure by metis
qed

section \<open>One step keeps the state sound\<close>

text \<open>What a scan does to one port: a port that has to be read takes the columns of the inserted page.\<close>

definition sim_scanned :: "('w, 'd, 'h) externals \<Rightarrow> pm_port_sim_t \<Rightarrow> pm_port_sim_t \<Rightarrow> bool" where
  "sim_scanned E p p' \<longleftrightarrow>
     port_config p' = port_config p \<and>
     (\<forall>page. needs_page p \<longrightarrow> module_data p = Some page \<longrightarrow> module_info_changed p' \<and>
        ovs_module_columns p' = ovs_module_columns (snd (snd (pm_parse (string_literal_tail E) page p))))"

lemma sim_scan_page:
  assumes r: "pm_read_port_state E sim_build p w = Some (p', w')" and good: "port_good k p" "page_ok p"
  shows "sim_scanned E p p'"
proof -
  have "module_info_changed p' \<and> ovs_module_columns p' = ovs_module_columns (snd (snd (pm_parse (string_literal_tail E) page p)))"
    if need: "needs_page p" and page: "module_data p = Some page" for page
  proof -
    obtain c where c: "YamlPort.connector (module_device p) = Some c"
      "c \<in> {CONNECTOR_SFP_PLUS, CONNECTOR_QSFP_PLUS, CONNECTOR_QSFP28}" "\<not> present p \<or> retry p"
      using need by (auto simp: needs_page_def)
    have len: "length page = 128" using good(2) page by (simp add: page_ok_def)
    obtain off where "serial_id_offset c = Some off" using c(2) serial_id_offset_known by blast
    then have parse: "parse_module E page p = Some p'"
      using r c page len
      by (auto simp: pm_read_port_state_def pm_read_module_state_def read_module_from_eq sim_build_def
          pm_get_presence_sim_def pm_read_a0_sim_def bind_eq_Some_conv)
    have "module_info_changed p'"
      using parse_module_changed [OF parse] changed_parse [OF _ c(1,2) len] good(1) by (simp add: port_good_def)
    with parse_module_known [OF c(1,2) len, of E] parse show ?thesis by auto
  qed
  moreover have "port_config p' = port_config p" using sim.read_state_frame [OF r] good(1) by (simp add: port_good_def)
  ultimately show ?thesis by (simp add: sim_scanned_def)
qed

lemma sim_scan_state:
  fixes st :: "('w, 'h, sim_fields) pmd_state"
  assumes ok: "state_ok E st" "pages_ok st" and run: "pm_read_state E sim_build st = Some st'"
  shows "state_ok E st'" "same_frame st st'" "rel_option (sim_scanned E) (port_of E st k) (port_of E st' k)"
proof -
  let ?g = "\<lambda>node st. if snd node = 0 then Some st else on_port (pm_read_port_state E sim_build) (snd node) st"
  have none: "\<not> (needs_page p \<and> module_data p = None)" if "port_of E st k = Some p" for k p
    using sim_scan_all [OF ok] run that by auto
  have whole: "page_ok p" if "port_of E st k = Some p" for k p
    using ok(2) port_of_SomeD [OF ok(1) that] unfolding pages_ok_def by blast
  have "\<exists>p' w'. pm_read_port_state E sim_build p w = Some (p', w') \<and> port_good k p' \<and> sim_scanned E p p'"
    if "port_good k p" "port_of E st k = Some p" for k p w
  proof -
    have "pm_read_port_state E sim_build p w \<noteq> None"
      using sim_scan_None [OF that(1) whole [OF that(2)]] none [OF that(2)] by simp
    then obtain p' w' where r: "pm_read_port_state E sim_build p w = Some (p', w')" by auto
    have config: "port_config p' = port_config p" "port_ok p'"
      using sim.read_state_frame [OF r] that(1) by (simp_all add: port_good_def)
    then have "port_good k p'" using that(1) port_config_eqD [OF config(1)] by (simp add: port_good_def)
    with r sim_scan_page [OF r that(1) whole [OF that(2)]] show ?thesis by blast
  qed
  from each_port_pass [where f = "pm_read_port_state E sim_build" and R = "sim_scanned E" and g = ?g, OF ok(1) this]
  obtain st1 where "for_each ?g (shash_nodes E (ovs_intfs st)) st = Some st1" "state_ok E st1" "same_frame st st1"
    "\<And>k. rel_option (sim_scanned E) (port_of E st k) (port_of E st1 k)" by auto
  with run show "state_ok E st'" "same_frame st st'" "rel_option (sim_scanned E) (port_of E st k) (port_of E st' k)"
    by (simp_all add: pm_read_state_def)
qed

definition sim_ok :: "('w, 'd, 'h) externals \<Rightarrow> ('w, 'h, sim_fields) place \<Rightarrow> bool" where
  "sim_ok E p = (case p of Top st \<Rightarrow> state_ok E st \<and> pages_ok st | Serving x st \<Rightarrow> state_ok E st \<and> pages_ok st
     | Stopped st \<Rightarrow> state_ok E st \<and> pages_ok st | Crashed \<Rightarrow> True)"

lemma sim_run_ok:
  assumes laws: "shash_laws E" "yaml_laws E" and ok: "state_ok E st" "pages_ok st"
    and run: "pmd_run E sim_build idl st = Some st'"
  shows "state_ok E st'" "pages_ok st'"
proof -
  have "state_ok E st' \<and> pages_ok st'"
  proof (cases "lock_contended idl \<or> \<not> has_lock idl")
    case True
    with run ok show ?thesis by (auto simp: pmd_run_def split: if_splits)
  next
    case False
    obtain st1 where st1: "pmd_reconfigure E sim_build idl st = Some st1" "state_ok E st1"
      using laws ok(1) by (rule sim.reconfigure_ok [where idl = idl])
    with run False obtain st2 where st2: "pm_read_state E sim_build st1 = Some st2" "pm_ovsdb_update E idl st2 = Some st'"
      by (auto simp: pmd_run_def bind_eq_Some_conv)
    have pages: "pages_ok st1" "pages_ok st2" "pages_ok st'"
      using ok(2) st1(1) st2 pages_reconfigure pages_read_state pages_update by blast+
    have "state_ok E st2" using st1(2) pages(1) st2(1) by (rule sim_scan_state)
    then obtain st3 where "pm_ovsdb_update E idl st2 = Some st3" "state_ok E st3" by (rule update_ok [where idl = idl])
    with st2(2) pages(3) show ?thesis by simp
  qed
  then show "state_ok E st'" "pages_ok st'" by simp_all
qed

lemma pages_put:
  assumes "port_of E st' = (port_of E st)(k \<mapsto> p)" "state_ok E st'" "state_ok E st" "pages_ok st" "page_ok p"
  shows "pages_ok st'"
  unfolding pages_ok_def
proof (intro allI impI)
  fix a q assume q: "ports st' a = Some q"
  then obtain k' where "table E (ovs_intfs st') k' = Some a"
    using assms(2) by (auto simp: state_with_def ran_def set_eq_iff domIff) metis
  then have "port_of E st' k' = Some q" using q by (simp add: port_of_def)
  then have "q = p \<or> port_of E st k' = Some q" using assms(1) by (auto split: if_splits)
  with assms(3-5) show "page_ok q" by (auto simp: pages_ok_def elim: port_of_SomeD)
qed

lemma file_page_ok: "page_ok (p\<lparr>module_data := file_page files file\<rparr>)"
  by (auto simp: page_ok_def file_page_def split: option.splits if_splits)

lemma sim_command_ok:
  assumes laws: "shash_laws E" and ok: "state_ok E st" "pages_ok st"
  obtains r st' where "pmd_unixctl_sim E files argv st = Some (r, st')" "state_ok E st'" "pages_ok st'"
proof -
  have missing: "shash_find E (ovs_intfs st) k = None" if "port_of E st k = None" for k
    using laws ok(1) that by (simp add: shash_find_None port_of_None)
  have insert: "\<exists>rc msg st'. pmd_sim_insert E files k f st = Some (rc, msg, st') \<and> state_ok E st' \<and> pages_ok st'" for k f
  proof (cases "port_of E st k")
    case None
    with missing ok show ?thesis by (simp add: pmd_sim_insert_def)
  next
    case (Some p)
    with laws ok(1) show ?thesis
      using pages_put [OF _ _ ok file_page_ok] by (metis insert_effect)
  qed
  have remove: "\<exists>rc msg st'. pmd_sim_remove E k st = Some (rc, msg, st') \<and> state_ok E st' \<and> pages_ok st'" for k
  proof (cases "port_of E st k")
    case None
    with missing ok show ?thesis by (simp add: pmd_sim_remove_def)
  next
    case (Some p)
    with laws ok(1) show ?thesis
      using pages_put [OF _ _ ok page_ok_updates(3)] by (metis remove_effect)
  qed
  show ?thesis
    using that ok insert [of "argv ! 1" "argv ! 3"] remove [of "argv ! 1"]
    by (cases "length argv = 4 \<and> argv ! 2 = ''insert''"; cases "length argv = 3 \<and> argv ! 2 = ''remove''")
      (auto simp: pmd_unixctl_sim_def)
qed

lemma sim_step_ok:
  assumes laws: "shash_laws E" "yaml_laws E" and "sim_step E files p q" "sim_ok E p"
  shows "sim_ok E q"
  using assms(3,4)
proof (induction rule: sim_step.induct)
  case (main p q)
  then show ?case
  proof (cases rule: main_step.cases)
    case (run idl st st')
    then have "state_ok E st" "pages_ok st" using main.prems by (simp_all add: sim_ok_def)
    from sim_run_ok [OF laws this run(3)] show ?thesis by (simp add: run(2) sim_ok_def)
  qed (use main.prems in \<open>simp_all add: sim_ok_def pages_ok_def\<close>)
next
  case (sim argv st r st' exiting)
  then have "state_ok E st" "pages_ok st" by (simp_all add: sim_ok_def)
  with laws(1) obtain r1 st1 where "pmd_unixctl_sim E files argv st = Some (r1, st1)" "state_ok E st1" "pages_ok st1"
    by (rule sim_command_ok)
  with sim.hyps(2) show ?case by (simp add: sim_ok_def)
qed (simp add: sim_ok_def)

section \<open>What the simulation build does\<close>

text \<open>
  C10. In the simulation build too the tables and the heap fit together and every inserted page has 128
  bytes, in every state that iterations, debug dumps, exit, insert and remove commands can reach.
\<close>

theorem sim_invariant:
  assumes "shash_laws E" "yaml_laws E"
    and "pmd_init E sim_build idl (zero_state h w) = Some st" "(sim_step E files)\<^sup>*\<^sup>* (Top st) p"
    and "p \<in> {Top st', Serving exiting st', Stopped st'}"
  shows "state_ok E st' \<and> pages_ok st'"
proof -
  have "sim_ok E (Top st)"
  proof -
    let ?st0 = "(zero_state h w)\<lparr>world := pm_config_init E w\<rparr>"
    obtain st1 where "pm_ovsdb_if_init E sim_build idl ?st0 = Some st1" "state_ok E st1"
      by (rule sim.init_ok [OF assms(1,2), where st = ?st0]) (simp_all add: zero_state_def)
    with assms(3) pages_init [OF assms(3)] show ?thesis by (simp add: sim_ok_def pmd_init_def zero_state_def)
  qed
  with assms(4) have "sim_ok E p"
    by (induction rule: rtranclp_induct) (auto intro: sim_step_ok [OF assms(1,2)])
  with assms(5) show ?thesis by (auto simp: sim_ok_def)
qed

text \<open>
  C11. An iteration of the simulation build crashes exactly when, after the database changes
  have been processed, some port of a supported connector type still has to be read and has no module inserted:
  the scan then copies the page from a NULL pointer.
\<close>

theorem sim_crash_iff:
  assumes "shash_laws E" "yaml_laws E" "state_ok E st" "pages_ok st" "has_lock idl" "\<not> lock_contended idl"
  shows "\<exists>st1. pmd_reconfigure E sim_build idl st = Some st1 \<and>
    (pmd_run E sim_build idl st = None \<longleftrightarrow>
      (\<exists>k p. port_of E st1 k = Some p \<and> needs_page p \<and> module_data p = None))"
proof -
  obtain st1 where st1: "pmd_reconfigure E sim_build idl st = Some st1" "state_ok E st1"
    using assms(1-3) by (rule sim.reconfigure_ok [where idl = idl])
  have pages: "pages_ok st1" using st1(1) assms(4) by (rule pages_reconfigure)
  have "pmd_run E sim_build idl st = None \<longleftrightarrow> pm_read_state E sim_build st1 = None"
  proof (cases "pm_read_state E sim_build st1")
    case (Some st2)
    have "state_ok E st2" using st1(2) pages Some by (rule sim_scan_state)
    then obtain st3 where "pm_ovsdb_update E idl st2 = Some st3" by (rule update_ok [where idl = idl])
    with Some st1(1) assms(5,6) show ?thesis by (simp add: pmd_run_def)
  qed (use st1(1) assms(5,6) in \<open>simp add: pmd_run_def\<close>)
  with sim_scan_all [OF st1(2) pages] st1(1) show ?thesis by simp
qed

text \<open>
  C23. Inserting a module from a readable file of at least 128 bytes gives the port the first 128 bytes and
  removing it leaves the port without a module; neither command touches any other port or any other field. A port that had
  no module before is restored; a module that was inserted before is lost.
\<close>

theorem sim_insert_remove:
  assumes "shash_laws E" "state_ok E st" "port_of E st k = Some p" "file_page files file = Some page"
  shows "\<exists>msg1 msg2 st1 st2.
    pmd_sim_insert E files k file st = Some (0, msg1, st1) \<and>
    port_of E st1 = (port_of E st)(k \<mapsto> p\<lparr>module_data := Some page\<rparr>) \<and>
    pmd_sim_remove E k st1 = Some (0, msg2, st2) \<and> state_ok E st2 \<and>
    port_of E st2 = (port_of E st)(k \<mapsto> p\<lparr>module_data := None\<rparr>) \<and>
    (port_of E st2 = port_of E st \<longleftrightarrow> module_data p = None)"
proof -
  obtain st1 msg1 where st1: "pmd_sim_insert E files k file st = Some (if file_page files file = None then -1 else 0, msg1, st1)"
    "state_ok E st1" "port_of E st1 = (port_of E st)(k \<mapsto> p\<lparr>module_data := file_page files file\<rparr>)"
    using assms(1-3) by (rule insert_effect)
  then have p1: "port_of E st1 k = Some (p\<lparr>module_data := Some page\<rparr>)" using assms(4) by simp
  obtain st2 msg2 where st2:
    "pmd_sim_remove E k st1 = Some (if module_data (p\<lparr>module_data := Some page\<rparr>) = None then -1 else 0, msg2, st2)"
    "state_ok E st2" "port_of E st2 = (port_of E st1)(k \<mapsto> p\<lparr>module_data := Some page\<rparr>\<lparr>module_data := None\<rparr>)"
    using assms(1) st1(2) p1 by (rule remove_effect)
  have "(port_of E st)(k \<mapsto> p\<lparr>module_data := None\<rparr>) = port_of E st \<longleftrightarrow> module_data p = None"
  proof
    assume "(port_of E st)(k \<mapsto> p\<lparr>module_data := None\<rparr>) = port_of E st"
    then have "p\<lparr>module_data := None\<rparr> = p" using assms(3) by (metis fun_upd_same option.inject)
    then have "module_data (p\<lparr>module_data := None\<rparr>) = module_data p" by simp
    then show "module_data p = None" by simp
  qed (use assms(3) in \<open>simp add: fun_upd_idem\<close>)
  with st1 st2 assms(4) show ?thesis by simp
qed

text \<open>
  C25. From the command to the database: a module that is inserted into a port not read yet is acknowledged to
  the client, and the next iteration publishes in the row of the port what the parser makes of the first 128 bytes of
  the file. This needs a readable file of at least 128 bytes, the lock, an unchanged revision of the database, an existing row
  of the port, and that every other port that has to be read has a module of its own: without that the iteration crashes.
\<close>

theorem sim_insert_published:
  assumes "shash_laws E" "state_ok E st" "pages_ok st" "port_of E st k = Some p" "needs_page p" "live idl p"
    and "file_page files file = Some page"
    and "\<forall>k' q. port_of E st k' = Some q \<longrightarrow> k' \<noteq> k \<longrightarrow> needs_page q \<longrightarrow> module_data q \<noteq> None"
    and "has_lock idl" "\<not> lock_contended idl" "idl_get_seqno idl = idl_seqno st"
  shows "\<exists>st1 st2 txn.
    pmd_unixctl_sim E files [''ops-pmd/sim'', k, ''insert'', file] st = Some (Reply (Some ''Pluggable module inserted''), st1) \<and>
    pmd_run E sim_build idl st1 = Some st2 \<and> committed st2 = committed st @ [txn] \<and>
    Set_pm_info (uuid p) (pm_info_of E (ovs_module_columns
      (snd (snd (pm_parse (string_literal_tail E) page (p\<lparr>module_data := Some page\<rparr>)))))) \<in> set txn"
proof -
  let ?p = "p\<lparr>module_data := Some page\<rparr>"
  obtain st1 msg where st1: "pmd_sim_insert E files k file st = Some (if file_page files file = None then -1 else 0, msg, st1)"
    "state_ok E st1" "port_of E st1 = (port_of E st)(k \<mapsto> p\<lparr>module_data := file_page files file\<rparr>)"
    "file_page files file \<noteq> None \<Longrightarrow> msg = ''Pluggable module inserted''"
    "idl_seqno st1 = idl_seqno st" "committed st1 = committed st"
    using assms(1,2,4) by (rule insert_effect) blast
  have pages1: "pages_ok st1" using pages_put [OF st1(3,2) assms(2,3) file_page_ok] .
  have "\<not> (\<exists>k' q. port_of E st1 k' = Some q \<and> needs_page q \<and> module_data q = None)"
    using st1(3) assms(7,8) by (auto split: if_splits)
  then obtain st2 where read: "pm_read_state E sim_build st1 = Some st2"
    using sim_scan_all [OF st1(2) pages1] by (metis not_None_eq)
  note scan = sim_scan_state [OF st1(2) pages1 read]
  have p1: "port_of E st1 k = Some ?p" using st1(3) assms(7) by simp
  with scan(3) [of k] obtain p2 where p2: "port_of E st2 k = Some p2" "sim_scanned E ?p p2"
    by (auto simp: option_rel_Some1)
  have "needs_page ?p" using assms(5) by (simp add: needs_page_def)
  with p2(2) have cols: "module_info_changed p2"
    "ovs_module_columns p2 = ovs_module_columns (snd (snd (pm_parse (string_literal_tail E) page ?p)))"
    by (simp_all add: sim_scanned_def)
  have uuid: "uuid p2 = uuid p" using p2(2) port_config_eqD(2) [of p2 ?p] by (simp add: sim_scanned_def)
  then have live: "live idl p2" using assms(6) by (simp add: live_def)
  obtain st3 where st3: "pm_ovsdb_update E idl st2 = Some st3"
    "committed st3 = committed st2 @
       [concat (map (\<lambda>(k, a). published E idl (port_of E st2 k)) (shash_nodes E (ovs_intfs st2))) @ cur_hw_write idl st2]"
    using scan(1) by (rule update_ok [where idl = idl]) blast
  obtain a where "table E (ovs_intfs st2) k = Some a" using scan(1) p2(1) by (rule port_of_SomeD)
  from published_in_txn [where m = "port_of E st2", OF this p2(1) cols(1) live]
  have "Set_pm_info (uuid p) (pm_info_of E (ovs_module_columns p2)) \<in>
      set (concat (map (\<lambda>(k, a). published E idl (port_of E st2 k)) (shash_nodes E (ovs_intfs st2))))"
    unfolding uuid .
  moreover have "pmd_run E sim_build idl st1 = Some st3"
    using assms(9-11) st1(5) read st3(1) by (simp add: pmd_run_def pmd_reconfigure_def)
  moreover have "committed st2 = committed st" using scan(2) st1(6) by (simp add: same_frame_def)
  moreover have "pmd_unixctl_sim E files [''ops-pmd/sim'', k, ''insert'', file] st = Some (Reply (Some ''Pluggable module inserted''), st1)"
    using st1(1,4) assms(7) by (simp add: pmd_unixctl_sim_def)
  ultimately show ?thesis using st3(2) cols(2) by auto
qed

text \<open>
  C24. An insert command that fails for want of a readable file of 128 bytes is reported as an error, but the
  module that was inserted before is gone.
\<close>

theorem sim_insert_failure:
  assumes "shash_laws E" "state_ok E st" "port_of E st k = Some p" "file_page files file = None"
  shows "\<exists>msg st'. pmd_unixctl_sim E files [''ops-pmd/sim'', k, ''insert'', file] st = Some (Reply_error msg, st') \<and>
    port_of E st' = (port_of E st)(k \<mapsto> p\<lparr>module_data := None\<rparr>)"
proof -
  obtain st1 msg where "pmd_sim_insert E files k file st = Some (if file_page files file = None then -1 else 0, msg, st1)"
    "port_of E st1 = (port_of E st)(k \<mapsto> p\<lparr>module_data := file_page files file\<rparr>)"
    using assms(1-3) by (rule insert_effect)
  with assms(4) show ?thesis by (simp add: pmd_unixctl_sim_def Let_def)
qed

section \<open>The theorems on the sample platform\<close>

definition sample_sim_state :: "byte list option \<Rightarrow> (sample_world, (string \<times> nat) list, sim_fields) pmd_state" where
  "sample_sim_state m =
     \<lparr>ovs_intfs = [(''1'', 1)], ovs_subs = [(''base'', 2)],
      ports = [1 \<mapsto> (sample_sim_port m)\<lparr>module_device := sample_drivable CONNECTOR_SFP_PLUS\<rparr>],
      uuids = [2 \<mapsto> 2], next_addr = 3, idl_seqno = 1, cur_hw_set = False, world = (0, []), committed = [], idl_calls = []\<rparr>"

lemma sample_sim_port_simps:
  "port_ok ((sample_sim_port m)\<lparr>module_device := d\<rparr>)" "port_instance (sample_sim_port m) = ''1''"
  "module_data (sample_sim_port m) = m" "\<not> present (sample_sim_port m)"
  using sample_port_simps(4) [of CONNECTOR_SFP_PLUS]
  by (simp_all add: sample_sim_port_def pm_port_t.extend_def sample_port_def port_ok_def)

lemma sample_sim_state_simps:
  "state_ok sfp_platform (sample_sim_state m)"
  "port_of sfp_platform (sample_sim_state m) ''1'' =
     Some ((sample_sim_port m)\<lparr>module_device := sample_drivable CONNECTOR_SFP_PLUS\<rparr>)"
  "pages_ok (sample_sim_state None)" "idl_seqno (sample_sim_state m) = 1"
  by (simp_all add: state_with_def sample_sim_state_def table_def table_ok_def port_good_def port_of_def
      pages_ok_def page_ok_def sample_sim_port_simps)

theorem sim_invariant_witness:
  "\<exists>st. pmd_init sfp_platform sim_build (sample_idl 1 True) (zero_state [] (0, [])) = Some st \<and>
     state_ok sfp_platform st \<and> pages_ok st"
proof -
  let ?st0 = "(zero_state [] (0, []) :: (sample_world, (string \<times> nat) list, sim_fields) pmd_state)\<lparr>world := (0, [])\<rparr>"
  have "ports ?st0 = Map.empty" "uuids ?st0 = Map.empty" "0 < next_addr ?st0"
    by (simp_all add: zero_state_def)
  then obtain st where "pm_ovsdb_if_init sfp_platform sim_build (sample_idl 1 True) ?st0 = Some st"
    by (rule sim.init_ok [OF sample_laws])
  then have "pmd_init sfp_platform sim_build (sample_idl 1 True) (zero_state [] (0, [])) = Some st"
    by (simp add: pmd_init_def pm_config_init_def zero_state_def)
  with sim_invariant [OF sample_laws this rtranclp.rtrancl_refl, where st' = st] show ?thesis by simp
qed

theorem sim_crash_iff_witness:
  "pmd_run sfp_platform sim_build (sample_idl 1 True) (sample_sim_state None) = None"
proof -
  let ?p = "(sample_sim_port None)\<lparr>module_device := sample_drivable CONNECTOR_SFP_PLUS\<rparr>"
  have "needs_page ?p \<and> module_data ?p = None" by (simp add: needs_page_def sample_sim_port_simps)
  moreover have "pmd_reconfigure sfp_platform sim_build (sample_idl 1 True) (sample_sim_state None) = Some (sample_sim_state None)"
    by (simp add: pmd_reconfigure_def sample_sim_state_simps)
  ultimately show ?thesis
    using sim_crash_iff [OF sample_laws sample_sim_state_simps(1,3) sample_idl_simps(3,4), of 1 True]
      sample_sim_state_simps(2) [of None] by (metis option.inject)
qed

theorem sim_insert_remove_witness:
  "\<exists>msg1 msg2 st1 st2.
     pmd_sim_insert sfp_platform (\<lambda>f. Some sample_page) ''1'' ''sfp.bin'' (sample_sim_state None) = Some (0, msg1, st1) \<and>
     pmd_sim_remove sfp_platform ''1'' st1 = Some (0, msg2, st2)"
proof -
  have "file_page (\<lambda>f. Some sample_page) ''sfp.bin'' = Some sample_page" by (simp add: file_page_def)
  from sim_insert_remove [OF sample_laws(1) sample_sim_state_simps(1,2) this, of None] show ?thesis by blast
qed

theorem sim_insert_published_witness:
  "\<exists>st1 st2 txn info.
     pmd_unixctl_sim sfp_platform (\<lambda>f. Some sample_page) [''ops-pmd/sim'', ''1'', ''insert'', ''sfp.bin''] (sample_sim_state None) =
       Some (Reply (Some ''Pluggable module inserted''), st1) \<and>
     pmd_run sfp_platform sim_build (sample_idl 1 True) st1 = Some st2 \<and> committed st2 = [txn] \<and>
     Set_pm_info 1 info \<in> set txn"
proof -
  let ?p = "(sample_sim_port None)\<lparr>module_device := sample_drivable CONNECTOR_SFP_PLUS\<rparr>"
  have port: "port_of sfp_platform (sample_sim_state None) = [''1'' \<mapsto> ?p]"
    by (auto simp: port_of_def sample_sim_state_def table_def fun_eq_iff)
  have need: "needs_page ?p" and uuid: "uuid ?p = 1"
    by (simp_all add: needs_page_def sample_sim_port_simps) (simp add: sample_sim_port_def pm_port_t.extend_def sample_port_def)
  have live: "live (sample_idl 1 True) ?p"
    using uuid by (simp add: live_def sample_idl_def sample_interface_def)
  have page: "file_page (\<lambda>f. Some sample_page) ''sfp.bin'' = Some sample_page" by (simp add: file_page_def)
  have others: "\<forall>k' q. port_of sfp_platform (sample_sim_state None) k' = Some q \<longrightarrow> k' \<noteq> ''1'' \<longrightarrow>
      needs_page q \<longrightarrow> module_data q \<noteq> None"
    by (simp add: port)
  have committed: "committed (sample_sim_state None) = []" by (simp add: sample_sim_state_def)
  have seqno: "idl_get_seqno (sample_idl 1 True) = idl_seqno (sample_sim_state None)"
    by (simp add: sample_sim_state_simps sample_idl_def)
  from sim_insert_published [OF sample_laws(1) sample_sim_state_simps(1,3,2) need live page others sample_idl_simps(3,4) seqno]
  show ?thesis unfolding uuid committed by auto
qed

theorem sim_insert_failure_witness:
  "\<exists>msg st'. pmd_unixctl_sim sfp_platform (\<lambda>f. None) [''ops-pmd/sim'', ''1'', ''insert'', ''missing''] (sample_sim_state (Some sample_page)) =
     Some (Reply_error msg, st')"
proof -
  have "file_page (\<lambda>f. None) ''missing'' = None" by (simp add: file_page_def)
  from sim_insert_failure [OF sample_laws(1) sample_sim_state_simps(1,2) this, of "Some sample_page"] show ?thesis by blast
qed

end
