(* ===== verification/Spec2Isabelle.thy ===== *)
theory Spec2Isabelle
  imports Atoc_Tool Sum_Tool A2_Devices Pmd_Start Pmd_Spec Pmd_Simulation
begin

text \<open>
  A verification library for \<^verbatim>\<open>ops-pmd\<close>, the pluggable module daemon of OpenSwitch. The daemon reads the
  description files of a switch, keeps a port for every pluggable interface row of the database, reads the
  identification page of the module in each port, classifies it, and publishes what it found; it switches the
  transmitters as the database says and answers a few control commands.

  \<^bold>\<open>The parts and the theories that model them.\<close>

  \<^item> Page structs (\<^verbatim>\<open>include/plug.h\<close>, \<^verbatim>\<open>include/pm_dom.h\<close>): \<open>Sfp_Layout\<close>, \<open>Qsfp_Layout\<close>, \<open>Sfp_Dom_Layout\<close>,
    \<open>Qsfp_Dom_Layout\<close>. Every struct is a record with a reader \<open>..._of_bytes\<close> and a writer \<open>bytes_of_...\<close>;
    bit fields follow the little-endian declaration order of the source. Each pair interprets the locales of
    \<open>Pmd_Prelude\<close> and is a bijection on 128-byte pages; the \<open>..._map\<close> of a page struct is its table of addresses. The
    union of a wavelength and two attenuations is its two bytes, with a function for the 16-bit member.

  \<^item> C library texts and numbers: \<open>C_Text\<close> (decimal printing, \<open>strtol\<close>) and \<open>C_Float\<close> (single and double
    precision as exact dyadic numbers with round to nearest even, \<open>%4.2f\<close>), as far as the sources use them.

  \<^item> Port data and column macros (\<^verbatim>\<open>include/pmd.h.in\<close>; the lines are those of the configured copy
    \<^verbatim>\<open>build/pmd.h\<close>, which differs from it only in the line of \<^verbatim>\<open>PLATFORM_SIMULATION\<close>): \<open>Port\<close>. A port is a record;
    the two fields of a simulation build extend it. Text columns are option values, NULL being \<open>None\<close>; the
    enumerated columns point to constants of a generated header and are datatypes.

  \<^item> Hex rendering (\<^verbatim>\<open>hex_to_ascii\<close>): \<open>Hex_Ascii\<close>, with every store checked against the allocated block. The test tools
    \<^verbatim>\<open>atoc.c\<close>, which decodes such texts, and \<^verbatim>\<open>sum.c\<close>, which shows check codes: \<open>Atoc_Tool\<close> and \<open>Sum_Tool\<close>.

  \<^item> Module detection (\<^verbatim>\<open>src/pm_detect.c\<close>): \<open>Pm_Detect\<close>. Diagnostics (\<^verbatim>\<open>src/pm_dom.c\<close>): \<open>Pm_Dom\<close>.

  \<^item> Code that is not in the repository: \<open>Externals\<close>. The YAML and I2C library, the hash tables of Open vSwitch and the
    generated constants are fields of a record \<open>externals\<close>, an argument of every definition that calls
    them; their state is a world the calls transform. What is relied on is named: \<open>shash_laws\<close>, \<open>yaml_laws\<close>, \<open>reads_keep\<close>,
    \<open>writes_keep_yaml\<close>, \<open>idl_laws\<close>, and in later theories \<open>device_laws\<close>, \<open>getopt_laws\<close>, \<open>handler_laws\<close>.
    \<open>Sample_Platform\<close> is an instance on which those of the daemon hold.

  \<^item> Module access (\<^verbatim>\<open>src/plug.c\<close>): \<open>Plug\<close>, for the hardware and the simulation build. The functions under
    \<^verbatim>\<open>#ifdef PLATFORM_SIMULATION\<close> are two instances of the record \<open>build\<close>; the locales \<open>build_contract\<close> and \<open>total_build\<close> state
    what the rest relies on, and both builds interpret them (the simulation build is not total).

  \<^item> Description files (\<^verbatim>\<open>src/config.c\<close>): \<open>Config\<close>. Database code (\<^verbatim>\<open>src/ovsdb_access.c\<close>): \<open>Ovsdb_Access\<close>, with its
    proofs in \<open>Ovsdb_State\<close> (invariant and abstract view), \<open>Ovsdb_Reconfigure\<close>, \<open>Ovsdb_Frame\<close> (what a reconfiguration leaves
    alone, and the registration of tables and columns), \<open>Ovsdb_Publish\<close> and \<open>Port_Creation\<close>. The state \<open>pmd_state\<close> has
    the globals, a heap of port blocks, and the calls that register with the replica; \<open>None\<close> is a crash: a NULL or
    freed pointer that is followed, or a buffer that overflows. \<open>A2_Devices\<close> models \<^verbatim>\<open>pm_create_a2_devices\<close>, whose only call is
    commented out. Most of the lines 248 to 645 of \<^verbatim>\<open>ovsdb_access.c\<close> are commented out in the source and have no model; the
    live line 272 points a local variable at the diagnostics columns, and line 646 tests it before an empty statement.

  \<^item> The daemon (\<^verbatim>\<open>src/pmd.c\<close>): \<open>Pmd_Main\<close>. The main loop is the function \<open>main_loop\<close> over a list of iterations, each
    with the replica it meets and the control commands it serves, and \<open>session\<close> puts the initialisation before it; the step
    relation \<open>main_step\<close> has the loop in single steps, and every run of the function is a run of it. \<open>Crash_Causes\<close> says
    what can crash the daemon, for description files of any content. \<open>Pmd_Spec\<close> is an abstract specification \<open>spec_step\<close>
    over the ports by name that the loop implements on the replicas it is given. \<open>Pmd_Simulation\<close> adds the insert and remove
    commands and follows a module from the insert command to the database. \<open>Pmd_Start\<close> has the options, the usage
    text, the registered commands, \<open>main\<close> up to its loop, and what the loop waits for.

  \<^bold>\<open>What is shown.\<close> Layouts are bijective, with every field at its address. Detection: the exact columns for each page, for
  SFP+ (always the same), QSFP+ and QSFP28; the checksum test is exact on the bytes it covers, and the daemon's own change to
  the page breaks the check code it publishes. Diagnostics: every column is the table entry of its bytes; how accurate the
  printed values of a first read are; and when a later reading leaves an old text in place. Module access: presence is
  decided by at most three reads; a port is read once and never again. Database: a reconfiguration makes the ports mirror
  the rows, a new subsystem gets exactly the described ports, one transaction publishes exactly the changed ports. The
  database as far as the daemon is told of changes to it is all that it reads, and it is not woken by what it writes.
  Daemon: with hash tables that keep their contract, the only cause of a crash of the hardware build is an interface row whose
  description lacks the connector type or a needed transmit-disable signal, and such a row does crash it; until then no
  pointer dangles, no block is lost and every port is under its name (\<open>heap_sound\<close>; with complete descriptions
  \<open>state_ok\<close>, both instances of \<open>state_with\<close>). With complete descriptions its runs are runs of the specification, it comes
  to rest after one iteration, and the exit command ends it after the iteration that serves it. Options: parsing ends on
  every command line and never aborts, and the program ends by \<open>exit\<close>, comes to its loop in a sound state, or crashes for
  the cause above. The devices of \<^verbatim>\<open>pm_create_a2_devices\<close> are those that \<^verbatim>\<open>pm_read_a2\<close> asks for. Simulation build:
  the same invariant, exactly when an iteration copies from a NULL pointer, and that an inserted page is published. Tools: the
  text of a page is decoded to the page, and the sums shown agree with the checksum test.

  \<^bold>\<open>Bounds.\<close> No fuel is used: every loop is structural or has a measure, and the option loop, which rests on
  \<open>getopt_long\<close>, is a partial function that is proved to return. Word widths are those of the source.
  Addresses are natural numbers that are never reused.

  \<^bold>\<open>What counts as a crash.\<close> A NULL or freed port, name, connector or signal that the sources follow, and a store outside a
  buffer. Not counted are: reads past two string literals in the parser (what it reads there is the parameter
  \<open>string_literal_tail\<close>, and the theorems show that it is not published), and what a library does with a NULL argument: the
  register operation handed to \<open>i2c_reg_read\<close> and the device that \<open>yaml_find_device\<close> returned are passed on as option
  values to parameters that are total. A port holds the value of its description, not the pointer into the YAML library, so
  that the lifetime of the library's data is not part of the model. An \<open>int\<close> size that overflows in \<^verbatim>\<open>hex_to_ascii\<close> is \<open>None\<close>.

  \<^bold>\<open>Not modelled.\<close> Daemonisation, signals, logging, how long the daemon blocks in the commit and in the poll loop, the network
  protocol behind the database replica, delays after a reset, and allocation failure have no state in the model. The result
  of committing a transaction is ignored by the source and by the model. The files
  that CMake generated under \<^verbatim>\<open>build\<close> to identify the compiler are not part of the program, and the Python tests drive a
  running switch. The branches that the source switches off by \<open>&& false\<close> and \<open>|| true\<close> are in the model with these literals
  (\<open>c_false\<close>, \<open>c_true\<close>); what they would do if they were on is not stated.
\<close>



end
